(* ===== verification/Prelude.thy ===== *)
theory Prelude
  imports Main "HOL-Library.Word"
begin

text \<open>
  The shared vocabulary of the development.

  \<^item> \<open>result\<close> is the outcome of a Rust call: a value, an error value, a panic, or a wait
    that has not ended within the fuel given to the waiting loops.
  \<^item> \<open>eff\<close> is the effect monad of the stateful code: a computation over a state returns an
    outcome and the new state, also when it fails (queues emptied before an error stay empty).
    \<open>valid\<close> is its specification predicate and the rules after it are the verification
    conditions of its combinators.
  \<^item> The functions of the Rust standard library that the sources use: decimal printing and parsing
    of \<open>u64\<close>, \<open>str::split\<close>, slice chunks.
  \<^item> The contract \<open>round_trip\<close> shared by every printer/parser and encoder/decoder pair.

  Machine integers are words: \<open>u64\<close> addition wraps around, as it does in the release profile
  (the workspace sets no \<open>overflow-checks\<close>). Strings are sequences of UTF-8 bytes; of the characters
  outside ASCII, none counts as alphanumeric here.
\<close>

section \<open>Types\<close>

type_synonym u64 = "64 word"
type_synonym u32 = "32 word"

text \<open>A byte is a \<open>char\<close>, the 8-bit type of the library; a Rust \<open>String\<close> is the sequence of its UTF-8
  bytes, a Rust \<open>Vec<u8>\<close> any sequence of bytes.\<close>

type_synonym byte = char

text \<open>A \<open>core::time::Duration\<close> in nanoseconds and a \<open>std::time::Instant\<close> in nanoseconds from an
  arbitrary origin.\<close>

type_synonym duration = nat
type_synonym instant = int

named_theorems eff_simps "unfolding rules of the effect monad"
named_theorems vc "verification conditions of the effect monad"
named_theorems pres "rules for invariants of computations"
named_theorems eff_ok "characterisations of successful runs"
named_theorems errs "rules for the errors that a computation raises"

section \<open>Outcomes of a call\<close>

datatype ('e, 'a) result = Ok 'a | Err 'e | Panic | Hang

fun map_err :: "('e \<Rightarrow> 'f) \<Rightarrow> ('e, 'a) result \<Rightarrow> ('f, 'a) result" where
  "map_err f (Ok a) = Ok a"
| "map_err f (Err e) = Err (f e)"
| "map_err f Panic = Panic"
| "map_err f Hang = Hang"

fun map_ok :: "('a \<Rightarrow> 'b) \<Rightarrow> ('e, 'a) result \<Rightarrow> ('e, 'b) result" where
  "map_ok f (Ok a) = Ok (f a)"
| "map_ok f (Err e) = Err e"
| "map_ok f Panic = Panic"
| "map_ok f Hang = Hang"

fun rbind :: "('e, 'a) result \<Rightarrow> ('a \<Rightarrow> ('e, 'b) result) \<Rightarrow> ('e, 'b) result" where
  "rbind (Ok a) f = f a"
| "rbind (Err e) f = Err e"
| "rbind Panic f = Panic"
| "rbind Hang f = Hang"

fun ok_or :: "'e \<Rightarrow> 'a option \<Rightarrow> ('e, 'a) result" where
  "ok_or e None = Err e"
| "ok_or e (Some a) = Ok a"

fun ok_option :: "('e, 'a) result \<Rightarrow> 'a option" where
  "ok_option (Ok a) = Some a"
| "ok_option _ = None"

lemma rbind_eq_Ok [simp]: "rbind r f = Ok b \<longleftrightarrow> (\<exists>a. r = Ok a \<and> f a = Ok b)"
  by (cases r) auto

lemma rbind_eq_Panic: "rbind r f = Panic \<longleftrightarrow> r = Panic \<or> (\<exists>a. r = Ok a \<and> f a = Panic)"
  by (cases r) auto

lemma map_err_eq_Ok [simp]: "map_err f r = Ok a \<longleftrightarrow> r = Ok a"
  by (cases r) auto

lemma map_err_eq_Panic [simp]: "map_err f r = Panic \<longleftrightarrow> r = Panic"
  by (cases r) auto

lemma map_ok_eq_Ok [simp]: "map_ok f r = Ok b \<longleftrightarrow> (\<exists>a. r = Ok a \<and> f a = b)"
  by (cases r) auto

lemma map_ok_eq_Panic: "map_ok f r = Panic \<longleftrightarrow> r = Panic"
  by (cases r) auto

lemma ok_or_no_panic: "ok_or e x \<noteq> Panic"
  by (cases x) auto

lemma ok_or_eq_Ok [simp]: "ok_or e x = Ok a \<longleftrightarrow> x = Some a"
  by (cases x) auto

lemma ok_option_eq_Some [simp]: "ok_option r = Some a \<longleftrightarrow> r = Ok a"
  by (cases r) auto

text \<open>Rust's \<open>collect::<Result<Vec<_>, _>>()\<close>: the first error wins.\<close>

fun collect_results :: "('e, 'a) result list \<Rightarrow> ('e, 'a list) result" where
  "collect_results [] = Ok []"
| "collect_results (r # rs) = rbind r (\<lambda>a. rbind (collect_results rs) (\<lambda>as. Ok (a # as)))"

lemma collect_results_Ok:
  "collect_results (map f xs) = Ok ys \<longleftrightarrow> list_all2 (\<lambda>x y. f x = Ok y) xs ys"
  by (induction xs arbitrary: ys) (auto simp: list_all2_Cons1)

section \<open>The effect monad\<close>

type_synonym ('s, 'e, 'a) eff = "'s \<Rightarrow> ('e, 'a) result \<times> 's"

definition eret :: "'a \<Rightarrow> ('s, 'e, 'a) eff" where
  "eret a = (\<lambda>s. (Ok a, s))"

definition ethrow :: "'e \<Rightarrow> ('s, 'e, 'a) eff" where
  "ethrow e = (\<lambda>s. (Err e, s))"

definition epanic :: "('s, 'e, 'a) eff" where
  "epanic = (\<lambda>s. (Panic, s))"

definition ehang :: "('s, 'e, 'a) eff" where
  "ehang = (\<lambda>s. (Hang, s))"

definition ebind :: "('s, 'e, 'a) eff \<Rightarrow> ('a \<Rightarrow> ('s, 'e, 'b) eff) \<Rightarrow> ('s, 'e, 'b) eff" where
  "ebind m f = (\<lambda>s. case m s of
       (Ok a, s') \<Rightarrow> f a s'
     | (Err e, s') \<Rightarrow> (Err e, s')
     | (Panic, s') \<Rightarrow> (Panic, s')
     | (Hang, s') \<Rightarrow> (Hang, s'))"

definition emap_err :: "('e \<Rightarrow> 'f) \<Rightarrow> ('s, 'e, 'a) eff \<Rightarrow> ('s, 'f, 'a) eff" where
  "emap_err f m = (\<lambda>s. case m s of (r, s') \<Rightarrow> (map_err f r, s'))"

text \<open>The outcome of a call as a value, as a Rust \<open>match\<close> on a \<open>Result\<close> sees it: panics and
  hangs are not caught.\<close>

definition etry :: "('s, 'e, 'a) eff \<Rightarrow> ('s, 'f, 'e + 'a) eff" where
  "etry m = (\<lambda>s. case m s of
       (Ok a, s') \<Rightarrow> (Ok (Inr a), s')
     | (Err e, s') \<Rightarrow> (Ok (Inl e), s')
     | (Panic, s') \<Rightarrow> (Panic, s')
     | (Hang, s') \<Rightarrow> (Hang, s'))"

definition eget :: "('s \<Rightarrow> 'a) \<Rightarrow> ('s, 'e, 'a) eff" where
  "eget f = (\<lambda>s. (Ok (f s), s))"

definition emodify :: "('s \<Rightarrow> 's) \<Rightarrow> ('s, 'e, unit) eff" where
  "emodify f = (\<lambda>s. (Ok (), f s))"

definition eresult :: "('e, 'a) result \<Rightarrow> ('s, 'e, 'a) eff" where
  "eresult r = (\<lambda>s. (r, s))"

text \<open>Run a computation on a part of the state.\<close>

definition ezoom :: "('s \<Rightarrow> 't) \<Rightarrow> ('t \<Rightarrow> 's \<Rightarrow> 's) \<Rightarrow> ('t, 'e, 'a) eff \<Rightarrow> ('s, 'e, 'a) eff" where
  "ezoom get put m = (\<lambda>s. case m (get s) of (r, t) \<Rightarrow> (r, put t s))"

definition ewhen :: "bool \<Rightarrow> ('s, 'e, unit) eff \<Rightarrow> ('s, 'e, unit) eff" where
  "ewhen b m = (if b then m else eret ())"

fun efor :: "'x list \<Rightarrow> ('x \<Rightarrow> ('s, 'e, unit) eff) \<Rightarrow> ('s, 'e, unit) eff" where
  "efor [] f = eret ()"
| "efor (x # xs) f = ebind (f x) (\<lambda>_. efor xs f)"

text \<open>A loop that threads an accumulator through its iterations.\<close>

fun efold :: "('x \<Rightarrow> 'a \<Rightarrow> ('s, 'e, 'a) eff) \<Rightarrow> 'x list \<Rightarrow> 'a \<Rightarrow> ('s, 'e, 'a) eff" where
  "efold f [] a = eret a"
| "efold f (x # xs) a = ebind (f x a) (efold f xs)"

lemmas eff_defs [eff_simps] = eret_def ethrow_def epanic_def ehang_def emap_err_def etry_def
  eget_def emodify_def eresult_def ezoom_def ewhen_def

lemma ebind_simps [eff_simps]:
  "m s = (Ok a, s') \<Longrightarrow> ebind m f s = f a s'"
  "m s = (Err e, s') \<Longrightarrow> ebind m f s = (Err e, s')"
  "m s = (Panic, s') \<Longrightarrow> ebind m f s = (Panic, s')"
  "m s = (Hang, s') \<Longrightarrow> ebind m f s = (Hang, s')"
  by (simp_all add: ebind_def)

lemma ebind_eret [simp]: "ebind (eret a) f = f a"
  by (simp add: ebind_def eret_def)

lemma ebind_ethrow [simp]: "ebind (ethrow e) f = ethrow e"
  by (simp add: ebind_def ethrow_def)

lemma ebind_epanic [simp]: "ebind epanic f = epanic"
  by (simp add: ebind_def epanic_def)

lemma ebind_eresult_Ok [simp]: "ebind (eresult (Ok a)) f = f a"
  by (simp add: ebind_def eresult_def)

lemma ebind_assoc: "ebind (ebind m f) g = ebind m (\<lambda>a. ebind (f a) g)"
  by (rule ext) (simp add: ebind_def split: prod.splits result.splits)

lemma ebind_OkE:
  assumes "ebind m f s = (Ok b, s')"
  obtains a t where "m s = (Ok a, t)" and "f a t = (Ok b, s')"
  using assms by (auto simp: ebind_def split: prod.splits result.splits)

lemma ebind_OkI: "m s = (Ok a, t) \<Longrightarrow> f a t = (r, s') \<Longrightarrow> ebind m f s = (r, s')"
  by (simp add: ebind_def)

lemma ebind_cong [fundef_cong]:
  assumes "m1 s1 = m2 s2" and "\<And>a t. m2 s2 = (Ok a, t) \<Longrightarrow> f1 a t = f2 a t" and "s1 = s2"
  shows "ebind m1 f1 s1 = ebind m2 f2 s2"
  using assms by (auto simp: ebind_def split: prod.splits result.splits)

section \<open>Specifications of computations\<close>

text \<open>\<open>valid P m Q\<close>: from a state satisfying \<open>P\<close>, the outcome of \<open>m\<close> and the state it leaves
  satisfy \<open>Q\<close>, on every branch.\<close>

definition valid :: "('s \<Rightarrow> bool) \<Rightarrow> ('s, 'e, 'a) eff \<Rightarrow> (('e, 'a) result \<Rightarrow> 's \<Rightarrow> bool) \<Rightarrow> bool" where
  "valid P m Q \<longleftrightarrow> (\<forall>s. P s \<longrightarrow> (case m s of (r, s') \<Rightarrow> Q r s'))"

lemma validI: "(\<And>s r s'. P s \<Longrightarrow> m s = (r, s') \<Longrightarrow> Q r s') \<Longrightarrow> valid P m Q"
  by (auto simp: valid_def)

lemma validD: "valid P m Q \<Longrightarrow> P s \<Longrightarrow> m s = (r, s') \<Longrightarrow> Q r s'"
  by (fastforce simp: valid_def)

lemma valid_weaken:
  assumes "valid P' m Q'" and "\<And>s. P s \<Longrightarrow> P' s" and "\<And>r s. Q' r s \<Longrightarrow> Q r s"
  shows "valid P m Q"
  using assms by (fastforce simp: valid_def)

definition on_ok :: "('a \<Rightarrow> 's \<Rightarrow> bool) \<Rightarrow> ('s \<Rightarrow> bool) \<Rightarrow> ('e, 'a) result \<Rightarrow> 's \<Rightarrow> bool" where
  "on_ok R I r s \<longleftrightarrow> (case r of Ok a \<Rightarrow> R a s | _ \<Rightarrow> I s)"

lemma on_ok_simps [simp]:
  "on_ok R I (Ok a) s = R a s" "on_ok R I (Err e) s = I s"
  "on_ok R I Panic s = I s" "on_ok R I Hang s = I s"
  by (simp_all add: on_ok_def)

lemma valid_eret [vc]: "(\<And>s. P s \<Longrightarrow> Q (Ok a) s) \<Longrightarrow> valid P (eret a) Q"
  by (simp add: valid_def eret_def)

lemma valid_ethrow [vc]: "(\<And>s. P s \<Longrightarrow> Q (Err e) s) \<Longrightarrow> valid P (ethrow e) Q"
  by (simp add: valid_def ethrow_def)

lemma valid_epanic [vc]: "(\<And>s. P s \<Longrightarrow> Q Panic s) \<Longrightarrow> valid P epanic Q"
  by (simp add: valid_def epanic_def)

lemma valid_ehang [vc]: "(\<And>s. P s \<Longrightarrow> Q Hang s) \<Longrightarrow> valid P ehang Q"
  by (simp add: valid_def ehang_def)

lemma valid_eget [vc]: "(\<And>s. P s \<Longrightarrow> Q (Ok (f s)) s) \<Longrightarrow> valid P (eget f) Q"
  by (simp add: valid_def eget_def)

lemma valid_emodify [vc]: "(\<And>s. P s \<Longrightarrow> Q (Ok ()) (f s)) \<Longrightarrow> valid P (emodify f) Q"
  by (simp add: valid_def emodify_def)

lemma valid_eresult [vc]: "(\<And>s. P s \<Longrightarrow> Q r s) \<Longrightarrow> valid P (eresult r) Q"
  by (simp add: valid_def eresult_def)

lemma valid_ebind:
  assumes "valid P m (\<lambda>r s. case r of Ok a \<Rightarrow> R a s | Err e \<Rightarrow> Q (Err e) s | Panic \<Rightarrow> Q Panic s
                          | Hang \<Rightarrow> Q Hang s)"
    and "\<And>a. valid (R a) (f a) Q"
  shows "valid P (ebind m f) Q"
  unfolding valid_def
proof (intro allI impI)
  fix s
  assume "P s"
  obtain r t where m: "m s = (r, t)"
    by (cases "m s")
  with assms(1) \<open>P s\<close> have post: "case r of Ok a \<Rightarrow> R a t | Err e \<Rightarrow> Q (Err e) t | Panic \<Rightarrow> Q Panic t
      | Hang \<Rightarrow> Q Hang t"
    by (rule validD)
  show "case ebind m f s of (r, s') \<Rightarrow> Q r s'"
  proof (cases r)
    case (Ok a)
    with post have "R a t" by simp
    with assms(2) [of a] m Ok show ?thesis
      by (simp add: ebind_def valid_def)
  qed (use m post in \<open>simp_all add: ebind_def\<close>)
qed

lemma valid_emap_err [vc]: "valid P m (\<lambda>r s. Q (map_err f r) s) \<Longrightarrow> valid P (emap_err f m) Q"
  by (fastforce simp: valid_def emap_err_def split: prod.splits)

lemma valid_etry:
  assumes "valid P m (\<lambda>r s. case r of Ok a \<Rightarrow> Q (Ok (Inr a)) s | Err e \<Rightarrow> Q (Ok (Inl e)) s
                          | Panic \<Rightarrow> Q Panic s | Hang \<Rightarrow> Q Hang s)"
  shows "valid P (etry m) Q"
  using assms by (fastforce simp: valid_def etry_def split: prod.splits result.splits)

lemma valid_ezoom [vc]:
  assumes "\<And>s r t. P s \<Longrightarrow> m (get s) = (r, t) \<Longrightarrow> Q r (put t s)"
  shows "valid P (ezoom get put m) Q"
  using assms by (auto simp: valid_def ezoom_def split: prod.splits)

text \<open>Invariants: every outcome leaves a state in which \<open>I\<close> still holds.\<close>

definition preserves :: "('s \<Rightarrow> bool) \<Rightarrow> ('s, 'e, 'a) eff \<Rightarrow> bool" where
  "preserves I m \<longleftrightarrow> valid I m (\<lambda>_ s. I s)"

lemma preservesI: "(\<And>s r s'. I s \<Longrightarrow> m s = (r, s') \<Longrightarrow> I s') \<Longrightarrow> preserves I m"
  by (auto simp: preserves_def valid_def)

lemma preservesD: "preserves I m \<Longrightarrow> I s \<Longrightarrow> m s = (r, s') \<Longrightarrow> I s'"
  unfolding preserves_def by (rule validD)

lemma preserves_basic [simp, intro]:
  "preserves I (eret a)" "preserves I (ethrow e)" "preserves I epanic" "preserves I ehang"
  "preserves I (eget f)" "preserves I (eresult r)"
  by (auto simp: preserves_def intro!: vc)

lemma preserves_emodify: "(\<And>s. I s \<Longrightarrow> I (f s)) \<Longrightarrow> preserves I (emodify f)"
  by (auto simp: preserves_def intro!: vc)

lemma preserves_ebind [intro]:
  assumes "preserves I m" and "\<And>a. preserves I (f a)"
  shows "preserves I (ebind m f)"
  unfolding preserves_def
proof (rule valid_ebind [where R = "\<lambda>_. I"])
  show "valid I m (\<lambda>r s. case r of Ok a \<Rightarrow> I s | Err e \<Rightarrow> I s | Panic \<Rightarrow> I s | Hang \<Rightarrow> I s)"
    using assms(1) by (auto simp: preserves_def valid_def split: result.split)
  show "\<And>a. valid I (f a) (\<lambda>_. I)"
    using assms(2) by (simp add: preserves_def)
qed

lemma preserves_emap_err [intro]: "preserves I m \<Longrightarrow> preserves I (emap_err f m)"
  by (auto simp: preserves_def intro!: vc)

lemma preserves_etry [intro]: "preserves I m \<Longrightarrow> preserves I (etry m)"
  by (fastforce simp: preserves_def valid_def etry_def split: prod.splits result.splits)

lemma preserves_ewhen [intro]: "preserves I m \<Longrightarrow> preserves I (ewhen b m)"
  by (simp add: ewhen_def)

lemma preserves_efor [intro]:
  "(\<And>x. x \<in> set xs \<Longrightarrow> preserves I (f x)) \<Longrightarrow> preserves I (efor xs f)"
  by (induction xs) auto

lemma preserves_efold [intro]:
  "(\<And>x a. x \<in> set xs \<Longrightarrow> preserves I (f x a)) \<Longrightarrow> preserves I (efold f xs a)"
  by (induction xs arbitrary: a) auto

text \<open>The rules for control structures, so that \<open>intro pres\<close> walks through the body of an operation.\<close>

lemma preserves_control [pres]:
  "preserves I m \<Longrightarrow> preserves I n \<Longrightarrow> preserves I (if b then m else n)"
  "(\<And>e. preserves I (f e)) \<Longrightarrow> (\<And>a. preserves I (g a)) \<Longrightarrow> preserves I (case_sum f g x)"
  "preserves I n \<Longrightarrow> (\<And>a. preserves I (h a)) \<Longrightarrow> preserves I (case_option n h y)"
  "preserves I n \<Longrightarrow> (\<And>a as. preserves I (k a as)) \<Longrightarrow> preserves I (case_list n k z)"
  "(\<And>a b. preserves I (l a b)) \<Longrightarrow> preserves I (case_prod l p)"
  "preserves I (j v) \<Longrightarrow> preserves I (Let v j)"
  by (simp_all split: sum.split option.split list.split prod.split)

lemmas preserves_rules [pres] = preserves_basic preserves_ebind preserves_emap_err preserves_etry
  preserves_ewhen preserves_efor preserves_efold

text \<open>The continuation may rely on what the first computation returns.\<close>

lemma preserves_ebind_res:
  assumes "valid I m (\<lambda>r s. I s \<and> (\<forall>a. r = Ok a \<longrightarrow> P a))" and "\<And>a. P a \<Longrightarrow> preserves I (f a)"
  shows "preserves I (ebind m f)"
proof (rule preservesI)
  fix s r s'
  assume I: "I s" and run: "ebind m f s = (r, s')"
  obtain q t where m: "m s = (q, t)" by (cases "m s")
  from validD [OF assms(1) I m] have "I t" and P: "\<forall>a. q = Ok a \<longrightarrow> P a" by simp_all
  then show "I s'"
    using run m assms(2) by (cases q) (auto simp: ebind_def dest: preservesD)
qed

lemma ebind_cases:
  assumes "ebind m f s = (r, s')"
  obtains (Ok) a t where "m s = (Ok a, t)" and "f a t = (r, s')"
  | (Err) e where "m s = (Err e, s')" and "r = Err e"
  | (Panic) "m s = (Panic, s')" and "r = Panic"
  | (Hang) "m s = (Hang, s')" and "r = Hang"
  using assms by (auto simp: ebind_def split: prod.splits result.splits)

lemma etry_cases:
  assumes "etry m s = (r, s')"
  obtains (Ok) a where "m s = (Ok a, s')" and "r = Ok (Inr a)"
  | (Err) e where "m s = (Err e, s')" and "r = Ok (Inl e)"
  | (Panic) "m s = (Panic, s')" and "r = Panic"
  | (Hang) "m s = (Hang, s')" and "r = Hang"
  using assms by (auto simp: etry_def split: prod.splits result.splits)

text \<open>When a computation succeeds, by its last combinator.\<close>

lemma eff_eq_Ok [eff_ok]:
  "eret a s = (Ok b, s') \<longleftrightarrow> b = a \<and> s' = s"
  "ethrow e s = (Ok b, s') \<longleftrightarrow> False"
  "epanic s = (Ok b, s') \<longleftrightarrow> False"
  "ehang s = (Ok b, s') \<longleftrightarrow> False"
  "eget f s = (Ok x, s') \<longleftrightarrow> x = f s \<and> s' = s"
  "emodify g s = (Ok (), s') \<longleftrightarrow> s' = g s"
  "eresult r s = (Ok b, s') \<longleftrightarrow> r = Ok b \<and> s' = s"
  by (auto simp: eff_defs)

lemma emap_err_eq_Ok [eff_ok]: "emap_err f m s = (Ok a, s') \<longleftrightarrow> m s = (Ok a, s')"
  by (auto simp: emap_err_def split: prod.splits)

lemma ebind_eq_Ok [eff_ok]: "ebind m f s = (Ok b, s') \<longleftrightarrow> (\<exists>a t. m s = (Ok a, t) \<and> f a t = (Ok b, s'))"
  by (auto simp: ebind_def split: prod.splits result.splits)

lemma etry_eq_Ok [eff_ok]:
  "etry m s = (Ok x, s') \<longleftrightarrow> (\<exists>a. x = Inr a \<and> m s = (Ok a, s')) \<or> (\<exists>e. x = Inl e \<and> m s = (Err e, s'))"
  by (auto simp: etry_def split: prod.splits result.splits)

text \<open>Every error that a computation raises satisfies \<open>P\<close>.\<close>

definition raises :: "('e \<Rightarrow> bool) \<Rightarrow> ('s, 'e, 'a) eff \<Rightarrow> bool" where
  "raises P m \<longleftrightarrow> (\<forall>s e s'. m s = (Err e, s') \<longrightarrow> P e)"

lemma raisesD: "raises P m \<Longrightarrow> m s = (Err e, s') \<Longrightarrow> P e"
  by (auto simp: raises_def)

lemma raises_basic [errs]:
  "raises P (eret a)" "raises P epanic" "raises P ehang" "raises P (eget f)" "raises P (emodify g)" "raises P (etry m)"
  by (auto simp: raises_def eff_defs split: prod.splits result.splits)

lemma raises_ethrow [errs]: "P e \<Longrightarrow> raises P (ethrow e)"
  by (simp add: raises_def ethrow_def)

lemma raises_eresult [errs]: "(\<And>e. r = Err e \<Longrightarrow> P e) \<Longrightarrow> raises P (eresult r)"
  by (simp add: raises_def eresult_def)

lemma map_err_eq_Err: "map_err f r = Err e \<longleftrightarrow> (\<exists>e'. r = Err e' \<and> e = f e')"
  by (cases r) auto

lemma raises_emap_err [errs]: "(\<And>e. P (f e)) \<Longrightarrow> raises P (emap_err f m)"
  by (auto simp: raises_def emap_err_def map_err_eq_Err split: prod.splits)

lemma raises_ebind [errs]: "raises P m \<Longrightarrow> (\<And>a. raises P (f a)) \<Longrightarrow> raises P (ebind m f)"
  unfolding raises_def ebind_def by (fastforce split: prod.splits result.splits)

lemma raises_control [errs]:
  "raises P m \<Longrightarrow> raises P n \<Longrightarrow> raises P (if b then m else n)"
  "(\<And>e. raises P (f e)) \<Longrightarrow> (\<And>a. raises P (g a)) \<Longrightarrow> raises P (case_sum f g x)"
  "raises P n \<Longrightarrow> (\<And>a. raises P (h a)) \<Longrightarrow> raises P (case_option n h y)"
  "raises P n \<Longrightarrow> (\<And>a as. raises P (k a as)) \<Longrightarrow> raises P (case_list n k z)"
  "(\<And>a b. raises P (l a b)) \<Longrightarrow> raises P (case_prod l p)"
  "raises P (j v) \<Longrightarrow> raises P (Let v j)"
  by (simp_all split: sum.split option.split list.split prod.split)

section \<open>Strings of the standard library\<close>

text \<open>\<open>char::is_ascii_digit\<close>, \<open>char::is_alphanumeric\<close> (on ASCII characters) and the decimal
  rendering of an unsigned integer.\<close>

definition is_digit :: "char \<Rightarrow> bool" where
  "is_digit c \<longleftrightarrow> 48 \<le> (of_char c :: nat) \<and> (of_char c :: nat) \<le> 57"

definition is_alphanumeric :: "char \<Rightarrow> bool" where
  "is_alphanumeric c \<longleftrightarrow> is_digit c
     \<or> (65 \<le> (of_char c :: nat) \<and> (of_char c :: nat) \<le> 90)
     \<or> (97 \<le> (of_char c :: nat) \<and> (of_char c :: nat) \<le> 122)"

definition digit_char :: "nat \<Rightarrow> char" where
  "digit_char n = char_of (48 + n)"

definition digit_val :: "char \<Rightarrow> nat" where
  "digit_val c = of_char c - 48"

fun dec_of_nat :: "nat \<Rightarrow> string" where
  "dec_of_nat n = (if n < 10 then [digit_char n]
                   else dec_of_nat (n div 10) @ [digit_char (n mod 10)])"

declare dec_of_nat.simps [simp del]

fun parse_digits :: "nat \<Rightarrow> string \<Rightarrow> nat option" where
  "parse_digits acc [] = Some acc"
| "parse_digits acc (c # cs) =
     (if is_digit c then parse_digits (10 * acc + digit_val c) cs else None)"

text \<open>\<open>u64::from_str\<close>: one optional plus sign, at least one digit, no overflow.\<close>

definition strip_plus :: "string \<Rightarrow> string" where
  "strip_plus s = (case s of [] \<Rightarrow> [] | c # cs \<Rightarrow> if c = CHR ''+'' then cs else s)"

definition parse_u64 :: "string \<Rightarrow> u64 option" where
  "parse_u64 s = (let ds = strip_plus s in
     if ds = [] then None
     else case parse_digits 0 ds of
            None \<Rightarrow> None
          | Some n \<Rightarrow> if n < 2 ^ 64 then Some (of_nat n) else None)"

definition show_u64 :: "u64 \<Rightarrow> string" where
  "show_u64 w = dec_of_nat (unat w)"

text \<open>Decimal text of a signed integer.\<close>

definition show_int :: "int \<Rightarrow> string" where
  "show_int i = (if i < 0 then ''-'' @ dec_of_nat (nat (- i)) else dec_of_nat (nat i))"

lemma digit_char_less [simp]:
  assumes "n < 10"
  shows "is_digit (digit_char n)" and "digit_val (digit_char n) = n"
  using assms by (simp_all add: is_digit_def digit_char_def digit_val_def)

lemma dec_of_nat_digits [simp]: "\<forall>c \<in> set (dec_of_nat n). is_digit c"
proof (induction n rule: dec_of_nat.induct)
  case (1 n)
  then show ?case by (subst dec_of_nat.simps) auto
qed

lemma dec_of_nat_nonempty [simp]: "dec_of_nat n \<noteq> []"
  by (subst dec_of_nat.simps) simp

lemma parse_digits_append:
  "parse_digits acc (xs @ ys) = (case parse_digits acc xs of None \<Rightarrow> None | Some a \<Rightarrow> parse_digits a ys)"
  by (induction xs arbitrary: acc) auto

lemma parse_digits_dec_of_nat [simp]: "parse_digits 0 (dec_of_nat n) = Some n"
proof (induction n rule: dec_of_nat.induct)
  case (1 n)
  then show ?case
    by (subst dec_of_nat.simps) (auto simp: parse_digits_append)
qed

lemma not_digit_simps [simp]:
  "\<not> is_digit (CHR ''+'')" "\<not> is_digit (CHR ''-'')" "\<not> is_digit (CHR ''/'')"
  by (simp_all add: is_digit_def)

lemma strip_plus_dec_of_nat [simp]: "strip_plus (dec_of_nat n) = dec_of_nat n"
proof (cases "dec_of_nat n")
  case (Cons c cs)
  then have "is_digit c" using dec_of_nat_digits [of n] by simp
  then show ?thesis using Cons by (auto simp: strip_plus_def)
qed (simp add: strip_plus_def)

lemma unat_u64_less: "unat (w :: u64) < 2 ^ 64"
proof -
  have "unat w < 2 ^ LENGTH(64)" by (rule unsigned_less)
  then show ?thesis by simp
qed

lemma parse_u64_show_u64 [simp]: "parse_u64 (show_u64 w) = Some w"
  using unat_u64_less [of w] by (simp add: parse_u64_def show_u64_def)

lemma show_u64_inj [simp]: "show_u64 v = show_u64 w \<longleftrightarrow> v = w"
  by (metis option.inject parse_u64_show_u64)

lemma show_u64_nonempty [simp]: "show_u64 w \<noteq> []"
  by (simp add: show_u64_def)

lemma show_u64_no_sep [simp]: "\<not> is_digit c \<Longrightarrow> c \<notin> set (show_u64 w)"
  using dec_of_nat_digits by (auto simp: show_u64_def)

text \<open>\<open>str::split(c)\<close> followed by \<open>collect()\<close>: never empty.\<close>

fun split_on :: "char \<Rightarrow> string \<Rightarrow> string list" where
  "split_on c [] = [[]]"
| "split_on c (x # xs) =
     (if x = c then [] # split_on c xs
      else (case split_on c xs of [] \<Rightarrow> [[x]] | h # t \<Rightarrow> (x # h) # t))"

lemma split_on_nonempty [simp]: "split_on c s \<noteq> []"
  by (cases s) (auto split: list.split)

lemma split_on_single [simp]: "c \<notin> set s \<Longrightarrow> split_on c s = [s]"
  by (induction s) auto

lemma split_on_append [simp]: "c \<notin> set s \<Longrightarrow> split_on c (s @ c # t) = s # split_on c t"
  by (induction s) auto

lemma split_on_eq_single: "split_on c s = [t] \<longleftrightarrow> c \<notin> set s \<and> t = s"
proof (induction s arbitrary: t)
  case (Cons x xs)
  then show ?case by (cases "split_on c xs") auto
qed auto

text \<open>\<open>join\<close> of a list of texts with a one-character separator.\<close>

fun join_on :: "char \<Rightarrow> string list \<Rightarrow> string" where
  "join_on c [] = []"
| "join_on c [s] = s"
| "join_on c (s # t # ss) = s @ c # join_on c (t # ss)"

lemma split_on_join: "ss \<noteq> [] \<Longrightarrow> \<forall>s \<in> set ss. c \<notin> set s \<Longrightarrow> split_on c (join_on c ss) = ss"
  by (induction c ss rule: join_on.induct) auto

lemma join_on_split [simp]: "join_on c (split_on c s) = s"
proof (induction s)
  case (Cons x xs)
  then show ?case
    by (cases "split_on c xs"; cases "tl (split_on c xs)") auto
qed simp

lemma split_on_parts: "t \<in> set (split_on c s) \<Longrightarrow> c \<notin> set t"
proof (induction s arbitrary: t)
  case (Cons x xs)
  then show ?case by (cases "split_on c xs") (auto split: if_splits)
qed simp

text \<open>\<open>str::from_utf8\<close> accepts exactly the well-formed UTF-8 byte sequences.\<close>

definition byte_in :: "nat \<Rightarrow> nat \<Rightarrow> char \<Rightarrow> bool" where
  "byte_in lo hi c \<longleftrightarrow> lo \<le> of_char c \<and> of_char c \<le> hi"

fun utf8_valid :: "byte list \<Rightarrow> bool" where
  "utf8_valid [] = True"
| "utf8_valid (a # rest) =
     (if byte_in 0 127 a then utf8_valid rest
      else case rest of
        [] \<Rightarrow> False
      | b # rest2 \<Rightarrow>
          if byte_in 194 223 a then byte_in 128 191 b \<and> utf8_valid rest2
          else (case rest2 of
            [] \<Rightarrow> False
          | c # rest3 \<Rightarrow>
              if byte_in 224 239 a then
                byte_in (if of_char a = (224 :: nat) then 160 else 128)
                        (if of_char a = (237 :: nat) then 159 else 191) b
                \<and> byte_in 128 191 c \<and> utf8_valid rest3
              else (case rest3 of
                [] \<Rightarrow> False
              | d # rest4 \<Rightarrow>
                  byte_in 240 244 a
                  \<and> byte_in (if of_char a = (240 :: nat) then 144 else 128)
                            (if of_char a = (244 :: nat) then 143 else 191) b
                  \<and> byte_in 128 191 c \<and> byte_in 128 191 d \<and> utf8_valid rest4)))"

text \<open>A loop over a list that returns early on an error.\<close>

fun fold_results :: "('x \<Rightarrow> 'a \<Rightarrow> ('e, 'a) result) \<Rightarrow> 'x list \<Rightarrow> 'a \<Rightarrow> ('e, 'a) result" where
  "fold_results f [] a = Ok a"
| "fold_results f (x # xs) a = rbind (f x a) (fold_results f xs)"

section \<open>Lists\<close>

text \<open>\<open>slice::chunks(n)\<close>.\<close>

function chunks :: "nat \<Rightarrow> 'a list \<Rightarrow> 'a list list" where
  "chunks n xs = (if n = 0 \<or> xs = [] then [] else take n xs # chunks n (drop n xs))"
  by auto
termination by (relation "measure (\<lambda>(n, xs). length xs)") auto

declare chunks.simps [simp del]

lemma concat_chunks: "0 < n \<Longrightarrow> concat (chunks n xs) = xs"
proof (induction n xs rule: chunks.induct)
  case (1 n xs)
  then show ?case by (subst chunks.simps) auto
qed

lemma chunks_length: "c \<in> set (chunks n xs) \<Longrightarrow> length c \<le> n \<and> c \<noteq> []"
proof (induction n xs rule: chunks.induct)
  case (1 n xs)
  from 1(2) show ?case
    by (subst (asm) chunks.simps) (use 1(1) in \<open>auto split: if_splits\<close>)
qed

section \<open>The contract of an encoder and its decoder\<close>

text \<open>A decoder that inverts its encoder on the well-formed values, and that only returns
  well-formed values. Each printer/parser and domain/raw conversion of the sources is an instance.\<close>

locale round_trip =
  fixes encode :: "'a \<Rightarrow> 'r"
    and decode :: "'r \<Rightarrow> ('e, 'a) result"
    and wf :: "'a \<Rightarrow> bool"
  assumes decode_encode: "wf x \<Longrightarrow> decode (encode x) = Ok x"
    and decode_wf: "decode r = Ok x \<Longrightarrow> wf x"
begin

lemma encode_inj: "wf x \<Longrightarrow> wf y \<Longrightarrow> encode x = encode y \<Longrightarrow> x = y"
  by (metis decode_encode result.inject(1))

lemma decode_idem: "decode r = Ok x \<Longrightarrow> decode (encode x) = Ok x"
  by (rule decode_encode) (rule decode_wf)

lemma wf_iff: "wf x \<longleftrightarrow> decode (encode x) = Ok x"
proof
  show "wf x \<Longrightarrow> decode (encode x) = Ok x" by (rule decode_encode)
  show "decode (encode x) = Ok x \<Longrightarrow> wf x" by (rule decode_wf)
qed

end

text \<open>\<open>s.trim().is_empty()\<close>: every character of the text is white space. These are the code points U+0009 to U+000D,
  U+0020, U+0085, U+00A0, U+1680, U+2000 to U+200A, U+2028, U+2029, U+202F, U+205F and U+3000.\<close>

fun all_whitespace :: "string \<Rightarrow> bool" where
  "all_whitespace [] = True"
| "all_whitespace (a # rest) =
     (if byte_in 9 13 a \<or> byte_in 32 32 a then all_whitespace rest
      else case rest of
        [] \<Rightarrow> False
      | b # rest2 \<Rightarrow>
          if byte_in 194 194 a \<and> (byte_in 133 133 b \<or> byte_in 160 160 b) then all_whitespace rest2
          else (case rest2 of
            [] \<Rightarrow> False
          | c # rest3 \<Rightarrow>
              (byte_in 225 225 a \<and> byte_in 154 154 b \<and> byte_in 128 128 c
               \<or> byte_in 226 226 a \<and> byte_in 128 128 b
                   \<and> (byte_in 128 138 c \<or> byte_in 168 169 c \<or> byte_in 175 175 c)
               \<or> byte_in 226 226 a \<and> byte_in 129 129 b \<and> byte_in 159 159 c
               \<or> byte_in 227 227 a \<and> byte_in 128 128 b \<and> byte_in 128 128 c) \<and> all_whitespace rest3))"

end
