(* ===== verification/Ics02_Height.thy ===== *)
theory Ics02_Height
  imports Prelude
begin

text \<open>
  \<open>relayer-types/src/core/ics02_client/height.rs\<close>: heights of a chain, their order, arithmetic,
  text and protobuf forms. The fields are private and every constructor but
  \<open>from_noncosmos_height\<close> and the arithmetic keeps \<open>revision_height\<close> non-zero.
\<close>

section \<open>Heights\<close>

datatype height = Height (revision_number: u64) (revision_height: u64)

datatype height_error = InvalidHeight | InvalidHeightResult

datatype ordering = Less | Equal | Greater

definition height_default :: height where
  "height_default = Height 1 1"

definition from_noncosmos_height :: "u64 \<Rightarrow> height" where
  "from_noncosmos_height h = Height 1 h"

definition height_new :: "u64 \<Rightarrow> u64 \<Rightarrow> (height_error, height) result" where
  "height_new n h = (if h = 0 then Err InvalidHeight else Ok (Height n h))"

definition height_cmp :: "height \<Rightarrow> height \<Rightarrow> ordering" where
  "height_cmp a b =
     (if revision_number a < revision_number b then Less
      else if revision_number a > revision_number b then Greater
      else if revision_height a < revision_height b then Less
      else if revision_height a > revision_height b then Greater
      else Equal)"

definition height_add :: "height \<Rightarrow> u64 \<Rightarrow> height" where
  "height_add a rhs = Height (revision_number a) (revision_height a + rhs)"

definition height_sub :: "height \<Rightarrow> u64 \<Rightarrow> (height_error, height) result" where
  "height_sub a delta =
     (if revision_height a \<le> delta then Err InvalidHeightResult
      else Ok (Height (revision_number a) (revision_height a - delta)))"

definition increment :: "height \<Rightarrow> height" where
  "increment a = height_add a 1"

definition decrement :: "height \<Rightarrow> (height_error, height) result" where
  "decrement a = height_sub a 1"

section \<open>Protobuf and text forms\<close>

record raw_height =
  raw_revision_number :: u64
  raw_revision_height :: u64

definition height_of_raw :: "raw_height \<Rightarrow> (height_error, height) result" where
  "height_of_raw r = height_new (raw_revision_number r) (raw_revision_height r)"

definition raw_of_height :: "height \<Rightarrow> raw_height" where
  "raw_of_height h = \<lparr>raw_revision_number = revision_number h, raw_revision_height = revision_height h\<rparr>"

definition height_to_string :: "height \<Rightarrow> string" where
  "height_to_string h = show_u64 (revision_number h) @ ''-'' @ show_u64 (revision_height h)"

datatype parse_height_error = HeightConversion string | ZeroHeight

text \<open>\<open>TryFrom<&str>\<close> and \<open>FromStr\<close>: the components are indexed without a length check, and the second
  index comes after the first component has been parsed.\<close>

definition height_try_from :: "string \<Rightarrow> (parse_height_error, height) result" where
  "height_try_from value = (let split = split_on (CHR ''-'') value in
     case parse_u64 (split ! 0) of
       None \<Rightarrow> Err (HeightConversion value)
     | Some n \<Rightarrow>
         if length split < 2 then Panic
         else case parse_u64 (split ! 1) of
                None \<Rightarrow> Err (HeightConversion value)
              | Some h \<Rightarrow> map_err (\<lambda>_. ZeroHeight) (height_new n h))"

section \<open>The order\<close>

instantiation height :: linorder
begin

definition less_eq_height :: "height \<Rightarrow> height \<Rightarrow> bool" where
  "a \<le> b \<longleftrightarrow> height_cmp a b \<noteq> Greater"

definition less_height :: "height \<Rightarrow> height \<Rightarrow> bool" where
  "a < b \<longleftrightarrow> height_cmp a b = Less"

instance
  by standard
    (auto simp: less_eq_height_def less_height_def height_cmp_def intro: height.expand
          split: if_splits)

end

lemma height_less_iff:
  "a < b \<longleftrightarrow> revision_number a < revision_number b
     \<or> revision_number a = revision_number b \<and> revision_height a < revision_height b"
  by (auto simp: less_height_def height_cmp_def)

lemma height_le_iff:
  "a \<le> b \<longleftrightarrow> revision_number a < revision_number b
     \<or> revision_number a = revision_number b \<and> revision_height a \<le> revision_height b"
  by (auto simp: less_eq_height_def height_cmp_def)

section \<open>Well-formed heights\<close>

definition height_wf :: "height \<Rightarrow> bool" where
  "height_wf h \<longleftrightarrow> revision_height h \<noteq> 0"

lemma height_new_wf: "height_new n h = Ok a \<Longrightarrow> height_wf a"
  by (auto simp: height_new_def height_wf_def split: if_splits)

lemma height_sub_wf: "height_sub a d = Ok b \<Longrightarrow> height_wf b"
  by (auto simp: height_sub_def height_wf_def split: if_splits)

lemma height_new_eq_Ok [simp]: "height_new n h = Ok a \<longleftrightarrow> a = Height n h \<and> h \<noteq> 0"
  by (auto simp: height_new_def)

interpretation raw_height: round_trip raw_of_height height_of_raw height_wf
  by unfold_locales
    (auto simp: height_of_raw_def raw_of_height_def height_wf_def)

lemma split_height_to_string [simp]:
  "split_on (CHR ''-'') (height_to_string h) =
     [show_u64 (revision_number h), show_u64 (revision_height h)]"
  by (simp add: height_to_string_def)

interpretation text_height: round_trip height_to_string height_try_from height_wf
  by unfold_locales
    (auto simp: height_try_from_def height_wf_def Let_def split: option.splits if_splits)

lemma height_to_string_no_slash [simp]: "CHR ''/'' \<notin> set (height_to_string h)"
  by (simp add: height_to_string_def)

text \<open>Parsing the text of a height gives the height back, and no two heights that a parse can
  return have the same text.\<close>

theorem height_text_round_trip:
  "height_try_from (height_to_string h) = Ok h \<longleftrightarrow> revision_height h \<noteq> 0"
  using text_height.wf_iff [of h] by (simp add: height_wf_def)

lemma height_try_from_Panic:
  "height_try_from s = Panic \<longleftrightarrow> (CHR ''-'' \<notin> set s \<and> parse_u64 s \<noteq> None)"
proof (cases "CHR ''-'' \<in> set s")
  case True
  then have "length (split_on (CHR ''-'') s) \<ge> 2"
    by (cases "split_on (CHR ''-'') s" rule: remdups_adj.cases)
      (auto simp: split_on_eq_single)
  then show ?thesis
    using True by (auto simp: height_try_from_def height_new_def Let_def split: option.splits)
qed (auto simp: height_try_from_def Let_def split: option.splits)

text \<open>Subtraction undoes an addition that does not wrap around, from any height but zero, and such an
  addition never lowers the height; a subtraction that succeeds yields a valid height and is undone by the
  addition.\<close>

theorem height_add_sub:
  assumes "unat (revision_height h) + unat d < 2 ^ 64" and "revision_height h \<noteq> 0"
  shows "height_sub (height_add h d) d = Ok h \<and> h \<le> height_add h d
    \<and> (\<forall>k. height_sub k d = Ok h \<longrightarrow> height_add h d = k)"
proof -
  have *: "unat (revision_height h + d) = unat (revision_height h) + unat d"
    using assms(1) by (simp add: unat_add_lem [THEN iffD1])
  then have "\<not> revision_height h + d \<le> d"
    using assms(2) by (simp add: word_le_nat_alt unat_eq_zero)
  moreover have "revision_height h \<le> revision_height h + d"
    using * by (simp add: word_le_nat_alt)
  ultimately show ?thesis
    by (auto simp: height_sub_def height_add_def height_le_iff split: if_splits)
qed

theorem height_add_sub_witness:
  "height_sub (height_add (Height 1 7) 5) 5 = Ok (Height 1 7) \<and> Height 1 7 \<le> height_add (Height 1 7) 5"
  using height_add_sub [of "Height 1 7" 5] by simp

end
