(* ===== verification/Ics24_Host.thy ===== *)
theory Ics24_Host
  imports Prelude
begin

text \<open>
  \<open>relayer-types/src/core/ics24_host/validate.rs\<close> and \<open>identifier.rs\<close>, and the client types of
  \<open>core/ics02_client/client_type.rs\<close>: validation of identifiers, the identifier newtypes with their
  constructors and parsers, and chain identifiers with their epoch number. The regular-expression
  matcher of the crate \<open>safe_regex\<close> is the parameter \<open>re_match\<close> of the chain identifier functions.
\<close>

section \<open>Validation\<close>

datatype validation_error =
    ContainSeparator string
  | InvalidLength string nat nat nat
  | InvalidCharacter string
  | Empty

definition VALID_SPECIAL_CHARS :: string where
  "VALID_SPECIAL_CHARS = ''._+-#[]<>''"

definition valid_char :: "char \<Rightarrow> bool" where
  "valid_char c \<longleftrightarrow> is_alphanumeric c \<or> c \<in> set VALID_SPECIAL_CHARS"

definition validate_identifier :: "string \<Rightarrow> nat \<Rightarrow> nat \<Rightarrow> (validation_error, unit) result" where
  "validate_identifier s lo hi =
     (if hi < lo then Panic
      else if s = [] then Err Empty
      else if CHR ''/'' \<in> set s then Err (ContainSeparator s)
      else if length s < lo \<or> hi < length s then Err (InvalidLength s (length s) lo hi)
      else if \<not> list_all valid_char s then Err (InvalidCharacter s)
      else Ok ())"

definition validate_client_identifier :: "string \<Rightarrow> (validation_error, unit) result" where
  "validate_client_identifier s = validate_identifier s 9 64"

definition validate_connection_identifier :: "string \<Rightarrow> (validation_error, unit) result" where
  "validate_connection_identifier s = validate_identifier s 10 64"

definition validate_port_identifier :: "string \<Rightarrow> (validation_error, unit) result" where
  "validate_port_identifier s = validate_identifier s 2 128"

definition validate_channel_identifier :: "string \<Rightarrow> (validation_error, unit) result" where
  "validate_channel_identifier s = validate_identifier s 8 64"

section \<open>Client types\<close>

text \<open>The variant \<open>Mock\<close> is compiled in: the relayer crate enables the feature \<open>mocks\<close>.\<close>

datatype client_type = Tendermint | Eth | Ckb | Axon | Ckb4Ibc | Mock

fun client_type_as_str :: "client_type \<Rightarrow> string" where
  "client_type_as_str Tendermint = ''07-tendermint''"
| "client_type_as_str Eth = ''07-ethereum''"
| "client_type_as_str Ckb = ''07-ckb4eth''"
| "client_type_as_str Axon = ''07-axon''"
| "client_type_as_str Ckb4Ibc = ''07-ckb4ibc''"
| "client_type_as_str Mock = ''9999-mock''"

definition client_type_from_str :: "string \<Rightarrow> (string, client_type) result" where
  "client_type_from_str s =
     (if s = ''07-tendermint'' then Ok Tendermint
      else if s = ''07-ethereum'' then Ok Eth
      else if s = ''07-ckb4eth'' then Ok Ckb
      else if s = ''07-axon'' then Ok Axon
      else if s = ''07-ckb4ibc'' then Ok Ckb4Ibc
      else if s = ''9999-mock'' then Ok Mock
      else Err s)"

definition client_type_try_from :: "u64 \<Rightarrow> (string, client_type) result" where
  "client_type_try_from v =
     (if v = 1 then Ok Tendermint
      else if v = 2 then Ok Eth
      else if v = 3 then Ok Ckb
      else if v = 4 then Ok Axon
      else if v = 5 then Ok Ckb4Ibc
      else if v = 9999 then Ok Mock
      else Err (show_u64 v))"

section \<open>Identifiers\<close>

datatype client_id = ClientId (client_id_str: string)
datatype connection_id = ConnectionId (connection_id_str: string)
datatype port_id = PortId (port_id_str: string)
datatype channel_id = ChannelId (channel_id_str: string)

definition client_id_from_str :: "string \<Rightarrow> (validation_error, client_id) result" where
  "client_id_from_str s = map_ok (\<lambda>_. ClientId s) (validate_client_identifier s)"

definition client_id_prefix :: "client_type \<Rightarrow> string" where
  "client_id_prefix ctype = client_type_as_str ctype"

definition client_id_new :: "client_type \<Rightarrow> u64 \<Rightarrow> (validation_error, client_id) result" where
  "client_id_new ctype counter = client_id_from_str (client_id_prefix ctype @ ''-'' @ show_u64 counter)"

text \<open>\<open>From<ClientId> for ClientType\<close>: the last variant, in declaration order, whose name is a prefix.\<close>

definition starts_with :: "string \<Rightarrow> string \<Rightarrow> bool" where
  "starts_with s pat \<longleftrightarrow> take (length pat) s = pat"

definition client_type_of_id :: "client_id \<Rightarrow> client_type" where
  "client_type_of_id i =
     fold (\<lambda>v t. if starts_with (client_id_str i) (client_type_as_str v) then v else t)
       [Tendermint, Eth, Ckb, Axon, Ckb4Ibc, Mock] Mock"

definition connection_id_from_str :: "string \<Rightarrow> (validation_error, connection_id) result" where
  "connection_id_from_str s = map_ok (\<lambda>_. ConnectionId s) (validate_connection_identifier s)"

definition connection_id_prefix :: string where
  "connection_id_prefix = ''connection''"

text \<open>\<open>Result::unwrap\<close>.\<close>

fun unwrap :: "('e, 'a) result \<Rightarrow> ('f, 'a) result" where
  "unwrap (Ok a) = Ok a"
| "unwrap (Err e) = Panic"
| "unwrap Panic = Panic"
| "unwrap Hang = Hang"

definition connection_id_new :: "u64 \<Rightarrow> (validation_error, connection_id) result" where
  "connection_id_new counter =
     unwrap (connection_id_from_str (connection_id_prefix @ ''-'' @ show_u64 counter))"

definition port_id_transfer :: port_id where
  "port_id_transfer = PortId ''transfer''"

definition port_id_from_str :: "string \<Rightarrow> (validation_error, port_id) result" where
  "port_id_from_str s = map_ok (\<lambda>_. PortId s) (validate_port_identifier s)"

definition channel_id_new :: "u64 \<Rightarrow> channel_id" where
  "channel_id_new counter = ChannelId (''channel-'' @ show_u64 counter)"

definition channel_id_from_str :: "string \<Rightarrow> (validation_error, channel_id) result" where
  "channel_id_from_str s = map_ok (\<lambda>_. ChannelId s) (validate_channel_identifier s)"

record port_channel_id =
  pc_channel_id :: channel_id
  pc_port_id :: port_id

definition port_channel_id_to_string :: "port_channel_id \<Rightarrow> string" where
  "port_channel_id_to_string p = port_id_str (pc_port_id p) @ ''/'' @ channel_id_str (pc_channel_id p)"

section \<open>Chain identifiers\<close>

datatype chain_id = ChainId (chain_id_str: string) (chain_id_version: u64)

definition chain_id_new :: "string \<Rightarrow> u64 \<Rightarrow> chain_id" where
  "chain_id_new name version = ChainId (name @ ''-'' @ show_u64 version) version"

definition is_epoch_format :: "(string \<Rightarrow> string \<Rightarrow> bool) \<Rightarrow> string \<Rightarrow> bool" where
  "is_epoch_format re_match chain_id = re_match ''.+[^-]-{1}[1-9][0-9]*'' chain_id"

definition chain_version :: "(string \<Rightarrow> string \<Rightarrow> bool) \<Rightarrow> string \<Rightarrow> u64" where
  "chain_version re_match chain_id =
     (if \<not> is_epoch_format re_match chain_id then 0
      else case parse_u64 (last (split_on (CHR ''-'') chain_id)) of None \<Rightarrow> 0 | Some v \<Rightarrow> v)"

definition chain_id_from_string :: "(string \<Rightarrow> string \<Rightarrow> bool) \<Rightarrow> string \<Rightarrow> chain_id" where
  "chain_id_from_string re_match s =
     ChainId s (if is_epoch_format re_match s then chain_version re_match s else 0)"

section \<open>Validation lemmas\<close>

lemma validate_identifier_Ok_iff:
  "validate_identifier s lo hi = Ok () \<longleftrightarrow>
     lo \<le> hi \<and> s \<noteq> [] \<and> lo \<le> length s \<and> length s \<le> hi \<and> list_all valid_char s"
  by (auto simp: validate_identifier_def valid_char_def VALID_SPECIAL_CHARS_def is_alphanumeric_def
      is_digit_def list_all_iff)

lemma valid_char_digit: "is_digit c \<Longrightarrow> valid_char c"
  by (simp add: valid_char_def is_alphanumeric_def)

lemma valid_chars_show_u64 [simp]: "list_all valid_char (show_u64 n)"
  using dec_of_nat_digits by (auto simp: list_all_iff show_u64_def intro: valid_char_digit)

lemma valid_char_not_slash: "valid_char c \<Longrightarrow> c \<noteq> CHR ''/''"
  by (auto simp: valid_char_def VALID_SPECIAL_CHARS_def is_alphanumeric_def is_digit_def)

lemma validate_identifier_no_slash: "validate_identifier s lo hi = Ok () \<Longrightarrow> CHR ''/'' \<notin> set s"
  by (auto simp: validate_identifier_Ok_iff list_all_iff dest: valid_char_not_slash)

lemma dec_of_nat_length: "n < 10 ^ Suc k \<Longrightarrow> length (dec_of_nat n) \<le> Suc k"
proof (induction k arbitrary: n)
  case 0
  then show ?case by (subst dec_of_nat.simps) simp
next
  case (Suc k)
  then have "n div 10 < 10 ^ Suc k" by simp
  then show ?case
    by (subst dec_of_nat.simps) (simp add: Suc.IH)
qed

lemma show_u64_length: "1 \<le> length (show_u64 n) \<and> length (show_u64 n) \<le> 20"
proof -
  have "unat n < 10 ^ Suc 19"
    using unat_u64_less [of n] by simp
  then have "length (dec_of_nat (unat n)) \<le> Suc 19"
    by (rule dec_of_nat_length)
  then show ?thesis
    by (cases "dec_of_nat (unat n)") (auto simp: show_u64_def)
qed

definition client_id_wf :: "client_id \<Rightarrow> bool" where
  "client_id_wf i \<longleftrightarrow> validate_client_identifier (client_id_str i) = Ok ()"

definition connection_id_wf :: "connection_id \<Rightarrow> bool" where
  "connection_id_wf i \<longleftrightarrow> validate_connection_identifier (connection_id_str i) = Ok ()"

definition port_id_wf :: "port_id \<Rightarrow> bool" where
  "port_id_wf i \<longleftrightarrow> validate_port_identifier (port_id_str i) = Ok ()"

definition channel_id_wf :: "channel_id \<Rightarrow> bool" where
  "channel_id_wf i \<longleftrightarrow> validate_channel_identifier (channel_id_str i) = Ok ()"

lemmas validators = validate_client_identifier_def validate_connection_identifier_def
  validate_port_identifier_def validate_channel_identifier_def

lemmas id_wf_defs = client_id_wf_def connection_id_wf_def port_id_wf_def channel_id_wf_def

lemmas id_parsers = client_id_from_str_def connection_id_from_str_def port_id_from_str_def
  channel_id_from_str_def

interpretation client_id_text: round_trip client_id_str client_id_from_str client_id_wf
  by unfold_locales (auto simp: id_wf_defs id_parsers)

interpretation connection_id_text: round_trip connection_id_str connection_id_from_str connection_id_wf
  by unfold_locales (auto simp: id_wf_defs id_parsers)

interpretation port_id_text: round_trip port_id_str port_id_from_str port_id_wf
  by unfold_locales (auto simp: id_wf_defs id_parsers)

interpretation channel_id_text: round_trip channel_id_str channel_id_from_str channel_id_wf
  by unfold_locales (auto simp: id_wf_defs id_parsers)

lemma id_no_slash:
  "client_id_wf c \<Longrightarrow> CHR ''/'' \<notin> set (client_id_str c)"
  "connection_id_wf n \<Longrightarrow> CHR ''/'' \<notin> set (connection_id_str n)"
  "port_id_wf p \<Longrightarrow> CHR ''/'' \<notin> set (port_id_str p)"
  "channel_id_wf h \<Longrightarrow> CHR ''/'' \<notin> set (channel_id_str h)"
  by (auto simp: id_wf_defs validators dest: validate_identifier_no_slash)

lemma valid_char_literals [simp]:
  "list_all valid_char (client_type_as_str t)" "list_all valid_char ''connection''"
  "list_all valid_char ''channel-''" "valid_char (CHR ''-'')" "list_all valid_char ''transfer''"
  by (cases t) (simp_all add: valid_char_def VALID_SPECIAL_CHARS_def is_alphanumeric_def is_digit_def)

lemma client_type_as_str_length: "7 \<le> length (client_type_as_str t) \<and> length (client_type_as_str t) \<le> 13"
  by (cases t) simp_all

section \<open>Properties\<close>


text \<open>C40: the identifiers the constructors generate from a counter are valid for every 64-bit counter:
  building a client identifier never fails, building a connection identifier never panics, and a
  channel identifier, which is not validated, would pass validation.\<close>

theorem generated_identifiers_valid:
  "client_id_new t n = Ok (ClientId (client_type_as_str t @ ''-'' @ show_u64 n))
   \<and> connection_id_new n = Ok (ConnectionId (''connection-'' @ show_u64 n))
   \<and> channel_id_wf (channel_id_new n)
   \<and> port_id_wf port_id_transfer"
proof -
  note len = show_u64_length [of n] client_type_as_str_length [of t]
  have "validate_client_identifier (client_type_as_str t @ ''-'' @ show_u64 n) = Ok ()"
    using len by (auto simp: validators validate_identifier_Ok_iff)
  moreover have "validate_connection_identifier (''connection'' @ ''-'' @ show_u64 n) = Ok ()"
    using len valid_char_literals(2) by (simp add: validators validate_identifier_Ok_iff del: valid_char_literals)
      (simp add: valid_char_literals(4))
  moreover have "validate_channel_identifier (''channel-'' @ show_u64 n) = Ok ()"
    using len valid_char_literals(3) by (simp add: validators validate_identifier_Ok_iff del: valid_char_literals)
  moreover have "validate_port_identifier ''transfer'' = Ok ()"
    using valid_char_literals(5) by (simp add: validators validate_identifier_Ok_iff del: valid_char_literals)
  ultimately show ?thesis
    by (simp add: client_id_new_def client_id_prefix_def connection_id_new_def connection_id_prefix_def
        channel_id_new_def port_id_transfer_def id_parsers id_wf_defs)
qed

text \<open>The type of a client is recovered from every client identifier generated for it, and from its
  name.\<close>

theorem client_type_recovered:
  "client_id_new t n = Ok i \<Longrightarrow> client_type_of_id i = t \<and> client_type_from_str (client_type_as_str t) = Ok t"
  by (cases t)
    (auto simp: client_id_new_def client_id_from_str_def client_id_prefix_def client_type_of_id_def
      starts_with_def client_type_from_str_def)

theorem client_type_recovered_witness:
  "client_id_new Axon 7 = Ok (ClientId ''07-axon-7'')
   \<and> client_type_of_id (ClientId ''07-axon-7'') = Axon"
proof -
  have "client_id_new Axon 7 = Ok (ClientId ''07-axon-7'')"
    by code_simp
  then show ?thesis
    using client_type_recovered [of Axon 7 "ClientId ''07-axon-7''"] by simp
qed

end
