(* ===== verification/Ics24_Path.thy ===== *)
theory Ics24_Path
  imports Ics24_Host
begin

text \<open>
  \<open>relayer-types/src/core/ics24_host/path.rs\<close>: the store paths of ICS-024, their text form and the
  parser, which tries one sub-parser after the other on the components between slashes.
\<close>

section \<open>Paths and their text\<close>

type_synonym sequence = u64

definition sequence_from_str :: "string \<Rightarrow> (string, sequence) result" where
  "sequence_from_str s = ok_or s (parse_u64 s)"

datatype client_upgrade_path = UpgradedClientState u64 | UpgradedClientConsensusState u64

datatype path =
    ClientTypePath client_id
  | ClientStatePath client_id
  | ClientConsensusStatePath client_id (epoch: u64) (cs_height: u64)
  | ClientConnectionsPath client_id
  | ConnectionsPath connection_id
  | PortsPath port_id
  | ChannelEndsPath port_id channel_id
  | SeqSendsPath port_id channel_id
  | SeqRecvsPath port_id channel_id
  | SeqAcksPath port_id channel_id
  | CommitmentsPath port_id channel_id sequence
  | AcksPath port_id channel_id sequence
  | ReceiptsPath port_id channel_id sequence
  | UpgradePath client_upgrade_path

datatype sub_path = SubChannels channel_id | SubSequences sequence

datatype path_error = ParseFailure string

definition UPGRADED_IBC_STATE :: string where
  "UPGRADED_IBC_STATE = ''upgradedIBCState''"

definition UPGRADED_CLIENT_STATE :: string where
  "UPGRADED_CLIENT_STATE = ''upgradedClient''"

definition UPGRADED_CLIENT_CONSENSUS_STATE :: string where
  "UPGRADED_CLIENT_CONSENSUS_STATE = ''upgradedConsState''"

fun upgrade_path_to_string :: "client_upgrade_path \<Rightarrow> string" where
  "upgrade_path_to_string (UpgradedClientState h) =
     UPGRADED_IBC_STATE @ ''/'' @ show_u64 h @ ''/'' @ UPGRADED_CLIENT_STATE"
| "upgrade_path_to_string (UpgradedClientConsensusState h) =
     UPGRADED_IBC_STATE @ ''/'' @ show_u64 h @ ''/'' @ UPGRADED_CLIENT_CONSENSUS_STATE"

fun path_to_string :: "path \<Rightarrow> string" where
  "path_to_string (ClientTypePath c) = ''clients/'' @ client_id_str c @ ''/clientType''"
| "path_to_string (ClientStatePath c) = ''clients/'' @ client_id_str c @ ''/clientState''"
| "path_to_string (ClientConsensusStatePath c e h) =
     ''clients/'' @ client_id_str c @ ''/consensusStates/'' @ show_u64 e @ ''-'' @ show_u64 h"
| "path_to_string (ClientConnectionsPath c) = ''clients/'' @ client_id_str c @ ''/connections''"
| "path_to_string (ConnectionsPath n) = ''connections/'' @ connection_id_str n"
| "path_to_string (PortsPath p) = ''ports/'' @ port_id_str p"
| "path_to_string (ChannelEndsPath p h) =
     ''channelEnds/ports/'' @ port_id_str p @ ''/channels/'' @ channel_id_str h"
| "path_to_string (SeqSendsPath p h) =
     ''nextSequenceSend/ports/'' @ port_id_str p @ ''/channels/'' @ channel_id_str h"
| "path_to_string (SeqRecvsPath p h) =
     ''nextSequenceRecv/ports/'' @ port_id_str p @ ''/channels/'' @ channel_id_str h"
| "path_to_string (SeqAcksPath p h) =
     ''nextSequenceAck/ports/'' @ port_id_str p @ ''/channels/'' @ channel_id_str h"
| "path_to_string (CommitmentsPath p h s) =
     ''commitments/ports/'' @ port_id_str p @ ''/channels/'' @ channel_id_str h @ ''/sequences/'' @ show_u64 s"
| "path_to_string (AcksPath p h s) =
     ''acks/ports/'' @ port_id_str p @ ''/channels/'' @ channel_id_str h @ ''/sequences/'' @ show_u64 s"
| "path_to_string (ReceiptsPath p h s) =
     ''receipts/ports/'' @ port_id_str p @ ''/channels/'' @ channel_id_str h @ ''/sequences/'' @ show_u64 s"
| "path_to_string (UpgradePath u) = upgrade_path_to_string u"

fun is_provable :: "path \<Rightarrow> bool" where
  "is_provable (ClientConnectionsPath _) = False"
| "is_provable (PortsPath _) = False"
| "is_provable _ = True"

section \<open>The parser\<close>

text \<open>Only the first sub-parser can panic: it indexes the second component unchecked.\<close>

definition parse_consensus_height :: "client_id \<Rightarrow> string \<Rightarrow> path option" where
  "parse_consensus_height client_id epoch_height =
     (case split_on (CHR ''-'') epoch_height of
        [e, h] \<Rightarrow> (case parse_u64 e of
            None \<Rightarrow> None
          | Some ep \<Rightarrow> (case parse_u64 h of
              None \<Rightarrow> None
            | Some ht \<Rightarrow> Some (ClientConsensusStatePath client_id ep ht)))
      | _ \<Rightarrow> None)"

definition parse_client_paths :: "string list \<Rightarrow> (path_error, path option) result" where
  "parse_client_paths components =
     (if components = [] then Ok None
      else if hd components \<noteq> ''clients'' then Ok None
      else if length components < 2 then Panic
      else case ok_option (client_id_from_str (components ! 1)) of
        None \<Rightarrow> Ok None
      | Some client_id \<Rightarrow>
          if length components = 3 then
            Ok (if components ! 2 = ''clientType'' then Some (ClientTypePath client_id)
                else if components ! 2 = ''clientState'' then Some (ClientStatePath client_id)
                else if components ! 2 = ''connections'' then Some (ClientConnectionsPath client_id)
                else None)
          else if length components = 4 then
            Ok (if components ! 2 \<noteq> ''consensusStates'' then None
                else parse_consensus_height client_id (last components))
          else Ok None)"

definition parse_connections :: "string list \<Rightarrow> path option" where
  "parse_connections components =
     (if length components \<noteq> 2 \<or> hd components \<noteq> ''connections'' then None
      else map_option ConnectionsPath (ok_option (connection_id_from_str (last components))))"

definition parse_ports :: "string list \<Rightarrow> path option" where
  "parse_ports components =
     (if length components \<noteq> 2 \<or> hd components \<noteq> ''ports'' then None
      else map_option PortsPath (ok_option (port_id_from_str (last components))))"

definition parse_channels :: "string list \<Rightarrow> sub_path option" where
  "parse_channels components =
     (if length components \<noteq> 2 \<or> hd components \<noteq> ''channels'' then None
      else map_option SubChannels (ok_option (channel_id_from_str (last components))))"

definition parse_sequences :: "string list \<Rightarrow> sub_path option" where
  "parse_sequences components =
     (if length components \<noteq> 2 \<or> hd components \<noteq> ''sequences'' then None
      else map_option SubSequences (ok_option (sequence_from_str (last components))))"

text \<open>\<open>&components[a..=b]\<close>.\<close>

definition subslice :: "nat \<Rightarrow> nat \<Rightarrow> 'a list \<Rightarrow> 'a list" where
  "subslice a b xs = take (Suc b - a) (drop a xs)"

definition parse_channel_ends :: "string list \<Rightarrow> path option" where
  "parse_channel_ends components =
     (if length components \<noteq> 5 \<or> hd components \<noteq> ''channelEnds'' then None
      else case (parse_ports (subslice 1 2 components), parse_channels (subslice 3 4 components)) of
        (Some (PortsPath port_id), Some (SubChannels channel_id)) \<Rightarrow>
          Some (ChannelEndsPath port_id channel_id)
      | _ \<Rightarrow> None)"

definition parse_seqs :: "string list \<Rightarrow> path option" where
  "parse_seqs components =
     (if length components \<noteq> 5 then None
      else case (parse_ports (subslice 1 2 components), parse_channels (subslice 3 4 components)) of
        (Some (PortsPath port_id), Some (SubChannels channel_id)) \<Rightarrow>
          if hd components = ''nextSequenceSend'' then Some (SeqSendsPath port_id channel_id)
          else if hd components = ''nextSequenceRecv'' then Some (SeqRecvsPath port_id channel_id)
          else if hd components = ''nextSequenceAck'' then Some (SeqAcksPath port_id channel_id)
          else None
      | _ \<Rightarrow> None)"

definition parse_port_channel_sequence ::
  "string \<Rightarrow> (port_id \<Rightarrow> channel_id \<Rightarrow> sequence \<Rightarrow> path) \<Rightarrow> string list \<Rightarrow> path option" where
  "parse_port_channel_sequence name mk components =
     (if length components \<noteq> 7 \<or> hd components \<noteq> name then None
      else case (parse_ports (subslice 1 2 components), parse_channels (subslice 3 4 components),
                 parse_sequences (drop 5 components)) of
        (Some (PortsPath port_id), Some (SubChannels channel_id), Some (SubSequences seq)) \<Rightarrow>
          Some (mk port_id channel_id seq)
      | _ \<Rightarrow> None)"

definition parse_commitments :: "string list \<Rightarrow> path option" where
  "parse_commitments = parse_port_channel_sequence ''commitments'' CommitmentsPath"

definition parse_acks :: "string list \<Rightarrow> path option" where
  "parse_acks = parse_port_channel_sequence ''acks'' AcksPath"

definition parse_receipts :: "string list \<Rightarrow> path option" where
  "parse_receipts = parse_port_channel_sequence ''receipts'' ReceiptsPath"

definition parse_upgrades :: "string list \<Rightarrow> path option" where
  "parse_upgrades components =
     (if length components \<noteq> 3 \<or> hd components \<noteq> UPGRADED_IBC_STATE then None
      else case parse_u64 (components ! 1) of
        None \<Rightarrow> None
      | Some h \<Rightarrow>
          if last components = UPGRADED_CLIENT_STATE then Some (UpgradePath (UpgradedClientState h))
          else if last components = UPGRADED_CLIENT_CONSENSUS_STATE
          then Some (UpgradePath (UpgradedClientConsensusState h))
          else None)"

fun or_else :: "'a option \<Rightarrow> 'a option \<Rightarrow> 'a option" where
  "or_else (Some a) y = Some a"
| "or_else None y = y"

lemma or_else_eq_Some: "or_else x y = Some a \<longleftrightarrow> x = Some a \<or> x = None \<and> y = Some a"
  by (cases x) auto

definition path_from_str :: "string \<Rightarrow> (path_error, path) result" where
  "path_from_str s = (let components = split_on (CHR ''/'') s in
     rbind (parse_client_paths components) (\<lambda>p.
       ok_or (ParseFailure s)
         (or_else p
           (or_else (parse_connections components)
             (or_else (parse_ports components)
               (or_else (parse_channel_ends components)
                 (or_else (parse_seqs components)
                   (or_else (parse_commitments components)
                     (or_else (parse_acks components)
                       (or_else (parse_receipts components)
                         (parse_upgrades components)))))))))))"

section \<open>Well-formed paths\<close>

fun path_wf :: "path \<Rightarrow> bool" where
  "path_wf (ClientTypePath c) = client_id_wf c"
| "path_wf (ClientStatePath c) = client_id_wf c"
| "path_wf (ClientConsensusStatePath c _ _) = client_id_wf c"
| "path_wf (ClientConnectionsPath c) = client_id_wf c"
| "path_wf (ConnectionsPath n) = connection_id_wf n"
| "path_wf (PortsPath p) = port_id_wf p"
| "path_wf (ChannelEndsPath p h) = (port_id_wf p \<and> channel_id_wf h)"
| "path_wf (SeqSendsPath p h) = (port_id_wf p \<and> channel_id_wf h)"
| "path_wf (SeqRecvsPath p h) = (port_id_wf p \<and> channel_id_wf h)"
| "path_wf (SeqAcksPath p h) = (port_id_wf p \<and> channel_id_wf h)"
| "path_wf (CommitmentsPath p h _) = (port_id_wf p \<and> channel_id_wf h)"
| "path_wf (AcksPath p h _) = (port_id_wf p \<and> channel_id_wf h)"
| "path_wf (ReceiptsPath p h _) = (port_id_wf p \<and> channel_id_wf h)"
| "path_wf (UpgradePath _) = True"

lemmas path_parsers = parse_client_paths_def parse_connections_def parse_ports_def
  parse_channels_def parse_sequences_def parse_channel_ends_def parse_seqs_def
  parse_port_channel_sequence_def parse_commitments_def parse_acks_def parse_receipts_def
  parse_upgrades_def parse_consensus_height_def

lemmas id_decode_encode = client_id_text.decode_encode connection_id_text.decode_encode
  port_id_text.decode_encode channel_id_text.decode_encode

lemmas id_decode_wf = client_id_text.decode_wf connection_id_text.decode_wf
  port_id_text.decode_wf channel_id_text.decode_wf

lemmas upgrade_constants = UPGRADED_IBC_STATE_def UPGRADED_CLIENT_STATE_def
  UPGRADED_CLIENT_CONSENSUS_STATE_def

lemma path_round_trip: "path_wf p \<Longrightarrow> path_from_str (path_to_string p) = Ok p"
proof (induction p rule: path_wf.induct)
  case (14 u)
  then show ?case
    by (cases u)
      (simp_all add: path_from_str_def path_parsers subslice_def upgrade_constants Let_def)
qed (simp_all add: path_from_str_def path_parsers subslice_def id_no_slash id_decode_encode
      sequence_from_str_def upgrade_constants Let_def)

lemma parse_ports_wf: "parse_ports cs = Some p \<Longrightarrow> \<exists>i. p = PortsPath i \<and> port_id_wf i"
  by (auto simp: parse_ports_def id_decode_wf split: if_splits)

lemma parse_channels_wf: "parse_channels cs = Some (SubChannels i) \<Longrightarrow> channel_id_wf i"
  by (auto simp: parse_channels_def id_decode_wf split: if_splits)

lemma parse_port_channel_sequence_wf:
  assumes "parse_port_channel_sequence name mk cs = Some p"
    and "\<And>i h s. port_id_wf i \<Longrightarrow> channel_id_wf h \<Longrightarrow> path_wf (mk i h s)"
  shows "path_wf p"
  using assms(1)
  by (auto simp: parse_port_channel_sequence_def intro!: assms(2) dest: parse_ports_wf parse_channels_wf
      split: if_splits option.splits path.splits sub_path.splits)

lemma parsers_wf:
  "parse_client_paths cs = Ok (Some p) \<Longrightarrow> path_wf p"
  "parse_connections cs = Some p \<Longrightarrow> path_wf p"
  "parse_ports cs = Some p \<Longrightarrow> path_wf p"
  "parse_channel_ends cs = Some p \<Longrightarrow> path_wf p"
  "parse_seqs cs = Some p \<Longrightarrow> path_wf p"
  "parse_commitments cs = Some p \<Longrightarrow> path_wf p"
  "parse_acks cs = Some p \<Longrightarrow> path_wf p"
  "parse_receipts cs = Some p \<Longrightarrow> path_wf p"
  "parse_upgrades cs = Some p \<Longrightarrow> path_wf p"
  subgoal
    by (auto simp: parse_client_paths_def parse_consensus_height_def id_decode_wf
        split: if_splits option.splits list.splits)
  subgoal by (auto simp: parse_connections_def id_decode_wf split: if_splits)
  subgoal by (auto dest: parse_ports_wf)
  subgoal
    by (auto simp: parse_channel_ends_def dest: parse_ports_wf parse_channels_wf
        split: if_splits option.splits path.splits sub_path.splits)
  subgoal
    by (auto simp: parse_seqs_def dest: parse_ports_wf parse_channels_wf
        split: if_splits option.splits path.splits sub_path.splits)
  subgoal unfolding parse_commitments_def by (erule parse_port_channel_sequence_wf) simp
  subgoal unfolding parse_acks_def by (erule parse_port_channel_sequence_wf) simp
  subgoal unfolding parse_receipts_def by (erule parse_port_channel_sequence_wf) simp
  subgoal by (auto simp: parse_upgrades_def split: if_splits option.splits)
  done

interpretation path_text: round_trip path_to_string path_from_str path_wf
proof unfold_locales
  show "path_wf p \<Longrightarrow> path_from_str (path_to_string p) = Ok p" for p
    by (rule path_round_trip)
  show "path_from_str s = Ok p \<Longrightarrow> path_wf p" for s p
    by (auto simp: path_from_str_def Let_def or_else_eq_Some intro: parsers_wf)
qed

lemma client_id_from_str_no_panic [simp]: "client_id_from_str s \<noteq> Panic"
  by (auto simp: client_id_from_str_def validators validate_identifier_def)

section \<open>Properties\<close>

text \<open>C37: every store path built from valid identifiers parses back to itself, and the parser returns
  no other path: the text of a path is the path exactly when its identifiers are valid. So two valid
  paths never share a store key.\<close>

theorem path_text_round_trip:
  "path_from_str (path_to_string p) = Ok p \<longleftrightarrow> path_wf p"
  using path_text.wf_iff [of p] by simp

text \<open>Distinct valid paths have distinct store keys.\<close>

theorem path_keys_injective:
  assumes "path_wf p" and "path_wf q" and "path_to_string p = path_to_string q"
  shows "p = q"
  using assms by (rule path_text.encode_inj)

text \<open>C38: the path parser panics on the single text \<open>clients\<close> and on no other input; any other
  malformed path is a parse failure.\<close>

theorem path_from_str_panics_iff:
  "path_from_str s = Panic \<longleftrightarrow> s = ''clients''"
proof -
  have single: "length (split_on (CHR ''/'') s) < 2 \<longleftrightarrow> split_on (CHR ''/'') s = [s]"
    by (cases "split_on (CHR ''/'') s" rule: remdups_adj.cases) (auto simp: split_on_eq_single)
  have "path_from_str s = Panic \<longleftrightarrow> parse_client_paths (split_on (CHR ''/'') s) = Panic"
    by (auto simp: path_from_str_def Let_def rbind_eq_Panic elim: ok_or.elims)
  also have "\<dots> \<longleftrightarrow> split_on (CHR ''/'') s = [s] \<and> s = ''clients''"
    using single by (auto simp: parse_client_paths_def split: option.splits)
  finally show ?thesis by auto
qed

end
