(* ===== verification/Ics_Timestamp.thy ===== *)
theory Ics_Timestamp
  imports Prelude
begin

text \<open>
  \<open>relayer-types/src/timestamp.rs\<close>: optional timestamps. A \<open>tendermint::Time\<close> is its number of
  nanoseconds since the Unix epoch; its range-checked addition and subtraction of a duration belong to
  the crate \<open>tendermint\<close> and are the parameter \<open>time_op\<close> of the arithmetic.
\<close>

type_synonym tm_time = int

datatype timestamp = Timestamp (time: "tm_time option")

datatype expiry = Expired | NotExpired | InvalidTimestamp

definition timestamp_none :: timestamp where
  "timestamp_none = Timestamp None"

definition from_nanoseconds :: "u64 \<Rightarrow> (string, timestamp) result" where
  "from_nanoseconds n = (if n = 0 then Ok (Timestamp None) else Ok (Timestamp (Some (uint n))))"

text \<open>The conversion asserts that the time is not before the epoch and unwraps its conversion to \<open>u64\<close>.\<close>

definition nanoseconds :: "timestamp \<Rightarrow> ('e, u64) result" where
  "nanoseconds ts = (case time ts of
       None \<Rightarrow> Ok 0
     | Some t \<Rightarrow> if t < 0 \<or> 2 ^ 64 \<le> t then Panic else Ok (of_int t))"

definition duration_since :: "timestamp \<Rightarrow> timestamp \<Rightarrow> duration option" where
  "duration_since ts other = (case (time ts, time other) of
       (Some t1, Some t2) \<Rightarrow> if t2 \<le> t1 then Some (nat (t1 - t2)) else None
     | _ \<Rightarrow> None)"

definition check_expiry :: "timestamp \<Rightarrow> timestamp \<Rightarrow> expiry" where
  "check_expiry ts other = (case (time ts, time other) of
       (Some t1, Some t2) \<Rightarrow> if t1 > t2 then Expired else NotExpired
     | _ \<Rightarrow> InvalidTimestamp)"

definition after :: "timestamp \<Rightarrow> timestamp \<Rightarrow> bool" where
  "after ts other = (case (time ts, time other) of
       (Some t1, Some t2) \<Rightarrow> t1 > t2
     | _ \<Rightarrow> False)"

datatype timestamp_overflow_error = TimestampOverflow

definition timestamp_add ::
  "(tm_time \<Rightarrow> duration \<Rightarrow> tm_time option) \<Rightarrow> timestamp \<Rightarrow> duration
    \<Rightarrow> (timestamp_overflow_error, timestamp) result" where
  "timestamp_add time_op ts d = (case time ts of
       Some t \<Rightarrow> (case time_op t d of
           None \<Rightarrow> Err TimestampOverflow
         | Some t' \<Rightarrow> Ok (Timestamp (Some t')))
     | None \<Rightarrow> Ok ts)"

definition timestamp_sub ::
  "(tm_time \<Rightarrow> duration \<Rightarrow> tm_time option) \<Rightarrow> timestamp \<Rightarrow> duration
    \<Rightarrow> (timestamp_overflow_error, timestamp) result" where
  "timestamp_sub time_op ts d = (case time ts of
       Some t \<Rightarrow> (case time_op t d of
           None \<Rightarrow> Err TimestampOverflow
         | Some t' \<Rightarrow> Ok (Timestamp (Some t')))
     | None \<Rightarrow> Ok ts)"

definition timestamp_from_str :: "string \<Rightarrow> (string, timestamp) result" where
  "timestamp_from_str s = rbind (ok_or s (parse_u64 s)) from_nanoseconds"

text \<open>The timestamps a 64-bit number of nanoseconds can denote.\<close>

definition timestamp_wf :: "timestamp \<Rightarrow> bool" where
  "timestamp_wf ts \<longleftrightarrow> (case time ts of None \<Rightarrow> True | Some t \<Rightarrow> 0 < t \<and> t < 2 ^ 64)"

lemma uint_u64_less: "uint (w :: u64) < 2 ^ 64"
proof -
  have "uint w < 2 ^ LENGTH(64)" by (rule unsigned_less)
  then show ?thesis by simp
qed

lemma uint_u64_pos: "n \<noteq> 0 \<Longrightarrow> 0 < uint (n :: u64)"
  using unsigned_greater_eq [of n] by (auto simp: order_le_less unsigned_eq_0_iff)

lemma from_nanoseconds_wf: "from_nanoseconds n = Ok ts \<Longrightarrow> timestamp_wf ts"
  using uint_u64_less [of n] uint_u64_pos [of n]
  by (auto simp: from_nanoseconds_def timestamp_wf_def split: if_splits)

lemma nanoseconds_Ok: "timestamp_wf ts \<Longrightarrow> \<exists>n. nanoseconds ts = Ok n \<and> from_nanoseconds n = Ok ts"
proof (cases "time ts")
  case None
  then show ?thesis by (cases ts) (simp add: nanoseconds_def from_nanoseconds_def)
next
  case (Some t)
  assume "timestamp_wf ts"
  with Some have t: "0 < t" "t < 2 ^ 64" by (simp_all add: timestamp_wf_def)
  then have "uint (of_int t :: u64) = t" by (simp add: unsigned_of_int take_bit_int_eq_self)
  moreover from this t(1) have "(of_int t :: u64) \<noteq> 0" by auto
  ultimately show ?thesis
    using Some t by (cases ts) (simp add: nanoseconds_def from_nanoseconds_def)
qed

interpretation timestamp_nanos: round_trip nanoseconds "\<lambda>r. rbind r from_nanoseconds" timestamp_wf
  by unfold_locales (auto dest: nanoseconds_Ok from_nanoseconds_wf)

lemma after_iff_expired: "after ts other \<longleftrightarrow> check_expiry ts other = Expired"
  by (auto simp: after_def check_expiry_def split: option.splits)

end
