(* ===== verification/Ics04_Packet.thy ===== *)
theory Ics04_Packet
  imports Ics02_Height Ics24_Path Ics_Timestamp
begin

text \<open>
  \<open>relayer-types/src/core/ics04_channel/timeout.rs\<close> and \<open>packet.rs\<close>: timeout heights, packets, the
  time-out test the relayer applies to a packet, and the protobuf conversions with their validation.
\<close>

section \<open>Timeout heights\<close>

datatype timeout_height = Never | At height

fun commitment_revision_number :: "timeout_height \<Rightarrow> u64" where
  "commitment_revision_number (At h) = revision_number h"
| "commitment_revision_number Never = 0"

fun commitment_revision_height :: "timeout_height \<Rightarrow> u64" where
  "commitment_revision_height (At h) = revision_height h"
| "commitment_revision_height Never = 0"

fun has_expired :: "timeout_height \<Rightarrow> height \<Rightarrow> bool" where
  "has_expired (At th) h = (h > th)"
| "has_expired Never h = False"

fun to_event_attribute_value :: "timeout_height \<Rightarrow> string" where
  "to_event_attribute_value (At h) = height_to_string h"
| "to_event_attribute_value Never = ''0-0''"

definition timeout_height_of_raw :: "raw_height \<Rightarrow> (height_error, timeout_height) result" where
  "timeout_height_of_raw r =
     (if raw_revision_number r = 0 \<and> raw_revision_height r = 0 then Ok Never
      else map_ok At (height_of_raw r))"

fun timeout_height_of_raw_option :: "raw_height option \<Rightarrow> (height_error, timeout_height) result" where
  "timeout_height_of_raw_option (Some r) = timeout_height_of_raw r"
| "timeout_height_of_raw_option None = Ok Never"

fun raw_of_timeout_height :: "timeout_height \<Rightarrow> raw_height option" where
  "raw_of_timeout_height (At h) = Some (raw_of_height h)"
| "raw_of_timeout_height Never = Some \<lparr>raw_revision_number = 0, raw_revision_height = 0\<rparr>"

text \<open>The serde form: the pair of numbers, in which every zero height reads as no timeout.\<close>

fun timeout_height_serialize :: "timeout_height \<Rightarrow> u64 \<times> u64" where
  "timeout_height_serialize Never = (0, 0)"
| "timeout_height_serialize (At h) = (revision_number h, revision_height h)"

fun timeout_height_deserialize :: "u64 \<times> u64 \<Rightarrow> timeout_height" where
  "timeout_height_deserialize (n, h) =
     (case height_new n h of Ok a \<Rightarrow> At a | _ \<Rightarrow> Never)"

fun timeout_height_wf :: "timeout_height \<Rightarrow> bool" where
  "timeout_height_wf Never = True"
| "timeout_height_wf (At h) = height_wf h"

lemma timeout_height_deserialize_serialize:
  "timeout_height_wf t \<Longrightarrow> timeout_height_deserialize (timeout_height_serialize t) = t"
  by (cases t) (simp_all add: height_new_def height_wf_def)

interpretation raw_timeout_height:
  round_trip raw_of_timeout_height timeout_height_of_raw_option timeout_height_wf
proof unfold_locales
  show "timeout_height_wf t \<Longrightarrow> timeout_height_of_raw_option (raw_of_timeout_height t) = Ok t" for t
    by (cases t) (auto simp: timeout_height_of_raw_def height_of_raw_def raw_of_height_def height_wf_def)
  show "timeout_height_of_raw_option r = Ok t \<Longrightarrow> timeout_height_wf t" for r t
    by (cases r) (auto simp: timeout_height_of_raw_def raw_height.decode_wf split: if_splits)
qed

section \<open>Packets\<close>

datatype packet_msg_type = MsgRecv | MsgAck | MsgTimeoutUnordered | MsgTimeoutOrdered
  | MsgTimeoutOnCloseUnordered | MsgTimeoutOnCloseOrdered

record packet =
  sequence :: sequence
  source_port :: port_id
  source_channel :: channel_id
  destination_port :: port_id
  destination_channel :: channel_id
  data :: "byte list"
  timeout_height :: timeout_height
  timeout_timestamp :: timestamp

definition sequence_increment :: "sequence \<Rightarrow> sequence" where
  "sequence_increment s = s + 1"

definition timed_out :: "packet \<Rightarrow> timestamp \<Rightarrow> height \<Rightarrow> bool" where
  "timed_out p dst_chain_ts dst_chain_height =
     (let height_timed_out = has_expired (timeout_height p) dst_chain_height;
          timestamp_timed_out = (timeout_timestamp p \<noteq> timestamp_none
            \<and> check_expiry dst_chain_ts (timeout_timestamp p) = Expired)
      in height_timed_out \<or> timestamp_timed_out)"

record raw_packet =
  raw_sequence :: u64
  raw_source_port :: string
  raw_source_channel :: string
  raw_destination_port :: string
  raw_destination_channel :: string
  raw_data :: "byte list"
  raw_timeout_height :: "raw_height option"
  raw_timeout_timestamp :: u64

datatype packet_error =
    ZeroPacketSequence
  | InvalidTimeoutHeight
  | ZeroPacketData
  | InvalidPacketTimestamp string
  | PacketIdentifier validation_error

definition packet_of_raw :: "raw_packet \<Rightarrow> (packet_error, packet) result" where
  "packet_of_raw r =
     (if raw_sequence r = 0 then Err ZeroPacketSequence
      else rbind (map_err (\<lambda>_. InvalidTimeoutHeight) (timeout_height_of_raw_option (raw_timeout_height r))) (\<lambda>th.
        if raw_data r = [] then Err ZeroPacketData
        else rbind (map_err InvalidPacketTimestamp (from_nanoseconds (raw_timeout_timestamp r))) (\<lambda>ts.
             rbind (map_err PacketIdentifier (port_id_from_str (raw_source_port r))) (\<lambda>sp.
             rbind (map_err PacketIdentifier (channel_id_from_str (raw_source_channel r))) (\<lambda>sc.
             rbind (map_err PacketIdentifier (port_id_from_str (raw_destination_port r))) (\<lambda>dp.
             rbind (map_err PacketIdentifier (channel_id_from_str (raw_destination_channel r))) (\<lambda>dc.
               Ok \<lparr>sequence = raw_sequence r, source_port = sp, source_channel = sc,
                   destination_port = dp, destination_channel = dc, data = raw_data r,
                   timeout_height = th, timeout_timestamp = ts\<rparr>)))))))"

definition raw_of_packet :: "packet \<Rightarrow> (packet_error, raw_packet) result" where
  "raw_of_packet p = rbind (nanoseconds (timeout_timestamp p)) (\<lambda>ts.
     Ok \<lparr>raw_sequence = sequence p, raw_source_port = port_id_str (source_port p),
         raw_source_channel = channel_id_str (source_channel p),
         raw_destination_port = port_id_str (destination_port p),
         raw_destination_channel = channel_id_str (destination_channel p),
         raw_data = data p, raw_timeout_height = raw_of_timeout_height (timeout_height p),
         raw_timeout_timestamp = ts\<rparr>)"

definition packet_wf :: "packet \<Rightarrow> bool" where
  "packet_wf p \<longleftrightarrow> sequence p \<noteq> 0 \<and> data p \<noteq> [] \<and> port_id_wf (source_port p)
     \<and> channel_id_wf (source_channel p) \<and> port_id_wf (destination_port p)
     \<and> channel_id_wf (destination_channel p) \<and> timeout_height_wf (timeout_height p)
     \<and> timestamp_wf (timeout_timestamp p)"

lemma packet_of_raw_wf: "packet_of_raw r = Ok p \<Longrightarrow> packet_wf p"
  by (auto simp: packet_of_raw_def packet_wf_def id_decode_wf raw_timeout_height.decode_wf
      from_nanoseconds_wf split: if_splits)

interpretation raw_packet: round_trip raw_of_packet "\<lambda>r. rbind r packet_of_raw" packet_wf
proof unfold_locales
  fix p
  assume wf: "packet_wf p"
  then obtain n where "nanoseconds (timeout_timestamp p) = (Ok n :: (packet_error, u64) result)"
    and "from_nanoseconds n = Ok (timeout_timestamp p)"
    using nanoseconds_Ok [of "timeout_timestamp p"] by (auto simp: packet_wf_def)
  then show "rbind (raw_of_packet p) packet_of_raw = Ok p"
    using wf
    by (simp add: raw_of_packet_def packet_of_raw_def packet_wf_def id_decode_encode
        raw_timeout_height.decode_encode)
qed (auto intro: packet_of_raw_wf)

section \<open>Properties\<close>

text \<open>C30: encoding a packet and decoding it gives the packet back exactly when its sequence and data are
  not zero and empty, its identifiers are valid, its timeout height is valid and its timestamp is
  unset or fits the 64-bit wire format.\<close>

theorem packet_raw_round_trip:
  "rbind (raw_of_packet p) packet_of_raw = Ok p \<longleftrightarrow> packet_wf p"
  using raw_packet.wf_iff [of p] by simp

text \<open>A packet is timed out on the destination exactly when the destination height is strictly past
  a set timeout height, or its time is strictly past a set timeout timestamp; a packet without either
  never times out.\<close>

theorem timed_out_iff:
  "timed_out p ts h \<longleftrightarrow>
     (\<exists>th. timeout_height p = At th \<and> th < h)
     \<or> (\<exists>t t'. time ts = Some t \<and> time (timeout_timestamp p) = Some t' \<and> t' < t)"
  by (cases "timeout_height p"; cases "timeout_timestamp p")
    (auto simp: timed_out_def Let_def check_expiry_def timestamp_none_def split: option.splits)

end
