(* ===== verification/Ics04_Channel.thy ===== *)
theory Ics04_Channel
  imports Ics24_Path
begin

text \<open>
  \<open>relayer-types/src/core/ics04_channel/channel.rs\<close>: channel states and orders, channel ends and their
  protobuf form. Signed 32-bit protobuf enumerations are integers.
\<close>

section \<open>Orders and states\<close>

datatype order = OrderNone | Unordered | Ordered

datatype channel_state = Uninitialized | Init | TryOpen | Open | Closed

datatype channel_error =
    UnknownOrderType string
  | UnknownState int
  | MissingCounterparty
  | ChannelIdentifier validation_error
  | InvalidConnectionHopsLength nat nat

fun order_as_str :: "order \<Rightarrow> string" where
  "order_as_str OrderNone = ''UNINITIALIZED''"
| "order_as_str Unordered = ''ORDER_UNORDERED''"
| "order_as_str Ordered = ''ORDER_ORDERED''"

fun order_as_i32 :: "order \<Rightarrow> int" where
  "order_as_i32 OrderNone = 0"
| "order_as_i32 Unordered = 1"
| "order_as_i32 Ordered = 2"

definition order_from_i32 :: "int \<Rightarrow> (channel_error, order) result" where
  "order_from_i32 nr =
     (if nr = 0 then Ok OrderNone else if nr = 1 then Ok Unordered else if nr = 2 then Ok Ordered
      else Err (UnknownOrderType (show_int nr)))"

text \<open>\<open>str::to_lowercase\<close> on ASCII and \<open>str::trim_start_matches\<close> with a string pattern, which strips
  the prefix as often as it occurs.\<close>

definition to_lower :: "char \<Rightarrow> char" where
  "to_lower c = (if 65 \<le> (of_char c :: nat) \<and> (of_char c :: nat) \<le> 90
                 then char_of ((of_char c :: nat) + 32) else c)"

function trim_start_matches :: "string \<Rightarrow> string \<Rightarrow> string" where
  "trim_start_matches pat s =
     (if pat \<noteq> [] \<and> take (length pat) s = pat \<and> s \<noteq> []
      then trim_start_matches pat (drop (length pat) s) else s)"
  by auto
termination by (relation "measure (\<lambda>(pat, s). length s)") auto

declare trim_start_matches.simps [simp del]

definition order_from_str :: "string \<Rightarrow> (channel_error, order) result" where
  "order_from_str s =
     (let t = trim_start_matches ''order_'' (map to_lower s) in
      if t = ''uninitialized'' then Ok OrderNone
      else if t = ''unordered'' then Ok Unordered
      else if t = ''ordered'' then Ok Ordered
      else Err (UnknownOrderType s))"

fun state_as_string :: "channel_state \<Rightarrow> string" where
  "state_as_string Uninitialized = ''UNINITIALIZED''"
| "state_as_string Init = ''INIT''"
| "state_as_string TryOpen = ''TRYOPEN''"
| "state_as_string Open = ''OPEN''"
| "state_as_string Closed = ''CLOSED''"

fun state_as_i32 :: "channel_state \<Rightarrow> int" where
  "state_as_i32 Uninitialized = 0"
| "state_as_i32 Init = 1"
| "state_as_i32 TryOpen = 2"
| "state_as_i32 Open = 3"
| "state_as_i32 Closed = 4"

definition state_from_i32 :: "int \<Rightarrow> (channel_error, channel_state) result" where
  "state_from_i32 s =
     (if s = 0 then Ok Uninitialized else if s = 1 then Ok Init else if s = 2 then Ok TryOpen
      else if s = 3 then Ok Open else if s = 4 then Ok Closed else Err (UnknownState s))"

definition state_is_open :: "channel_state \<Rightarrow> bool" where
  "state_is_open s \<longleftrightarrow> s = Open"

definition state_is_closed :: "channel_state \<Rightarrow> bool" where
  "state_is_closed s \<longleftrightarrow> s = Closed"

definition less_or_equal_progress :: "channel_state \<Rightarrow> channel_state \<Rightarrow> bool" where
  "less_or_equal_progress s other \<longleftrightarrow> state_as_i32 s \<le> state_as_i32 other"

section \<open>Channel ends\<close>

type_synonym version = string

record chan_counterparty =
  cp_port_id :: port_id
  cp_channel_id :: "channel_id option"

record channel_end =
  ch_state :: channel_state
  ch_ordering :: order
  ch_remote :: chan_counterparty
  ch_connection_hops :: "connection_id list"
  ch_version :: version

definition channel_counterparty_default :: chan_counterparty where
  "channel_counterparty_default = \<lparr>cp_port_id = PortId ''defaultPort'', cp_channel_id = None\<rparr>"

definition channel_end_default :: channel_end where
  "channel_end_default = \<lparr>ch_state = Uninitialized, ch_ordering = Unordered,
     ch_remote = channel_counterparty_default, ch_connection_hops = [], ch_version = []\<rparr>"

definition state_matches :: "channel_end \<Rightarrow> channel_state \<Rightarrow> bool" where
  "state_matches c s \<longleftrightarrow> ch_state c = s"

definition is_open :: "channel_end \<Rightarrow> bool" where
  "is_open c = state_matches c Open"

definition order_matches :: "channel_end \<Rightarrow> order \<Rightarrow> bool" where
  "order_matches c other \<longleftrightarrow> ch_ordering c = other"

definition connection_hops_matches :: "channel_end \<Rightarrow> connection_id list \<Rightarrow> bool" where
  "connection_hops_matches c other \<longleftrightarrow> ch_connection_hops c = other"

definition counterparty_matches :: "channel_end \<Rightarrow> chan_counterparty \<Rightarrow> bool" where
  "counterparty_matches c other \<longleftrightarrow> ch_remote c = other"

definition version_matches :: "channel_end \<Rightarrow> version \<Rightarrow> bool" where
  "version_matches c other \<longleftrightarrow> ch_version c = other"

definition set_counterparty_channel_id :: "channel_end \<Rightarrow> channel_id \<Rightarrow> channel_end" where
  "set_counterparty_channel_id c i = c\<lparr>ch_remote := (ch_remote c)\<lparr>cp_channel_id := Some i\<rparr>\<rparr>"

definition validate_basic :: "channel_end \<Rightarrow> (channel_error, unit) result" where
  "validate_basic c =
     (if length (ch_connection_hops c) \<noteq> 1
      then Err (InvalidConnectionHopsLength 1 (length (ch_connection_hops c)))
      else Ok ())"

section \<open>Protobuf forms\<close>

record raw_counterparty =
  raw_cp_port_id :: string
  raw_cp_channel_id :: string

record raw_channel =
  raw_state :: int
  raw_ordering :: int
  raw_counterparty :: "raw_counterparty option"
  raw_connection_hops :: "string list"
  raw_version :: string

definition counterparty_of_raw :: "raw_counterparty \<Rightarrow> (channel_error, chan_counterparty) result" where
  "counterparty_of_raw r =
     rbind (if raw_cp_channel_id r = [] then Ok None
            else map_err ChannelIdentifier (map_ok Some (channel_id_from_str (raw_cp_channel_id r)))) (\<lambda>ch.
     rbind (map_err ChannelIdentifier (port_id_from_str (raw_cp_port_id r))) (\<lambda>p.
       Ok \<lparr>cp_port_id = p, cp_channel_id = ch\<rparr>))"

definition raw_of_counterparty :: "chan_counterparty \<Rightarrow> raw_counterparty" where
  "raw_of_counterparty c = \<lparr>raw_cp_port_id = port_id_str (cp_port_id c),
     raw_cp_channel_id = (case cp_channel_id c of None \<Rightarrow> [] | Some i \<Rightarrow> channel_id_str i)\<rparr>"

definition channel_of_raw :: "raw_channel \<Rightarrow> (channel_error, channel_end) result" where
  "channel_of_raw r = rbind (state_from_i32 (raw_state r)) (\<lambda>chan_state.
     if chan_state = Uninitialized then Ok channel_end_default
     else rbind (order_from_i32 (raw_ordering r)) (\<lambda>chan_ordering.
          rbind (rbind (ok_or MissingCounterparty (raw_counterparty r)) counterparty_of_raw) (\<lambda>remote.
          rbind (map_err ChannelIdentifier
                   (collect_results (map connection_id_from_str (raw_connection_hops r)))) (\<lambda>hops.
            Ok \<lparr>ch_state = chan_state, ch_ordering = chan_ordering, ch_remote = remote,
                ch_connection_hops = hops, ch_version = raw_version r\<rparr>))))"

definition raw_of_channel :: "channel_end \<Rightarrow> raw_channel" where
  "raw_of_channel c = \<lparr>raw_state = state_as_i32 (ch_state c), raw_ordering = order_as_i32 (ch_ordering c),
     raw_counterparty = Some (raw_of_counterparty (ch_remote c)),
     raw_connection_hops = map connection_id_str (ch_connection_hops c),
     raw_version = ch_version c\<rparr>"

record identified_channel_end =
  ic_port_id :: port_id
  ic_channel_id :: channel_id
  ic_channel_end :: channel_end

record raw_identified_channel = raw_channel +
  raw_ic_port_id :: string
  raw_ic_channel_id :: string

definition identified_channel_of_raw ::
  "raw_identified_channel \<Rightarrow> (channel_error, identified_channel_end) result" where
  "identified_channel_of_raw r =
     rbind (map_err ChannelIdentifier (port_id_from_str (raw_ic_port_id r))) (\<lambda>p.
     rbind (map_err ChannelIdentifier (channel_id_from_str (raw_ic_channel_id r))) (\<lambda>c.
     rbind (channel_of_raw (raw_channel.truncate r)) (\<lambda>e.
       Ok \<lparr>ic_port_id = p, ic_channel_id = c, ic_channel_end = e\<rparr>)))"

definition raw_of_identified_channel :: "identified_channel_end \<Rightarrow> raw_identified_channel" where
  "raw_of_identified_channel i = raw_channel.extend (raw_of_channel (ic_channel_end i))
     (raw_identified_channel.fields (port_id_str (ic_port_id i)) (channel_id_str (ic_channel_id i)))"

section \<open>Well-formed channel ends\<close>

definition counterparty_wf :: "chan_counterparty \<Rightarrow> bool" where
  "counterparty_wf c \<longleftrightarrow> port_id_wf (cp_port_id c)
     \<and> (case cp_channel_id c of None \<Rightarrow> True | Some i \<Rightarrow> channel_id_wf i)"

definition channel_end_wf :: "channel_end \<Rightarrow> bool" where
  "channel_end_wf c \<longleftrightarrow> (if ch_state c = Uninitialized then c = channel_end_default
     else counterparty_wf (ch_remote c) \<and> list_all connection_id_wf (ch_connection_hops c))"

interpretation raw_order: round_trip order_as_i32 order_from_i32 "\<lambda>_. True"
proof unfold_locales
  show "order_from_i32 (order_as_i32 t) = Ok t" for t
    by (cases t) (simp_all add: order_from_i32_def)
qed simp

interpretation raw_state: round_trip state_as_i32 state_from_i32 "\<lambda>_. True"
proof unfold_locales
  show "state_from_i32 (state_as_i32 t) = Ok t" for t
    by (cases t) (simp_all add: state_from_i32_def)
qed simp

lemma channel_id_wf_nonempty: "channel_id_wf i \<Longrightarrow> channel_id_str i \<noteq> []"
  by (auto simp: channel_id_wf_def validators validate_identifier_Ok_iff)

interpretation raw_counterparty: round_trip raw_of_counterparty counterparty_of_raw counterparty_wf
  by unfold_locales
    (auto simp: counterparty_of_raw_def raw_of_counterparty_def counterparty_wf_def id_decode_encode
      id_decode_wf channel_id_wf_nonempty split: option.splits if_splits)

lemma collect_connection_ids:
  "list_all connection_id_wf xs \<Longrightarrow>
     collect_results (map connection_id_from_str (map connection_id_str xs)) = Ok xs"
  by (induction xs) (auto simp: id_decode_encode)

lemma collect_connection_ids_wf:
  "collect_results (map connection_id_from_str ss) = Ok xs \<Longrightarrow> list_all connection_id_wf xs"
  by (induction ss arbitrary: xs) (auto simp: id_decode_wf)

interpretation raw_channel: round_trip raw_of_channel channel_of_raw channel_end_wf
proof unfold_locales
  show "channel_end_wf c \<Longrightarrow> channel_of_raw (raw_of_channel c) = Ok c" for c
    using collect_connection_ids [of "ch_connection_hops c"]
    by (auto simp: channel_of_raw_def raw_of_channel_def channel_end_wf_def raw_state.decode_encode
        raw_order.decode_encode raw_counterparty.decode_encode simp del: map_map split: if_splits)
  show "channel_of_raw r = Ok c \<Longrightarrow> channel_end_wf c" for r c
    by (auto simp: channel_of_raw_def channel_end_wf_def raw_counterparty.decode_wf
        dest: collect_connection_ids_wf split: if_splits) (simp_all add: channel_end_default_def)
qed

interpretation text_order: round_trip order_as_str order_from_str "\<lambda>_. True"
proof unfold_locales
  show "order_from_str (order_as_str t) = Ok t" for t
    by (cases t)
      (simp_all add: order_from_str_def to_lower_def trim_start_matches.simps Let_def char_of_eq_iff)
qed simp

section \<open>Properties\<close>

text \<open>C31: a channel end survives its protobuf form exactly when its identifiers are valid and, if it is
  uninitialized, it is the default channel end, since decoding an uninitialized end ignores every
  other field.\<close>

theorem channel_end_raw_round_trip:
  "channel_of_raw (raw_of_channel c) = Ok c \<longleftrightarrow> channel_end_wf c"
  using raw_channel.wf_iff [of c] by simp

text \<open>The order of a channel survives both its printed name and its protobuf number, and the
  progress relation on channel states is the total order of the handshake.\<close>

theorem order_and_state_encodings:
  "order_from_str (order_as_str ord) = Ok ord \<and> order_from_i32 (order_as_i32 ord) = Ok ord
   \<and> state_from_i32 (state_as_i32 s) = Ok s
   \<and> (less_or_equal_progress s t \<and> less_or_equal_progress t s \<longleftrightarrow> s = t)"
proof -
  have "less_or_equal_progress s t \<and> less_or_equal_progress t s \<longleftrightarrow> s = t"
    by (cases s; cases t) (simp_all add: less_or_equal_progress_def)
  then show ?thesis
    by (simp add: text_order.decode_encode raw_order.decode_encode raw_state.decode_encode)
qed

end
