(* ===== verification/Ics20_Denom.thy ===== *)
theory Ics20_Denom
  imports Ics24_Path
begin

text \<open>
  \<open>relayer-types/src/applications/transfer/denom.rs\<close>: denominations of transferred tokens. A prefixed denomination is a base
  denomination with the path of ports and channels it came through; the path is kept in reverse order, so that
  the prefix added last is at the end.
\<close>

section \<open>Types\<close>

datatype transfer_error =
    EmptyBaseDenom
  | InvalidTracePortId nat validation_error
  | InvalidTraceChannelId nat validation_error
  | InvalidTraceLength nat
  | InvalidAmount
  | InvalidCoin string

datatype base_denom = BaseDenom (base_denom_str: string)

definition base_denom_from_str :: "string \<Rightarrow> (transfer_error, base_denom) result" where
  "base_denom_from_str s = (if all_whitespace s then Err EmptyBaseDenom else Ok (BaseDenom s))"

record trace_prefix =
  tp_port_id :: port_id
  tp_channel_id :: channel_id

definition trace_prefix_to_string :: "trace_prefix \<Rightarrow> string" where
  "trace_prefix_to_string p = port_id_str (tp_port_id p) @ ''/'' @ channel_id_str (tp_channel_id p)"

type_synonym trace_path = "trace_prefix list"

definition starts_with :: "trace_path \<Rightarrow> trace_prefix \<Rightarrow> bool" where
  "starts_with path p \<longleftrightarrow> path \<noteq> [] \<and> last path = p"

definition remove_prefix :: "trace_path \<Rightarrow> trace_prefix \<Rightarrow> trace_path" where
  "remove_prefix path p = (if starts_with path p then butlast path else path)"

definition add_prefix :: "trace_path \<Rightarrow> trace_prefix \<Rightarrow> trace_path" where
  "add_prefix path p = path @ [p]"

section \<open>Parsing and printing\<close>

text \<open>\<open>chunks_exact(2)\<close>.\<close>

fun chunks2 :: "'a list \<Rightarrow> ('a \<times> 'a) list" where
  "chunks2 (a # b # xs) = (a, b) # chunks2 xs"
| "chunks2 _ = []"

fun parse_trace_pairs :: "nat \<Rightarrow> (string \<times> string) list \<Rightarrow> (transfer_error, trace_path) result" where
  "parse_trace_pairs pos [] = Ok []"
| "parse_trace_pairs pos ((port, chan) # rest) =
     rbind (map_err (InvalidTracePortId pos) (port_id_from_str port)) (\<lambda>p.
     rbind (map_err (InvalidTraceChannelId pos) (channel_id_from_str chan)) (\<lambda>c.
     rbind (parse_trace_pairs (Suc pos) rest) (\<lambda>t.
       Ok (\<lparr>tp_port_id = p, tp_channel_id = c\<rparr> # t))))"

definition trace_path_of_parts :: "string list \<Rightarrow> (transfer_error, trace_path) result" where
  "trace_path_of_parts v =
     (if length v mod 2 \<noteq> 0 then Err (InvalidTraceLength (length v)) else parse_trace_pairs 0 (rev (chunks2 v)))"

definition trace_path_from_str :: "string \<Rightarrow> (transfer_error, trace_path) result" where
  "trace_path_from_str s =
     (let parts = split_on (CHR ''/'') s in
      trace_path_of_parts (if length parts = 1 \<and> all_whitespace (hd parts) then [] else parts))"

definition trace_path_to_string :: "trace_path \<Rightarrow> string" where
  "trace_path_to_string path = join_on (CHR ''/'') (map trace_prefix_to_string (rev path))"

record prefixed_denom =
  trace_path :: trace_path
  base_denom :: base_denom

definition remove_trace_prefix :: "trace_prefix \<Rightarrow> prefixed_denom \<Rightarrow> prefixed_denom" where
  "remove_trace_prefix p d = d\<lparr>trace_path := remove_prefix (trace_path d) p\<rparr>"

definition add_trace_prefix :: "trace_prefix \<Rightarrow> prefixed_denom \<Rightarrow> prefixed_denom" where
  "add_trace_prefix p d = d\<lparr>trace_path := add_prefix (trace_path d) p\<rparr>"

definition is_receiver_chain_source :: "port_id \<Rightarrow> channel_id \<Rightarrow> prefixed_denom \<Rightarrow> bool" where
  "is_receiver_chain_source port chan d \<longleftrightarrow> starts_with (trace_path d) \<lparr>tp_port_id = port, tp_channel_id = chan\<rparr>"

definition is_sender_chain_source :: "port_id \<Rightarrow> channel_id \<Rightarrow> prefixed_denom \<Rightarrow> bool" where
  "is_sender_chain_source port chan d \<longleftrightarrow> \<not> is_receiver_chain_source port chan d"

definition prefixed_denom_from_str :: "string \<Rightarrow> (transfer_error, prefixed_denom) result" where
  "prefixed_denom_from_str s =
     (let parts = split_on (CHR ''/'') s; last_part = last parts in
      if last_part = s then
        rbind (base_denom_from_str s) (\<lambda>b. Ok \<lparr>trace_path = [], base_denom = b\<rparr>)
      else
        rbind (base_denom_from_str last_part) (\<lambda>b.
        rbind (trace_path_of_parts (butlast parts)) (\<lambda>t.
          Ok \<lparr>trace_path = t, base_denom = b\<rparr>)))"

definition prefixed_denom_to_string :: "prefixed_denom \<Rightarrow> string" where
  "prefixed_denom_to_string d =
     (if trace_path d = [] then base_denom_str (base_denom d)
      else trace_path_to_string (trace_path d) @ ''/'' @ base_denom_str (base_denom d))"

record raw_denom_trace =
  rdt_path :: string
  rdt_base_denom :: string

definition denom_of_raw :: "raw_denom_trace \<Rightarrow> (transfer_error, prefixed_denom) result" where
  "denom_of_raw r =
     rbind (base_denom_from_str (rdt_base_denom r)) (\<lambda>b.
     rbind (trace_path_from_str (rdt_path r)) (\<lambda>t.
       Ok \<lparr>trace_path = t, base_denom = b\<rparr>))"

definition raw_of_denom :: "prefixed_denom \<Rightarrow> raw_denom_trace" where
  "raw_of_denom d = \<lparr>rdt_path = trace_path_to_string (trace_path d), rdt_base_denom = base_denom_str (base_denom d)\<rparr>"

section \<open>Properties\<close>

definition trace_prefix_wf :: "trace_prefix \<Rightarrow> bool" where
  "trace_prefix_wf p \<longleftrightarrow> port_id_wf (tp_port_id p) \<and> channel_id_wf (tp_channel_id p)"

definition prefixed_denom_wf :: "prefixed_denom \<Rightarrow> bool" where
  "prefixed_denom_wf d \<longleftrightarrow> list_all trace_prefix_wf (trace_path d) \<and> \<not> all_whitespace (base_denom_str (base_denom d))
     \<and> CHR ''/'' \<notin> set (base_denom_str (base_denom d))"

text \<open>The parts of a path, in the order of the text.\<close>

definition prefix_parts :: "trace_path \<Rightarrow> string list" where
  "prefix_parts path = concat (map (\<lambda>p. [port_id_str (tp_port_id p), channel_id_str (tp_channel_id p)]) (rev path))"

lemma chunks2_pairs: "chunks2 (concat (map (\<lambda>p. [f p, g p]) ps)) = map (\<lambda>p. (f p, g p)) ps"
  by (induction ps) auto

lemma concat_chunks2: "length v mod 2 = 0 \<Longrightarrow> concat (map (\<lambda>(a, b). [a, b]) (chunks2 v)) = v"
  by (induction v rule: chunks2.induct) auto

lemma even_parts: "length (concat (map (\<lambda>p. [f p, g p]) ps)) mod 2 = 0"
  by (induction ps) auto

lemma id_text_Ok:
  "port_id_from_str s = Ok p \<longleftrightarrow> port_id_wf p \<and> port_id_str p = s"
  "channel_id_from_str s = Ok c \<longleftrightarrow> channel_id_wf c \<and> channel_id_str c = s"
  by (cases p; cases c; auto simp: id_parsers id_wf_defs)+

lemma parse_trace_pairs_Ok:
  "parse_trace_pairs pos ps = Ok t \<longleftrightarrow>
     list_all trace_prefix_wf t \<and> ps = map (\<lambda>p. (port_id_str (tp_port_id p), channel_id_str (tp_channel_id p))) t"
proof (induction pos ps arbitrary: t rule: parse_trace_pairs.induct)
  case (2 pos port chan rest)
  show ?case
  proof (cases t)
    case (Cons p t')
    then show ?thesis by (cases p) (auto simp: 2 id_text_Ok trace_prefix_wf_def map_err_eq_Ok)
  qed (auto simp: map_err_eq_Ok)
qed auto

lemma trace_path_of_parts_Ok: "trace_path_of_parts v = Ok t \<longleftrightarrow> list_all trace_prefix_wf t \<and> v = prefix_parts t"
proof -
  let ?pair = "\<lambda>p. (port_id_str (tp_port_id p), channel_id_str (tp_channel_id p))"
  have "rev (chunks2 v) = map ?pair t \<longleftrightarrow> v = prefix_parts t" if "length v mod 2 = 0"
  proof
    assume "rev (chunks2 v) = map ?pair t"
    then have "chunks2 v = map ?pair (rev t)" by (metis rev_map rev_rev_ident)
    with concat_chunks2 [OF that] show "v = prefix_parts t" by (simp add: prefix_parts_def comp_def)
  qed (auto simp: prefix_parts_def chunks2_pairs rev_map)
  moreover have "length (prefix_parts t) mod 2 = 0" unfolding prefix_parts_def by (rule even_parts)
  ultimately show ?thesis by (auto simp: trace_path_of_parts_def parse_trace_pairs_Ok)
qed

lemma join_on_Cons: "xs \<noteq> [] \<Longrightarrow> join_on c (x # xs) = x @ c # join_on c xs"
  by (cases xs) simp_all

lemma join_on_pair: "join_on c ((a @ c # b) # xs) = join_on c (a # b # xs)"
  by (cases xs) simp_all

lemma join_on_cong: "join_on c xs = join_on c ys \<Longrightarrow> (xs = [] \<longleftrightarrow> ys = []) \<Longrightarrow> join_on c (x # xs) = join_on c (x # ys)"
  by (cases xs; cases ys) simp_all

lemma join_prefixes:
  "join_on (CHR ''/'') (map trace_prefix_to_string ps) =
     join_on (CHR ''/'') (concat (map (\<lambda>p. [port_id_str (tp_port_id p), channel_id_str (tp_channel_id p)]) ps))"
proof (induction ps)
  case (Cons p ps)
  let ?texts = "map trace_prefix_to_string ps"
    and ?parts = "concat (map (\<lambda>p. [port_id_str (tp_port_id p), channel_id_str (tp_channel_id p)]) ps)"
  have "join_on (CHR ''/'') (trace_prefix_to_string p # ?texts)
      = join_on (CHR ''/'') (port_id_str (tp_port_id p) # channel_id_str (tp_channel_id p) # ?texts)"
    unfolding trace_prefix_to_string_def append_Cons append_Nil by (rule join_on_pair)
  also have "\<dots> = join_on (CHR ''/'') (port_id_str (tp_port_id p) # channel_id_str (tp_channel_id p) # ?parts)"
    by (intro join_on_cong Cons) (auto simp: concat_eq_Nil_conv)
  finally show ?case by simp
qed simp

lemma join_on_snoc: "ss \<noteq> [] \<Longrightarrow> join_on c (ss @ [s]) = join_on c ss @ c # s"
  by (induction c ss rule: join_on.induct) auto

lemma trace_path_text: "trace_path_to_string t = join_on (CHR ''/'') (prefix_parts t)"
  by (simp add: trace_path_to_string_def prefix_parts_def join_prefixes)

lemma prefixed_denom_text:
  "prefixed_denom_to_string d = join_on (CHR ''/'') (prefix_parts (trace_path d) @ [base_denom_str (base_denom d)])"
proof (cases "trace_path d = []")
  case False
  then have "prefix_parts (trace_path d) \<noteq> []" by (simp add: prefix_parts_def)
  with False show ?thesis by (simp add: prefixed_denom_to_string_def trace_path_text join_on_snoc)
qed (simp add: prefixed_denom_to_string_def prefix_parts_def)

lemma prefix_parts_no_slash: "list_all trace_prefix_wf t \<Longrightarrow> \<forall>s \<in> set (prefix_parts t). CHR ''/'' \<notin> set s"
  by (auto simp: prefix_parts_def list_all_iff trace_prefix_wf_def id_no_slash)

lemma last_split_self: "last (split_on c s) = s \<longleftrightarrow> c \<notin> set s"
proof
  assume l: "last (split_on c s) = s"
  from split_on_parts [OF last_in_set [OF split_on_nonempty], of c s] l show "c \<notin> set s" by simp
qed simp

lemma prefixed_denom_from_str_Ok:
  "prefixed_denom_from_str s = Ok d \<longleftrightarrow> \<not> all_whitespace (base_denom_str (base_denom d))
     \<and> list_all trace_prefix_wf (trace_path d)
     \<and> split_on (CHR ''/'') s = prefix_parts (trace_path d) @ [base_denom_str (base_denom d)]"
proof (cases "CHR ''/'' \<in> set s")
  case True
  let ?parts = "split_on (CHR ''/'') s"
  have "?parts = xs @ [x] \<longleftrightarrow> butlast ?parts = xs \<and> last ?parts = x" for xs x
    by (metis append_butlast_last_id butlast_snoc last_snoc split_on_nonempty)
  note parts = this
  obtain t b where d: "d = \<lparr>trace_path = t, base_denom = BaseDenom b\<rparr>" by (cases d; cases "base_denom d") auto
  show ?thesis
    unfolding d parts using True
    by (auto simp: prefixed_denom_from_str_def Let_def last_split_self base_denom_from_str_def trace_path_of_parts_Ok)
next
  case False
  have parts: "[s] = prefix_parts t @ [b] \<longleftrightarrow> t = [] \<and> b = s" for t b
    by (cases t rule: rev_cases) (auto simp: prefix_parts_def)
  obtain t b where d: "d = \<lparr>trace_path = t, base_denom = BaseDenom b\<rparr>" by (cases d; cases "base_denom d") auto
  show ?thesis
    unfolding d split_on_single [OF False] parts using False
    by (auto simp: prefixed_denom_from_str_def Let_def base_denom_from_str_def)
qed

lemma denom_text_iff:
  "prefixed_denom_from_str s = Ok d \<longleftrightarrow> prefixed_denom_wf d \<and> prefixed_denom_to_string d = s"
proof -
  let ?parts = "prefix_parts (trace_path d) @ [base_denom_str (base_denom d)]"
  have "split_on (CHR ''/'') s = ?parts \<longleftrightarrow> CHR ''/'' \<notin> set (base_denom_str (base_denom d)) \<and> join_on (CHR ''/'') ?parts = s"
    if wf: "list_all trace_prefix_wf (trace_path d)"
  proof
    assume eq: "split_on (CHR ''/'') s = ?parts"
    have "base_denom_str (base_denom d) \<in> set (split_on (CHR ''/'') s)" by (simp add: eq)
    then have "CHR ''/'' \<notin> set (base_denom_str (base_denom d))" by (rule split_on_parts)
    moreover have "join_on (CHR ''/'') (split_on (CHR ''/'') s) = s" by simp
    ultimately show "CHR ''/'' \<notin> set (base_denom_str (base_denom d)) \<and> join_on (CHR ''/'') ?parts = s"
      unfolding eq by simp
  next
    assume "CHR ''/'' \<notin> set (base_denom_str (base_denom d)) \<and> join_on (CHR ''/'') ?parts = s"
    with prefix_parts_no_slash [OF wf] split_on_join [of ?parts "CHR ''/''"] show "split_on (CHR ''/'') s = ?parts" by auto
  qed
  then show ?thesis
    unfolding prefixed_denom_from_str_Ok prefixed_denom_wf_def prefixed_denom_text by blast
qed

interpretation denom_text: round_trip prefixed_denom_to_string prefixed_denom_from_str prefixed_denom_wf
  by unfold_locales (simp_all add: denom_text_iff)

text \<open>
  C35: the text of a denomination and its parser are inverse to each other: a text is parsed to a denomination exactly when that
  denomination is well formed (valid identifiers in the path, a base denomination that is not blank and has no slash) and has
  that text.
\<close>
theorem denom_text_exact:
  "prefixed_denom_from_str s = Ok d \<longleftrightarrow> prefixed_denom_wf d \<and> prefixed_denom_to_string d = s"
  by (rule denom_text_iff)

lemma trace_path_from_str_Ok:
  assumes "list_all trace_prefix_wf t"
  shows "trace_path_from_str (trace_path_to_string t) = Ok t"
proof (cases "t = []")
  case True
  then show ?thesis by (simp add: trace_path_from_str_def trace_path_to_string_def trace_path_of_parts_Ok prefix_parts_def)
next
  case False
  then have parts: "split_on (CHR ''/'') (trace_path_to_string t) = prefix_parts t" "length (prefix_parts t) \<noteq> 1"
    using prefix_parts_no_slash [OF assms] even_parts [of "\<lambda>p. port_id_str (tp_port_id p)" "\<lambda>p. channel_id_str (tp_channel_id p)" "rev t"]
    by (auto simp: trace_path_text prefix_parts_def intro!: split_on_join)
  with assms show ?thesis by (simp add: trace_path_from_str_def trace_path_of_parts_Ok)
qed

text \<open>The protobuf form loses nothing; here the base denomination may have slashes.\<close>

lemma denom_raw_round_trip:
  assumes "list_all trace_prefix_wf (trace_path d)" "\<not> all_whitespace (base_denom_str (base_denom d))"
  shows "denom_of_raw (raw_of_denom d) = Ok d"
  using assms by (simp add: denom_of_raw_def raw_of_denom_def base_denom_from_str_def trace_path_from_str_Ok)

text \<open>
  A token that returns through the channel it arrived on is recognised and unwrapped: once a chain has prefixed the denomination
  of a received token with its port and channel, the receiver at the other end of that channel counts as its source, on no
  other channel, and removing the prefix gives the denomination back; a denomination with another prefix is not changed.
\<close>
theorem denom_returns:
  "let p = \<lparr>tp_port_id = port, tp_channel_id = chan\<rparr>; received = add_trace_prefix p d in
     is_receiver_chain_source port chan received \<and> \<not> is_sender_chain_source port chan received
     \<and> (\<forall>port' chan'. is_receiver_chain_source port' chan' received \<longleftrightarrow> port' = port \<and> chan' = chan)
     \<and> remove_trace_prefix p received = d
     \<and> (\<forall>q. q \<noteq> p \<longrightarrow> remove_trace_prefix q received = received)
     \<and> prefixed_denom_to_string received = trace_prefix_to_string p @ ''/'' @ prefixed_denom_to_string d"
  by (auto simp: Let_def is_receiver_chain_source_def is_sender_chain_source_def starts_with_def add_trace_prefix_def
      add_prefix_def remove_trace_prefix_def remove_prefix_def prefixed_denom_text prefix_parts_def trace_prefix_to_string_def join_on_Cons)

end
