(* ===== verification/App_Events.thy ===== *)
theory App_Events
  imports Ics20_Denom
begin

text \<open>
  The events of applications: \<open>relayer-types/src/applications/transfer/coin.rs\<close> and \<open>amount.rs\<close>, the fee events of ICS-29
  (\<open>ics29_fee/events.rs\<close>) and the query event of ICS-31 (\<open>ics31_icq/events.rs\<close>), with their attributes.

  Amounts are values of the 256-bit integer of another crate, modelled by the natural numbers that they stand for. Its
  addition, decimal text and parser, the regular expression for coins and the parser of block heights are the parameter
  \<open>app_ops\<close>; \<open>app_laws\<close> states what their documentation says.
\<close>

type_synonym event_attribute = "string \<times> string"

section \<open>Coins\<close>

record raw_coin =
  coin_denom :: string
  coin_amount :: nat

record app_ops =
  u256_add :: "nat \<Rightarrow> nat \<Rightarrow> (unit, nat) result"
  u256_to_string :: "nat \<Rightarrow> string"
  u256_from_dec_str :: "string \<Rightarrow> nat option"
  coin_regex :: "string \<Rightarrow> (string \<times> string) option"
  block_height_from_str :: "string \<Rightarrow> u64 option"
  epoch_regex :: "string \<Rightarrow> string \<Rightarrow> bool"

definition is_denom_char :: "char \<Rightarrow> bool" where
  "is_denom_char c \<longleftrightarrow> is_alphanumeric c \<or> c \<in> set ''/:._-'' \<or> c = CHR 0x5C"

text \<open>The expression is a sequence of digits followed by a sequence of denomination characters; the digits are as many as
  possible.\<close>

definition app_laws :: "app_ops \<Rightarrow> bool" where
  "app_laws ops \<longleftrightarrow>
     (\<forall>a b. u256_add ops a b = (if a + b < 2 ^ 256 then Ok (a + b) else Panic))
     \<and> (\<forall>n < 2 ^ 256. u256_to_string ops n = dec_of_nat n)
     \<and> (\<forall>s n. u256_from_dec_str ops s = Some n \<longrightarrow> n < 2 ^ 256)
     \<and> (\<forall>n < 2 ^ 256. u256_from_dec_str ops (dec_of_nat n) = Some n)
     \<and> (\<forall>ds c cs. ds \<noteq> [] \<and> list_all is_digit ds \<and> \<not> is_digit c \<and> list_all is_denom_char (c # cs)
          \<longrightarrow> coin_regex ops (ds @ c # cs) = Some (ds, c # cs))
     \<and> (\<forall>c cs. \<not> is_digit c \<longrightarrow> coin_regex ops (c # cs) = None)
     \<and> coin_regex ops [] = None
     \<and> (\<forall>w. unat w < 2 ^ 63 \<longrightarrow> block_height_from_str ops (show_u64 w) = Some w)"

definition coin_to_string :: "app_ops \<Rightarrow> raw_coin \<Rightarrow> string" where
  "coin_to_string ops c = u256_to_string ops (coin_amount c) @ coin_denom c"

definition coin_from_str :: "app_ops \<Rightarrow> string \<Rightarrow> (transfer_error, raw_coin) result" where
  "coin_from_str ops s =
     rbind (ok_or (InvalidCoin s) (coin_regex ops s)) (\<lambda>(m1, m2).
     rbind (ok_or InvalidAmount (u256_from_dec_str ops m1)) (\<lambda>amount.
       Ok \<lparr>coin_denom = m2, coin_amount = amount\<rparr>))"

definition coins_from_string_list :: "app_ops \<Rightarrow> string \<Rightarrow> (transfer_error, raw_coin list) result" where
  "coins_from_string_list ops s = collect_results (map (coin_from_str ops) (split_on (CHR '','') s))"

definition coins_to_string :: "app_ops \<Rightarrow> raw_coin list \<Rightarrow> string" where
  "coins_to_string ops cs = join_on (CHR '','') (map (coin_to_string ops) cs)"

section \<open>Fee events\<close>

datatype fee_error =
    FeeTransfer transfer_error
  | FeeChannel string
  | FeeSigner
  | FeeIcs24 validation_error
  | EmptyFee
  | EventAttributeNotFound string

record incentivized_packet =
  ip_port_id :: port_id
  ip_channel_id :: channel_id
  ip_sequence :: u64
  ip_total_recv_fee :: "raw_coin list"
  ip_total_ack_fee :: "raw_coin list"
  ip_total_timeout_fee :: "raw_coin list"

definition find_value :: "string \<Rightarrow> event_attribute list \<Rightarrow> string option" where
  "find_value key entries = map_of entries key"

definition incentivized_attrs :: "app_ops \<Rightarrow> incentivized_packet \<Rightarrow> event_attribute list" where
  "incentivized_attrs ops e =
     [(''port_id'', port_id_str (ip_port_id e)), (''channel_id'', channel_id_str (ip_channel_id e)),
      (''packet_sequence'', show_u64 (ip_sequence e)), (''recv_fee'', coins_to_string ops (ip_total_recv_fee e)),
      (''ack_fee'', coins_to_string ops (ip_total_ack_fee e)), (''timeout_fee'', coins_to_string ops (ip_total_timeout_fee e))]"

definition fee_value :: "string \<Rightarrow> event_attribute list \<Rightarrow> (fee_error, string) result" where
  "fee_value key entries = ok_or (EventAttributeNotFound key) (find_value key entries)"

definition incentivized_of_attrs :: "app_ops \<Rightarrow> event_attribute list \<Rightarrow> (fee_error, incentivized_packet) result" where
  "incentivized_of_attrs ops entries =
     rbind (fee_value ''port_id'' entries) (\<lambda>port_str.
     rbind (fee_value ''channel_id'' entries) (\<lambda>chan_str.
     rbind (fee_value ''packet_sequence'' entries) (\<lambda>seq_str.
     rbind (fee_value ''recv_fee'' entries) (\<lambda>recv_str.
     rbind (fee_value ''ack_fee'' entries) (\<lambda>ack_str.
     rbind (fee_value ''timeout_fee'' entries) (\<lambda>timeout_str.
     rbind (map_err FeeIcs24 (port_id_from_str port_str)) (\<lambda>port.
     rbind (map_err FeeIcs24 (channel_id_from_str chan_str)) (\<lambda>chan.
     rbind (map_err FeeChannel (sequence_from_str seq_str)) (\<lambda>seq.
     rbind (map_err FeeTransfer (coins_from_string_list ops recv_str)) (\<lambda>recv.
     rbind (map_err FeeTransfer (coins_from_string_list ops ack_str)) (\<lambda>ack.
     rbind (map_err FeeTransfer (coins_from_string_list ops timeout_str)) (\<lambda>timeout.
       Ok \<lparr>ip_port_id = port, ip_channel_id = chan, ip_sequence = seq, ip_total_recv_fee = recv,
         ip_total_ack_fee = ack, ip_total_timeout_fee = timeout\<rparr>))))))))))))"

datatype distribution_type = Reward | Refund

fun distribution_type_to_string :: "distribution_type \<Rightarrow> string" where
  "distribution_type_to_string Reward = ''reward''"
| "distribution_type_to_string Refund = ''refund''"

definition distribution_type_from_str :: "string \<Rightarrow> (fee_error, distribution_type) result" where
  "distribution_type_from_str s =
     (if s = ''reward'' then Ok Reward else if s = ''refund'' then Ok Refund else Err EmptyFee)"

text \<open>\<open>Signer::from_str\<close>.\<close>

definition signer_from_str :: "string \<Rightarrow> (unit, string) result" where
  "signer_from_str s = (if all_whitespace s then Err () else Ok s)"

record distribute_fee_packet =
  df_receiver :: string
  df_fee :: raw_coin
  df_distribution_type :: distribution_type

text \<open>The attribute holds the denomination of the fee alone.\<close>

definition distribute_fee_attrs :: "distribute_fee_packet \<Rightarrow> event_attribute list" where
  "distribute_fee_attrs e =
     [(''receiver'', df_receiver e), (''fee'', coin_denom (df_fee e)),
      (''distribution_type'', distribution_type_to_string (df_distribution_type e))]"

definition distribute_fee_of_attrs :: "app_ops \<Rightarrow> event_attribute list \<Rightarrow> (fee_error, distribute_fee_packet) result" where
  "distribute_fee_of_attrs ops entries =
     rbind (fee_value ''receiver'' entries) (\<lambda>receiver_str.
     rbind (fee_value ''fee'' entries) (\<lambda>fee_str.
     rbind (fee_value ''distribution_type'' entries) (\<lambda>type_str.
     rbind (map_err (\<lambda>_. FeeSigner) (signer_from_str receiver_str)) (\<lambda>receiver.
     rbind (map_err FeeTransfer (coin_from_str ops fee_str)) (\<lambda>fee.
     rbind (distribution_type_from_str type_str) (\<lambda>t.
       Ok \<lparr>df_receiver = receiver, df_fee = fee, df_distribution_type = t\<rparr>))))))"

section \<open>Query events\<close>

datatype icq_error = IcqEvent string | IcqIcs24 validation_error | IcqTendermint

record cross_chain_query_packet =
  cq_module :: string
  cq_action :: string
  cq_query_id :: string
  cq_chain_id :: chain_id
  cq_connection_id :: connection_id
  cq_query_type :: string
  cq_height :: u64
  cq_request :: string

definition cross_chain_query_attrs :: "cross_chain_query_packet \<Rightarrow> event_attribute list" where
  "cross_chain_query_attrs p =
     [(''module'', cq_module p), (''action'', cq_action p), (''query_id'', cq_query_id p),
      (''chain_id'', chain_id_str (cq_chain_id p)), (''connection_id'', connection_id_str (cq_connection_id p)),
      (''type'', cq_query_type p), (''request'', cq_request p), (''height'', show_u64 (cq_height p))]"

definition icq_value :: "string \<Rightarrow> event_attribute list \<Rightarrow> (icq_error, string) result" where
  "icq_value key entries = ok_or (IcqEvent (''attribute not found for key: '' @ key)) (find_value key entries)"

definition cross_chain_query_of_attrs ::
  "app_ops \<Rightarrow> event_attribute list \<Rightarrow> (icq_error, cross_chain_query_packet) result" where
  "cross_chain_query_of_attrs ops entries =
     rbind (icq_value ''module'' entries) (\<lambda>modl.
     rbind (icq_value ''action'' entries) (\<lambda>action.
     rbind (icq_value ''query_id'' entries) (\<lambda>query_id.
     rbind (icq_value ''chain_id'' entries) (\<lambda>chain_str.
     rbind (icq_value ''connection_id'' entries) (\<lambda>conn_str.
     rbind (icq_value ''type'' entries) (\<lambda>query_type.
     rbind (icq_value ''request'' entries) (\<lambda>request.
     rbind (icq_value ''height'' entries) (\<lambda>height_str.
     rbind (map_err IcqIcs24 (connection_id_from_str conn_str)) (\<lambda>conn.
     rbind (ok_or IcqTendermint (block_height_from_str ops height_str)) (\<lambda>h.
       Ok \<lparr>cq_module = modl, cq_action = action, cq_query_id = query_id,
         cq_chain_id = chain_id_from_string (epoch_regex ops) chain_str, cq_connection_id = conn,
         cq_query_type = query_type, cq_height = h, cq_request = request\<rparr>))))))))))"

section \<open>Round trips\<close>

definition coin_wf :: "raw_coin \<Rightarrow> bool" where
  "coin_wf c \<longleftrightarrow> coin_amount c < 2 ^ 256 \<and> coin_denom c \<noteq> [] \<and> list_all is_denom_char (coin_denom c)
     \<and> \<not> is_digit (hd (coin_denom c))"

lemma coin_round_trip:
  assumes "app_laws ops" "coin_wf c"
  shows "coin_from_str ops (coin_to_string ops c) = Ok c"
proof -
  obtain x xs where x: "coin_denom c = x # xs" using assms(2) by (cases "coin_denom c") (auto simp: coin_wf_def)
  have "coin_regex ops (dec_of_nat (coin_amount c) @ x # xs) = Some (dec_of_nat (coin_amount c), x # xs)"
    using assms x dec_of_nat_digits [of "coin_amount c"]
    unfolding app_laws_def coin_wf_def by (auto simp: list_all_iff)
  with assms x show ?thesis
    by (cases c) (simp add: coin_from_str_def coin_to_string_def app_laws_def coin_wf_def)
qed

lemma coin_no_comma: "app_laws ops \<Longrightarrow> coin_wf c \<Longrightarrow> CHR '','' \<notin> set (coin_to_string ops c)"
  using dec_of_nat_digits [of "coin_amount c"]
  by (auto simp: coin_to_string_def coin_wf_def app_laws_def list_all_iff is_denom_char_def is_alphanumeric_def is_digit_def)

lemma coins_round_trip:
  assumes "app_laws ops" "cs \<noteq> []" "list_all coin_wf cs"
  shows "coins_from_string_list ops (coins_to_string ops cs) = Ok cs"
proof -
  have "split_on (CHR '','') (coins_to_string ops cs) = map (coin_to_string ops) cs"
    unfolding coins_to_string_def using assms coin_no_comma by (intro split_on_join) (auto simp: list_all_iff)
  moreover have "collect_results (map (coin_from_str ops \<circ> coin_to_string ops) cs) = Ok cs"
    using assms(1,3) by (induction cs) (auto simp: coin_round_trip)
  ultimately show ?thesis by (simp add: coins_from_string_list_def)
qed

definition incentivized_wf :: "incentivized_packet \<Rightarrow> bool" where
  "incentivized_wf p \<longleftrightarrow> port_id_wf (ip_port_id p) \<and> channel_id_wf (ip_channel_id p)
     \<and> (\<forall>cs \<in> {ip_total_recv_fee p, ip_total_ack_fee p, ip_total_timeout_fee p}. cs \<noteq> [] \<and> list_all coin_wf cs)"

text \<open>An incentivized packet survives its attributes when none of its fee lists is empty.\<close>

lemma incentivized_round_trip:
  assumes "app_laws ops" "incentivized_wf p"
  shows "incentivized_of_attrs ops (incentivized_attrs ops p) = Ok p"
  using assms
  by (cases p) (simp add: incentivized_of_attrs_def incentivized_attrs_def fee_value_def find_value_def incentivized_wf_def
      coins_round_trip sequence_from_str_def port_id_text.decode_encode channel_id_text.decode_encode)

text \<open>An empty fee list is written as the empty text, which is not a list of coins.\<close>

lemma empty_fees_rejected:
  "app_laws ops \<Longrightarrow> coins_from_string_list ops (coins_to_string ops []) = Err (InvalidCoin [])"
  by (simp add: coins_from_string_list_def coins_to_string_def coin_from_str_def app_laws_def)

text \<open>A fee distribution is written without the amount of its fee and never read back.\<close>

lemma distribute_fee_rejected:
  assumes "app_laws ops" "coin_wf (df_fee e)" "\<not> all_whitespace (df_receiver e)"
  shows "distribute_fee_of_attrs ops (distribute_fee_attrs e) = Err (FeeTransfer (InvalidCoin (coin_denom (df_fee e))))"
proof -
  obtain x xs where "coin_denom (df_fee e) = x # xs" "\<not> is_digit x"
    using assms(2) by (cases "coin_denom (df_fee e)") (auto simp: coin_wf_def)
  with assms(1,3) show ?thesis
    by (simp add: distribute_fee_of_attrs_def distribute_fee_attrs_def fee_value_def find_value_def signer_from_str_def
        coin_from_str_def app_laws_def)
qed

text \<open>Operations that follow the documentation, for the witnesses.\<close>

definition sample_app_ops :: app_ops where
  "sample_app_ops = \<lparr>u256_add = (\<lambda>a b. if a + b < 2 ^ 256 then Ok (a + b) else Panic),
     u256_to_string = dec_of_nat,
     u256_from_dec_str = (\<lambda>s. case parse_digits 0 s of None \<Rightarrow> None | Some n \<Rightarrow> if n < 2 ^ 256 then Some n else None),
     coin_regex = (\<lambda>s. let ds = takeWhile is_digit s; rest = dropWhile is_digit s in
       if ds \<noteq> [] \<and> rest \<noteq> [] \<and> list_all is_denom_char rest then Some (ds, rest) else None),
     block_height_from_str = parse_u64, epoch_regex = (\<lambda>_ _. False)\<rparr>"

lemma sample_app_laws: "app_laws sample_app_ops"
proof -
  have "takeWhile is_digit (ds @ c # cs) = ds \<and> dropWhile is_digit (ds @ c # cs) = c # cs"
    if "list_all is_digit ds" "\<not> is_digit c" for ds c cs
    using that by (auto simp: list_all_iff takeWhile_append dropWhile_append)
  then show ?thesis
    by (auto simp: app_laws_def sample_app_ops_def Let_def split: option.splits if_splits)
qed

end
