(* ===== verification/Ibc_Events.thy ===== *)
theory Ibc_Events
  imports Ics04_Packet Ics04_Channel App_Events
begin

text \<open>
  \<open>relayer-types/src/events.rs\<close> with the event payloads of \<open>core/ics02_client/events.rs\<close>,
  \<open>core/ics03_connection/events.rs\<close> and \<open>core/ics04_channel/events.rs\<close>, and \<open>IbcEventWithHeight\<close> of
  \<open>relayer/src/event.rs\<close>. The payloads of the fee and cross-chain query events are kept as their
  attribute lists, and a client header as its encoded bytes.
\<close>

section \<open>Event types\<close>

datatype ibc_event_type =
    NewBlockType | CreateClientType | UpdateClientType | UpgradeClientType | ClientMisbehaviourType
  | OpenInitConnectionType | OpenTryConnectionType | OpenAckConnectionType | OpenConfirmConnectionType
  | OpenInitChannelType | OpenTryChannelType | OpenAckChannelType | OpenConfirmChannelType
  | CloseInitChannelType | CloseConfirmChannelType
  | SendPacketType | ReceivePacketType | WriteAckType | AckPacketType | TimeoutType | TimeoutOnCloseType
  | IncentivizedPacketType | CrossChainQueryType | AppModuleType | EmptyType | ChainErrorType
  | DistributionFeeType

fun event_type_as_str :: "ibc_event_type \<Rightarrow> string" where
  "event_type_as_str NewBlockType = ''new_block''"
| "event_type_as_str CreateClientType = ''create_client''"
| "event_type_as_str UpdateClientType = ''update_client''"
| "event_type_as_str UpgradeClientType = ''upgrade_client''"
| "event_type_as_str ClientMisbehaviourType = ''client_misbehaviour''"
| "event_type_as_str OpenInitConnectionType = ''connection_open_init''"
| "event_type_as_str OpenTryConnectionType = ''connection_open_try''"
| "event_type_as_str OpenAckConnectionType = ''connection_open_ack''"
| "event_type_as_str OpenConfirmConnectionType = ''connection_open_confirm''"
| "event_type_as_str OpenInitChannelType = ''channel_open_init''"
| "event_type_as_str OpenTryChannelType = ''channel_open_try''"
| "event_type_as_str OpenAckChannelType = ''channel_open_ack''"
| "event_type_as_str OpenConfirmChannelType = ''channel_open_confirm''"
| "event_type_as_str CloseInitChannelType = ''channel_close_init''"
| "event_type_as_str CloseConfirmChannelType = ''channel_close_confirm''"
| "event_type_as_str SendPacketType = ''send_packet''"
| "event_type_as_str ReceivePacketType = ''receive_packet''"
| "event_type_as_str WriteAckType = ''write_acknowledgement''"
| "event_type_as_str AckPacketType = ''acknowledge_packet''"
| "event_type_as_str TimeoutType = ''timeout_packet''"
| "event_type_as_str TimeoutOnCloseType = ''timeout_packet_on_close''"
| "event_type_as_str IncentivizedPacketType = ''incentivized_ibc_packet''"
| "event_type_as_str CrossChainQueryType = ''cross_chain_query''"
| "event_type_as_str AppModuleType = ''app_module''"
| "event_type_as_str EmptyType = ''empty''"
| "event_type_as_str ChainErrorType = ''chain_error''"
| "event_type_as_str DistributionFeeType = ''distribute_fee''"

text \<open>The arms of the \<open>match\<close> in \<open>FromStr\<close>, in order; there is none for module events.\<close>

definition event_type_arms :: "ibc_event_type list" where
  "event_type_arms =
     [NewBlockType, CreateClientType, UpdateClientType, UpgradeClientType, ClientMisbehaviourType,
      OpenInitConnectionType, OpenTryConnectionType, OpenAckConnectionType, OpenConfirmConnectionType,
      OpenInitChannelType, OpenTryChannelType, OpenAckChannelType, OpenConfirmChannelType,
      CloseInitChannelType, CloseConfirmChannelType, SendPacketType, ReceivePacketType, WriteAckType,
      AckPacketType, TimeoutType, TimeoutOnCloseType, IncentivizedPacketType, CrossChainQueryType,
      EmptyType, ChainErrorType, DistributionFeeType]"

definition event_type_from_str :: "string \<Rightarrow> (string, ibc_event_type) result" where
  "event_type_from_str s = ok_or s (List.find (\<lambda>t. event_type_as_str t = s) event_type_arms)"

section \<open>Event payloads\<close>

record client_attributes =
  ca_client_id :: client_id
  ca_client_type :: client_type
  ca_consensus_height :: height

record connection_attributes =
  na_connection_id :: "connection_id option"
  na_client_id :: client_id
  na_counterparty_connection_id :: "connection_id option"
  na_counterparty_client_id :: client_id

record channel_attributes =
  ha_port_id :: port_id
  ha_channel_id :: "channel_id option"
  ha_connection_id :: connection_id
  ha_counterparty_port_id :: port_id
  ha_counterparty_channel_id :: "channel_id option"

record close_init =
  ci_port_id :: port_id
  ci_channel_id :: channel_id
  ci_connection_id :: connection_id
  ci_counterparty_port_id :: port_id
  ci_counterparty_channel_id :: "channel_id option"

type_synonym header = "byte list"

record module_event =
  me_kind :: string
  me_module_name :: string
  me_attributes :: "event_attribute list"

text \<open>\<open>char::is_whitespace\<close> on ASCII; a string trims to the empty one when it holds nothing else.\<close>

definition is_whitespace :: "char \<Rightarrow> bool" where
  "is_whitespace c \<longleftrightarrow> byte_in 9 13 c \<or> byte_in 32 32 c"

definition module_id_new :: "string \<Rightarrow> (unit, string) result" where
  "module_id_new s = (if \<not> list_all is_whitespace s \<and> list_all is_alphanumeric s then Ok s else Err ())"

datatype ibc_event =
    NewBlock height
  | CreateClient client_attributes
  | UpdateClient (common: client_attributes) (uc_header: "header option")
  | UpgradeClient client_attributes
  | ClientMisbehaviour client_attributes
  | OpenInitConnection connection_attributes
  | OpenTryConnection connection_attributes
  | OpenAckConnection connection_attributes
  | OpenConfirmConnection connection_attributes
  | OpenInitChannel channel_attributes
  | OpenTryChannel channel_attributes
  | OpenAckChannel channel_attributes
  | OpenConfirmChannel channel_attributes
  | CloseInitChannel close_init
  | CloseConfirmChannel channel_attributes
  | SendPacket packet
  | ReceivePacket packet
  | WriteAcknowledgement packet (wa_ack: "byte list")
  | AcknowledgePacket packet
  | TimeoutPacket packet
  | TimeoutOnClosePacket packet
  | IncentivizedPacket incentivized_packet
  | CrossChainQueryPacket cross_chain_query_packet
  | DistributeFeePacket distribute_fee_packet
  | AppModule module_event
  | ChainError string

fun event_type :: "ibc_event \<Rightarrow> ibc_event_type" where
  "event_type (NewBlock _) = NewBlockType"
| "event_type (CreateClient _) = CreateClientType"
| "event_type (UpdateClient _ _) = UpdateClientType"
| "event_type (ClientMisbehaviour _) = ClientMisbehaviourType"
| "event_type (UpgradeClient _) = UpgradeClientType"
| "event_type (OpenInitConnection _) = OpenInitConnectionType"
| "event_type (OpenTryConnection _) = OpenTryConnectionType"
| "event_type (OpenAckConnection _) = OpenAckConnectionType"
| "event_type (OpenConfirmConnection _) = OpenConfirmConnectionType"
| "event_type (OpenInitChannel _) = OpenInitChannelType"
| "event_type (OpenTryChannel _) = OpenTryChannelType"
| "event_type (OpenAckChannel _) = OpenAckChannelType"
| "event_type (OpenConfirmChannel _) = OpenConfirmChannelType"
| "event_type (CloseInitChannel _) = CloseInitChannelType"
| "event_type (CloseConfirmChannel _) = CloseConfirmChannelType"
| "event_type (SendPacket _) = SendPacketType"
| "event_type (ReceivePacket _) = ReceivePacketType"
| "event_type (WriteAcknowledgement _ _) = WriteAckType"
| "event_type (AcknowledgePacket _) = AckPacketType"
| "event_type (TimeoutPacket _) = TimeoutType"
| "event_type (TimeoutOnClosePacket _) = TimeoutOnCloseType"
| "event_type (IncentivizedPacket _) = IncentivizedPacketType"
| "event_type (CrossChainQueryPacket _) = CrossChainQueryType"
| "event_type (DistributeFeePacket _) = DistributionFeeType"
| "event_type (AppModule _) = AppModuleType"
| "event_type (ChainError _) = ChainErrorType"

fun event_channel_attributes :: "ibc_event \<Rightarrow> channel_attributes option" where
  "event_channel_attributes (OpenInitChannel ev) = Some ev"
| "event_channel_attributes (OpenTryChannel ev) = Some ev"
| "event_channel_attributes (OpenAckChannel ev) = Some ev"
| "event_channel_attributes (OpenConfirmChannel ev) = Some ev"
| "event_channel_attributes _ = None"

fun event_connection_attributes :: "ibc_event \<Rightarrow> connection_attributes option" where
  "event_connection_attributes (OpenInitConnection ev) = Some ev"
| "event_connection_attributes (OpenTryConnection ev) = Some ev"
| "event_connection_attributes (OpenAckConnection ev) = Some ev"
| "event_connection_attributes (OpenConfirmConnection ev) = Some ev"
| "event_connection_attributes _ = None"

fun event_packet :: "ibc_event \<Rightarrow> packet option" where
  "event_packet (SendPacket p) = Some p"
| "event_packet (ReceivePacket p) = Some p"
| "event_packet (WriteAcknowledgement p _) = Some p"
| "event_packet (AcknowledgePacket p) = Some p"
| "event_packet (TimeoutPacket p) = Some p"
| "event_packet (TimeoutOnClosePacket p) = Some p"
| "event_packet _ = None"

fun event_ack :: "ibc_event \<Rightarrow> byte list option" where
  "event_ack (WriteAcknowledgement _ a) = Some a"
| "event_ack _ = None"

record ibc_event_with_height =
  event :: ibc_event
  ev_height :: height
  tx_hash :: "byte list"

definition event_new :: "ibc_event \<Rightarrow> height \<Rightarrow> ibc_event_with_height" where
  "event_new ev h = \<lparr>event = ev, ev_height = h, tx_hash = replicate 32 (CHR 0x00)\<rparr>"

definition with_height :: "ibc_event_with_height \<Rightarrow> height \<Rightarrow> ibc_event_with_height" where
  "with_height ev h = \<lparr>event = event ev, ev_height = h, tx_hash = tx_hash ev\<rparr>"

section \<open>Properties\<close>

text \<open>The name of every event type parses back to it, except the name of module events, which no
  parse returns; hence no two event types share a name.\<close>

theorem event_type_round_trip:
  "event_type_from_str (event_type_as_str t) =
     (if t = AppModuleType then Err ''app_module'' else Ok t)"
  by (cases t) (simp_all add: event_type_from_str_def event_type_arms_def)

lemma event_type_from_str_Ok: "event_type_from_str s = Ok t \<Longrightarrow> event_type_as_str t = s"
  by (auto simp: event_type_from_str_def find_Some_iff)

end
