(* ===== verification/Abci_Events.thy ===== *)
theory Abci_Events
  imports Ibc_Events
begin

text \<open>
  The ABCI form of IBC events: the conversions of \<open>relayer-types/src/events.rs\<close> and of the event modules
  of ICS 02, 03 and 04 into \<open>abci::Event\<close>, and the decoders of \<open>relayer/src/event.rs\<close>. The decoding
  of a header (crates \<open>hex\<close> and \<open>prost\<close>) and the operations of \<open>App_Events\<close> are the parameter record
  \<open>decoders\<close>; the encoding of a header is the parameter \<open>encode_header\<close>.
\<close>

section \<open>Encoding\<close>

record abci_event =
  kind :: string
  attributes :: "event_attribute list"

datatype abci_error =
    IncorrectEventType ibc_event
  | MalformedModuleEvent module_event
  | UnsupportedAbciEvent string
  | ClientErr string
  | ConnectionErr validation_error
  | ChannelIdErr validation_error
  | InvalidStringAsSequence string
  | AbciInvalidTimeoutHeight
  | AbciConversionFailed string
  | ImplementationSpecific
  | FeeErr fee_error
  | CrossChainQueryErr icq_error
  | OtherErr string

definition client_attrs_encode :: "client_attributes \<Rightarrow> event_attribute list" where
  "client_attrs_encode a =
     [(''client_id'', client_id_str (ca_client_id a)),
      (''client_type'', client_type_as_str (ca_client_type a)),
      (''consensus_height'', height_to_string (ca_consensus_height a))]"

fun opt_attr :: "string \<Rightarrow> string option \<Rightarrow> event_attribute list" where
  "opt_attr k None = []"
| "opt_attr k (Some v) = [(k, v)]"

definition connection_attrs_encode :: "connection_attributes \<Rightarrow> event_attribute list" where
  "connection_attrs_encode a =
     opt_attr ''connection_id'' (map_option connection_id_str (na_connection_id a))
     @ [(''client_id'', client_id_str (na_client_id a))]
     @ opt_attr ''counterparty_connection_id''
         (map_option connection_id_str (na_counterparty_connection_id a))
     @ [(''counterparty_client_id'', client_id_str (na_counterparty_client_id a))]"

definition channel_attrs_encode :: "channel_attributes \<Rightarrow> event_attribute list" where
  "channel_attrs_encode a =
     [(''port_id'', port_id_str (ha_port_id a))]
     @ opt_attr ''channel_id'' (map_option channel_id_str (ha_channel_id a))
     @ [(''connection_id'', connection_id_str (ha_connection_id a)),
        (''counterparty_port_id'', port_id_str (ha_counterparty_port_id a))]
     @ opt_attr ''counterparty_channel_id'' (map_option channel_id_str (ha_counterparty_channel_id a))"

definition from_utf8_expect :: "byte list \<Rightarrow> ('e, string) result" where
  "from_utf8_expect bs = (if utf8_valid bs then Ok bs else Panic)"

definition packet_attrs_encode :: "packet \<Rightarrow> (abci_error, event_attribute list) result" where
  "packet_attrs_encode p =
     rbind (nanoseconds (timeout_timestamp p)) (\<lambda>ts.
     rbind (from_utf8_expect (data p)) (\<lambda>val.
       Ok [(''packet_src_port'', port_id_str (source_port p)),
           (''packet_src_channel'', channel_id_str (source_channel p)),
           (''packet_dst_port'', port_id_str (destination_port p)),
           (''packet_dst_channel'', channel_id_str (destination_channel p)),
           (''packet_sequence'', show_u64 (sequence p)),
           (''packet_timeout_height'', to_event_attribute_value (timeout_height p)),
           (''packet_timeout_timestamp'', show_u64 ts),
           (''packet_data'', val),
           (''packet_ack'', [])]))"

definition close_init_attrs :: "close_init \<Rightarrow> channel_attributes" where
  "close_init_attrs c = \<lparr>ha_port_id = ci_port_id c, ha_channel_id = Some (ci_channel_id c),
     ha_connection_id = ci_connection_id c, ha_counterparty_port_id = ci_counterparty_port_id c,
     ha_counterparty_channel_id = ci_counterparty_channel_id c\<rparr>"

definition mk_event :: "ibc_event_type \<Rightarrow> event_attribute list \<Rightarrow> abci_event" where
  "mk_event t as = \<lparr>kind = event_type_as_str t, attributes = as\<rparr>"

definition module_event_to_abci :: "module_event \<Rightarrow> (abci_error, abci_event) result" where
  "module_event_to_abci e =
     (case event_type_from_str (me_kind e) of
        Ok _ \<Rightarrow> Err (MalformedModuleEvent e)
      | _ \<Rightarrow> Ok \<lparr>kind = me_kind e, attributes = me_attributes e\<rparr>)"

fun event_to_abci :: "app_ops \<Rightarrow> (header \<Rightarrow> string) \<Rightarrow> ibc_event \<Rightarrow> (abci_error, abci_event) result" where
  "event_to_abci ops enc (CreateClient a) = Ok (mk_event CreateClientType (client_attrs_encode a))"
| "event_to_abci ops enc (UpdateClient a h) =
     Ok (mk_event UpdateClientType (client_attrs_encode a @ opt_attr ''header'' (map_option enc h)))"
| "event_to_abci ops enc (UpgradeClient a) = Ok (mk_event UpgradeClientType (client_attrs_encode a))"
| "event_to_abci ops enc (ClientMisbehaviour a) =
     Ok (mk_event ClientMisbehaviourType (client_attrs_encode a))"
| "event_to_abci ops enc (OpenInitConnection a) =
     Ok (mk_event OpenInitConnectionType (connection_attrs_encode a))"
| "event_to_abci ops enc (OpenTryConnection a) =
     Ok (mk_event OpenTryConnectionType (connection_attrs_encode a))"
| "event_to_abci ops enc (OpenAckConnection a) =
     Ok (mk_event OpenAckConnectionType (connection_attrs_encode a))"
| "event_to_abci ops enc (OpenConfirmConnection a) =
     Ok (mk_event OpenConfirmConnectionType (connection_attrs_encode a))"
| "event_to_abci ops enc (OpenInitChannel a) = Ok (mk_event OpenInitChannelType (channel_attrs_encode a))"
| "event_to_abci ops enc (OpenTryChannel a) = Ok (mk_event OpenTryChannelType (channel_attrs_encode a))"
| "event_to_abci ops enc (OpenAckChannel a) = Ok (mk_event OpenAckChannelType (channel_attrs_encode a))"
| "event_to_abci ops enc (OpenConfirmChannel a) =
     Ok (mk_event OpenConfirmChannelType (channel_attrs_encode a))"
| "event_to_abci ops enc (CloseInitChannel c) =
     Ok (mk_event CloseInitChannelType (channel_attrs_encode (close_init_attrs c)))"
| "event_to_abci ops enc (CloseConfirmChannel a) =
     Ok (mk_event CloseConfirmChannelType (channel_attrs_encode a))"
| "event_to_abci ops enc (SendPacket p) = map_ok (mk_event SendPacketType) (packet_attrs_encode p)"
| "event_to_abci ops enc (ReceivePacket p) = map_ok (mk_event ReceivePacketType) (packet_attrs_encode p)"
| "event_to_abci ops enc (WriteAcknowledgement p a) =
     rbind (packet_attrs_encode p) (\<lambda>as.
     rbind (from_utf8_expect a) (\<lambda>val. Ok (mk_event WriteAckType (as @ [(''packet_ack'', val)]))))"
| "event_to_abci ops enc (AcknowledgePacket p) = map_ok (mk_event AckPacketType) (packet_attrs_encode p)"
| "event_to_abci ops enc (TimeoutPacket p) = map_ok (mk_event TimeoutType) (packet_attrs_encode p)"
| "event_to_abci ops enc (TimeoutOnClosePacket p) =
     map_ok (mk_event TimeoutOnCloseType) (packet_attrs_encode p)"
| "event_to_abci ops enc (IncentivizedPacket p) = Ok (mk_event IncentivizedPacketType (incentivized_attrs ops p))"
| "event_to_abci ops enc (CrossChainQueryPacket p) = Ok \<lparr>kind = ''message'', attributes = cross_chain_query_attrs p\<rparr>"
| "event_to_abci ops enc (DistributeFeePacket p) = Ok (mk_event DistributionFeeType (distribute_fee_attrs p))"
| "event_to_abci ops enc (AppModule e) = module_event_to_abci e"
| "event_to_abci ops enc (NewBlock h) = Err (IncorrectEventType (NewBlock h))"
| "event_to_abci ops enc (ChainError s) = Err (IncorrectEventType (ChainError s))"

section \<open>Decoding\<close>

definition client_id_default :: client_id where
  "client_id_default = ClientId ''07-tendermint-0''"

definition connection_id_default :: connection_id where
  "connection_id_default = ConnectionId ''connection-0''"

definition port_id_default :: port_id where
  "port_id_default = PortId ''defaultPort''"

definition channel_id_default :: channel_id where
  "channel_id_default = ChannelId ''channel-0''"

definition client_attributes_default :: client_attributes where
  "client_attributes_default = \<lparr>ca_client_id = client_id_default, ca_client_type = Tendermint,
     ca_consensus_height = Height 0 1\<rparr>"

definition connection_attributes_default :: connection_attributes where
  "connection_attributes_default = \<lparr>na_connection_id = None, na_client_id = client_id_default,
     na_counterparty_connection_id = None, na_counterparty_client_id = client_id_default\<rparr>"

definition channel_attributes_default :: channel_attributes where
  "channel_attributes_default = \<lparr>ha_port_id = port_id_default, ha_channel_id = None,
     ha_connection_id = connection_id_default, ha_counterparty_port_id = port_id_default,
     ha_counterparty_channel_id = None\<rparr>"

definition packet_default :: packet where
  "packet_default = \<lparr>sequence = 0, source_port = port_id_default, source_channel = channel_id_default,
     destination_port = port_id_default, destination_channel = channel_id_default, data = [],
     timeout_height = Never, timeout_timestamp = timestamp_none\<rparr>"

text \<open>Each extractor is a loop over the attributes; these are its bodies.\<close>

definition client_tag :: "event_attribute \<Rightarrow> client_attributes \<Rightarrow> (abci_error, client_attributes) result" where
  "client_tag tag a = (case tag of (key, val) \<Rightarrow>
     if key = ''client_id'' then
       map_ok (\<lambda>i. a\<lparr>ca_client_id := i\<rparr>) (map_err (\<lambda>_. ClientErr val) (client_id_from_str val))
     else if key = ''client_type'' then
       map_ok (\<lambda>t. a\<lparr>ca_client_type := t\<rparr>) (map_err ClientErr (client_type_from_str val))
     else if key = ''consensus_height'' then
       map_ok (\<lambda>h. a\<lparr>ca_consensus_height := h\<rparr>) (map_err (\<lambda>_. ClientErr val) (height_try_from val))
     else Ok a)"

definition client_extract_attributes_from_tx :: "abci_event \<Rightarrow> (abci_error, client_attributes) result" where
  "client_extract_attributes_from_tx e = fold_results client_tag (attributes e) client_attributes_default"

fun find_header :: "(string \<Rightarrow> header option) \<Rightarrow> event_attribute list \<Rightarrow> header option" where
  "find_header dec [] = None"
| "find_header dec ((key, val) # tags) = (if key = ''header'' then dec val else find_header dec tags)"

definition extract_header_from_tx :: "(string \<Rightarrow> header option) \<Rightarrow> abci_event \<Rightarrow> header option" where
  "extract_header_from_tx dec e = find_header dec (attributes e)"

definition connection_tag ::
  "event_attribute \<Rightarrow> connection_attributes \<Rightarrow> (abci_error, connection_attributes) result" where
  "connection_tag tag a = (case tag of (key, val) \<Rightarrow>
     if key = ''connection_id'' then Ok (a\<lparr>na_connection_id := ok_option (connection_id_from_str val)\<rparr>)
     else if key = ''client_id'' then
       map_ok (\<lambda>i. a\<lparr>na_client_id := i\<rparr>) (map_err ConnectionErr (client_id_from_str val))
     else if key = ''counterparty_connection_id'' then
       Ok (a\<lparr>na_counterparty_connection_id := ok_option (connection_id_from_str val)\<rparr>)
     else if key = ''counterparty_client_id'' then
       map_ok (\<lambda>i. a\<lparr>na_counterparty_client_id := i\<rparr>) (map_err ConnectionErr (client_id_from_str val))
     else Ok a)"

definition connection_extract_attributes_from_tx ::
  "abci_event \<Rightarrow> (abci_error, connection_attributes) result" where
  "connection_extract_attributes_from_tx e =
     fold_results connection_tag (attributes e) connection_attributes_default"

definition channel_tag ::
  "event_attribute \<Rightarrow> channel_attributes \<Rightarrow> (abci_error, channel_attributes) result" where
  "channel_tag tag a = (case tag of (key, val) \<Rightarrow>
     if key = ''port_id'' then
       map_ok (\<lambda>i. a\<lparr>ha_port_id := i\<rparr>) (map_err ChannelIdErr (port_id_from_str val))
     else if key = ''channel_id'' then Ok (a\<lparr>ha_channel_id := ok_option (channel_id_from_str val)\<rparr>)
     else if key = ''connection_id'' then
       map_ok (\<lambda>i. a\<lparr>ha_connection_id := i\<rparr>) (map_err ChannelIdErr (connection_id_from_str val))
     else if key = ''counterparty_port_id'' then
       map_ok (\<lambda>i. a\<lparr>ha_counterparty_port_id := i\<rparr>) (map_err ChannelIdErr (port_id_from_str val))
     else if key = ''counterparty_channel_id'' then
       Ok (a\<lparr>ha_counterparty_channel_id := ok_option (channel_id_from_str val)\<rparr>)
     else Ok a)"

definition channel_extract_attributes_from_tx :: "abci_event \<Rightarrow> (abci_error, channel_attributes) result" where
  "channel_extract_attributes_from_tx e =
     fold_results channel_tag (attributes e) channel_attributes_default"

definition close_init_of_attrs :: "channel_attributes \<Rightarrow> (abci_error, close_init) result" where
  "close_init_of_attrs a = (case ha_channel_id a of
       Some c \<Rightarrow> Ok \<lparr>ci_port_id = ha_port_id a, ci_channel_id = c, ci_connection_id = ha_connection_id a,
                   ci_counterparty_port_id = ha_counterparty_port_id a,
                   ci_counterparty_channel_id = ha_counterparty_channel_id a\<rparr>
     | None \<Rightarrow> Err ImplementationSpecific)"

definition parse_timeout_height :: "string \<Rightarrow> (abci_error, timeout_height) result" where
  "parse_timeout_height s = (case height_try_from s of
       Ok h \<Rightarrow> Ok (At h)
     | Err ZeroHeight \<Rightarrow> Ok Never
     | Err (HeightConversion _) \<Rightarrow> Err AbciInvalidTimeoutHeight
     | Panic \<Rightarrow> Panic
     | Hang \<Rightarrow> Hang)"

definition packet_tag ::
  "event_attribute \<Rightarrow> packet \<times> byte list \<Rightarrow> (abci_error, packet \<times> byte list) result" where
  "packet_tag tag acc = (case tag of (key, val) \<Rightarrow> case acc of (p, ack) \<Rightarrow>
     if key = ''packet_src_port'' then
       map_ok (\<lambda>i. (p\<lparr>source_port := i\<rparr>, ack)) (map_err ChannelIdErr (port_id_from_str val))
     else if key = ''packet_src_channel'' then
       map_ok (\<lambda>i. (p\<lparr>source_channel := i\<rparr>, ack)) (map_err ChannelIdErr (channel_id_from_str val))
     else if key = ''packet_dst_port'' then
       map_ok (\<lambda>i. (p\<lparr>destination_port := i\<rparr>, ack)) (map_err ChannelIdErr (port_id_from_str val))
     else if key = ''packet_dst_channel'' then
       map_ok (\<lambda>i. (p\<lparr>destination_channel := i\<rparr>, ack)) (map_err ChannelIdErr (channel_id_from_str val))
     else if key = ''packet_sequence'' then
       map_ok (\<lambda>s. (p\<lparr>sequence := s\<rparr>, ack)) (ok_or (InvalidStringAsSequence val) (parse_u64 val))
     else if key = ''packet_timeout_height'' then
       map_ok (\<lambda>h. (p\<lparr>timeout_height := h\<rparr>, ack)) (parse_timeout_height val)
     else if key = ''packet_timeout_timestamp'' then
       map_ok (\<lambda>t. (p\<lparr>timeout_timestamp := t\<rparr>, ack)) (unwrap (timestamp_from_str val))
     else if key = ''packet_data'' then Ok (p\<lparr>data := val\<rparr>, ack)
     else if key = ''packet_ack'' then Ok (p, val)
     else Ok (p, ack))"

definition extract_packet_and_write_ack_from_tx ::
  "abci_event \<Rightarrow> (abci_error, packet \<times> byte list) result" where
  "extract_packet_and_write_ack_from_tx e = fold_results packet_tag (attributes e) (packet_default, [])"

text \<open>The parts of the decoders that other crates provide.\<close>

record decoders =
  decode_header :: "string \<Rightarrow> header option"
  decode_ops :: app_ops

definition packet_event ::
  "(packet \<times> byte list \<Rightarrow> ibc_event) \<Rightarrow> abci_event \<Rightarrow> (abci_error, ibc_event) result" where
  "packet_event mk e =
     map_ok mk (map_err (\<lambda>_. AbciConversionFailed (kind e)) (extract_packet_and_write_ack_from_tx e))"

text \<open>\<open>ibc_event_try_from_abci_event\<close>: the write acknowledgement of events that should not have one is
  dropped (the assertion against it is a debug assertion).\<close>

definition event_of_abci :: "decoders \<Rightarrow> abci_event \<Rightarrow> (abci_error, ibc_event) result" where
  "event_of_abci d e = (case event_type_from_str (kind e) of
       Ok CreateClientType \<Rightarrow> map_ok CreateClient (client_extract_attributes_from_tx e)
     | Ok UpdateClientType \<Rightarrow>
         map_ok (\<lambda>a. UpdateClient a (extract_header_from_tx (decode_header d) e))
           (client_extract_attributes_from_tx e)
     | Ok UpgradeClientType \<Rightarrow> map_ok UpgradeClient (client_extract_attributes_from_tx e)
     | Ok ClientMisbehaviourType \<Rightarrow> map_ok ClientMisbehaviour (client_extract_attributes_from_tx e)
     | Ok OpenInitConnectionType \<Rightarrow> map_ok OpenInitConnection (connection_extract_attributes_from_tx e)
     | Ok OpenTryConnectionType \<Rightarrow> map_ok OpenTryConnection (connection_extract_attributes_from_tx e)
     | Ok OpenAckConnectionType \<Rightarrow> map_ok OpenAckConnection (connection_extract_attributes_from_tx e)
     | Ok OpenConfirmConnectionType \<Rightarrow>
         map_ok OpenConfirmConnection (connection_extract_attributes_from_tx e)
     | Ok OpenInitChannelType \<Rightarrow> map_ok OpenInitChannel (channel_extract_attributes_from_tx e)
     | Ok OpenTryChannelType \<Rightarrow> map_ok OpenTryChannel (channel_extract_attributes_from_tx e)
     | Ok OpenAckChannelType \<Rightarrow> map_ok OpenAckChannel (channel_extract_attributes_from_tx e)
     | Ok OpenConfirmChannelType \<Rightarrow> map_ok OpenConfirmChannel (channel_extract_attributes_from_tx e)
     | Ok CloseInitChannelType \<Rightarrow>
         map_ok CloseInitChannel (rbind (channel_extract_attributes_from_tx e) close_init_of_attrs)
     | Ok CloseConfirmChannelType \<Rightarrow> map_ok CloseConfirmChannel (channel_extract_attributes_from_tx e)
     | Ok SendPacketType \<Rightarrow> packet_event (\<lambda>(p, _). SendPacket p) e
     | Ok WriteAckType \<Rightarrow> packet_event (\<lambda>(p, a). WriteAcknowledgement p a) e
     | Ok AckPacketType \<Rightarrow> packet_event (\<lambda>(p, _). AcknowledgePacket p) e
     | Ok TimeoutType \<Rightarrow> packet_event (\<lambda>(p, _). TimeoutPacket p) e
     | Ok IncentivizedPacketType \<Rightarrow> map_ok IncentivizedPacket (map_err FeeErr (incentivized_of_attrs (decode_ops d) (attributes e)))
     | Ok DistributionFeeType \<Rightarrow> map_ok DistributeFeePacket (map_err FeeErr (distribute_fee_of_attrs (decode_ops d) (attributes e)))
     | Ok CrossChainQueryType \<Rightarrow> map_ok CrossChainQueryPacket (map_err CrossChainQueryErr (cross_chain_query_of_attrs (decode_ops d) (attributes e)))
     | _ \<Rightarrow> Err (UnsupportedAbciEvent (kind e)))"

section \<open>Round trips\<close>

definition client_attributes_wf :: "client_attributes \<Rightarrow> bool" where
  "client_attributes_wf a \<longleftrightarrow> client_id_wf (ca_client_id a) \<and> height_wf (ca_consensus_height a)"

definition connection_attributes_wf :: "connection_attributes \<Rightarrow> bool" where
  "connection_attributes_wf a \<longleftrightarrow> pred_option connection_id_wf (na_connection_id a)
     \<and> client_id_wf (na_client_id a) \<and> pred_option connection_id_wf (na_counterparty_connection_id a)
     \<and> client_id_wf (na_counterparty_client_id a)"

definition channel_attributes_wf :: "channel_attributes \<Rightarrow> bool" where
  "channel_attributes_wf a \<longleftrightarrow> port_id_wf (ha_port_id a) \<and> pred_option channel_id_wf (ha_channel_id a)
     \<and> connection_id_wf (ha_connection_id a) \<and> port_id_wf (ha_counterparty_port_id a)
     \<and> pred_option channel_id_wf (ha_counterparty_channel_id a)"

text \<open>The packets that survive: unlike the protobuf decoder, the attribute decoder accepts a zero
  sequence and empty data.\<close>

definition packet_attrs_wf :: "packet \<Rightarrow> bool" where
  "packet_attrs_wf p \<longleftrightarrow> port_id_wf (source_port p) \<and> channel_id_wf (source_channel p)
     \<and> port_id_wf (destination_port p) \<and> channel_id_wf (destination_channel p)
     \<and> timeout_height_wf (timeout_height p) \<and> timestamp_wf (timeout_timestamp p) \<and> utf8_valid (data p)"

lemma client_type_from_as_str [simp]: "client_type_from_str (client_type_as_str t) = Ok t"
  by (cases t) (simp_all add: client_type_from_str_def)

lemma fold_results_append [simp]:
  "fold_results f (xs @ ys) a = rbind (fold_results f xs a) (fold_results f ys)"
  by (induction xs arbitrary: a) (auto, case_tac "f a aa", auto)

lemma client_attrs_round_trip:
  "client_attributes_wf a \<Longrightarrow> fold_results client_tag (client_attrs_encode a) b = Ok a"
  by (simp add: client_attrs_encode_def client_tag_def client_attributes_wf_def id_decode_encode
      text_height.decode_encode)

lemma connection_attrs_round_trip:
  assumes "connection_attributes_wf a"
  shows "fold_results connection_tag (connection_attrs_encode a) connection_attributes_default = Ok a"
  using assms
  by (cases "na_connection_id a"; cases "na_counterparty_connection_id a"; cases a)
    (simp_all add: connection_attrs_encode_def connection_tag_def connection_attributes_wf_def
      id_decode_encode connection_attributes_default_def)

lemma channel_attrs_round_trip:
  assumes "channel_attributes_wf a"
  shows "fold_results channel_tag (channel_attrs_encode a) channel_attributes_default = Ok a"
  using assms
  by (cases "ha_channel_id a"; cases "ha_counterparty_channel_id a"; cases a)
    (simp_all add: channel_attrs_encode_def channel_tag_def channel_attributes_wf_def
      id_decode_encode channel_attributes_default_def)

lemma parse_timeout_height_encode:
  assumes "timeout_height_wf t"
  shows "parse_timeout_height (to_event_attribute_value t) = Ok t"
proof (cases t)
  case Never
  have "height_try_from ''0-0'' = Err ZeroHeight"
    by (simp add: height_try_from_def parse_u64_def strip_plus_def is_digit_def digit_val_def height_new_def)
  then show ?thesis
    by (simp add: Never parse_timeout_height_def)
next
  case (At h)
  then show ?thesis
    using assms by (simp add: parse_timeout_height_def text_height.decode_encode)
qed

lemma packet_attrs_round_trip:
  assumes "packet_attrs_wf p"
  shows "\<exists>as. packet_attrs_encode p = Ok as \<and> fold_results packet_tag as (q, ack) = Ok (p, [])"
proof -
  from assms obtain n where n: "nanoseconds (timeout_timestamp p) = (Ok n :: (abci_error, u64) result)"
    "from_nanoseconds n = Ok (timeout_timestamp p)"
    using nanoseconds_Ok [of "timeout_timestamp p"] by (auto simp: packet_attrs_wf_def)
  then have "timestamp_from_str (show_u64 n) = Ok (timeout_timestamp p)"
    by (simp add: timestamp_from_str_def)
  with n assms show ?thesis
    by (simp add: packet_attrs_encode_def packet_attrs_wf_def from_utf8_expect_def packet_tag_def
        id_decode_encode parse_timeout_height_encode)
qed

section \<open>Properties\<close>

text \<open>The events that have an ABCI form the decoder reads back.\<close>

fun abci_event_wf :: "ibc_event \<Rightarrow> bool" where
  "abci_event_wf (CreateClient a) = client_attributes_wf a"
| "abci_event_wf (UpdateClient a _) = client_attributes_wf a"
| "abci_event_wf (UpgradeClient a) = client_attributes_wf a"
| "abci_event_wf (ClientMisbehaviour a) = client_attributes_wf a"
| "abci_event_wf (OpenInitConnection a) = connection_attributes_wf a"
| "abci_event_wf (OpenTryConnection a) = connection_attributes_wf a"
| "abci_event_wf (OpenAckConnection a) = connection_attributes_wf a"
| "abci_event_wf (OpenConfirmConnection a) = connection_attributes_wf a"
| "abci_event_wf (OpenInitChannel a) = channel_attributes_wf a"
| "abci_event_wf (OpenTryChannel a) = channel_attributes_wf a"
| "abci_event_wf (OpenAckChannel a) = channel_attributes_wf a"
| "abci_event_wf (OpenConfirmChannel a) = channel_attributes_wf a"
| "abci_event_wf (CloseInitChannel c) = channel_attributes_wf (close_init_attrs c)"
| "abci_event_wf (CloseConfirmChannel a) = channel_attributes_wf a"
| "abci_event_wf (SendPacket p) = packet_attrs_wf p"
| "abci_event_wf (WriteAcknowledgement p a) = (packet_attrs_wf p \<and> utf8_valid a)"
| "abci_event_wf (AcknowledgePacket p) = packet_attrs_wf p"
| "abci_event_wf (TimeoutPacket p) = packet_attrs_wf p"
| "abci_event_wf (IncentivizedPacket p) = incentivized_wf p"
| "abci_event_wf _ = False"

lemma event_of_abci_mk_event [simp]: "kind (mk_event t as) = event_type_as_str t" "attributes (mk_event t as) = as"
  by (simp_all add: mk_event_def)

lemma find_header_client_attrs [simp]:
  "find_header dec (client_attrs_encode a @ tags) = find_header dec tags"
  by (simp add: client_attrs_encode_def)

lemma close_init_of_attrs_round_trip [simp]: "close_init_of_attrs (close_init_attrs c) = Ok c"
  by (simp add: close_init_of_attrs_def close_init_attrs_def)

lemma client_tag_header [simp]: "fold_results client_tag (opt_attr ''header'' x) a = Ok a"
  by (cases x) (simp_all add: client_tag_def)

lemma event_type_from_str_simps [simp]:
  "t \<noteq> AppModuleType \<Longrightarrow> event_type_from_str (event_type_as_str t) = Ok t"
  by (cases t) (simp_all add: event_type_from_str_def event_type_arms_def)

lemmas extractors = client_extract_attributes_from_tx_def connection_extract_attributes_from_tx_def
  channel_extract_attributes_from_tx_def extract_packet_and_write_ack_from_tx_def extract_header_from_tx_def

lemmas attrs_round_trips = client_attrs_round_trip connection_attrs_round_trip channel_attrs_round_trip

lemma event_of_abci_simps:
  "event_of_abci d (mk_event CreateClientType as) =
     map_ok CreateClient (fold_results client_tag as client_attributes_default)"
  "event_of_abci d (mk_event UpdateClientType as) =
     map_ok (\<lambda>a. UpdateClient a (find_header (decode_header d) as))
       (fold_results client_tag as client_attributes_default)"
  "event_of_abci d (mk_event UpgradeClientType as) =
     map_ok UpgradeClient (fold_results client_tag as client_attributes_default)"
  "event_of_abci d (mk_event ClientMisbehaviourType as) =
     map_ok ClientMisbehaviour (fold_results client_tag as client_attributes_default)"
  "event_of_abci d (mk_event OpenInitConnectionType as) =
     map_ok OpenInitConnection (fold_results connection_tag as connection_attributes_default)"
  "event_of_abci d (mk_event OpenTryConnectionType as) =
     map_ok OpenTryConnection (fold_results connection_tag as connection_attributes_default)"
  "event_of_abci d (mk_event OpenAckConnectionType as) =
     map_ok OpenAckConnection (fold_results connection_tag as connection_attributes_default)"
  "event_of_abci d (mk_event OpenConfirmConnectionType as) =
     map_ok OpenConfirmConnection (fold_results connection_tag as connection_attributes_default)"
  "event_of_abci d (mk_event OpenInitChannelType as) =
     map_ok OpenInitChannel (fold_results channel_tag as channel_attributes_default)"
  "event_of_abci d (mk_event OpenTryChannelType as) =
     map_ok OpenTryChannel (fold_results channel_tag as channel_attributes_default)"
  "event_of_abci d (mk_event OpenAckChannelType as) =
     map_ok OpenAckChannel (fold_results channel_tag as channel_attributes_default)"
  "event_of_abci d (mk_event OpenConfirmChannelType as) =
     map_ok OpenConfirmChannel (fold_results channel_tag as channel_attributes_default)"
  "event_of_abci d (mk_event CloseInitChannelType as) =
     map_ok CloseInitChannel
       (rbind (fold_results channel_tag as channel_attributes_default) close_init_of_attrs)"
  "event_of_abci d (mk_event CloseConfirmChannelType as) =
     map_ok CloseConfirmChannel (fold_results channel_tag as channel_attributes_default)"
  "event_of_abci d (mk_event SendPacketType as) =
     packet_event (\<lambda>(p, _). SendPacket p) (mk_event SendPacketType as)"
  "event_of_abci d (mk_event WriteAckType as) =
     packet_event (\<lambda>(p, a). WriteAcknowledgement p a) (mk_event WriteAckType as)"
  "event_of_abci d (mk_event AckPacketType as) =
     packet_event (\<lambda>(p, _). AcknowledgePacket p) (mk_event AckPacketType as)"
  "event_of_abci d (mk_event TimeoutType as) =
     packet_event (\<lambda>(p, _). TimeoutPacket p) (mk_event TimeoutType as)"
  "event_of_abci d (mk_event IncentivizedPacketType as) =
     map_ok IncentivizedPacket (map_err FeeErr (incentivized_of_attrs (decode_ops d) as))"
  "event_of_abci d (mk_event DistributionFeeType as) =
     map_ok DistributeFeePacket (map_err FeeErr (distribute_fee_of_attrs (decode_ops d) as))"
  by (simp_all add: event_of_abci_def extractors del: event_type_as_str.simps)

lemma packet_event_Ok:
  assumes "packet_attrs_wf p"
  shows "\<exists>as. packet_attrs_encode p = Ok as \<and> packet_event mk (mk_event t as) = Ok (mk (p, []))
    \<and> (utf8_valid a \<longrightarrow> packet_event mk (mk_event t (as @ [(''packet_ack'', a)])) = Ok (mk (p, a)))"
proof -
  from packet_attrs_round_trip [OF assms] obtain as where
    "packet_attrs_encode p = Ok as" "fold_results packet_tag as (packet_default, []) = Ok (p, [])"
    by blast
  then show ?thesis
    by (simp add: packet_event_def extractors packet_tag_def)
qed


definition witness_decoders :: decoders where
  "witness_decoders = \<lparr>decode_header = Some, decode_ops = sample_app_ops\<rparr>"

definition witness_packet :: packet where
  "witness_packet = \<lparr>sequence = 7, source_port = PortId ''transfer'',
     source_channel = ChannelId ''channel-0'', destination_port = PortId ''transfer'',
     destination_channel = ChannelId ''channel-1'', data = ''ab'', timeout_height = At (Height 0 10),
     timeout_timestamp = Timestamp (Some 5)\<rparr>"


text \<open>
  C34: two events cannot be read back from the ABCI event they are written to. A cross-chain query is written with the event type
  \<open>message\<close>, which the decoder does not know; a fee distribution is written with the denomination of its fee and without
  the amount, which is not a coin.
\<close>
theorem unreadable_events:
  assumes "app_laws (decode_ops d)" "coin_wf (df_fee p)" "\<not> all_whitespace (df_receiver p)"
  shows "rbind (event_to_abci (decode_ops d) enc (CrossChainQueryPacket q)) (event_of_abci d) = Err (UnsupportedAbciEvent ''message'')
     \<and> rbind (event_to_abci (decode_ops d) enc (DistributeFeePacket p)) (event_of_abci d)
         = Err (FeeErr (FeeTransfer (InvalidCoin (coin_denom (df_fee p)))))"
  using distribute_fee_rejected [OF assms]
  by (simp add: event_of_abci_simps) (simp add: event_of_abci_def event_type_from_str_def event_type_arms_def)

theorem unreadable_events_witness:
  "rbind (event_to_abci (decode_ops witness_decoders) (\<lambda>h. h)
       (DistributeFeePacket \<lparr>df_receiver = ''cosmos1'', df_fee = \<lparr>coin_denom = ''stake'', coin_amount = 5\<rparr>, df_distribution_type = Reward\<rparr>))
     (event_of_abci witness_decoders) = Err (FeeErr (FeeTransfer (InvalidCoin ''stake'')))"
proof -
  have "coin_wf \<lparr>coin_denom = ''stake'', coin_amount = 5\<rparr>" "\<not> all_whitespace ''cosmos1''"
    by (simp_all add: coin_wf_def is_denom_char_def is_alphanumeric_def is_digit_def byte_in_def)
  with unreadable_events [of witness_decoders "\<lparr>df_receiver = ''cosmos1'', df_fee = \<lparr>coin_denom = ''stake'', coin_amount = 5\<rparr>,
      df_distribution_type = Reward\<rparr>" "\<lambda>h. h" undefined]
  show ?thesis by (simp add: witness_decoders_def sample_app_laws)
qed

lemma ids_no_panic:
  "port_id_from_str v \<noteq> Panic" "channel_id_from_str v \<noteq> Panic"
  by (simp_all add: id_parsers validators validate_identifier_def)

text \<open>C36: decoding the attributes of a packet event panics exactly where an attribute holds a timeout
  timestamp that is not a number, or a timeout height that is a lone number; every other malformed
  attribute is an error value.\<close>

theorem packet_tag_panics_iff:
  "packet_tag (key, val) (p, ack) = Panic \<longleftrightarrow>
     (key = ''packet_timeout_timestamp'' \<and> parse_u64 val = None)
     \<or> (key = ''packet_timeout_height'' \<and> CHR ''-'' \<notin> set val \<and> parse_u64 val \<noteq> None)"
proof (cases "key = ''packet_timeout_timestamp'' \<or> key = ''packet_timeout_height''")
  case True
  then show ?thesis
  proof
    assume key: "key = ''packet_timeout_timestamp''"
    then show ?thesis
      by (cases "parse_u64 val") (simp_all add: packet_tag_def timestamp_from_str_def from_nanoseconds_def)
  next
    assume key: "key = ''packet_timeout_height''"
    then have "packet_tag (key, val) (p, ack) = Panic \<longleftrightarrow> parse_timeout_height val = Panic"
      by (simp add: packet_tag_def map_ok_eq_Panic)
    also have "\<dots> \<longleftrightarrow> height_try_from val = Panic"
      by (simp add: parse_timeout_height_def split: result.splits parse_height_error.splits)
    finally show ?thesis
      using key by (simp add: height_try_from_Panic)
  qed
next
  case False
  then have "packet_tag (key, val) (p, ack) \<noteq> Panic"
    by (simp add: packet_tag_def map_ok_eq_Panic ids_no_panic ok_or_no_panic)
  with False show ?thesis by simp
qed

end
