(* ===== verification/Packet_Filter.thy ===== *)
theory Packet_Filter
  imports Ibc_Events "HOL-Library.Sublist"
begin

text \<open>
  \<open>relayer/src/config/filter.rs\<close> and the part of \<open>relayer/src/config.rs\<close> that applies it: which channels are relayed, and which
  incentivized packets have a fee that is high enough. A wildcard is compiled to a regular expression by another crate; the
  parameter \<open>wildcard_ops\<close> stands for that, and \<open>wildcard_law\<close> says that it matches the texts which \<open>glob\<close> describes.
\<close>

section \<open>Patterns\<close>

record wildcard_ops =
  regex_compiles :: "string \<Rightarrow> bool"
  regex_is_match :: "string \<Rightarrow> string \<Rightarrow> bool"

text \<open>The pattern of the wildcard; the source keeps the compiled expression beside it.\<close>

datatype 'a filter_pattern = Exact 'a | Wildcard string

definition wildcard_new :: "wildcard_ops \<Rightarrow> string \<Rightarrow> (string, 'a filter_pattern) result" where
  "wildcard_new rx pattern = (if regex_compiles rx pattern then Ok (Wildcard pattern) else Err pattern)"

fun is_wildcard :: "'a filter_pattern \<Rightarrow> bool" where
  "is_wildcard (Exact _) = False"
| "is_wildcard (Wildcard _) = True"

fun is_exact :: "'a filter_pattern \<Rightarrow> bool" where
  "is_exact (Exact _) = True"
| "is_exact (Wildcard _) = False"

fun pattern_matches :: "wildcard_ops \<Rightarrow> ('a \<Rightarrow> string) \<Rightarrow> 'a filter_pattern \<Rightarrow> 'a \<Rightarrow> bool" where
  "pattern_matches rx to_string (Exact v) x = (x = v)"
| "pattern_matches rx to_string (Wildcard p) x = regex_is_match rx p (to_string x)"

fun exact_value :: "'a filter_pattern \<Rightarrow> 'a option" where
  "exact_value (Exact v) = Some v"
| "exact_value (Wildcard _) = None"

fun pattern_to_string :: "('a \<Rightarrow> string) \<Rightarrow> 'a filter_pattern \<Rightarrow> string" where
  "pattern_to_string to_string (Exact v) = to_string v"
| "pattern_to_string to_string (Wildcard p) = p"

text \<open>The visitors that read a pattern from the configuration: a valid identifier is an exact pattern.\<close>

definition port_filter_from_str :: "wildcard_ops \<Rightarrow> string \<Rightarrow> (string, port_id filter_pattern) result" where
  "port_filter_from_str rx v = (case port_id_from_str v of Ok p \<Rightarrow> Ok (Exact p) | _ \<Rightarrow> wildcard_new rx v)"

definition channel_filter_from_str :: "wildcard_ops \<Rightarrow> string \<Rightarrow> (string, channel_id filter_pattern) result" where
  "channel_filter_from_str rx v = (case channel_id_from_str v of Ok c \<Rightarrow> Ok (Exact c) | _ \<Rightarrow> wildcard_new rx v)"

section \<open>Channel policies\<close>

type_synonym channel_filters = "(port_id filter_pattern \<times> channel_id filter_pattern) list"

definition filters_match :: "wildcard_ops \<Rightarrow> channel_filters \<Rightarrow> port_id \<Rightarrow> channel_id \<Rightarrow> bool" where
  "filters_match rx filters port chan = list_ex (\<lambda>(port_filter, chan_filter).
     pattern_matches rx port_id_str port_filter port \<and> pattern_matches rx channel_id_str chan_filter chan) filters"

definition filters_exact :: "channel_filters \<Rightarrow> bool" where
  "filters_exact filters = list_all (\<lambda>(port_filter, chan_filter). is_exact port_filter \<and> is_exact chan_filter) filters"

fun exact_pair :: "port_id filter_pattern \<times> channel_id filter_pattern \<Rightarrow> (port_id \<times> channel_id) option" where
  "exact_pair (Exact p, Exact c) = Some (p, c)"
| "exact_pair _ = None"

definition iter_exact :: "channel_filters \<Rightarrow> (port_id \<times> channel_id) list" where
  "iter_exact filters = List.map_filter exact_pair filters"

datatype channel_policy = Allow channel_filters | Deny channel_filters | AllowAll

fun is_allowed :: "wildcard_ops \<Rightarrow> channel_policy \<Rightarrow> port_id \<Rightarrow> channel_id \<Rightarrow> bool" where
  "is_allowed rx (Allow filters) port chan = filters_match rx filters port chan"
| "is_allowed rx (Deny filters) port chan = (\<not> filters_match rx filters port chan)"
| "is_allowed rx AllowAll port chan = True"

section \<open>Fees\<close>

record min_fee =
  mf_amount :: u64
  mf_denom :: "string option"

definition is_enough :: "min_fee \<Rightarrow> raw_coin \<Rightarrow> bool" where
  "is_enough m fee = (case mf_denom m of
       Some denom \<Rightarrow> coin_amount fee \<ge> unat (mf_amount m) \<and> denom = coin_denom fee
     | None \<Rightarrow> coin_amount fee \<ge> unat (mf_amount m))"

type_synonym fee_policy = "min_fee list"

fun should_relay :: "fee_policy \<Rightarrow> ibc_event_type \<Rightarrow> raw_coin list \<Rightarrow> bool" where
  "should_relay recv SendPacketType fees = list_ex (\<lambda>fee. list_ex (\<lambda>e. is_enough e fee) recv) fees"
| "should_relay recv _ fees = True"

record packet_filter =
  pf_channel_policy :: channel_policy
  pf_min_fees :: "(channel_id filter_pattern \<times> fee_policy) list"

section \<open>The configuration\<close>

datatype chain_type = CosmosSdk | Eth | Ckb | Axon | Ckb4Ibc

record chain_entry =
  ce_id :: chain_id
  ce_type :: chain_type
  ce_packet_filter :: packet_filter

definition find_chain :: "chain_entry list \<Rightarrow> chain_id \<Rightarrow> chain_entry option" where
  "find_chain entries i = List.find (\<lambda>c. ce_id c = i) entries"

definition packets_on_channel_allowed :: "wildcard_ops \<Rightarrow> chain_entry list \<Rightarrow> chain_id \<Rightarrow> port_id \<Rightarrow> channel_id \<Rightarrow> bool" where
  "packets_on_channel_allowed rx entries i port chan = (case find_chain entries i of
       Some c \<Rightarrow>
         if ce_type c = CosmosSdk \<or> ce_type c = Ckb4Ibc \<or> ce_type c = Axon
         then is_allowed rx (pf_channel_policy (ce_packet_filter c)) port chan
         else False
     | None \<Rightarrow> False)"

section \<open>What a pattern means\<close>

text \<open>A star stands for any text, every other character for itself.\<close>

primrec glob :: "string \<Rightarrow> string \<Rightarrow> bool" where
  "glob [] = (\<lambda>t. t = [])"
| "glob (c # p) = (if c = CHR ''*'' then (\<lambda>t. list_ex (glob p) (suffixes t))
     else (\<lambda>t. case t of [] \<Rightarrow> False | x # xs \<Rightarrow> x = c \<and> glob p xs))"

definition wildcard_law :: "wildcard_ops \<Rightarrow> bool" where
  "wildcard_law rx \<longleftrightarrow> (\<forall>p t. CHR 0x0A \<notin> set t \<longrightarrow> regex_is_match rx p t = glob p t)"

lemma glob_no_star: "CHR ''*'' \<notin> set p \<Longrightarrow> glob p t \<longleftrightarrow> t = p"
  by (induction p arbitrary: t) (auto split: list.split)

lemma glob_star: "glob [CHR ''*''] t"
  by (auto simp: list_ex_iff)

lemma valid_id_chars:
  "validate_identifier s lo hi = Ok () \<Longrightarrow> CHR ''*'' \<notin> set s \<and> CHR 0x0A \<notin> set s"
  by (auto simp: validate_identifier_Ok_iff list_all_iff valid_char_def VALID_SPECIAL_CHARS_def is_alphanumeric_def is_digit_def)

lemma id_chars:
  "port_id_wf p \<Longrightarrow> CHR ''*'' \<notin> set (port_id_str p) \<and> CHR 0x0A \<notin> set (port_id_str p)"
  "channel_id_wf c \<Longrightarrow> CHR ''*'' \<notin> set (channel_id_str c) \<and> CHR 0x0A \<notin> set (channel_id_str c)"
  by (auto simp: id_wf_defs validators dest: valid_id_chars)

text \<open>A pattern read from a text matches the valid identifiers that the text describes, whether it was read as an identifier or
  as a wildcard.\<close>

lemma port_filter_means:
  assumes "wildcard_law rx" "port_filter_from_str rx v = Ok pat" "port_id_wf p"
  shows "pattern_matches rx port_id_str pat p \<longleftrightarrow> glob v (port_id_str p)"
proof (cases "port_id_from_str v")
  case (Ok q)
  then have "pat = Exact q" using assms(2) by (simp add: port_filter_from_str_def)
  moreover have "port_id_wf q" "port_id_str q = v" using Ok by (simp_all add: id_text_Ok)
  ultimately show ?thesis using id_chars(1) [of q] by (cases p; cases q) (auto simp: glob_no_star)
qed (use assms id_chars(1) [of p] in
    \<open>auto simp: port_filter_from_str_def wildcard_new_def wildcard_law_def split: if_splits\<close>)

lemma channel_filter_means:
  assumes "wildcard_law rx" "channel_filter_from_str rx v = Ok pat" "channel_id_wf c"
  shows "pattern_matches rx channel_id_str pat c \<longleftrightarrow> glob v (channel_id_str c)"
proof (cases "channel_id_from_str v")
  case (Ok q)
  then have "pat = Exact q" using assms(2) by (simp add: channel_filter_from_str_def)
  moreover have "channel_id_wf q" "channel_id_str q = v" using Ok by (simp_all add: id_text_Ok)
  ultimately show ?thesis using id_chars(2) [of q] by (cases c; cases q) (auto simp: glob_no_star)
qed (use assms id_chars(2) [of c] in
    \<open>auto simp: channel_filter_from_str_def wildcard_new_def wildcard_law_def split: if_splits\<close>)

text \<open>The filters of a configuration file: pairs of texts.\<close>

definition filters_read :: "wildcard_ops \<Rightarrow> (string \<times> string) list \<Rightarrow> channel_filters \<Rightarrow> bool" where
  "filters_read rx texts filters \<longleftrightarrow> list_all2 (\<lambda>(a, b) (pf, cf).
     port_filter_from_str rx a = Ok pf \<and> channel_filter_from_str rx b = Ok cf) texts filters"

lemma filters_mean:
  assumes "wildcard_law rx" "filters_read rx texts filters" "port_id_wf p" "channel_id_wf c"
  shows "filters_match rx filters p c \<longleftrightarrow> (\<exists>(a, b) \<in> set texts. glob a (port_id_str p) \<and> glob b (channel_id_str c))"
  using assms(2) unfolding filters_read_def filters_match_def
  by (induction rule: list_all2_induct)
    (auto simp: port_filter_means [OF assms(1) _ assms(3)] channel_filter_means [OF assms(1) _ assms(4)])


definition sample_wildcards :: wildcard_ops where
  "sample_wildcards = \<lparr>regex_compiles = (\<lambda>_. True), regex_is_match = glob\<rparr>"

definition sample_entry :: chain_entry where
  "sample_entry = \<lparr>ce_id = ChainId ''a'' 0, ce_type = Axon,
     ce_packet_filter = \<lparr>pf_channel_policy = Allow [(Wildcard ''ica*'', Wildcard ''*''),
       (Exact (PortId ''transfer''), Exact (ChannelId ''channel-0''))], pf_min_fees = []\<rparr>\<rparr>"


end
