(* ===== verification/Ics03_Connection.thy ===== *)
theory Ics03_Connection
  imports Ics04_Channel
begin

text \<open>
  \<open>relayer-types/src/core/ics03_connection/connection.rs\<close> and \<open>version.rs\<close>: connection states, versions
  and their negotiation, connection ends and their protobuf form. The delay period of a connection end
  is a duration in nanoseconds, of which the protobuf form keeps the low 64 bits.
\<close>

section \<open>States\<close>

datatype connection_state = ConnUninitialized | ConnInit | ConnTryOpen | ConnOpen

datatype connection_error =
    InvalidConnectionState int
  | EmptyVersions
  | EmptyFeatures
  | NoCommonVersion
  | EmptyProtoConnectionEnd
  | ConnectionIdentifier validation_error
  | ConnectionMissingCounterparty
  | EmptyPrefix

fun connection_state_as_str :: "connection_state \<Rightarrow> string" where
  "connection_state_as_str ConnUninitialized = ''UNINITIALIZED''"
| "connection_state_as_str ConnInit = ''INIT''"
| "connection_state_as_str ConnTryOpen = ''TRYOPEN''"
| "connection_state_as_str ConnOpen = ''OPEN''"

fun connection_state_as_i32 :: "connection_state \<Rightarrow> int" where
  "connection_state_as_i32 ConnUninitialized = 0"
| "connection_state_as_i32 ConnInit = 1"
| "connection_state_as_i32 ConnTryOpen = 2"
| "connection_state_as_i32 ConnOpen = 3"

definition connection_state_from_i32 :: "int \<Rightarrow> (connection_error, connection_state) result" where
  "connection_state_from_i32 s =
     (if s = 0 then Ok ConnUninitialized else if s = 1 then Ok ConnInit
      else if s = 2 then Ok ConnTryOpen else if s = 3 then Ok ConnOpen
      else Err (InvalidConnectionState s))"

definition connection_less_or_equal_progress :: "connection_state \<Rightarrow> connection_state \<Rightarrow> bool" where
  "connection_less_or_equal_progress s t \<longleftrightarrow> connection_state_as_i32 s \<le> connection_state_as_i32 t"

section \<open>Versions\<close>

text \<open>\<open>str::trim().is_empty()\<close> on UTF-8 bytes: the characters of the Unicode property \<open>White_Space\<close> only.\<close>

fun all_whitespace :: "byte list \<Rightarrow> bool" where
  "all_whitespace [] = True"
| "all_whitespace (a # rest) =
     (if byte_in 9 13 a \<or> byte_in 32 32 a then all_whitespace rest
      else case rest of
        [] \<Rightarrow> False
      | b # rest2 \<Rightarrow>
          if byte_in 194 194 a then (byte_in 133 133 b \<or> byte_in 160 160 b) \<and> all_whitespace rest2
          else (case rest2 of
            [] \<Rightarrow> False
          | c # rest3 \<Rightarrow>
              (byte_in 225 225 a \<and> byte_in 154 154 b \<and> byte_in 128 128 c
               \<or> byte_in 226 226 a \<and> byte_in 128 128 b
                  \<and> (byte_in 128 138 c \<or> byte_in 168 169 c \<or> byte_in 175 175 c)
               \<or> byte_in 226 226 a \<and> byte_in 129 129 b \<and> byte_in 159 159 c
               \<or> byte_in 227 227 a \<and> byte_in 128 128 b \<and> byte_in 128 128 c)
              \<and> all_whitespace rest3))"

record conn_version =
  version_identifier :: string
  features :: "string list"

definition is_supported_feature :: "conn_version \<Rightarrow> string \<Rightarrow> bool" where
  "is_supported_feature v f \<longleftrightarrow> f \<in> set (features v)"

text \<open>The raw version has the same two fields.\<close>

definition version_of_raw :: "conn_version \<Rightarrow> (connection_error, conn_version) result" where
  "version_of_raw v =
     (if all_whitespace (version_identifier v) then Err EmptyVersions
      else if list_ex all_whitespace (features v) then Err EmptyFeatures
      else Ok v)"

definition version_default :: conn_version where
  "version_default = \<lparr>version_identifier = ''1'', features = [order_as_str Ordered, order_as_str Unordered]\<rparr>"

definition get_compatible_versions :: "conn_version list" where
  "get_compatible_versions = [version_default]"

fun str_less :: "string \<Rightarrow> string \<Rightarrow> bool" where
  "str_less s [] = False"
| "str_less [] (c # t) = True"
| "str_less (b # s) (c # t) = ((of_char b :: nat) < of_char c \<or> b = c \<and> str_less s t)"

text \<open>\<open>sort_by\<close> on the identifiers: stable.\<close>

fun insort_version :: "conn_version \<Rightarrow> conn_version list \<Rightarrow> conn_version list" where
  "insort_version v [] = [v]"
| "insort_version v (u # us) =
     (if str_less (version_identifier u) (version_identifier v) then u # insort_version v us else v # u # us)"

definition sort_versions :: "conn_version list \<Rightarrow> conn_version list" where
  "sort_versions vs = foldr insort_version vs []"

fun pick_inner ::
  "conn_version \<Rightarrow> conn_version list \<Rightarrow> conn_version list \<Rightarrow> (connection_error, conn_version list) result" where
  "pick_inner s [] acc = Ok acc"
| "pick_inner s (c # cs) acc =
     (if version_identifier c \<noteq> version_identifier s then pick_inner s cs acc
      else if list_ex all_whitespace (features c) then Err EmptyFeatures
      else pick_inner s cs (acc @ [s]))"

definition pick_version ::
  "conn_version list \<Rightarrow> conn_version list \<Rightarrow> (connection_error, conn_version) result" where
  "pick_version supported counterparty =
     rbind (fold_results (\<lambda>s. pick_inner s counterparty) supported []) (\<lambda>vs.
       case sort_versions vs of [] \<Rightarrow> Err NoCommonVersion | v # _ \<Rightarrow> Ok v)"

section \<open>Connection ends\<close>

type_synonym commitment_prefix = "byte list"

record conn_counterparty =
  cc_client_id :: client_id
  cc_connection_id :: "connection_id option"
  cc_prefix :: commitment_prefix

record connection_end =
  conn_state :: connection_state
  conn_client_id :: client_id
  conn_counterparty :: conn_counterparty
  conn_versions :: "conn_version list"
  conn_delay_period :: duration

record identified_connection_end =
  ice_connection_id :: connection_id
  ice_connection_end :: connection_end

definition default_client_id :: client_id where
  "default_client_id = ClientId ''07-tendermint-0''"

definition connection_end_default :: connection_end where
  "connection_end_default = \<lparr>conn_state = ConnUninitialized, conn_client_id = default_client_id,
     conn_counterparty = \<lparr>cc_client_id = default_client_id, cc_connection_id = None, cc_prefix = []\<rparr>,
     conn_versions = [], conn_delay_period = 0\<rparr>"

definition connection_state_matches :: "connection_end \<Rightarrow> connection_state \<Rightarrow> bool" where
  "connection_state_matches c s \<longleftrightarrow> conn_state c = s"

definition connection_is_open :: "connection_end \<Rightarrow> bool" where
  "connection_is_open c \<longleftrightarrow> connection_state_matches c ConnOpen"

definition connection_set_version :: "connection_end \<Rightarrow> conn_version \<Rightarrow> connection_end" where
  "connection_set_version c v = c\<lparr>conn_versions := [v]\<rparr>"

record raw_conn_counterparty =
  rcc_client_id :: string
  rcc_connection_id :: string
  rcc_prefix :: "byte list option"

record raw_connection_end =
  rce_client_id :: string
  rce_versions :: "conn_version list"
  rce_state :: int
  rce_counterparty :: "raw_conn_counterparty option"
  rce_delay_period :: u64

definition conn_counterparty_of_raw ::
  "raw_conn_counterparty \<Rightarrow> (connection_error, conn_counterparty) result" where
  "conn_counterparty_of_raw r =
     rbind (if rcc_connection_id r = [] then Ok None
            else map_ok Some (map_err ConnectionIdentifier (connection_id_from_str (rcc_connection_id r)))) (\<lambda>conn.
     rbind (map_err ConnectionIdentifier (client_id_from_str (rcc_client_id r))) (\<lambda>client.
     rbind (ok_or ConnectionMissingCounterparty (rcc_prefix r)) (\<lambda>prefix.
       if prefix = [] then Err EmptyPrefix
       else Ok \<lparr>cc_client_id = client, cc_connection_id = conn, cc_prefix = prefix\<rparr>)))"

definition raw_of_conn_counterparty :: "conn_counterparty \<Rightarrow> raw_conn_counterparty" where
  "raw_of_conn_counterparty c = \<lparr>rcc_client_id = client_id_str (cc_client_id c),
     rcc_connection_id = (case cc_connection_id c of None \<Rightarrow> [] | Some i \<Rightarrow> connection_id_str i),
     rcc_prefix = Some (cc_prefix c)\<rparr>"

definition connection_end_of_raw :: "raw_connection_end \<Rightarrow> (connection_error, connection_end) result" where
  "connection_end_of_raw r =
     rbind (connection_state_from_i32 (rce_state r)) (\<lambda>state.
     if state = ConnUninitialized then Ok connection_end_default
     else if rce_client_id r = [] then Err EmptyProtoConnectionEnd
     else
       rbind (map_err ConnectionIdentifier (client_id_from_str (rce_client_id r))) (\<lambda>client.
       rbind (ok_or ConnectionMissingCounterparty (rce_counterparty r)) (\<lambda>raw_cp.
       rbind (conn_counterparty_of_raw raw_cp) (\<lambda>cp.
       rbind (collect_results (map version_of_raw (rce_versions r))) (\<lambda>versions.
         Ok \<lparr>conn_state = state, conn_client_id = client, conn_counterparty = cp,
            conn_versions = versions, conn_delay_period = unat (rce_delay_period r)\<rparr>)))))"

definition raw_of_connection_end :: "connection_end \<Rightarrow> raw_connection_end" where
  "raw_of_connection_end c = \<lparr>rce_client_id = client_id_str (conn_client_id c),
     rce_versions = conn_versions c, rce_state = connection_state_as_i32 (conn_state c),
     rce_counterparty = Some (raw_of_conn_counterparty (conn_counterparty c)),
     rce_delay_period = of_nat (conn_delay_period c)\<rparr>"

record raw_identified_connection = raw_connection_end +
  ric_id :: string

definition identified_connection_of_raw ::
  "raw_identified_connection \<Rightarrow> (connection_error, identified_connection_end) result" where
  "identified_connection_of_raw r =
     rbind (map_err ConnectionIdentifier (connection_id_from_str (ric_id r))) (\<lambda>i.
     rbind (connection_end_of_raw (raw_connection_end.truncate r)) (\<lambda>c.
       Ok \<lparr>ice_connection_id = i, ice_connection_end = c\<rparr>))"

definition raw_of_identified_connection :: "identified_connection_end \<Rightarrow> raw_identified_connection" where
  "raw_of_identified_connection i = raw_connection_end.extend (raw_of_connection_end (ice_connection_end i))
     (raw_identified_connection.fields (connection_id_str (ice_connection_id i)))"

section \<open>Well-formed connection ends\<close>

definition conn_counterparty_wf :: "conn_counterparty \<Rightarrow> bool" where
  "conn_counterparty_wf c \<longleftrightarrow> client_id_wf (cc_client_id c) \<and> cc_prefix c \<noteq> []
     \<and> (case cc_connection_id c of None \<Rightarrow> True | Some i \<Rightarrow> connection_id_wf i)"

definition version_wf :: "conn_version \<Rightarrow> bool" where
  "version_wf v \<longleftrightarrow> \<not> all_whitespace (version_identifier v) \<and> \<not> list_ex all_whitespace (features v)"

definition connection_end_wf :: "connection_end \<Rightarrow> bool" where
  "connection_end_wf c \<longleftrightarrow> (if conn_state c = ConnUninitialized then c = connection_end_default
     else client_id_wf (conn_client_id c) \<and> conn_counterparty_wf (conn_counterparty c)
        \<and> list_all version_wf (conn_versions c) \<and> conn_delay_period c < 2 ^ 64)"

lemma unat_of_nat_u64: "n < 2 ^ 64 \<Longrightarrow> unat (of_nat n :: u64) = n"
  by (simp add: unsigned_of_nat take_bit_nat_eq_self)

lemma connection_id_wf_nonempty: "connection_id_wf i \<Longrightarrow> connection_id_str i \<noteq> []"
  by (auto simp: connection_id_wf_def validators validate_identifier_Ok_iff)

lemma client_id_wf_nonempty: "client_id_wf i \<Longrightarrow> client_id_str i \<noteq> []"
  by (auto simp: client_id_wf_def validators validate_identifier_Ok_iff)

interpretation raw_connection_state: round_trip connection_state_as_i32 connection_state_from_i32 "\<lambda>_. True"
proof unfold_locales
  show "connection_state_from_i32 (connection_state_as_i32 t) = Ok t" for t
    by (cases t) (simp_all add: connection_state_from_i32_def)
qed simp

interpretation raw_conn_counterparty: round_trip raw_of_conn_counterparty conn_counterparty_of_raw conn_counterparty_wf
  by unfold_locales
    (auto simp: conn_counterparty_of_raw_def raw_of_conn_counterparty_def conn_counterparty_wf_def id_decode_encode
      id_decode_wf connection_id_wf_nonempty split: option.splits if_splits)

lemma version_of_raw_Ok: "version_of_raw v = Ok u \<longleftrightarrow> u = v \<and> version_wf v"
  by (auto simp: version_of_raw_def version_wf_def)

lemma collect_versions: "collect_results (map version_of_raw vs) = Ok us \<longleftrightarrow> us = vs \<and> list_all version_wf vs"
  by (induction vs arbitrary: us) (auto simp: version_of_raw_Ok)

interpretation raw_connection_end: round_trip raw_of_connection_end connection_end_of_raw connection_end_wf
proof unfold_locales
  show "connection_end_wf c \<Longrightarrow> connection_end_of_raw (raw_of_connection_end c) = Ok c" for c
    using collect_versions [of "conn_versions c" "conn_versions c"]
    by (auto simp: connection_end_of_raw_def raw_of_connection_end_def connection_end_wf_def
        raw_connection_state.decode_encode raw_conn_counterparty.decode_encode id_decode_encode
        client_id_wf_nonempty unat_of_nat_u64 collect_versions split: if_splits)
  show "connection_end_of_raw r = Ok c \<Longrightarrow> connection_end_wf c" for r c
    using unat_u64_less [of "rce_delay_period r"]
    by (auto simp: connection_end_of_raw_def connection_end_wf_def raw_conn_counterparty.decode_wf id_decode_wf
        collect_versions split: if_splits) (simp_all add: connection_end_default_def)
qed

section \<open>Negotiation\<close>

lemma set_insort_version: "set (insort_version v us) = insert v (set us)"
  by (induction us) auto

lemma set_sort_versions: "set (sort_versions vs) = set vs"
  by (induction vs) (auto simp: sort_versions_def set_insort_version)

lemma sort_versions_cases:
  "sort_versions vs = [] \<Longrightarrow> set vs = {}" "sort_versions vs = v # us \<Longrightarrow> v \<in> set vs"
  using set_sort_versions [of vs] by auto

lemma pick_inner_Ok:
  "pick_inner s cs acc = Ok vs \<Longrightarrow>
     set vs = set acc \<union> (if \<exists>c \<in> set cs. version_identifier c = version_identifier s then {s} else {})"
  by (induction cs arbitrary: acc) (auto split: if_splits)

lemma fold_pick_Ok:
  "fold_results (\<lambda>s. pick_inner s cs) ss acc = Ok vs \<Longrightarrow>
     set vs = set acc \<union> {s \<in> set ss. \<exists>c \<in> set cs. version_identifier c = version_identifier s}"
  by (induction ss arbitrary: acc) (auto dest!: pick_inner_Ok split: if_splits)

section \<open>Properties\<close>

text \<open>C32: A connection end survives its protobuf form exactly when its identifiers and versions are valid, its
  counterparty prefix is not empty and its delay period fits 64 bits of nanoseconds, or when it is the
  default uninitialized end.\<close>

theorem connection_end_raw_round_trip:
  "connection_end_of_raw (raw_of_connection_end c) = Ok c \<longleftrightarrow> connection_end_wf c"
  using raw_connection_end.wf_iff [of c] by simp

text \<open>Version negotiation returns a version that is supported locally and whose identifier the counterparty
  offers, and it fails with the no-common-version error only when there is none.\<close>

theorem pick_version_sound:
  "(pick_version ss cs = Ok v \<longrightarrow> v \<in> set ss \<and> (\<exists>c \<in> set cs. version_identifier c = version_identifier v))
   \<and> (pick_version ss cs = Err NoCommonVersion \<longrightarrow>
        \<not> (\<exists>s \<in> set ss. \<exists>c \<in> set cs. version_identifier c = version_identifier s))"
proof -
  have none: "pick_inner s cs acc \<noteq> Err NoCommonVersion" for s acc
    by (induction cs arbitrary: acc) auto
  have "fold_results (\<lambda>s. pick_inner s cs) ss acc \<noteq> Err NoCommonVersion" for acc
  proof (induction ss arbitrary: acc)
    case (Cons s ss)
    then show ?case using none [of s acc] by (cases "pick_inner s cs acc") auto
  qed simp
  then show ?thesis
    by (cases "fold_results (\<lambda>s. pick_inner s cs) ss []")
      (auto simp: pick_version_def dest!: fold_pick_Ok sort_versions_cases split: list.splits)
qed

theorem pick_version_sound_witness:
  "pick_version get_compatible_versions [version_default] = Ok version_default
   \<and> version_default \<in> set get_compatible_versions"
proof -
  have run: "pick_version get_compatible_versions [version_default] = Ok version_default"
    by (simp add: pick_version_def get_compatible_versions_def version_default_def sort_versions_def byte_in_def)
  with pick_version_sound [of get_compatible_versions "[version_default]" version_default] show ?thesis
    by simp
qed

end
