(* ===== verification/Relayer_Util.thy ===== *)
theory Relayer_Util
  imports Prelude
begin

text \<open>
  \<open>relayer/src/util\<close>: the shared queue (\<open>queue.rs\<close>), the collation of sequence numbers into ranges
  (\<open>collate.rs\<close>), dictionary differences (\<open>diff.rs\<close>), splitting of results (\<open>iter.rs\<close>), grouping of a
  stream (\<open>stream.rs\<close>) and retry delays (\<open>retry.rs\<close>, with \<open>worker/retry_strategy.rs\<close>). A queue is the
  list of its elements, front first: the locks around it serialise its operations, each of which is
  one step here. A stream is the list of its items.
\<close>

section \<open>Queues\<close>

type_synonym 'a queue = "'a list"

definition queue_new :: "'a queue" where
  "queue_new = []"

fun pop_front :: "'a queue \<Rightarrow> 'a option \<times> 'a queue" where
  "pop_front [] = (None, [])"
| "pop_front (x # q) = (Some x, q)"

definition pop_back :: "'a queue \<Rightarrow> 'a option \<times> 'a queue" where
  "pop_back q = (if q = [] then (None, []) else (Some (last q), butlast q))"

definition push_back :: "'a \<Rightarrow> 'a queue \<Rightarrow> 'a queue" where
  "push_back x q = q @ [x]"

definition push_front :: "'a \<Rightarrow> 'a queue \<Rightarrow> 'a queue" where
  "push_front x q = x # q"

definition queue_is_empty :: "'a queue \<Rightarrow> bool" where
  "queue_is_empty q \<longleftrightarrow> q = []"

definition queue_take :: "'a queue \<Rightarrow> 'a list \<times> 'a queue" where
  "queue_take q = (q, [])"

definition queue_replace :: "'a list \<Rightarrow> 'a queue \<Rightarrow> 'a queue" where
  "queue_replace v q = v"

text \<open>What the clients of a queue rely on: elements leave the front in the order in which they were
  appended at the back, an element returned to the front leaves first, and nothing is lost.\<close>

locale fifo =
  fixes contents :: "'q \<Rightarrow> 'a list"
    and pop :: "'q \<Rightarrow> 'a option \<times> 'q"
    and push :: "'a \<Rightarrow> 'q \<Rightarrow> 'q"
    and unpop :: "'a \<Rightarrow> 'q \<Rightarrow> 'q"
  assumes pop_empty: "contents q = [] \<Longrightarrow> fst (pop q) = None \<and> contents (snd (pop q)) = []"
    and pop_cons: "contents q = x # xs \<Longrightarrow> fst (pop q) = Some x \<and> contents (snd (pop q)) = xs"
    and push_contents: "contents (push x q) = contents q @ [x]"
    and unpop_contents: "contents (unpop x q) = x # contents q"
begin

lemma pop_unpop: "fst (pop (unpop x q)) = Some x \<and> contents (snd (pop (unpop x q))) = contents q"
  by (rule pop_cons) (rule unpop_contents)

lemma fold_push: "contents (fold push xs q) = contents q @ xs"
  by (induction xs arbitrary: q) (simp_all add: push_contents)

lemma pop_fold_push: "contents q = [] \<Longrightarrow> fst (pop (fold push (x # xs) q)) = Some x"
  using pop_cons [of "fold push (x # xs) q" x xs] fold_push [of "x # xs" q] by simp

lemma pop_contents:
  "contents q = (case fst (pop q) of None \<Rightarrow> [] | Some x \<Rightarrow> x # contents (snd (pop q)))"
  using pop_empty [of q] pop_cons [of q] by (cases "contents q") auto

end

interpretation deque: fifo "\<lambda>q. q" pop_front push_back push_front
proof unfold_locales
  show "q = x # xs \<Longrightarrow> fst (pop_front q) = Some x \<and> snd (pop_front q) = xs" for q :: "'a list" and x xs
    by simp
qed (simp_all add: push_back_def push_front_def)

section \<open>Collation of sequence numbers\<close>

record collated =
  cstart :: u64
  cend :: u64

definition collated_new :: "u64 \<Rightarrow> u64 \<Rightarrow> collated" where
  "collated_new s e = \<lparr>cstart = s, cend = e\<rparr>"

text \<open>One call of \<open>Collate::next\<close>: consumes items until a range is complete. The increment of the end of
  a range wraps around.\<close>

fun collate_next :: "u64 list \<Rightarrow> collated option \<Rightarrow> collated option \<times> u64 list \<times> collated option" where
  "collate_next [] cur = (cur, [], None)"
| "collate_next (x # xs) None = collate_next xs (Some (collated_new x x))"
| "collate_next (x # xs) (Some c) =
     (if x = cend c then collate_next xs (Some c)
      else if x = cend c + 1 then collate_next xs (Some (collated_new (cstart c) x))
      else (Some c, xs, Some (collated_new x x)))"

lemma collate_next_more: "collate_next xs cur = (r, ys, Some c) \<Longrightarrow> length ys < length xs"
  by (induction xs cur rule: collate_next.induct) (auto split: if_splits)

lemma collate_next_done: "collate_next xs cur = (r, ys, None) \<Longrightarrow> ys = []"
  by (induction xs cur rule: collate_next.induct) (auto split: if_splits)

text \<open>Calling \<open>next\<close> until it returns \<open>None\<close>, as \<open>collect\<close> does.\<close>

definition collate_measure :: "u64 list \<times> collated option \<Rightarrow> nat" where
  "collate_measure = (\<lambda>(xs, cur). 2 * length xs + (if cur = None then 0 else 1))"

lemma collate_measure_decreases:
  assumes "collate_next xs cur = (Some c, ys, cur')"
  shows "collate_measure (ys, cur') < collate_measure (xs, cur)"
proof (cases cur')
  case None
  moreover have "ys = []" using assms None by (auto dest: collate_next_done)
  moreover have "xs \<noteq> [] \<or> cur \<noteq> None" using assms by auto
  ultimately show ?thesis by (auto simp: collate_measure_def)
next
  case (Some d)
  then show ?thesis using assms by (auto simp: collate_measure_def dest: collate_next_more)
qed

function collate_from :: "u64 list \<Rightarrow> collated option \<Rightarrow> collated list" where
  "collate_from xs cur = (case collate_next xs cur of
       (None, _, _) \<Rightarrow> []
     | (Some c, ys, cur') \<Rightarrow> c # collate_from ys cur')"
  by auto
termination
  by (relation "measure collate_measure") (auto intro: collate_measure_decreases [OF sym])

declare collate_from.simps [simp del]

definition collate :: "u64 list \<Rightarrow> collated list" where
  "collate xs = collate_from xs None"

text \<open>The numbers a list of ranges denotes.\<close>

definition expand :: "collated list \<Rightarrow> u64 set" where
  "expand cs = (\<Union>c \<in> set cs. {cstart c .. cend c})"

lemma expand_simps [simp]: "expand [] = {}" "expand (c # cs) = {cstart c .. cend c} \<union> expand cs"
  by (simp_all add: expand_def)

text \<open>The whole iteration as one recursion over the items.\<close>

fun collate_items :: "u64 list \<Rightarrow> collated option \<Rightarrow> collated list" where
  "collate_items [] None = []"
| "collate_items [] (Some c) = [c]"
| "collate_items (x # xs) None = collate_items xs (Some (collated_new x x))"
| "collate_items (x # xs) (Some c) =
     (if x = cend c then collate_items xs (Some c)
      else if x = cend c + 1 then collate_items xs (Some (collated_new (cstart c) x))
      else c # collate_items xs (Some (collated_new x x)))"

lemma collate_from_step:
  "collate_from (x # xs) None = collate_from xs (Some (collated_new x x))"
  "x = cend c \<Longrightarrow> collate_from (x # xs) (Some c) = collate_from xs (Some c)"
  "x \<noteq> cend c \<Longrightarrow> x = cend c + 1 \<Longrightarrow>
     collate_from (x # xs) (Some c) = collate_from xs (Some (collated_new (cstart c) x))"
  "x \<noteq> cend c \<Longrightarrow> x \<noteq> cend c + 1 \<Longrightarrow>
     collate_from (x # xs) (Some c) = c # collate_from xs (Some (collated_new x x))"
  by (subst (1 2) collate_from.simps, simp)+ (subst collate_from.simps, simp)

lemma collate_from_Nil: "collate_from [] None = []" "collate_from [] (Some c) = [c]"
  by (simp_all add: collate_from.simps)

lemma collate_from_items: "collate_from xs cur = collate_items xs cur"
  by (induction xs cur rule: collate_items.induct) (simp_all add: collate_from_Nil collate_from_step)

lemma atLeastAtMost_word_Suc:
  assumes "(s :: u64) \<le> e" and "e < e + 1"
  shows "{s .. e + 1} = insert (e + 1) {s .. e}"
proof -
  have "x \<le> e + 1 \<longleftrightarrow> x \<le> e \<or> x = e + 1" for x
    using assms(2) by (auto simp: not_le dest: inc_le word_le_sub1) (unat_arith)
  then show ?thesis
    using assms by auto
qed

lemma word_less_Suc_le: "(e :: u64) < x \<Longrightarrow> e < e + 1 \<and> e + 1 \<le> x"
  by unat_arith

lemma collate_items_cover:
  assumes "sorted xs" and "cstart c \<le> cend c" and "\<forall>x \<in> set xs. cend c \<le> x"
  shows "expand (collate_items xs (Some c)) = {cstart c .. cend c} \<union> set xs"
  using assms
proof (induction xs arbitrary: c)
  case (Cons x xs)
  then have less: "x \<noteq> cend c \<Longrightarrow> cend c < x" by auto
  consider "x = cend c" | "x \<noteq> cend c" "x = cend c + 1" | "x \<noteq> cend c" "x \<noteq> cend c + 1" by blast
  then show ?case
  proof cases
    case 1
    then show ?thesis using Cons by auto
  next
    case 2
    then have "{cstart c .. x} = insert x {cstart c .. cend c}"
      using Cons.prems(2) less atLeastAtMost_word_Suc [of "cstart c" "cend c"] by simp
    moreover have "cstart c \<le> x" using Cons.prems(2) less 2 by auto
    ultimately show ?thesis
      using 2 Cons.IH [of "collated_new (cstart c) x"] Cons.prems by (simp add: collated_new_def)
  next
    case 3
    then show ?thesis
      using Cons.IH [of "collated_new x x"] Cons.prems by (auto simp: collated_new_def)
  qed
qed simp

definition gap :: "collated \<Rightarrow> collated \<Rightarrow> bool" where
  "gap c d \<longleftrightarrow> cend c < cend c + 1 \<and> cend c + 1 < cstart d"

lemma collate_items_separated:
  assumes "sorted xs" and "cstart c \<le> cend c" and "\<forall>x \<in> set xs. cend c \<le> x"
  shows "sorted_wrt gap (collate_items xs (Some c)) \<and>
    (\<forall>d \<in> set (collate_items xs (Some c)). cstart c \<le> cstart d)"
  using assms
proof (induction xs arbitrary: c)
  case (Cons x xs)
  then have less: "x \<noteq> cend c \<Longrightarrow> cend c < x" by auto
  have le: "cstart c \<le> x" using Cons.prems by auto
  consider "x = cend c" | "x \<noteq> cend c" "x = cend c + 1" | "x \<noteq> cend c" "x \<noteq> cend c + 1" by blast
  then show ?case
  proof cases
    case 3
    from word_less_Suc_le [OF less [OF 3(1)]] 3(2) have "cend c < cend c + 1" "cend c + 1 < x" by auto
    moreover have IH: "sorted_wrt gap (collate_items xs (Some (collated_new x x)))"
      "\<forall>d \<in> set (collate_items xs (Some (collated_new x x))). x \<le> cstart d"
      using Cons.IH [of "collated_new x x"] Cons.prems by (simp_all add: collated_new_def)
    ultimately have "\<forall>d \<in> set (collate_items xs (Some (collated_new x x))). gap c d"
      by (auto simp: gap_def)
    with 3 le IH show ?thesis by auto
  next
    case 2
    then show ?thesis
      using le Cons.IH [of "collated_new (cstart c) x"] Cons.prems by (simp add: collated_new_def)
  qed (use Cons in simp)
qed simp

text \<open>Collating an ascending list of sequence numbers yields ranges that denote exactly the numbers
  of the list, and that are in ascending order with a gap between any two: no two ranges could be
  merged.\<close>

theorem collate_correct:
  assumes "sorted xs"
  shows "expand (collate xs) = set xs \<and> sorted_wrt gap (collate xs)"
proof (cases xs)
  case (Cons x ys)
  then show ?thesis
    using assms collate_items_cover [of ys "collated_new x x"] collate_items_separated [of ys "collated_new x x"]
    by (simp add: collate_def collate_from_items collated_new_def)
qed (simp add: collate_def collate_from_Nil)

theorem collate_correct_witness:
  "expand (collate [1, 2, 3, 10, 10, 11, 20]) = {1, 2, 3, 10, 11, 20}"
  using collate_correct [of "[1, 2, 3, 10, 10, 11, 20]"] by simp

section \<open>Dictionary differences\<close>

datatype 'k change = Added 'k | Updated 'k | Removed 'k

fun change_key :: "'k change \<Rightarrow> 'k" where
  "change_key (Added k) = k"
| "change_key (Updated k) = k"
| "change_key (Removed k) = k"

text \<open>A dictionary is the list of its entries in iteration order.\<close>

definition prev_change :: "('k \<times> 'v) list \<Rightarrow> ('v \<Rightarrow> 'v \<Rightarrow> bool) \<Rightarrow> 'k \<times> 'v \<Rightarrow> 'k change list" where
  "prev_change nxt eq entry = (case entry of (k, v) \<Rightarrow> case map_of nxt k of
       Some v' \<Rightarrow> if \<not> eq v v' then [Updated k] else []
     | None \<Rightarrow> [Removed k])"

definition next_change :: "('k \<times> 'v) list \<Rightarrow> 'k \<times> 'v \<Rightarrow> 'k change list" where
  "next_change prev entry = (case entry of (k, v) \<Rightarrow> if map_of prev k = None then [Added k] else [])"

definition gdiff :: "('k \<times> 'v) list \<Rightarrow> ('k \<times> 'v) list \<Rightarrow> ('v \<Rightarrow> 'v \<Rightarrow> bool) \<Rightarrow> 'k change list" where
  "gdiff prev nxt eq = concat (map (prev_change nxt eq) prev) @ concat (map (next_change prev) nxt)"

definition diff :: "('k \<times> 'v) list \<Rightarrow> ('k \<times> 'v) list \<Rightarrow> 'k change list" where
  "diff prev nxt = gdiff prev nxt (=)"

lemma prev_change_simps [simp]:
  "Added k \<notin> set (prev_change nxt eq e)"
  "Removed k \<in> set (prev_change nxt eq e) \<longleftrightarrow> fst e = k \<and> map_of nxt k = None"
  "Updated k \<in> set (prev_change nxt eq e) \<longleftrightarrow> fst e = k \<and> (\<exists>v'. map_of nxt k = Some v' \<and> \<not> eq (snd e) v')"
  by (cases "map_of nxt (fst e)"; auto simp: prev_change_def split_def)+

lemma next_change_simps [simp]:
  "Added k \<in> set (next_change prev e) \<longleftrightarrow> fst e = k \<and> map_of prev k = None"
  "Removed k \<notin> set (next_change prev e)"
  "Updated k \<notin> set (next_change prev e)"
  by (auto simp: next_change_def split_def)

text \<open>The difference of two dictionaries lists a key as added, removed or updated exactly when it is
  in the second only, in the first only, or in both with values that the comparison tells apart.\<close>

theorem gdiff_correct:
  assumes "distinct (map fst prev)"
  shows "set (gdiff prev nxt eq) =
      Added ` {k. map_of prev k = None \<and> map_of nxt k \<noteq> None}
    \<union> Removed ` {k. map_of prev k \<noteq> None \<and> map_of nxt k = None}
    \<union> Updated ` {k. \<exists>v v'. map_of prev k = Some v \<and> map_of nxt k = Some v' \<and> \<not> eq v v'}"
    (is "_ = ?A \<union> ?R \<union> ?U")
proof -
  have prev: "(k, v) \<in> set prev \<longleftrightarrow> map_of prev k = Some v" for k v
    using assms by simp
  have nxt: "(\<exists>v. (k, v) \<in> set nxt) \<longleftrightarrow> map_of nxt k \<noteq> None" for k
    by (metis map_of_SomeD not_None_eq weak_map_of_SomeI)
  have "x \<in> set (gdiff prev nxt eq) \<longleftrightarrow> x \<in> ?A \<union> ?R \<union> ?U" for x
  proof (cases x)
    case (Added k)
    then have "x \<in> set (gdiff prev nxt eq) \<longleftrightarrow> (\<exists>v. (k, v) \<in> set nxt \<and> map_of prev k = None)"
      by (force simp: gdiff_def)
    then show ?thesis using nxt [of k] Added by auto
  next
    case (Updated k)
    then have "x \<in> set (gdiff prev nxt eq) \<longleftrightarrow>
        (\<exists>v v'. (k, v) \<in> set prev \<and> map_of nxt k = Some v' \<and> \<not> eq v v')"
      by (force simp: gdiff_def)
    then show ?thesis using Updated by (auto simp: prev)
  next
    case (Removed k)
    then have "x \<in> set (gdiff prev nxt eq) \<longleftrightarrow> (\<exists>v. (k, v) \<in> set prev \<and> map_of nxt k = None)"
      by (force simp: gdiff_def)
    then show ?thesis using Removed by (auto simp: prev)
  qed
  then show ?thesis by (rule set_eqI)
qed

theorem gdiff_correct_witness:
  "set (gdiff [(1 :: nat, 1 :: nat), (2, 2), (3, 3)] [(1, 11), (2, 2), (5, 5)] (=)) =
     {Updated 1, Removed 3, Added 5}"
proof -
  note * = gdiff_correct [of "[(1 :: nat, 1 :: nat), (2, 2), (3, 3)]" "[(1, 11), (2, 2), (5, 5)]" "(=)"]
  have "{k. map_of [(1 :: nat, 1 :: nat), (2, 2), (3, 3)] k = None
      \<and> map_of [(1, 11 :: nat), (2, 2), (5, 5)] k \<noteq> None} = {5}"
    "{k. map_of [(1 :: nat, 1 :: nat), (2, 2), (3, 3)] k \<noteq> None
      \<and> map_of [(1, 11 :: nat), (2, 2), (5, 5)] k = None} = {3}"
    "{k. \<exists>v v'. map_of [(1 :: nat, 1 :: nat), (2, 2), (3, 3)] k = Some v
      \<and> map_of [(1, 11), (2, 2), (5, 5)] k = Some v' \<and> v \<noteq> v'} = {1}"
    by (auto split: if_splits)
  with * show ?thesis by auto
qed

section \<open>Splitting results\<close>

fun split_results :: "('e, 'a) result list \<Rightarrow> 'a list \<times> 'e list" where
  "split_results [] = ([], [])"
| "split_results (Ok a # rs) = (case split_results rs of (oks, errs) \<Rightarrow> (a # oks, errs))"
| "split_results (Err e # rs) = (case split_results rs of (oks, errs) \<Rightarrow> (oks, e # errs))"
| "split_results (_ # rs) = split_results rs"

lemma split_results_mem:
  "a \<in> set (fst (split_results rs)) \<longleftrightarrow> Ok a \<in> set rs"
  "e \<in> set (snd (split_results rs)) \<longleftrightarrow> Err e \<in> set rs"
  by (induction rs rule: split_results.induct) (auto split: prod.splits)

section \<open>Grouping a stream\<close>

text \<open>The state of the generator is the current item with the items grouped before it.\<close>

fun try_group_while_from ::
  "('a \<Rightarrow> 'a \<Rightarrow> bool) \<Rightarrow> ('a \<times> 'a list) option \<Rightarrow> ('e + 'a) list \<Rightarrow> ('e + 'a list) list" where
  "try_group_while_from p None [] = []"
| "try_group_while_from p (Some (cur, grp)) [] = [Inr (grp @ [cur])]"
| "try_group_while_from p None (Inr x # xs) = try_group_while_from p (Some (x, [])) xs"
| "try_group_while_from p (Some (cur, grp)) (Inr x # xs) =
     (if p cur x then try_group_while_from p (Some (x, grp @ [cur])) xs
      else Inr (grp @ [cur]) # try_group_while_from p (Some (x, [])) xs)"
| "try_group_while_from p None (Inl e # xs) = Inl e # try_group_while_from p None xs"
| "try_group_while_from p (Some (cur, grp)) (Inl e # xs) =
     (if grp \<noteq> [] then [Inr grp] else []) @ [Inr [cur], Inl e] @ try_group_while_from p None xs"

definition try_group_while :: "('a \<Rightarrow> 'a \<Rightarrow> bool) \<Rightarrow> ('e + 'a) list \<Rightarrow> ('e + 'a list) list" where
  "try_group_while p xs = try_group_while_from p None xs"

fun flatten :: "('e + 'a list) list \<Rightarrow> ('e + 'a) list" where
  "flatten [] = []"
| "flatten (Inl e # gs) = Inl e # flatten gs"
| "flatten (Inr xs # gs) = map Inr xs @ flatten gs"

fun pending_items :: "('a \<times> 'a list) option \<Rightarrow> ('e + 'a) list" where
  "pending_items None = []"
| "pending_items (Some (cur, grp)) = map Inr (grp @ [cur])"

lemma flatten_append [simp]: "flatten (xs @ ys) = flatten xs @ flatten ys"
  by (induction xs rule: flatten.induct) auto

lemma flatten_try_group_while_from: "flatten (try_group_while_from p st xs) = pending_items st @ xs"
  by (induction p st xs rule: try_group_while_from.induct) auto

text \<open>Neighbouring items of a group are related, and no group is empty.\<close>

fun chained :: "('a \<Rightarrow> 'a \<Rightarrow> bool) \<Rightarrow> 'a list \<Rightarrow> bool" where
  "chained p [] = True"
| "chained p [x] = True"
| "chained p (x # y # xs) = (p x y \<and> chained p (y # xs))"

lemma chained_snoc: "chained p (xs @ [y]) \<longleftrightarrow> chained p xs \<and> (xs = [] \<or> p (last xs) y)"
  by (induction p xs rule: chained.induct) auto

fun group_ok :: "('a \<Rightarrow> 'a \<Rightarrow> bool) \<Rightarrow> ('e + 'a list) \<Rightarrow> bool" where
  "group_ok p (Inl e) = True"
| "group_ok p (Inr xs) = (xs \<noteq> [] \<and> chained p xs)"

lemma group_ok_try_group_while_from:
  assumes "\<And>cur grp. st = Some (cur, grp) \<Longrightarrow> chained p (grp @ [cur])"
  shows "list_all (group_ok p) (try_group_while_from p st xs)"
  using assms
proof (induction p st xs rule: try_group_while_from.induct)
  case (4 p cur grp x xs)
  then show ?case by (auto simp: chained_snoc)
qed (auto simp: chained_snoc)

text \<open>Grouping a stream keeps every item and error, in order; the groups are non-empty and
  neighbouring items of a group are related.\<close>

theorem try_group_while_correct:
  "flatten (try_group_while p xs) = xs \<and> list_all (group_ok p) (try_group_while p xs)"
  using group_ok_try_group_while_from [of None p xs]
  by (simp add: try_group_while_def flatten_try_group_while_from)

section \<open>Retry delays\<close>

text \<open>\<open>Duration::MAX\<close> in nanoseconds: a 64-bit number of seconds and the largest fraction.\<close>

definition DURATION_MAX :: duration where
  "DURATION_MAX = (2 ^ 64 - 1) * 10 ^ 9 + 999999999"

record constant_growth =
  cg_delay :: duration
  cg_incr :: duration

definition constant_growth_next :: "constant_growth \<Rightarrow> duration \<times> constant_growth" where
  "constant_growth_next g =
     (cg_delay g, if cg_delay g + cg_incr g \<le> DURATION_MAX then g\<lparr>cg_delay := cg_delay g + cg_incr g\<rparr> else g)"

fun growth_take :: "nat \<Rightarrow> constant_growth \<Rightarrow> duration list" where
  "growth_take 0 g = []"
| "growth_take (Suc n) g = (case constant_growth_next g of (d, g') \<Rightarrow> d # growth_take n g')"

definition clamp :: "constant_growth \<Rightarrow> duration \<Rightarrow> nat \<Rightarrow> duration list" where
  "clamp g max_delay max_retries = map (\<lambda>d. min d max_delay) (growth_take max_retries g)"

text \<open>The delays of \<open>clamp_total\<close>: the addition of durations panics on overflow, and the elapsed time is
  advanced also when the iterator ends. The fuel bounds the number of delays.\<close>

fun clamp_total_from ::
  "nat \<Rightarrow> constant_growth \<Rightarrow> duration \<Rightarrow> duration \<Rightarrow> duration \<Rightarrow> (unit, duration list) result" where
  "clamp_total_from 0 g max_delay max_total elapsed = Hang"
| "clamp_total_from (Suc n) g max_delay max_total elapsed =
     (case constant_growth_next g of (d, g') \<Rightarrow>
      let delay = min d max_delay in
      if elapsed + delay > DURATION_MAX then Panic
      else if elapsed \<ge> max_total then Ok []
      else map_ok ((#) (if elapsed + delay > max_total then max_total - elapsed else delay))
             (clamp_total_from n g' max_delay max_total (elapsed + delay)))"

definition clamp_total :: "nat \<Rightarrow> constant_growth \<Rightarrow> duration \<Rightarrow> duration \<Rightarrow> (unit, duration list) result" where
  "clamp_total fuel g max_delay max_total = clamp_total_from fuel g max_delay max_total 0"

definition from_millis :: "nat \<Rightarrow> duration" where
  "from_millis n = n * 10 ^ 6"

definition from_secs :: "nat \<Rightarrow> duration" where
  "from_secs n = n * 10 ^ 9"

definition worker_default_strategy :: "nat \<Rightarrow> (unit, duration list) result" where
  "worker_default_strategy fuel =
     clamp_total fuel \<lparr>cg_delay = from_millis 200, cg_incr = from_millis 100\<rparr> (from_millis 500) (from_secs 2)"

lemma growth_positive:
  "0 < cg_delay g \<Longrightarrow> constant_growth_next g = (d, g') \<Longrightarrow> 0 < d \<and> 0 < cg_delay g'"
  by (auto simp: constant_growth_next_def split: if_splits)

lemma clamp_total_from_done:
  assumes "0 < cg_delay g" and "0 < max_delay" and "max_total + 2 * max_delay \<le> DURATION_MAX"
    and "elapsed \<le> max_total + max_delay" and "max_total - elapsed < fuel"
  shows "\<exists>ds. clamp_total_from fuel g max_delay max_total elapsed = Ok ds
           \<and> sum_list ds = max_total - elapsed \<and> list_all (\<lambda>d. d \<le> max_delay) ds"
  using assms
proof (induction fuel arbitrary: g elapsed)
  case (Suc n)
  obtain d g' where next_step: "constant_growth_next g = (d, g')" by (cases "constant_growth_next g")
  with Suc.prems(1) have pos: "0 < d" "0 < cg_delay g'" using growth_positive by blast+
  define delay where "delay = min d max_delay"
  have delay: "0 < delay" "delay \<le> max_delay" using pos Suc.prems(2) by (auto simp: delay_def)
  then have no_panic: "\<not> elapsed + delay > DURATION_MAX" using Suc.prems by simp
  show ?case
  proof (cases "max_total \<le> elapsed")
    case True
    then show ?thesis using next_step no_panic by (simp add: delay_def [symmetric])
  next
    case False
    have "elapsed + delay \<le> max_total + max_delay" using False delay by simp
    moreover have "max_total - (elapsed + delay) < n" using Suc.prems(5) delay False by simp
    ultimately obtain ds where "clamp_total_from n g' max_delay max_total (elapsed + delay) = Ok ds"
      "sum_list ds = max_total - (elapsed + delay)" "list_all (\<lambda>d. d \<le> max_delay) ds"
      using Suc.IH [of g' "elapsed + delay"] pos Suc.prems by blast
    then show ?thesis
      using next_step no_panic False delay by (auto simp: delay_def [symmetric] Let_def)
  qed
qed simp

text \<open>A growing back-off clamped in total always ends, and the delays it yields add up to exactly the
  total allowed, none longer than the largest allowed delay.\<close>

theorem clamp_total_exact:
  assumes "0 < cg_delay g" and "0 < max_delay" and "max_total + 2 * max_delay \<le> DURATION_MAX"
    and "max_total < fuel"
  shows "\<exists>ds. clamp_total fuel g max_delay max_total = Ok ds \<and> sum_list ds = max_total
           \<and> list_all (\<lambda>d. d \<le> max_delay) ds"
  using clamp_total_from_done [of g max_delay max_total 0 fuel] assms by (simp add: clamp_total_def)

theorem clamp_total_exact_witness:
  "\<exists>ds. clamp_total 8 \<lparr>cg_delay = 2, cg_incr = 1\<rparr> 3 7 = Ok ds \<and> sum_list ds = 7
           \<and> list_all (\<lambda>d. d \<le> 3) ds"
  by (rule clamp_total_exact) (simp_all add: DURATION_MAX_def)

lemma clamp_total_from_numeral:
  "clamp_total_from (numeral k) g max_delay max_total elapsed =
     (case constant_growth_next g of (d, g') \<Rightarrow>
      let delay = min d max_delay in
      if elapsed + delay > DURATION_MAX then Panic
      else if elapsed \<ge> max_total then Ok []
      else map_ok ((#) (if elapsed + delay > max_total then max_total - elapsed else delay))
             (clamp_total_from (pred_numeral k) g' max_delay max_total (elapsed + delay)))"
  by (simp only: numeral_eq_Suc clamp_total_from.simps)

text \<open>The back-off of the workers is the six delays of 200, 300, 400, 500, 500 and 100 milliseconds.\<close>

theorem worker_default_strategy_delays:
  "worker_default_strategy 7 = Ok (map from_millis [200, 300, 400, 500, 500, 100])"
  by (simp add: worker_default_strategy_def clamp_total_def constant_growth_next_def DURATION_MAX_def
      from_millis_def from_secs_def clamp_total_from_numeral Let_def)

end
