(* ===== verification/Chain_Handle.thy ===== *)
theory Chain_Handle
  imports Ibc_Events Ics03_Connection Relayer_Util
begin

text \<open>
  What the relaying code sees of a chain: the data types of \<open>relayer/src/chain/requests.rs\<close>,
  \<open>chain/tracking.rs\<close>, \<open>chain/endpoint.rs\<close>, \<open>client_state.rs\<close>, \<open>config.rs\<close> and \<open>path.rs\<close>, and the
  operations of the trait \<open>ChainHandle\<close> (\<open>chain/handle.rs\<close>) that it calls.

  A handle talks to a remote chain, so its operations are parameters: each is a computation over an
  abstract world of type \<open>'w\<close>, which holds whatever the chains and the clock are. Messages are kept
  as the domain values that \<open>to_any\<close> encodes, proof bytes and signers as opaque strings, a consensus state as
  its time, and the errors of the handle as their text, except the one that the code tells apart.
\<close>

section \<open>Requests and responses\<close>

datatype query_height = Latest | Specific height

datatype 'a qual = SmallerEqual 'a | QualEqual 'a

fun qualified_get :: "'a qual \<Rightarrow> 'a" where
  "qualified_get (SmallerEqual t) = t"
| "qualified_get (QualEqual t) = t"

datatype with_block_data_type = BlockCreateClient | BlockUpdateClient | BlockSendPacket | BlockWriteAck

type_synonym tx_hash_value = "byte list"

datatype query_tx_request =
    TxClientEvent query_height with_block_data_type client_id height
  | TxTransaction tx_hash_value

record query_packet_event_data_request =
  pe_event_id :: with_block_data_type
  pe_source_port_id :: port_id
  pe_source_channel_id :: channel_id
  pe_destination_port_id :: port_id
  pe_destination_channel_id :: channel_id
  pe_sequences :: "sequence list"
  pe_height :: "query_height qual"

record chain_status =
  status_height :: height
  status_timestamp :: timestamp

record tx_response =
  resp_hash :: tx_hash_value
  resp_is_err :: bool
  resp_log :: string

section \<open>Client states, headers and configurations\<close>

record tm_client_state =
  tm_chain_id :: chain_id
  tm_trusting_period :: duration
  tm_max_clock_drift :: duration
  tm_latest_height :: height
  tm_frozen_height :: "height option"

datatype any_client_state =
    TmClientState tm_client_state
  | EthClientState chain_id (attested_slot: u64)
  | CkbClientState chain_id height
  | AxonClientState chain_id height

fun client_state_chain_id :: "any_client_state \<Rightarrow> chain_id" where
  "client_state_chain_id (TmClientState s) = tm_chain_id s"
| "client_state_chain_id (EthClientState c _) = c"
| "client_state_chain_id (CkbClientState c _) = c"
| "client_state_chain_id (AxonClientState c _) = c"

text \<open>The Ethereum height is built with \<open>expect\<close>: a zero slot panics.\<close>

fun client_state_latest_height :: "any_client_state \<Rightarrow> ('e, height) result" where
  "client_state_latest_height (TmClientState s) = Ok (tm_latest_height s)"
| "client_state_latest_height (EthClientState _ slot) = unwrap (height_new (slot div 32) slot)"
| "client_state_latest_height (CkbClientState _ h) = Ok h"
| "client_state_latest_height (AxonClientState _ h) = Ok h"

fun client_state_frozen_height :: "any_client_state \<Rightarrow> height option" where
  "client_state_frozen_height (TmClientState s) = tm_frozen_height s"
| "client_state_frozen_height _ = None"

definition is_frozen :: "any_client_state \<Rightarrow> bool" where
  "is_frozen s \<longleftrightarrow> client_state_frozen_height s \<noteq> None"

fun client_state_max_clock_drift :: "any_client_state \<Rightarrow> duration" where
  "client_state_max_clock_drift (TmClientState s) = tm_max_clock_drift s"
| "client_state_max_clock_drift _ = 0"

fun client_state_type :: "any_client_state \<Rightarrow> client_type" where
  "client_state_type (TmClientState _) = Tendermint"
| "client_state_type (EthClientState _ _) = Eth"
| "client_state_type (CkbClientState _ _) = Ckb"
| "client_state_type (AxonClientState _ _) = Axon"

text \<open>\<open>2 * trusting_period / 3\<close>: the multiplication of a duration panics on overflow.\<close>

fun client_state_refresh_period :: "any_client_state \<Rightarrow> ('e, duration option) result" where
  "client_state_refresh_period (TmClientState s) =
     (if 2 * tm_trusting_period s > DURATION_MAX then Panic else Ok (Some (2 * tm_trusting_period s div 3)))"
| "client_state_refresh_period _ = Ok None"

text \<open>The arm for Ethereum clients is \<open>todo!()\<close>.\<close>

fun client_state_expired :: "any_client_state \<Rightarrow> duration \<Rightarrow> ('e, bool) result" where
  "client_state_expired (TmClientState s) elapsed = Ok (elapsed > tm_trusting_period s)"
| "client_state_expired (EthClientState _ _) elapsed = Panic"
| "client_state_expired (CkbClientState _ _) elapsed = Ok False"
| "client_state_expired (AxonClientState _ _) elapsed = Ok False"

record any_header =
  hdr_height :: height
  hdr_timestamp :: timestamp
  hdr_bytes :: header

type_synonym trust_threshold = "u64 \<times> u64"

record cosmos_config =
  cosmos_max_block_time :: duration
  cosmos_clock_drift :: duration
  cosmos_trust_threshold :: trust_threshold

datatype chain_config =
    CosmosConfig cosmos_config
  | EthConfig
  | CkbConfig
  | Ckb4IbcConfig
  | AxonConfig

fun max_block_time :: "chain_config \<Rightarrow> duration" where
  "max_block_time (CosmosConfig c) = cosmos_max_block_time c"
| "max_block_time _ = from_secs 90"

section \<open>Messages\<close>

type_synonym signer = string
type_synonym any_consensus_state = timestamp
type_synonym misbehaviour = string

text \<open>The proofs of a message: their bytes and the height at which they verify.\<close>

record proofs =
  proof_bytes :: string
  proof_height :: height

datatype connection_msg_type = ConnMsgOpenTry | ConnMsgOpenAck | ConnMsgOpenConfirm

record misbehaviour_evidence =
  ev_misbehaviour :: misbehaviour
  ev_supporting_headers :: "any_header list"

datatype ibc_msg =
    MsgRecvPacket packet proofs signer
  | MsgAcknowledgement packet "byte list" proofs signer
  | MsgTimeout packet (next_sequence_recv: sequence) proofs signer
  | MsgTimeoutOnClose packet (close_next_sequence_recv: sequence) proofs signer
  | MsgChannelCloseConfirm port_id channel_id proofs signer
  | MsgUpdateClient any_header client_id signer
  | MsgChannelOpenInit port_id channel_end signer
  | MsgChannelOpenTry port_id "channel_id option" channel_end version proofs signer
  | MsgChannelOpenAck port_id channel_id channel_id version proofs signer
  | MsgChannelOpenConfirm port_id channel_id proofs signer
  | MsgChannelCloseInit port_id channel_id signer
  | MsgConnectionOpenInit client_id conn_counterparty "conn_version option" duration signer
  | MsgConnectionOpenTry client_id "any_client_state option" "connection_id option" conn_counterparty
      "conn_version list" proofs duration signer
  | MsgConnectionOpenAck connection_id connection_id "any_client_state option" proofs conn_version signer
  | MsgConnectionOpenConfirm connection_id proofs signer
  | MsgCreateClient any_client_state any_consensus_state signer
  | MsgUpgradeClient client_id any_client_state any_consensus_state string string signer
  | MsgSubmitMisbehaviour client_id misbehaviour signer

datatype tracking_id = Uuid string | Static string | ClearedUuid string

record tracked_msgs =
  tm_msgs :: "ibc_msg list"
  tm_tracking_id :: tracking_id

definition tracked_msgs_new :: "ibc_msg list \<Rightarrow> tracking_id \<Rightarrow> tracked_msgs" where
  "tracked_msgs_new msgs t = \<lparr>tm_msgs = msgs, tm_tracking_id = t\<rparr>"

record path_identifiers =
  path_port_id :: port_id
  path_channel_id :: channel_id
  path_counterparty_port_id :: port_id
  path_counterparty_channel_id :: channel_id

definition path_from_channel_end :: "identified_channel_end \<Rightarrow> path_identifiers option" where
  "path_from_channel_end ice =
     (case cp_channel_id (ch_remote (ic_channel_end ice)) of
        None \<Rightarrow> None
      | Some c \<Rightarrow> Some \<lparr>path_port_id = ic_port_id ice, path_channel_id = ic_channel_id ice,
          path_counterparty_port_id = cp_port_id (ch_remote (ic_channel_end ice)),
          path_counterparty_channel_id = c\<rparr>)"

section \<open>The chain handle\<close>

datatype relayer_error =
    RelayerError string
  | TrustedStateOutsideTrustingPeriod

definition is_trusted_state_outside_trusting_period_error :: "relayer_error \<Rightarrow> bool" where
  "is_trusted_state_outside_trusting_period_error e \<longleftrightarrow> e = TrustedStateOutsideTrustingPeriod"

record client_settings =
  cs_max_clock_drift :: duration
  cs_trusting_period :: "duration option"
  cs_trust_threshold :: trust_threshold

datatype any_client_settings = TendermintSettings client_settings | AxonCkbSettings | OtherSettings

type_synonym ('w, 'a) chain_op = "('w, relayer_error, 'a) eff"

record 'w chain_handle =
  chain_id :: chain_id
  config :: "('w, chain_config) chain_op"
  get_signer :: "('w, signer) chain_op"
  query_application_status :: "('w, chain_status) chain_op"
  query_client_state :: "client_id \<Rightarrow> query_height \<Rightarrow> ('w, any_client_state) chain_op"
  query_consensus_state :: "client_id \<Rightarrow> height \<Rightarrow> query_height \<Rightarrow> ('w, timestamp) chain_op"
  query_consensus_state_heights :: "client_id \<Rightarrow> ('w, height list) chain_op"
  query_host_consensus_state :: "query_height \<Rightarrow> ('w, timestamp) chain_op"
  query_channel :: "port_id \<Rightarrow> channel_id \<Rightarrow> query_height \<Rightarrow> ('w, channel_end) chain_op"
  query_connection :: "connection_id \<Rightarrow> query_height \<Rightarrow> ('w, connection_end) chain_op"
  query_client_connections :: "client_id \<Rightarrow> ('w, connection_id list) chain_op"
  query_connection_channels :: "connection_id \<Rightarrow> ('w, identified_channel_end list) chain_op"
  maybe_register_counterparty_payee :: "channel_id \<Rightarrow> port_id \<Rightarrow> signer \<Rightarrow> ('w, unit) chain_op"
  query_unreceived_packets :: "port_id \<Rightarrow> channel_id \<Rightarrow> sequence list \<Rightarrow> ('w, sequence list) chain_op"
  query_unreceived_acknowledgements ::
    "port_id \<Rightarrow> channel_id \<Rightarrow> sequence list \<Rightarrow> ('w, sequence list) chain_op"
  query_packet_commitment ::
    "port_id \<Rightarrow> channel_id \<Rightarrow> sequence \<Rightarrow> query_height \<Rightarrow> ('w, byte list) chain_op"
  query_packet_commitments :: "port_id \<Rightarrow> channel_id \<Rightarrow> ('w, sequence list \<times> height) chain_op"
  query_packet_acknowledgements ::
    "port_id \<Rightarrow> channel_id \<Rightarrow> sequence list \<Rightarrow> ('w, sequence list \<times> height) chain_op"
  query_next_sequence_receive :: "port_id \<Rightarrow> channel_id \<Rightarrow> query_height \<Rightarrow> ('w, sequence) chain_op"
  query_txs :: "query_tx_request \<Rightarrow> ('w, ibc_event_with_height list) chain_op"
  query_packet_events ::
    "query_packet_event_data_request \<Rightarrow> ('w, ibc_event_with_height list) chain_op"
  build_packet_proofs ::
    "packet_msg_type \<Rightarrow> port_id \<Rightarrow> channel_id \<Rightarrow> sequence \<Rightarrow> height \<Rightarrow> ('w, proofs) chain_op"
  build_channel_proofs :: "port_id \<Rightarrow> channel_id \<Rightarrow> height \<Rightarrow> ('w, proofs) chain_op"
  query_connections :: "('w, identified_connection_end list) chain_op"
  query_commitment_prefix :: "('w, commitment_prefix) chain_op"
  query_compatible_versions :: "('w, conn_version list) chain_op"
  query_upgraded_client_state :: "height \<Rightarrow> ('w, any_client_state \<times> string) chain_op"
  query_upgraded_consensus_state :: "height \<Rightarrow> ('w, any_consensus_state \<times> string) chain_op"
  build_connection_proofs_and_client_state ::
    "connection_msg_type \<Rightarrow> connection_id \<Rightarrow> client_id \<Rightarrow> height
      \<Rightarrow> ('w, any_client_state option \<times> proofs) chain_op"
  build_client_state :: "height \<Rightarrow> any_client_settings \<Rightarrow> ('w, any_client_state) chain_op"
  build_consensus_state :: "height \<Rightarrow> height \<Rightarrow> any_client_state \<Rightarrow> ('w, any_consensus_state) chain_op"
  check_misbehaviour ::
    "client_attributes \<Rightarrow> header option \<Rightarrow> any_client_state \<Rightarrow> ('w, misbehaviour_evidence option) chain_op"
  build_header :: "height \<Rightarrow> height \<Rightarrow> any_client_state \<Rightarrow> ('w, any_header \<times> any_header list) chain_op"
  send_messages_and_wait_commit :: "tracked_msgs \<Rightarrow> ('w, ibc_event_with_height list) chain_op"
  send_messages_and_wait_check_tx :: "tracked_msgs \<Rightarrow> ('w, tx_response list) chain_op"

text \<open>The default method of the trait.\<close>

definition query_latest_height :: "'w chain_handle \<Rightarrow> ('w, height) chain_op" where
  "query_latest_height c = ebind (query_application_status c) (\<lambda>s. eret (status_height s))"

text \<open>The rest of the world: the wall clock, the monotonic clock, fresh identifiers, the range-checked
  addition of \<open>tendermint::Time\<close>, the text of a failed response, the string fields of a JSON document
  (\<open>serde_json\<close>), the passing of time in \<open>thread::sleep\<close>, and the fuel of the loops that wait for a chain.\<close>

record 'w env =
  timestamp_now :: "'w \<Rightarrow> timestamp \<times> 'w"
  instant_now :: "'w \<Rightarrow> instant \<times> 'w"
  new_uuid :: "'w \<Rightarrow> string \<times> 'w"
  time_add :: "tm_time \<Rightarrow> duration \<Rightarrow> tm_time option"
  fmt_tx_error :: "chain_id \<Rightarrow> tx_response \<Rightarrow> string"
  json_field :: "string \<Rightarrow> string \<Rightarrow> string option"
  sleep :: "duration \<Rightarrow> 'w \<Rightarrow> 'w"
  wait_fuel :: nat

text \<open>\<open>Version::supports_fee\<close> of \<open>ics04_channel/version.rs\<close>.\<close>

definition supports_fee :: "'w env \<Rightarrow> version \<Rightarrow> bool" where
  "supports_fee env v \<longleftrightarrow> json_field env v ''app_version'' \<noteq> None
     \<and> json_field env v ''fee_version'' = Some ''ics29-1''"

definition read_world :: "('w \<Rightarrow> 'a \<times> 'w) \<Rightarrow> ('w, 'e, 'a) eff" where
  "read_world f = (\<lambda>w. case f w of (a, w') \<Rightarrow> (Ok a, w'))"

definition thread_sleep :: "'w env \<Rightarrow> duration \<Rightarrow> ('w, 'e, unit) eff" where
  "thread_sleep env d = emodify (sleep env d)"

end
