(* ===== verification/Sample_Chain.thy ===== *)
theory Sample_Chain
  imports Chain_Handle
begin

text \<open>
  A concrete world for the witnesses: two chains that produce a block per status query, answer every
  query, and record the messages sent to them. Nothing of the model depends on it.
\<close>

record sample_world =
  clock :: nat
  sent :: "(string \<times> tracked_msgs) list"

definition sample_client_state :: "string \<Rightarrow> any_client_state" where
  "sample_client_state target = TmClientState \<lparr>tm_chain_id = ChainId target 0, tm_trusting_period = 1000,
     tm_max_clock_drift = 50, tm_latest_height = Height 0 1, tm_frozen_height = None\<rparr>"

definition sample_status :: "nat \<Rightarrow> chain_status" where
  "sample_status n = \<lparr>status_height = Height 0 (of_nat n), status_timestamp = Timestamp (Some (int n))\<rparr>"

definition sample_header :: "height \<Rightarrow> any_header" where
  "sample_header h = \<lparr>hdr_height = h, hdr_timestamp = Timestamp (Some (uint (revision_height h))), hdr_bytes = ''hdr''\<rparr>"

definition sample_channel :: channel_end where
  "sample_channel = \<lparr>ch_state = Open, ch_ordering = Unordered,
     ch_remote = \<lparr>cp_port_id = PortId ''transfer'', cp_channel_id = Some (ChannelId ''channel-1'')\<rparr>,
     ch_connection_hops = [ConnectionId ''connection-0''], ch_version = ''ics20-1''\<rparr>"

definition sample_connection :: connection_end where
  "sample_connection = \<lparr>conn_state = ConnOpen, conn_client_id = ClientId ''07-tendermint-0'',
     conn_counterparty = \<lparr>cc_client_id = ClientId ''07-tendermint-0'',
       cc_connection_id = Some (ConnectionId ''connection-0''), cc_prefix = ''ibc''\<rparr>,
     conn_versions = [], conn_delay_period = 0\<rparr>"

definition sample_proofs :: proofs where
  "sample_proofs = \<lparr>proof_bytes = ''proof'', proof_height = Height 0 1\<rparr>"

definition sample_config :: chain_config where
  [simp]: "sample_config = CosmosConfig \<lparr>cosmos_max_block_time = 5, cosmos_clock_drift = 1, cosmos_trust_threshold = (1, 3)\<rparr>"

definition sample_chain :: "string \<Rightarrow> string \<Rightarrow> sample_world chain_handle" where
  "sample_chain name counterparty = \<lparr>
     chain_id = ChainId name 0,
     config = eret sample_config,
     get_signer = eret (name @ ''-signer''),
     query_application_status =
       (\<lambda>w. (Ok (sample_status (Suc (clock w))), w\<lparr>clock := Suc (clock w)\<rparr>)),
     query_client_state = (\<lambda>_ _. eret (sample_client_state counterparty)),
     query_consensus_state = (\<lambda>_ _ _. eret (Timestamp (Some 1))),
     query_consensus_state_heights = (\<lambda>_. eret [Height 0 1]),
     query_host_consensus_state = (\<lambda>_. eget (\<lambda>w. Timestamp (Some (int (clock w))))),
     query_channel = (\<lambda>_ _ _. eret sample_channel),
     query_connection = (\<lambda>_ _. eret sample_connection),
     query_client_connections = (\<lambda>_. eret [ConnectionId ''connection-0'']),
     query_connection_channels = (\<lambda>_. eret []),
     maybe_register_counterparty_payee = (\<lambda>_ _ _. eret ()),
     query_unreceived_packets = (\<lambda>_ _ seqs. eret seqs),
     query_unreceived_acknowledgements = (\<lambda>_ _ seqs. eret seqs),
     query_packet_commitment = (\<lambda>_ _ _ _. eret ''commitment''),
     query_packet_commitments = (\<lambda>_ _. eret ([2, 1], Height 0 1)),
     query_packet_acknowledgements = (\<lambda>_ _ seqs. eret (seqs, Height 0 1)),
     query_next_sequence_receive = (\<lambda>_ _ _. eret 1),
     query_txs = (\<lambda>_. eret []),
     query_packet_events = (\<lambda>_. eret []),
     build_packet_proofs = (\<lambda>_ _ _ _ _. eret sample_proofs),
     build_channel_proofs = (\<lambda>_ _ _. eret sample_proofs),
     query_connections = eret [],
     query_commitment_prefix = eret ''ibc'',
     query_compatible_versions = eret get_compatible_versions,
     query_upgraded_client_state = (\<lambda>_. eret (sample_client_state counterparty, ''proof'')),
     query_upgraded_consensus_state = (\<lambda>_. eret (Timestamp (Some 1), ''proof'')),
     build_connection_proofs_and_client_state =
       (\<lambda>_ _ _ _. eret (Some (sample_client_state counterparty), sample_proofs)),
     build_client_state = (\<lambda>_ _. eret (sample_client_state name)),
     build_consensus_state = (\<lambda>_ _ _. eret (Timestamp (Some 1))),
     check_misbehaviour = (\<lambda>_ _ _. eret None),
     build_header = (\<lambda>_ target _. eret (sample_header target, [])),
     send_messages_and_wait_commit = (\<lambda>tm w. (Ok [], w\<lparr>sent := sent w @ [(name, tm)]\<rparr>)),
     send_messages_and_wait_check_tx = (\<lambda>tm w. (Ok [], w\<lparr>sent := sent w @ [(name, tm)]\<rparr>))\<rparr>"

definition sample_env :: "sample_world env" where
  "sample_env = \<lparr>timestamp_now = (\<lambda>w. (Timestamp (Some (int (clock w))), w)),
     instant_now = (\<lambda>w. (int (clock w), w)), new_uuid = (\<lambda>w. (''uuid'', w)),
     time_add = (\<lambda>t d. Some (t + int d)), 
     fmt_tx_error = (\<lambda>_ r. resp_log r), json_field = (\<lambda>_ _. None), sleep = (\<lambda>_ w. w), wait_fuel = 10\<rparr>"

definition sample_world :: sample_world where
  "sample_world = \<lparr>clock = 1, sent = []\<rparr>"

lemma sample_chain_simps [simp]:
  "chain_id (sample_chain name cp) = ChainId name 0"
  "config (sample_chain name cp) = eret sample_config"
  "get_signer (sample_chain name cp) = eret (name @ ''-signer'')"
  "query_application_status (sample_chain name cp) = (\<lambda>w. (Ok (sample_status (Suc (clock w))), w\<lparr>clock := Suc (clock w)\<rparr>))"
  "query_client_state (sample_chain name cp) = (\<lambda>_ _. eret (sample_client_state cp))"
  "query_consensus_state (sample_chain name cp) = (\<lambda>_ _ _. eret (Timestamp (Some 1)))"
  "query_consensus_state_heights (sample_chain name cp) = (\<lambda>_. eret [Height 0 1])"
  "query_host_consensus_state (sample_chain name cp) = (\<lambda>_. eget (\<lambda>w. Timestamp (Some (int (clock w)))))"
  "query_channel (sample_chain name cp) = (\<lambda>_ _ _. eret sample_channel)"
  "query_connection (sample_chain name cp) = (\<lambda>_ _. eret sample_connection)"
  "query_client_connections (sample_chain name cp) = (\<lambda>_. eret [ConnectionId ''connection-0''])"
  "query_connection_channels (sample_chain name cp) = (\<lambda>_. eret [])"
  "maybe_register_counterparty_payee (sample_chain name cp) = (\<lambda>_ _ _. eret ())"
  "query_unreceived_packets (sample_chain name cp) = (\<lambda>_ _ seqs. eret seqs)"
  "query_unreceived_acknowledgements (sample_chain name cp) = (\<lambda>_ _ seqs. eret seqs)"
  "query_packet_commitment (sample_chain name cp) = (\<lambda>_ _ _ _. eret ''commitment'')"
  "query_packet_commitments (sample_chain name cp) = (\<lambda>_ _. eret ([2, 1], Height 0 1))"
  "query_packet_acknowledgements (sample_chain name cp) = (\<lambda>_ _ seqs. eret (seqs, Height 0 1))"
  "query_next_sequence_receive (sample_chain name cp) = (\<lambda>_ _ _. eret 1)"
  "query_txs (sample_chain name cp) = (\<lambda>_. eret [])"
  "query_packet_events (sample_chain name cp) = (\<lambda>_. eret [])"
  "build_packet_proofs (sample_chain name cp) = (\<lambda>_ _ _ _ _. eret sample_proofs)"
  "build_channel_proofs (sample_chain name cp) = (\<lambda>_ _ _. eret sample_proofs)"
  "query_connections (sample_chain name cp) = eret []"
  "query_commitment_prefix (sample_chain name cp) = eret ''ibc''"
  "query_compatible_versions (sample_chain name cp) = eret get_compatible_versions"
  "query_upgraded_client_state (sample_chain name cp) = (\<lambda>_. eret (sample_client_state cp, ''proof''))"
  "query_upgraded_consensus_state (sample_chain name cp) = (\<lambda>_. eret (Timestamp (Some 1), ''proof''))"
  "build_connection_proofs_and_client_state (sample_chain name cp) =
     (\<lambda>_ _ _ _. eret (Some (sample_client_state cp), sample_proofs))"
  "build_client_state (sample_chain name cp) = (\<lambda>_ _. eret (sample_client_state name))"
  "build_consensus_state (sample_chain name cp) = (\<lambda>_ _ _. eret (Timestamp (Some 1)))"
  "check_misbehaviour (sample_chain name cp) = (\<lambda>_ _ _. eret None)"
  "build_header (sample_chain name cp) = (\<lambda>_ target _. eret (sample_header target, []))"
  "send_messages_and_wait_commit (sample_chain name cp) = (\<lambda>tm w. (Ok [], w\<lparr>sent := sent w @ [(name, tm)]\<rparr>))"
  "send_messages_and_wait_check_tx (sample_chain name cp) = (\<lambda>tm w. (Ok [], w\<lparr>sent := sent w @ [(name, tm)]\<rparr>))"
  by (simp_all add: sample_chain_def)

lemma sample_env_simps [simp]:
  "timestamp_now sample_env = (\<lambda>w. (Timestamp (Some (int (clock w))), w))"
  "instant_now sample_env = (\<lambda>w. (int (clock w), w))"
  "new_uuid sample_env = (\<lambda>w. (''uuid'', w))"
  "time_add sample_env = (\<lambda>t d. Some (t + int d))"
  "fmt_tx_error sample_env = (\<lambda>_ r. resp_log r)"
  "json_field sample_env = (\<lambda>_ _. None)"
  "sleep sample_env = (\<lambda>_ w. w)"
  "wait_fuel sample_env = 10"
  by (simp_all add: sample_env_def)

lemma u64_two_le_one [simp]: "\<not> (2 :: u64) \<le> 1"
  by (simp add: not_le)

end
