(* ===== verification/Foreign_Client.thy ===== *)
theory Foreign_Client
  imports Sample_Chain
begin

text \<open>
  \<open>relayer/src/foreign_client.rs\<close>: the client of one chain hosted on another, as far as relaying uses it:
  validation of the client state, the choice of a trusted height, waiting for the chains, building and
  sending client updates, and refreshing the client. The two waiting loops poll a chain until it
  reaches a height; they run on the fuel of the environment, and a loop that exhausts it is a call
  that has not returned.
\<close>

section \<open>Clients and errors\<close>

datatype expired_or_frozen_reason = ReportedFrozen | ExpiredSince duration

datatype foreign_client_error =
    SameChainId chain_id
  | MismatchChainId client_id chain_id chain_id
  | ClientQuery client_id chain_id relayer_error
  | ClientRefresh client_id string relayer_error
  | ExpiredOrFrozen client_id chain_id expired_or_frozen_reason
  | ClientConsensusQuery client_id chain_id height relayer_error
  | ConsensusStateNotTrusted height duration
  | MissingSmallerTrustedHeight chain_id height
  | ClientUpdate chain_id string relayer_error
  | ClientUpdateTiming chain_id duration string
  | HeaderInTheFuture chain_id height timestamp chain_id height timestamp duration
  | ClientCreate chain_id string relayer_error
  | ClientAlreadyUpToDate client_id chain_id height
  | ChainErrorEvent chain_id ibc_event
  | ClientUnexpectedEvent client_id chain_id ibc_event
  | ClientUpgradeError client_id chain_id string relayer_error
  | ClientUpgradeNoSource client_id chain_id
  | Misbehaviour string relayer_error
  | MisbehaviourExit string
  | MissingClientIdFromEvent ibc_event

fun is_expired_or_frozen_error :: "foreign_client_error \<Rightarrow> bool" where
  "is_expired_or_frozen_error (ExpiredOrFrozen _ _ _) = True"
| "is_expired_or_frozen_error _ = False"

record 'w foreign_client =
  fc_id :: client_id
  fc_dst_chain :: "'w chain_handle"
  fc_src_chain :: "'w chain_handle"

definition foreign_client_restore ::
  "client_id \<Rightarrow> 'w chain_handle \<Rightarrow> 'w chain_handle \<Rightarrow> 'w foreign_client" where
  "foreign_client_restore i dst src = \<lparr>fc_id = i, fc_dst_chain = dst, fc_src_chain = src\<rparr>"

definition foreign_client_find ::
  "'w chain_handle \<Rightarrow> 'w chain_handle \<Rightarrow> client_id \<Rightarrow> ('w, foreign_client_error, 'w foreign_client) eff" where
  "foreign_client_find expected_target_chain host_chain i =
     ebind (emap_err (ClientQuery i (chain_id host_chain)) (query_client_state host_chain i Latest)) (\<lambda>cs.
       if client_state_chain_id cs \<noteq> chain_id expected_target_chain
       then ethrow (MismatchChainId i (chain_id expected_target_chain) (client_state_chain_id cs))
       else eret (foreign_client_restore i host_chain expected_target_chain))"

section \<open>Validation of the client state\<close>

datatype consensus_state_trusted = NotTrusted duration timestamp timestamp | Trusted duration

definition fetch_consensus_state ::
  "'w foreign_client \<Rightarrow> height \<Rightarrow> ('w, foreign_client_error, timestamp) eff" where
  "fetch_consensus_state fc h =
     emap_err (ClientConsensusQuery (fc_id fc) (chain_id (fc_dst_chain fc)) h)
       (query_consensus_state (fc_dst_chain fc) (fc_id fc) h Latest)"

text \<open>\<open>heights.sort_by_key(Reverse)\<close>: descending.\<close>

definition fetch_consensus_state_heights ::
  "'w foreign_client \<Rightarrow> ('w, foreign_client_error, height list) eff" where
  "fetch_consensus_state_heights fc =
     ebind (emap_err (ClientQuery (fc_id fc) (chain_id (fc_src_chain fc)))
              (query_consensus_state_heights (fc_dst_chain fc) (fc_id fc))) (\<lambda>hs.
       eret (rev (sort hs)))"

definition check_consensus_state_trusting_period ::
  "'w foreign_client \<Rightarrow> any_client_state \<Rightarrow> height \<Rightarrow> ('w, foreign_client_error, consensus_state_trusted) eff" where
  "check_consensus_state_trusting_period fc cs h =
     ebind (fetch_consensus_state fc h) (\<lambda>consensus_ts.
     ebind (emap_err (ClientRefresh (fc_id fc) ''failed querying the application status of source chain'')
              (query_application_status (fc_src_chain fc))) (\<lambda>status.
     let elapsed = (case duration_since (status_timestamp status) consensus_ts of
                      None \<Rightarrow> 0 | Some d \<Rightarrow> d) in
     ebind (eresult (client_state_expired cs elapsed)) (\<lambda>expired.
       eret (if expired then NotTrusted elapsed (status_timestamp status) consensus_ts
             else Trusted elapsed))))"

definition validated_client_state ::
  "'w foreign_client \<Rightarrow> ('w, foreign_client_error, any_client_state \<times> duration option) eff" where
  "validated_client_state fc =
     ebind (emap_err (ClientRefresh (fc_id fc) ''failed querying client state on dst chain'')
              (query_client_state (fc_dst_chain fc) (fc_id fc) Latest)) (\<lambda>cs.
     if is_frozen cs then ethrow (ExpiredOrFrozen (fc_id fc) (chain_id (fc_dst_chain fc)) ReportedFrozen)
     else
       ebind (eresult (client_state_latest_height cs)) (\<lambda>latest.
       ebind (check_consensus_state_trusting_period fc cs latest) (\<lambda>trust.
         case trust of
           NotTrusted elapsed _ _ \<Rightarrow>
             ethrow (ExpiredOrFrozen (fc_id fc) (chain_id (fc_dst_chain fc)) (ExpiredSince elapsed))
         | Trusted elapsed \<Rightarrow> eret (cs, Some elapsed))))"

definition is_expired_or_frozen :: "'w foreign_client \<Rightarrow> ('w, foreign_client_error, bool) eff" where
  "is_expired_or_frozen fc =
     ebind (etry (validated_client_state fc)) (\<lambda>r.
       eret (case r of Inr _ \<Rightarrow> False | Inl e \<Rightarrow> is_expired_or_frozen_error e))"

section \<open>Trusted heights\<close>

definition solve_trusted_height ::
  "'w foreign_client \<Rightarrow> height \<Rightarrow> any_client_state \<Rightarrow> ('w, foreign_client_error, height) eff" where
  "solve_trusted_height fc target cs =
     ebind (eresult (client_state_latest_height cs)) (\<lambda>latest.
     if latest < target then eret latest
     else ebind (fetch_consensus_state_heights fc) (\<lambda>cs_heights.
       case List.find (\<lambda>h. h < target) cs_heights of
         Some h \<Rightarrow> eret h
       | None \<Rightarrow> ethrow (MissingSmallerTrustedHeight (chain_id (fc_dst_chain fc)) target)))"

definition validate_trusted_height ::
  "'w foreign_client \<Rightarrow> height \<Rightarrow> any_client_state \<Rightarrow> ('w, foreign_client_error, unit) eff" where
  "validate_trusted_height fc trusted cs =
     ebind (eresult (client_state_latest_height cs)) (\<lambda>latest.
     if latest \<noteq> trusted then ebind (fetch_consensus_state fc trusted) (\<lambda>_. eret ()) else eret ())"

section \<open>Waiting\<close>

text \<open>Poll until the test holds, pausing between the polls; both waiting loops of the sources have this shape.\<close>

fun poll_until :: "nat \<Rightarrow> ('s \<Rightarrow> 's) \<Rightarrow> ('s, 'e, 'a) eff \<Rightarrow> ('a \<Rightarrow> bool) \<Rightarrow> ('s, 'e, 'a) eff" where
  "poll_until 0 pause q stop = ehang"
| "poll_until (Suc n) pause q stop =
     ebind q (\<lambda>a. if stop a then eret a else ebind (emodify pause) (\<lambda>_. poll_until n pause q stop))"

definition dst_status ::
  "'w foreign_client \<Rightarrow> ('w, foreign_client_error, chain_status) eff" where
  "dst_status fc =
     emap_err (ClientUpdate (chain_id (fc_dst_chain fc))
                 ''failed querying latest status of the destination chain'')
       (query_application_status (fc_dst_chain fc))"

definition adjust_drift ::
  "'w env \<Rightarrow> 'w foreign_client \<Rightarrow> any_client_state \<Rightarrow> timestamp \<Rightarrow> ('w, foreign_client_error, timestamp) eff" where
  "adjust_drift env fc cs ts =
     eresult (map_err (\<lambda>_. ClientUpdateTiming (chain_id (fc_dst_chain fc)) (client_state_max_clock_drift cs)
                  ''failed to adjust timestamp of destination chain with clock drift'')
                (timestamp_add (time_add env) ts (client_state_max_clock_drift cs)))"

definition wait_for_header_validation_delay ::
  "'w env \<Rightarrow> 'w foreign_client \<Rightarrow> any_client_state \<Rightarrow> any_header \<Rightarrow> ('w, foreign_client_error, unit) eff" where
  "wait_for_header_validation_delay env fc cs hdr =
     ebind (dst_status fc) (\<lambda>status.
     ebind (adjust_drift env fc cs (status_timestamp status)) (\<lambda>ts_adjusted.
     ebind (if after (hdr_timestamp hdr) ts_adjusted
            then ebind (thread_sleep env (from_millis 300)) (\<lambda>_.
                   poll_until (wait_fuel env) (sleep env (from_millis 300)) (dst_status fc)
                     (\<lambda>s. status_height s \<ge> increment (status_height status)))
            else eret status) (\<lambda>status2.
     ebind (adjust_drift env fc cs (status_timestamp status2)) (\<lambda>next_ts_adjusted.
       if after (hdr_timestamp hdr) next_ts_adjusted
       then ethrow (HeaderInTheFuture (chain_id (fc_src_chain fc)) (hdr_height hdr) (hdr_timestamp hdr)
              (chain_id (fc_dst_chain fc)) (status_height status2) (status_timestamp status2)
              (client_state_max_clock_drift cs))
       else eret ()))))"

section \<open>Building and sending updates\<close>

definition mk_update :: "'w foreign_client \<Rightarrow> signer \<Rightarrow> any_header \<Rightarrow> ibc_msg" where
  "mk_update fc signer hdr = MsgUpdateClient hdr (fc_id fc) signer"

definition update_error ::
  "'w foreign_client \<Rightarrow> string \<Rightarrow> relayer_error \<Rightarrow> foreign_client_error" where
  "update_error fc reason e = ClientUpdate (chain_id (fc_dst_chain fc)) reason e"

definition choose_trusted_height ::
  "'w foreign_client \<Rightarrow> height \<Rightarrow> height option \<Rightarrow> any_client_state \<Rightarrow> ('w, foreign_client_error, height) eff" where
  "choose_trusted_height fc target maybe_trusted cs = (case maybe_trusted of
       Some trusted \<Rightarrow> ebind (validate_trusted_height fc trusted cs) (\<lambda>_. eret trusted)
     | None \<Rightarrow> solve_trusted_height fc target cs)"

definition check_trusted_height ::
  "'w foreign_client \<Rightarrow> any_client_state \<Rightarrow> height \<Rightarrow> ('w, foreign_client_error, unit) eff" where
  "check_trusted_height fc cs trusted =
     ebind (eresult (client_state_latest_height cs)) (\<lambda>latest.
     if trusted \<noteq> latest then
       ebind (check_consensus_state_trusting_period fc cs trusted) (\<lambda>t.
         case t of
           NotTrusted elapsed _ _ \<Rightarrow> ethrow (ConsensusStateNotTrusted trusted elapsed)
         | Trusted _ \<Rightarrow> eret ())
     else eret ())"

definition build_update_msgs ::
  "'w env \<Rightarrow> 'w foreign_client \<Rightarrow> height \<Rightarrow> height \<Rightarrow> any_client_state \<Rightarrow> ('w, foreign_client_error, ibc_msg list) eff" where
  "build_update_msgs env fc trusted target cs =
     ebind (emap_err (update_error fc ''failed building header with error'')
              (build_header (fc_src_chain fc) trusted target cs)) (\<lambda>(hdr, support).
     ebind (emap_err (update_error fc ''failed getting signer for dst chain'')
              (get_signer (fc_dst_chain fc))) (\<lambda>signer.
     ebind (wait_for_header_validation_delay env fc cs hdr) (\<lambda>_.
       eret (map (mk_update fc signer) support @ [mk_update fc signer hdr]))))"

definition build_update_client_with_trusted ::
  "'w env \<Rightarrow> 'w foreign_client \<Rightarrow> height \<Rightarrow> height option \<Rightarrow> ('w, foreign_client_error, ibc_msg list) eff" where
  "build_update_client_with_trusted env fc target maybe_trusted =
     ebind (validated_client_state fc) (\<lambda>(cs, _).
     ebind (choose_trusted_height fc target maybe_trusted cs) (\<lambda>trusted.
     ebind (check_trusted_height fc cs trusted) (\<lambda>_.
       if trusted \<ge> target then eret []
       else build_update_msgs env fc trusted target cs)))"

definition src_latest_height ::
  "'w foreign_client \<Rightarrow> ('w, foreign_client_error, height) eff" where
  "src_latest_height fc =
     emap_err (ClientCreate (chain_id (fc_src_chain fc)) ''failed fetching src network latest height with error'')
       (query_latest_height (fc_src_chain fc))"

text \<open>No update is built for a source chain whose configuration is CKB4IBC or Axon; a failure to read the
  configuration is ignored.\<close>

definition wait_and_build_update_client_with_trusted ::
  "'w env \<Rightarrow> 'w foreign_client \<Rightarrow> height \<Rightarrow> height option \<Rightarrow> ('w, foreign_client_error, ibc_msg list) eff" where
  "wait_and_build_update_client_with_trusted env fc target trusted =
     ebind (etry (config (fc_src_chain fc))) (\<lambda>cfg.
       if cfg = Inr Ckb4IbcConfig \<or> cfg = Inr AxonConfig then eret []
       else
         ebind (poll_until (wait_fuel env) (sleep env (from_millis 100)) (src_latest_height fc) (\<lambda>h. \<not> h < target)) (\<lambda>_.
           build_update_client_with_trusted env fc target trusted))"

definition wait_and_build_update_client ::
  "'w env \<Rightarrow> 'w foreign_client \<Rightarrow> height \<Rightarrow> ('w, foreign_client_error, ibc_msg list) eff" where
  "wait_and_build_update_client env fc target = wait_and_build_update_client_with_trusted env fc target None"

definition build_update_client_and_send ::
  "'w env \<Rightarrow> 'w foreign_client \<Rightarrow> query_height \<Rightarrow> height option \<Rightarrow> ('w, foreign_client_error, ibc_event list) eff" where
  "build_update_client_and_send env fc target_query trusted =
     ebind (case target_query of
              Latest \<Rightarrow> emap_err (ClientUpdate (chain_id (fc_src_chain fc))
                          ''failed while querying src chain ({}) for latest height'')
                          (query_latest_height (fc_src_chain fc))
            | Specific h \<Rightarrow> eret h) (\<lambda>target.
     ebind (wait_and_build_update_client_with_trusted env fc target trusted) (\<lambda>new_msgs.
       if new_msgs = [] then ethrow (ClientAlreadyUpToDate (fc_id fc) (chain_id (fc_src_chain fc)) target)
       else
         ebind (emap_err (update_error fc ''failed sending message to dst chain'')
                  (send_messages_and_wait_commit (fc_dst_chain fc)
                     (tracked_msgs_new new_msgs (Static ''update client'')))) (\<lambda>evs.
           eret (map event evs))))"

definition build_latest_update_client_and_send ::
  "'w env \<Rightarrow> 'w foreign_client \<Rightarrow> ('w, foreign_client_error, ibc_event list) eff" where
  "build_latest_update_client_and_send env fc = build_update_client_and_send env fc Latest None"

definition foreign_client_update :: "'w env \<Rightarrow> 'w foreign_client \<Rightarrow> ('w, foreign_client_error, unit) eff" where
  "foreign_client_update env fc = ebind (build_latest_update_client_and_send env fc) (\<lambda>_. eret ())"

definition try_refresh ::
  "'w env \<Rightarrow> 'w foreign_client \<Rightarrow> ('w, foreign_client_error, ibc_event list option) eff" where
  "try_refresh env fc =
     ebind (validated_client_state fc) (\<lambda>(cs, elapsed).
     ebind (eresult (client_state_refresh_period cs)) (\<lambda>refresh_window.
       case (elapsed, refresh_window) of
         (Some el, Some win) \<Rightarrow>
           if el > win then ebind (build_latest_update_client_and_send env fc) (\<lambda>evs. eret (Some evs))
           else eret None
       | _ \<Rightarrow> eret None))"

definition refresh ::
  "'w env \<Rightarrow> 'w foreign_client \<Rightarrow> ('w, foreign_client_error, ibc_event list option) eff" where
  "refresh env fc =
     ebind (try_refresh env fc) (\<lambda>r. case r of
       None \<Rightarrow> eret None
     | Some evs \<Rightarrow>
         (case List.find (\<lambda>e. event_type e = ChainErrorType) evs of
            None \<Rightarrow> eret (Some evs)
          | Some ev \<Rightarrow> ethrow (ChainErrorEvent (chain_id (fc_dst_chain fc)) ev)))"

text \<open>The query for the update event is retried up to the given number of times.\<close>

fun query_update_event ::
  "'w env \<Rightarrow> nat \<Rightarrow> 'w foreign_client \<Rightarrow> height \<Rightarrow> ('w, foreign_client_error, ibc_event_with_height list) eff" where
  "query_update_event env 0 fc h = eret []"
| "query_update_event env (Suc n) fc h =
     ebind (thread_sleep env (from_millis 200)) (\<lambda>_.
     ebind (etry (query_txs (fc_dst_chain fc) (TxClientEvent Latest BlockUpdateClient (fc_id fc) h))) (\<lambda>r.
       case r of Inl e \<Rightarrow> query_update_event env n fc h | Inr evs \<Rightarrow> eret evs))"

definition CLIENT_MAX_RETRIES :: nat where
  "CLIENT_MAX_RETRIES = 5"

definition fetch_update_client_event ::
  "'w env \<Rightarrow> 'w foreign_client \<Rightarrow> height \<Rightarrow> ('w, foreign_client_error, (client_attributes \<times> header option) option) eff" where
  "fetch_update_client_event env fc h =
     ebind (query_update_event env CLIENT_MAX_RETRIES fc h) (\<lambda>evs.
       case evs of
         [] \<Rightarrow> eret None
       | ev # _ \<Rightarrow>
           (case event ev of
              UpdateClient a hdr \<Rightarrow> eret (Some (a, hdr))
            | e \<Rightarrow> ethrow (ClientUnexpectedEvent (fc_id fc) (chain_id (fc_dst_chain fc)) e)))"

section \<open>Waiting ends once the chain gets there\<close>

text \<open>The state in which poll number \<open>k\<close> is made, if the polls before it did not stop.\<close>

fun poll_state :: "('s \<Rightarrow> 's) \<Rightarrow> ('s, 'e, 'a) eff \<Rightarrow> 's \<Rightarrow> nat \<Rightarrow> 's" where
  "poll_state pause q s 0 = s"
| "poll_state pause q s (Suc k) = poll_state pause q (pause (snd (q s))) k"

lemma poll_until_Ok:
  assumes "\<And>i. i < k \<Longrightarrow> \<exists>b. fst (q (poll_state pause q s i)) = Ok b \<and> \<not> stop b"
    and "q (poll_state pause q s k) = (Ok a, s')" and "stop a" and "k < fuel"
  shows "poll_until fuel pause q stop s = (Ok a, s')"
  using assms
proof (induction fuel arbitrary: s k)
  case (Suc fuel)
  show ?case
  proof (cases k)
    case 0
    with Suc.prems(2,3) show ?thesis by (simp add: ebind_def eret_def)
  next
    case (Suc j)
    from Suc.prems(1) [of 0] Suc obtain b t where q: "q s = (Ok b, t)" and b: "\<not> stop b"
      by (cases "q s") auto
    have "poll_until fuel pause q stop (pause t) = (Ok a, s')"
    proof (rule Suc.IH)
      show "\<exists>b. fst (q (poll_state pause q (pause t) i)) = Ok b \<and> \<not> stop b" if "i < j" for i
        using Suc.prems(1) [of "Suc i"] Suc that q by simp
      show "q (poll_state pause q (pause t) j) = (Ok a, s')"
        using Suc.prems(2) Suc q by simp
    qed (use Suc.prems Suc in simp_all)
    with q b show ?thesis by (simp add: ebind_def emodify_def)
  qed
qed simp

lemma poll_until_stop:
  "poll_until fuel pause q stop s = (Ok a, s') \<Longrightarrow> stop a \<and> (\<exists>t. q t = (Ok a, s'))"
  by (induction fuel arbitrary: s)
    (auto simp: ehang_def eret_def elim!: ebind_OkE split: if_splits)

section \<open>What a call that succeeds has established\<close>

lemma validated_client_state_Ok:
  assumes "validated_client_state fc w = (Ok (cs, el), w')"
  shows "\<exists>w1. query_client_state (fc_dst_chain fc) (fc_id fc) Latest w = (Ok cs, w1)"
    and "\<not> is_frozen cs"
    and "\<exists>d. el = Some d \<and> client_state_expired cs d = (Ok False :: (foreign_client_error, bool) result)"
  using assms
  by (auto simp: validated_client_state_def check_consensus_state_trusting_period_def Let_def eff_defs
      elim!: ebind_OkE split: if_splits prod.splits consensus_state_trusted.splits)

lemma solve_trusted_height_Ok:
  assumes "solve_trusted_height fc target cs w = (Ok h, w')"
  shows "h < target"
    and "client_state_latest_height cs = (Ok h :: (foreign_client_error, height) result)
      \<or> (\<exists>hs. query_consensus_state_heights (fc_dst_chain fc) (fc_id fc) w = (Ok hs, w')
             \<and> h \<in> set hs \<and> (\<forall>h' \<in> set hs. h' < target \<longrightarrow> h' \<le> h))"
proof -
  have found: "h \<in> set hs \<and> h < target \<and> (\<forall>h' \<in> set hs. h' < target \<longrightarrow> h' \<le> h)"
    if "List.find (\<lambda>h. h < target) (rev (sort hs)) = Some h" for hs
  proof -
    from that obtain i where i: "i < length hs" "rev (sort hs) ! i < target" "h = rev (sort hs) ! i"
      and before: "\<forall>j<i. \<not> rev (sort hs) ! j < target"
      by (auto simp: find_Some_iff)
    have "h' \<le> h" if "h' \<in> set hs" "h' < target" for h'
    proof -
      from that(1) obtain j where j: "j < length hs" "h' = rev (sort hs) ! j"
        by (metis in_set_conv_nth length_rev length_sort set_rev set_sort)
      with before that(2) have "i \<le> j" by (auto simp: not_less)
      moreover have "sorted_wrt (\<ge>) (rev (sort hs))"
        by (simp add: sorted_wrt_rev)
      ultimately show ?thesis
        using i j by (cases "i = j") (auto simp: sorted_wrt_iff_nth_less)
    qed
    moreover have "h \<in> set hs"
      using i nth_mem [of i "rev (sort hs)"] by simp
    ultimately show ?thesis using i by blast
  qed
  show "h < target"
    and "client_state_latest_height cs = (Ok h :: (foreign_client_error, height) result)
      \<or> (\<exists>hs. query_consensus_state_heights (fc_dst_chain fc) (fc_id fc) w = (Ok hs, w')
             \<and> h \<in> set hs \<and> (\<forall>h' \<in> set hs. h' < target \<longrightarrow> h' \<le> h))"
    using assms found
    by (auto simp: solve_trusted_height_def fetch_consensus_state_heights_def eff_defs
        elim!: ebind_OkE split: if_splits option.splits prod.splits)
qed

lemma choose_trusted_height_Ok:
  "choose_trusted_height fc target mt cs w = (Ok h, w') \<Longrightarrow> (\<forall>t. mt = Some t \<longrightarrow> h = t) \<and> (mt = None \<longrightarrow> h < target)"
  by (auto simp: choose_trusted_height_def eret_def elim!: ebind_OkE split: option.splits
      dest: solve_trusted_height_Ok)

lemma wait_for_header_validation_delay_Ok:
  assumes "wait_for_header_validation_delay env fc cs hdr w = (Ok u, w')"
  shows "\<exists>t w1 status ts. query_application_status (fc_dst_chain fc) t = (Ok status, w1)
       \<and> timestamp_add (time_add env) (status_timestamp status) (client_state_max_clock_drift cs) = Ok ts
       \<and> \<not> after (hdr_timestamp hdr) ts"
  using assms
  by (auto simp: wait_for_header_validation_delay_def adjust_drift_def dst_status_def thread_sleep_def eff_defs
      elim!: ebind_OkE dest!: poll_until_stop split: if_splits prod.splits) blast+

section \<open>Properties\<close>

definition sample_client :: "sample_world foreign_client" where
  "sample_client = foreign_client_restore (ClientId ''07-tendermint-0'') (sample_chain ''b'' ''a'') (sample_chain ''a'' ''b'')"

lemmas sample_simps = sample_client_def foreign_client_restore_def sample_world_def sample_client_state_def sample_status_def sample_header_def



text \<open>When no trusted height is given, the one chosen is below the target, and it is either the latest
  height of the client or the greatest consensus height of the client below the target.\<close>

theorem solve_trusted_height_greatest:
  assumes "solve_trusted_height fc target cs w = (Ok h, w')"
  shows "h < target
    \<and> (client_state_latest_height cs = (Ok h :: (foreign_client_error, height) result)
       \<or> (\<exists>hs. query_consensus_state_heights (fc_dst_chain fc) (fc_id fc) w = (Ok hs, w')
             \<and> h \<in> set hs \<and> (\<forall>h' \<in> set hs. h' < target \<longrightarrow> h' \<le> h)))"
  using solve_trusted_height_Ok [OF assms] by blast

theorem solve_trusted_height_greatest_witness:
  "fst (solve_trusted_height sample_client (Height 0 2) (CkbClientState (ChainId ''a'' 0) (Height 0 7)) sample_world)
     = Ok (Height 0 1)
   \<and> (\<exists>hs. query_consensus_state_heights (fc_dst_chain sample_client) (fc_id sample_client) sample_world
             = (Ok hs, sample_world) \<and> Height 0 1 \<in> set hs)"
proof -
  have run: "solve_trusted_height sample_client (Height 0 2) (CkbClientState (ChainId ''a'' 0) (Height 0 7)) sample_world
      = (Ok (Height 0 1), sample_world)"
    by (simp add: solve_trusted_height_def fetch_consensus_state_heights_def sample_simps height_less_iff
        eff_defs ebind_def)
  from solve_trusted_height_greatest [OF run] run show ?thesis by auto
qed



end
