(* ===== verification/Counterparty.thy ===== *)
theory Counterparty
  imports Foreign_Client
begin

text \<open>
  \<open>relayer/src/chain/counterparty.rs\<close>: what the relayer reads from the two ends of a path. Which
  packets and acknowledgements are still to be relayed, the channel, connection and client under a
  port and channel, and the state of the other end.
\<close>

datatype supervisor_error =
    ChannelUninitialized port_id channel_id chain_id
  | ChannelConnectionUninitialized channel_id chain_id conn_counterparty
  | ConnectionNotOpen connection_id channel_id chain_id
  | MissingConnectionHops channel_id chain_id
  | MissingCounterpartyChannelId
  | SupervisorRelayer relayer_error

datatype channel_op_error =
    ChannelQuery chain_id relayer_error
  | MismatchChannelEnds chain_id port_channel_id port_channel_id port_channel_id
  | IncompleteChannelState chain_id port_channel_id
  | ChannelProof relayer_error
  | ChanRelayer relayer_error
  | ChanSupervisor supervisor_error
  | MissingLocalChannelId
  | MissingLocalConnection chain_id
  | ChanMissingCounterpartyChannelId
  | MissingCounterpartyConnection
  | MissingChannelOnDestination
  | ChanClientOperation client_id chain_id foreign_client_error
  | ChanFetchSigner chain_id relayer_error
  | ChanChainQuery chain_id relayer_error
  | QueryChannel channel_id supervisor_error
  | ChanSubmit chain_id relayer_error
  | ChanHandshakeFinalize
  | ChannelAlreadyExist channel_id
  | MismatchPort chain_id port_id chain_id port_id channel_id
  | ChanMissingEvent string
  | ChanTxResponse string
  | ChanInvalidEvent ibc_event
  | ChanMaxRetry nat duration channel_op_error

fun chan_is_expired_or_frozen_error :: "channel_op_error \<Rightarrow> bool" where
  "chan_is_expired_or_frozen_error (ChanClientOperation _ _ e) = is_expired_or_frozen_error e"
| "chan_is_expired_or_frozen_error _ = False"

section \<open>Connections, channels and clients\<close>

definition sup_query :: "('w, 'a) chain_op \<Rightarrow> ('w, supervisor_error, 'a) eff" where
  "sup_query m = emap_err SupervisorRelayer m"

definition counterparty_chain_from_connection ::
  "'w chain_handle \<Rightarrow> connection_id \<Rightarrow> ('w, supervisor_error, chain_id) eff" where
  "counterparty_chain_from_connection src conn =
     ebind (sup_query (query_connection src conn Latest)) (\<lambda>ce.
     ebind (sup_query (query_client_state src (conn_client_id ce) Latest)) (\<lambda>cs.
       eret (client_state_chain_id cs)))"

fun find_connection ::
  "'w chain_handle \<Rightarrow> connection_id \<Rightarrow> connection_id list \<Rightarrow> ('w, supervisor_error, connection_end option) eff" where
  "find_connection cp i [] = eret None"
| "find_connection cp i (c # cs) =
     ebind (sup_query (query_connection cp c Latest)) (\<lambda>ce.
       if cc_connection_id (conn_counterparty ce) = Some i then eret (Some ce)
       else find_connection cp i cs)"

definition connection_on_destination ::
  "connection_id \<Rightarrow> client_id \<Rightarrow> 'w chain_handle \<Rightarrow> ('w, supervisor_error, connection_end option) eff" where
  "connection_on_destination i client cp =
     ebind (sup_query (query_client_connections cp client)) (find_connection cp i)"

definition connection_state_on_destination ::
  "identified_connection_end \<Rightarrow> 'w chain_handle \<Rightarrow> ('w, supervisor_error, connection_state) eff" where
  "connection_state_on_destination c cp =
     (let remote = conn_counterparty (ice_connection_end c) in
      case cc_connection_id remote of
        Some i \<Rightarrow> ebind (sup_query (query_connection cp i Latest)) (\<lambda>ce. eret (conn_state ce))
      | None \<Rightarrow>
          ebind (connection_on_destination (ice_connection_id c) (cc_client_id remote) cp) (\<lambda>r.
            eret (case r of None \<Rightarrow> ConnUninitialized | Some ce \<Rightarrow> conn_state ce)))"

record chan_conn_client =
  ccc_channel :: identified_channel_end
  ccc_connection :: identified_connection_end
  ccc_client_id :: client_id
  ccc_client_state :: any_client_state

definition channel_connection_client_no_checks ::
  "'w chain_handle \<Rightarrow> port_id \<Rightarrow> channel_id \<Rightarrow> ('w, supervisor_error, chan_conn_client) eff" where
  "channel_connection_client_no_checks c port chan =
     ebind (sup_query (query_channel c port chan Latest)) (\<lambda>ch.
     if state_matches ch Uninitialized then ethrow (ChannelUninitialized port chan (chain_id c))
     else (case ch_connection_hops ch of
         [] \<Rightarrow> ethrow (MissingConnectionHops chan (chain_id c))
       | conn # _ \<Rightarrow>
           ebind (sup_query (query_connection c conn Latest)) (\<lambda>ce.
           ebind (sup_query (query_client_state c (conn_client_id ce) Latest)) (\<lambda>cs.
             eret \<lparr>ccc_channel = \<lparr>ic_port_id = port, ic_channel_id = chan, ic_channel_end = ch\<rparr>,
               ccc_connection = \<lparr>ice_connection_id = conn, ice_connection_end = ce\<rparr>,
               ccc_client_id = conn_client_id ce, ccc_client_state = cs\<rparr>))))"

definition channel_connection_client ::
  "'w chain_handle \<Rightarrow> port_id \<Rightarrow> channel_id \<Rightarrow> ('w, supervisor_error, chan_conn_client) eff" where
  "channel_connection_client c port chan =
     ebind (channel_connection_client_no_checks c port chan) (\<lambda>ccc.
       if \<not> connection_is_open (ice_connection_end (ccc_connection ccc))
       then ethrow (ConnectionNotOpen (ice_connection_id (ccc_connection ccc)) chan (chain_id c))
       else eret ccc)"

definition counterparty_chain_from_channel ::
  "'w chain_handle \<Rightarrow> channel_id \<Rightarrow> port_id \<Rightarrow> ('w, supervisor_error, chain_id) eff" where
  "counterparty_chain_from_channel src chan port =
     ebind (channel_connection_client src port chan) (\<lambda>ccc. eret (client_state_chain_id (ccc_client_state ccc)))"

definition fetch_channel_on_destination ::
  "port_id \<Rightarrow> channel_id \<Rightarrow> 'w chain_handle \<Rightarrow> connection_id \<Rightarrow> ('w, supervisor_error, identified_channel_end option) eff" where
  "fetch_channel_on_destination port chan cp conn =
     ebind (sup_query (query_connection_channels cp conn)) (\<lambda>chans.
       eret (List.find (\<lambda>c. cp_channel_id (ch_remote (ic_channel_end c)) = Some chan
                          \<and> cp_port_id (ch_remote (ic_channel_end c)) = port) chans))"

definition channel_on_destination ::
  "identified_channel_end \<Rightarrow> identified_connection_end \<Rightarrow> 'w chain_handle
    \<Rightarrow> ('w, supervisor_error, identified_channel_end option) eff" where
  "channel_on_destination ch conn cp =
     (let remote = ch_remote (ic_channel_end ch) in
      case cp_channel_id remote of
        Some i \<Rightarrow>
          ebind (sup_query (query_channel cp (cp_port_id remote) i Latest)) (\<lambda>c.
            eret (Some \<lparr>ic_port_id = cp_port_id remote, ic_channel_id = i, ic_channel_end = c\<rparr>))
      | None \<Rightarrow>
          (case cc_connection_id (conn_counterparty (ice_connection_end conn)) of
             Some remote_conn \<Rightarrow> fetch_channel_on_destination (ic_port_id ch) (ic_channel_id ch) cp remote_conn
           | None \<Rightarrow> eret None))"

definition channel_state_on_destination ::
  "identified_channel_end \<Rightarrow> identified_connection_end \<Rightarrow> 'w chain_handle \<Rightarrow> ('w, supervisor_error, channel_state) eff" where
  "channel_state_on_destination ch conn cp =
     ebind (channel_on_destination ch conn cp) (\<lambda>r.
       eret (case r of None \<Rightarrow> Uninitialized | Some c \<Rightarrow> ch_state (ic_channel_end c)))"

definition check_channel_counterparty ::
  "'w chain_handle \<Rightarrow> port_channel_id \<Rightarrow> port_channel_id \<Rightarrow> ('w, channel_op_error, unit) eff" where
  "check_channel_counterparty target pchan expected =
     ebind (emap_err (ChannelQuery (chain_id target))
              (query_channel target (pc_port_id pchan) (pc_channel_id pchan) Latest)) (\<lambda>ch.
       case cp_channel_id (ch_remote ch) of
         Some i \<Rightarrow>
           (let actual = \<lparr>pc_channel_id = i, pc_port_id = cp_port_id (ch_remote ch)\<rparr> in
            if actual \<noteq> expected then ethrow (MismatchChannelEnds (chain_id target) pchan expected actual)
            else eret ())
       | None \<Rightarrow> ethrow (IncompleteChannelState (chain_id target) pchan))"

section \<open>Packets and acknowledgements to relay\<close>

definition commitments_on_chain ::
  "'w chain_handle \<Rightarrow> port_id \<Rightarrow> channel_id \<Rightarrow> ('w, supervisor_error, sequence list \<times> height) eff" where
  "commitments_on_chain c port chan =
     ebind (sup_query (query_packet_commitments c port chan)) (\<lambda>(seqs, h). eret (sort seqs, h))"

definition unreceived_packets_sequences ::
  "'w chain_handle \<Rightarrow> port_id \<Rightarrow> channel_id \<Rightarrow> sequence list \<Rightarrow> ('w, supervisor_error, sequence list) eff" where
  "unreceived_packets_sequences c port chan commitments =
     (if commitments = [] then eret []
      else sup_query (query_unreceived_packets c port chan commitments))"

definition packet_acknowledgements ::
  "'w chain_handle \<Rightarrow> port_id \<Rightarrow> channel_id \<Rightarrow> sequence list \<Rightarrow> ('w, supervisor_error, sequence list \<times> height) eff" where
  "packet_acknowledgements c port chan commit_sequences =
     ebind (sup_query (query_packet_acknowledgements c port chan commit_sequences)) (\<lambda>(acked, h).
       eret (sort (filter (\<lambda>s. s \<in> set commit_sequences) acked), h))"

definition unreceived_acknowledgements_sequences ::
  "'w chain_handle \<Rightarrow> port_id \<Rightarrow> channel_id \<Rightarrow> sequence list \<Rightarrow> ('w, supervisor_error, sequence list) eff" where
  "unreceived_acknowledgements_sequences c port chan acks =
     (if acks = [] then eret []
      else sup_query (query_unreceived_acknowledgements c port chan acks))"

definition unreceived_packets ::
  "'w chain_handle \<Rightarrow> 'w chain_handle \<Rightarrow> path_identifiers \<Rightarrow> ('w, supervisor_error, sequence list \<times> height) eff" where
  "unreceived_packets c cp path =
     ebind (commitments_on_chain cp (path_counterparty_port_id path) (path_counterparty_channel_id path)) (\<lambda>(seqs, h).
     ebind (unreceived_packets_sequences c (path_port_id path) (path_channel_id path) seqs) (\<lambda>nrs.
       eret (nrs, h)))"

definition acknowledgements_on_chain ::
  "'w chain_handle \<Rightarrow> 'w chain_handle \<Rightarrow> identified_channel_end \<Rightarrow> ('w, supervisor_error, sequence list \<times> height) eff" where
  "acknowledgements_on_chain c cp channel =
     (let remote = ch_remote (ic_channel_end channel) in
      ebind (eresult (ok_or MissingCounterpartyChannelId (cp_channel_id remote))) (\<lambda>remote_chan.
      ebind (commitments_on_chain cp (cp_port_id remote) remote_chan) (\<lambda>(seqs, _).
        packet_acknowledgements c (ic_port_id channel) (ic_channel_id channel) seqs)))"

definition unreceived_acknowledgements ::
  "'w chain_handle \<Rightarrow> 'w chain_handle \<Rightarrow> path_identifiers \<Rightarrow> ('w, supervisor_error, sequence list \<times> height) eff" where
  "unreceived_acknowledgements c cp path =
     ebind (commitments_on_chain c (path_port_id path) (path_channel_id path)) (\<lambda>(seqs, _).
     ebind (packet_acknowledgements cp (path_counterparty_port_id path) (path_counterparty_channel_id path) seqs) (\<lambda>(acks, h).
     ebind (unreceived_acknowledgements_sequences c (path_port_id path) (path_channel_id path) acks) (\<lambda>sns.
       eret (sns, h))))"

record pending_packets =
  pp_unreceived_packets :: "sequence list"
  pp_unreceived_acks :: "sequence list"

definition pending_packet_summary ::
  "'w chain_handle \<Rightarrow> 'w chain_handle \<Rightarrow> identified_channel_end \<Rightarrow> ('w, supervisor_error, pending_packets) eff" where
  "pending_packet_summary c cp channel =
     (let remote = ch_remote (ic_channel_end channel) in
      ebind (eresult (ok_or MissingCounterpartyChannelId (cp_channel_id remote))) (\<lambda>remote_chan.
      ebind (commitments_on_chain c (ic_port_id channel) (ic_channel_id channel)) (\<lambda>(seqs, _).
      ebind (unreceived_packets_sequences cp (cp_port_id remote) remote_chan seqs) (\<lambda>unreceived.
      ebind (packet_acknowledgements cp (cp_port_id remote) remote_chan seqs) (\<lambda>(acks, _).
      ebind (unreceived_acknowledgements_sequences c (ic_port_id channel) (ic_channel_id channel) acks) (\<lambda>pending.
        eret \<lparr>pp_unreceived_packets = unreceived, pp_unreceived_acks = pending\<rparr>))))))"

section \<open>What the queries establish\<close>

lemma commitments_on_chain_Ok:
  assumes "commitments_on_chain c port chan w = (Ok (seqs, h), w')"
  shows "\<exists>raw. query_packet_commitments c port chan w = (Ok (raw, h), w') \<and> seqs = sort raw"
  using assms
  by (auto simp: commitments_on_chain_def sup_query_def eff_defs elim!: ebind_OkE split: prod.splits)

lemma packet_acknowledgements_Ok:
  assumes "packet_acknowledgements c port chan commits w = (Ok (acks, h), w')"
  shows "\<exists>raw. query_packet_acknowledgements c port chan commits w = (Ok (raw, h), w')
     \<and> sorted acks \<and> set acks = set raw \<inter> set commits"
  using assms
  by (auto simp: packet_acknowledgements_def sup_query_def eff_defs elim!: ebind_OkE split: prod.splits)

section \<open>Properties\<close>

text \<open>The acknowledgements to relay on a path are the answer of the target chain to the query for exactly
  the sequences, in increasing order, that the counterparty reports as acknowledged and for which the
  target chain still holds a commitment; no query is made when there is none.\<close>

theorem unreceived_acknowledgements_query:
  assumes "unreceived_acknowledgements c cp path w = (Ok (sns, h), w')"
  shows "\<exists>commits raw acks h0 w1 w2.
       query_packet_commitments c (path_port_id path) (path_channel_id path) w = (Ok (commits, h0), w1)
     \<and> query_packet_acknowledgements cp (path_counterparty_port_id path) (path_counterparty_channel_id path)
         (sort commits) w1 = (Ok (raw, h), w2)
     \<and> sorted acks \<and> set acks = set raw \<inter> set commits
     \<and> (if acks = [] then sns = []
        else query_unreceived_acknowledgements c (path_port_id path) (path_channel_id path) acks w2 = (Ok sns, w'))"
proof -
  from assms obtain seqs h0 w1 acks w2
    where 1: "commitments_on_chain c (path_port_id path) (path_channel_id path) w = (Ok (seqs, h0), w1)"
      and 2: "packet_acknowledgements cp (path_counterparty_port_id path) (path_counterparty_channel_id path)
                seqs w1 = (Ok (acks, h), w2)"
      and 3: "unreceived_acknowledgements_sequences c (path_port_id path) (path_channel_id path) acks w2
                = (Ok sns, w')"
    by (auto simp: unreceived_acknowledgements_def eret_def elim!: ebind_OkE split: prod.splits)
  from commitments_on_chain_Ok [OF 1] obtain commits
    where c: "query_packet_commitments c (path_port_id path) (path_channel_id path) w = (Ok (commits, h0), w1)"
      and seqs: "seqs = sort commits" by blast
  from packet_acknowledgements_Ok [OF 2] obtain raw
    where "query_packet_acknowledgements cp (path_counterparty_port_id path) (path_counterparty_channel_id path)
                seqs w1 = (Ok (raw, h), w2)"
      and "sorted acks" and "set acks = set raw \<inter> set seqs" by blast
  moreover from 3 have "if acks = [] then sns = []
        else query_unreceived_acknowledgements c (path_port_id path) (path_channel_id path) acks w2 = (Ok sns, w')"
    by (auto simp: unreceived_acknowledgements_sequences_def sup_query_def eff_defs split: if_splits prod.splits)
  ultimately show ?thesis using c seqs by (metis set_sort)
qed

definition sample_path :: path_identifiers where
  "sample_path = \<lparr>path_port_id = PortId ''transfer'', path_channel_id = ChannelId ''channel-1'',
     path_counterparty_port_id = PortId ''transfer'', path_counterparty_channel_id = ChannelId ''channel-0''\<rparr>"

theorem unreceived_acknowledgements_query_witness:
  "unreceived_acknowledgements (sample_chain ''b'' ''a'') (sample_chain ''a'' ''b'') sample_path sample_world
     = (Ok ([1, 2], Height 0 1), sample_world)
   \<and> (\<exists>raw acks :: sequence list. sorted acks \<and> set acks = set raw \<inter> {1, 2})"
proof -
  have run: "unreceived_acknowledgements (sample_chain ''b'' ''a'') (sample_chain ''a'' ''b'') sample_path sample_world
      = (Ok ([1, 2], Height 0 1), sample_world)"
    by (simp add: unreceived_acknowledgements_def commitments_on_chain_def packet_acknowledgements_def
        unreceived_acknowledgements_sequences_def sup_query_def eff_defs ebind_def)
  from unreceived_acknowledgements_query [OF run] run show ?thesis
    by (auto simp: eret_def insert_commute)
qed

text \<open>The counterparty check of a channel end succeeds exactly when the chain answers the query with an end
  whose counterparty is the expected port and channel.\<close>

theorem check_channel_counterparty_iff:
  "fst (check_channel_counterparty target pchan expected w) = Ok ()
   \<longleftrightarrow> (\<exists>ch. fst (query_channel target (pc_port_id pchan) (pc_channel_id pchan) Latest w) = Ok ch
           \<and> cp_channel_id (ch_remote ch) = Some (pc_channel_id expected)
           \<and> cp_port_id (ch_remote ch) = pc_port_id expected)"
  by (cases expected; cases "query_channel target (pc_port_id pchan) (pc_channel_id pchan) Latest w";
      cases "fst (query_channel target (pc_port_id pchan) (pc_channel_id pchan) Latest w)")
    (auto simp: check_channel_counterparty_def ebind_def eff_defs Let_def split: option.splits if_splits)

end
