(* ===== verification/Link_Base.thy ===== *)
theory Link_Base
  imports Counterparty Foreign_Client
begin

text \<open>
  The fixed part of a relay path: the channel it serves (\<open>relayer/src/channel.rs\<close>), the errors of a link
  (\<open>link/error.rs\<close>), the accessors and chain queries of \<open>link/relay_path.rs\<close>, and the two senders of
  \<open>link/relay_sender.rs\<close>. The queues of a relay path are in the theory of the relay path itself.
  The link errors that none of this code raises are left out.
\<close>

section \<open>Errors\<close>

datatype link_error =
    LinkRelayer relayer_error
  | LinkSupervisor supervisor_error
  | LinkInitialization channel_op_error
  | LinkPacketProofs chain_id relayer_error
  | LinkQuery chain_id relayer_error
  | LinkChannel channel_op_error
  | LinkChannelNotFound port_id channel_id chain_id relayer_error
  | LinkClient foreign_client_error
  | OldPacketClearingFailed
  | LinkSend ibc_event
  | MissingChannelId chain_id
  | LinkSigner chain_id relayer_error
  | DecrementHeight height height_error
  | UnexpectedEvent ibc_event
  | UpdateClientEventNotFound
  | InvalidChannelState channel_id chain_id
  | ChannelNotOpened channel_id chain_id
  | CounterpartyChannelNotFound channel_id
  | NoConnectionHop channel_id chain_id
  | UpdateClientFailed

fun link_is_expired_or_frozen_error :: "link_error \<Rightarrow> bool" where
  "link_is_expired_or_frozen_error (LinkClient e) = is_expired_or_frozen_error e"
| "link_is_expired_or_frozen_error _ = False"

section \<open>Channels\<close>

record 'w channel_side =
  side_chain :: "'w chain_handle"
  side_client_id :: client_id
  side_connection_id :: connection_id
  side_port_id :: port_id
  side_channel_id :: "channel_id option"
  side_version :: "version option"

record 'w channel =
  chan_ordering :: order
  chan_a_side :: "'w channel_side"
  chan_b_side :: "'w channel_side"
  chan_connection_delay :: duration

section \<open>Relay paths\<close>

record 'w relay_path =
  rp_env :: "'w env"
  rp_channel :: "'w channel"
  path_id :: path_identifiers
  confirm_txes :: bool

definition relay_path_new :: "'w env \<Rightarrow> 'w channel \<Rightarrow> bool \<Rightarrow> (link_error, 'w relay_path) result" where
  "relay_path_new env chan with_tx_confirmation =
     (let a = chan_a_side chan; b = chan_b_side chan in
      rbind (ok_or (MissingChannelId (chain_id (side_chain a))) (side_channel_id a)) (\<lambda>src_channel_id.
      rbind (ok_or (MissingChannelId (chain_id (side_chain b))) (side_channel_id b)) (\<lambda>dst_channel_id.
        Ok \<lparr>rp_env = env, rp_channel = chan,
          path_id = \<lparr>path_port_id = side_port_id b, path_channel_id = dst_channel_id,
            path_counterparty_port_id = side_port_id a, path_counterparty_channel_id = src_channel_id\<rparr>,
          confirm_txes = with_tx_confirmation\<rparr>)))"

definition src_chain :: "'w relay_path \<Rightarrow> 'w chain_handle" where
  "src_chain p = side_chain (chan_a_side (rp_channel p))"

definition dst_chain :: "'w relay_path \<Rightarrow> 'w chain_handle" where
  "dst_chain p = side_chain (chan_b_side (rp_channel p))"

definition src_client_id :: "'w relay_path \<Rightarrow> client_id" where
  "src_client_id p = side_client_id (chan_a_side (rp_channel p))"

definition dst_client_id :: "'w relay_path \<Rightarrow> client_id" where
  "dst_client_id p = side_client_id (chan_b_side (rp_channel p))"

definition src_port_id :: "'w relay_path \<Rightarrow> port_id" where
  "src_port_id p = path_counterparty_port_id (path_id p)"

definition dst_port_id :: "'w relay_path \<Rightarrow> port_id" where
  "dst_port_id p = path_port_id (path_id p)"

definition src_channel_id :: "'w relay_path \<Rightarrow> channel_id" where
  "src_channel_id p = path_counterparty_channel_id (path_id p)"

definition dst_channel_id :: "'w relay_path \<Rightarrow> channel_id" where
  "dst_channel_id p = path_channel_id (path_id p)"

definition unordered_channel :: "'w relay_path \<Rightarrow> bool" where
  "unordered_channel p \<longleftrightarrow> chan_ordering (rp_channel p) = Unordered"

definition ordered_channel :: "'w relay_path \<Rightarrow> bool" where
  "ordered_channel p \<longleftrightarrow> chan_ordering (rp_channel p) = Ordered"

section \<open>Queries of the two chains\<close>

definition src_channel :: "'w relay_path \<Rightarrow> query_height \<Rightarrow> ('w, link_error, channel_end) eff" where
  "src_channel p h = emap_err (\<lambda>e. LinkChannel (ChannelQuery (chain_id (src_chain p)) e))
     (query_channel (src_chain p) (src_port_id p) (src_channel_id p) h)"

definition dst_channel :: "'w relay_path \<Rightarrow> query_height \<Rightarrow> ('w, link_error, channel_end) eff" where
  "dst_channel p h = emap_err (\<lambda>e. LinkChannel (ChannelQuery (chain_id (dst_chain p)) e))
     (query_channel (dst_chain p) (dst_port_id p) (dst_channel_id p) h)"

definition src_signer :: "'w relay_path \<Rightarrow> ('w, link_error, signer) eff" where
  "src_signer p = emap_err (LinkSigner (chain_id (src_chain p))) (get_signer (src_chain p))"

definition dst_signer :: "'w relay_path \<Rightarrow> ('w, link_error, signer) eff" where
  "dst_signer p = emap_err (LinkSigner (chain_id (dst_chain p))) (get_signer (dst_chain p))"

definition rp_src_latest_height :: "'w relay_path \<Rightarrow> ('w, link_error, height) eff" where
  "rp_src_latest_height p = emap_err (LinkQuery (chain_id (src_chain p))) (query_latest_height (src_chain p))"

definition rp_dst_latest_height :: "'w relay_path \<Rightarrow> ('w, link_error, height) eff" where
  "rp_dst_latest_height p = emap_err (LinkQuery (chain_id (dst_chain p))) (query_latest_height (dst_chain p))"

text \<open>\<open>Timestamp::now().duration_since(t).unwrap_or_default()\<close> and \<open>Instant::now().sub(d)\<close>. Instants are
  unbounded here: the underflow of an \<open>Instant\<close> is not modelled.\<close>

definition elapsed_since :: "timestamp \<Rightarrow> timestamp \<Rightarrow> duration" where
  "elapsed_since now t = (case duration_since now t of None \<Rightarrow> 0 | Some d \<Rightarrow> d)"

definition chain_time_at_height ::
  "'w env \<Rightarrow> 'w chain_handle \<Rightarrow> height \<Rightarrow> ('w, link_error, instant) eff" where
  "chain_time_at_height env c h =
     ebind (emap_err LinkRelayer (query_host_consensus_state c (Specific h))) (\<lambda>chain_time.
     ebind (read_world (timestamp_now env)) (\<lambda>now.
     ebind (read_world (instant_now env)) (\<lambda>i.
       eret (i - int (elapsed_since now chain_time)))))"

definition src_time_at_height :: "'w relay_path \<Rightarrow> height \<Rightarrow> ('w, link_error, instant) eff" where
  "src_time_at_height p h = chain_time_at_height (rp_env p) (src_chain p) h"

definition dst_time_at_height :: "'w relay_path \<Rightarrow> height \<Rightarrow> ('w, link_error, instant) eff" where
  "dst_time_at_height p h = chain_time_at_height (rp_env p) (dst_chain p) h"

text \<open>The status query is unwrapped: its error is a panic.\<close>

definition eunwrap :: "('s, 'e, 'a) eff \<Rightarrow> ('s, 'f, 'a) eff" where
  "eunwrap m = (\<lambda>s. case m s of (r, s') \<Rightarrow> (unwrap r, s'))"

definition time_latest :: "'w env \<Rightarrow> 'w chain_handle \<Rightarrow> ('w, link_error, instant) eff" where
  "time_latest env c =
     ebind (read_world (timestamp_now env)) (\<lambda>now.
     ebind (eunwrap (query_application_status c)) (\<lambda>status.
     ebind (read_world (instant_now env)) (\<lambda>i.
       eret (i - int (elapsed_since now (status_timestamp status))))))"

definition src_time_latest :: "'w relay_path \<Rightarrow> ('w, link_error, instant) eff" where
  "src_time_latest p = time_latest (rp_env p) (src_chain p)"

definition dst_time_latest :: "'w relay_path \<Rightarrow> ('w, link_error, instant) eff" where
  "dst_time_latest p = time_latest (rp_env p) (dst_chain p)"

definition src_max_block_time :: "'w relay_path \<Rightarrow> ('w, link_error, duration) eff" where
  "src_max_block_time p = ebind (emap_err LinkRelayer (config (src_chain p))) (\<lambda>c. eret (max_block_time c))"

definition dst_max_block_time :: "'w relay_path \<Rightarrow> ('w, link_error, duration) eff" where
  "dst_max_block_time p = ebind (emap_err LinkRelayer (config (dst_chain p))) (\<lambda>c. eret (max_block_time c))"

section \<open>Client updates\<close>

definition restore_src_client :: "'w relay_path \<Rightarrow> 'w foreign_client" where
  "restore_src_client p = foreign_client_restore (src_client_id p) (src_chain p) (dst_chain p)"

definition restore_dst_client :: "'w relay_path \<Rightarrow> 'w foreign_client" where
  "restore_dst_client p = foreign_client_restore (dst_client_id p) (dst_chain p) (src_chain p)"

definition build_update_client_on_dst :: "'w relay_path \<Rightarrow> height \<Rightarrow> ('w, link_error, ibc_msg list) eff" where
  "build_update_client_on_dst p h =
     emap_err LinkClient (wait_and_build_update_client (rp_env p) (restore_dst_client p) h)"

definition build_update_client_on_src :: "'w relay_path \<Rightarrow> height \<Rightarrow> ('w, link_error, ibc_msg list) eff" where
  "build_update_client_on_src p h =
     emap_err LinkClient (wait_and_build_update_client (rp_env p) (restore_src_client p) h)"

section \<open>Senders\<close>

text \<open>The trait \<open>Submit\<close> with its reply type.\<close>

record ('w, 'r) sender =
  submit :: "'w chain_handle \<Rightarrow> tracked_msgs \<Rightarrow> ('w, link_error, 'r) eff"
  reply_empty :: 'r

type_synonym relay_summary = "ibc_event list"
type_synonym async_reply = "tx_response list"

fun is_chain_error :: "ibc_event \<Rightarrow> bool" where
  "is_chain_error (ChainError _) = True"
| "is_chain_error _ = False"

definition sync_sender :: "('w, relay_summary) sender" where
  "sync_sender = \<lparr>
     submit = (\<lambda>target msgs.
       ebind (emap_err LinkRelayer (send_messages_and_wait_commit target msgs)) (\<lambda>evs.
         case List.find (\<lambda>e. is_chain_error (event e)) evs of
           Some ev \<Rightarrow> ethrow (LinkSend (event ev))
         | None \<Rightarrow> eret (map event evs))),
     reply_empty = []\<rparr>"

definition async_sender :: "('w, async_reply) sender" where
  "async_sender = \<lparr>
     submit = (\<lambda>target msgs. emap_err LinkRelayer (send_messages_and_wait_check_tx target msgs)),
     reply_empty = []\<rparr>"

section \<open>A path between the sample chains\<close>

definition sample_side :: "string \<Rightarrow> string \<Rightarrow> string \<Rightarrow> sample_world channel_side" where
  "sample_side name cp chan = \<lparr>side_chain = sample_chain name cp, side_client_id = ClientId ''07-tendermint-0'',
     side_connection_id = ConnectionId ''connection-0'', side_port_id = PortId ''transfer'',
     side_channel_id = Some (ChannelId chan), side_version = None\<rparr>"

definition sample_relay_path :: "duration \<Rightarrow> sample_world relay_path" where
  "sample_relay_path delay = \<lparr>rp_env = sample_env,
     rp_channel = \<lparr>chan_ordering = Unordered, chan_a_side = sample_side ''a'' ''b'' ''channel-0'',
       chan_b_side = sample_side ''b'' ''a'' ''channel-1'', chan_connection_delay = delay\<rparr>,
     path_id = sample_path, confirm_txes = True\<rparr>"

lemma sample_relay_path_simps [simp]:
  "src_chain (sample_relay_path d) = sample_chain ''a'' ''b''"
  "dst_chain (sample_relay_path d) = sample_chain ''b'' ''a''"
  "src_client_id (sample_relay_path d) = ClientId ''07-tendermint-0''"
  "dst_client_id (sample_relay_path d) = ClientId ''07-tendermint-0''"
  "rp_env (sample_relay_path d) = sample_env"
  "confirm_txes (sample_relay_path d) = True"
  "path_id (sample_relay_path d) = sample_path"
  "chan_ordering (rp_channel (sample_relay_path d)) = Unordered"
  "chan_connection_delay (rp_channel (sample_relay_path d)) = d"
  "restore_dst_client (sample_relay_path d) = sample_client"
  by (simp_all add: sample_relay_path_def src_chain_def dst_chain_def src_client_id_def dst_client_id_def
      sample_side_def restore_dst_client_def sample_client_def)

end
