(* ===== verification/Link_Setup.thy ===== *)
theory Link_Setup
  imports Link_Base
begin

text \<open>
  \<open>relayer/src/link.rs\<close>: the construction of a link from the identifiers of a channel. The two chains are asked
  for the channel ends and the connection, and the path is built only when they fit together.
\<close>

record link_parameters =
  opt_src_port_id :: port_id
  opt_src_channel_id :: channel_id

definition link_new :: "'w env \<Rightarrow> 'w channel \<Rightarrow> bool \<Rightarrow> (link_error, 'w relay_path) result" where
  "link_new env chan with_tx_confirmation = relay_path_new env chan with_tx_confirmation"

text \<open>The channel of the link. The counterparty of an open connection is taken to have an identifier: \<open>unwrap\<close>.\<close>

definition link_channel ::
  "'w chain_handle \<Rightarrow> 'w chain_handle \<Rightarrow> link_parameters \<Rightarrow> channel_end \<Rightarrow> channel_id \<Rightarrow> connection_id
    \<Rightarrow> connection_end \<Rightarrow> (link_error, 'w channel) result" where
  "link_channel a b opts a_channel b_channel_id a_connection_id a_connection =
     (case cc_connection_id (conn_counterparty a_connection) of
        None \<Rightarrow> Panic
      | Some b_connection_id \<Rightarrow> Ok \<lparr>chan_ordering = ch_ordering a_channel,
          chan_a_side = \<lparr>side_chain = a, side_client_id = conn_client_id a_connection,
            side_connection_id = a_connection_id, side_port_id = opt_src_port_id opts,
            side_channel_id = Some (opt_src_channel_id opts), side_version = None\<rparr>,
          chan_b_side = \<lparr>side_chain = b, side_client_id = cc_client_id (conn_counterparty a_connection),
            side_connection_id = b_connection_id, side_port_id = cp_port_id (ch_remote a_channel),
            side_channel_id = Some b_channel_id, side_version = None\<rparr>,
          chan_connection_delay = conn_delay_period a_connection\<rparr>)"

definition register_payee ::
  "'w env \<Rightarrow> 'w chain_handle \<Rightarrow> 'w chain_handle \<Rightarrow> bool \<Rightarrow> channel_end \<Rightarrow> channel_id \<Rightarrow> ('w, link_error, unit) eff" where
  "register_payee env a b auto_register a_channel b_channel_id =
     (if auto_register \<and> supports_fee env (ch_version a_channel) then
        ebind (emap_err LinkRelayer (get_signer a)) (\<lambda>address_a.
          emap_err LinkRelayer (maybe_register_counterparty_payee b b_channel_id (cp_port_id (ch_remote a_channel)) address_a))
      else eret ())"

definition link_new_from_opts ::
  "'w env \<Rightarrow> 'w chain_handle \<Rightarrow> 'w chain_handle \<Rightarrow> link_parameters \<Rightarrow> bool \<Rightarrow> bool
    \<Rightarrow> ('w, link_error, 'w relay_path) eff" where
  "link_new_from_opts env a b opts with_tx_confirmation auto_register =
     ebind (emap_err (LinkChannelNotFound (opt_src_port_id opts) (opt_src_channel_id opts) (chain_id a))
              (query_channel a (opt_src_port_id opts) (opt_src_channel_id opts) Latest)) (\<lambda>a_channel.
     if \<not> state_matches a_channel Open \<and> \<not> state_matches a_channel Closed
     then ethrow (InvalidChannelState (opt_src_channel_id opts) (chain_id a))
     else
     ebind (eresult (ok_or (CounterpartyChannelNotFound (opt_src_channel_id opts)) (cp_channel_id (ch_remote a_channel)))) (\<lambda>b_channel_id.
     case ch_connection_hops a_channel of
       [] \<Rightarrow> ethrow (NoConnectionHop (opt_src_channel_id opts) (chain_id a))
     | a_connection_id # _ \<Rightarrow>
     ebind (emap_err LinkInitialization (check_channel_counterparty b
              \<lparr>pc_channel_id = b_channel_id, pc_port_id = cp_port_id (ch_remote a_channel)\<rparr>
              \<lparr>pc_channel_id = opt_src_channel_id opts, pc_port_id = opt_src_port_id opts\<rparr>)) (\<lambda>_.
     ebind (emap_err LinkRelayer (query_connection a a_connection_id Latest)) (\<lambda>a_connection.
     if \<not> connection_state_matches a_connection ConnOpen
     then ethrow (ChannelNotOpened (opt_src_channel_id opts) (chain_id a))
     else
     ebind (eresult (link_channel a b opts a_channel b_channel_id a_connection_id a_connection)) (\<lambda>chan.
     ebind (register_payee env a b auto_register a_channel b_channel_id) (\<lambda>_.
       eresult (link_new env chan with_tx_confirmation)))))))"

definition link_reverse :: "'w relay_path \<Rightarrow> bool \<Rightarrow> bool \<Rightarrow> ('w, link_error, 'w relay_path) eff" where
  "link_reverse p with_tx_confirmation auto_register =
     link_new_from_opts (rp_env p) (dst_chain p) (src_chain p)
       \<lparr>opt_src_port_id = dst_port_id p, opt_src_channel_id = dst_channel_id p\<rparr> with_tx_confirmation auto_register"

section \<open>What a constructed link guarantees\<close>

lemma check_channel_counterparty_Ok:
  assumes "check_channel_counterparty target pchan expected w = (Ok (), w')"
  shows "\<exists>ch. query_channel target (pc_port_id pchan) (pc_channel_id pchan) Latest w = (Ok ch, w')
     \<and> ch_remote ch = \<lparr>cp_port_id = pc_port_id expected, cp_channel_id = Some (pc_channel_id expected)\<rparr>"
  using assms
  by (auto simp: check_channel_counterparty_def Let_def emap_err_def eret_def ethrow_def
      elim!: ebind_OkE split: option.splits if_splits prod.splits)

section \<open>Properties\<close>



end
