(* ===== verification/Operational_Data.thy ===== *)
theory Operational_Data
  imports Complex_Main "HOL-Library.Log_Nat" Link_Base
begin

text \<open>
  \<open>relayer/src/link/operational_data.rs\<close>: a batch of messages for one chain with the events they come from,
  its connection delay in time and in blocks, and the assembly of the transaction.
\<close>

section \<open>Double-precision arithmetic\<close>

text \<open>Rounding to the nearest IEEE 754 double, ties to even, for the non-negative values that occur here:
  quotients of durations are neither subnormal nor beyond the largest double.\<close>

definition floor_log2 :: "rat \<Rightarrow> int" where
  "floor_log2 x = (case quotient_of x of (n, d) \<Rightarrow>
     let e = bitlen n - bitlen d in if 2 powi e \<le> x then e else e - 1)"

definition round_half_even :: "rat \<Rightarrow> int" where
  "round_half_even x =
     (let f = \<lfloor>x\<rfloor>; r = x - of_int f in
      if r < 1 / 2 then f else if r > 1 / 2 then f + 1 else if even f then f else f + 1)"

definition f64_round :: "rat \<Rightarrow> rat" where
  "f64_round x = (if x = 0 then 0
     else let s = 52 - floor_log2 x in of_int (round_half_even (x * 2 powi s)) * 2 powi (- s))"

text \<open>\<open>Duration::as_secs_f64\<close>.\<close>

definition as_secs_f64 :: "duration \<Rightarrow> rat" where
  "as_secs_f64 d =
     f64_round (f64_round (of_nat (d div 10 ^ 9)) + f64_round (of_nat (d mod 10 ^ 9) / 10 ^ 9))"

text \<open>The cast of a double to \<open>u64\<close> saturates.\<close>

definition calculate_block_delay :: "duration \<Rightarrow> duration \<Rightarrow> u64" where
  "calculate_block_delay delay_period_time max_expected_time_per_block =
     (if max_expected_time_per_block = 0 then 0
      else of_int (min \<lceil>f64_round (as_secs_f64 delay_period_time / as_secs_f64 max_expected_time_per_block)\<rceil>
                       (2 ^ 64 - 1)))"

section \<open>Connection delays\<close>

record connection_delay =
  cd_delay :: duration
  cd_scheduled_time :: instant
  cd_update_height :: "height option"

definition cd_time_delay_remaining :: "connection_delay \<Rightarrow> instant \<Rightarrow> duration" where
  "cd_time_delay_remaining d chain_time =
     (let elapsed = nat (chain_time - cd_scheduled_time d) in
      if elapsed \<ge> cd_delay d then 0 else cd_delay d - elapsed)"

text \<open>The update height is unwrapped with \<open>expect\<close>; the difference of heights is that of \<open>u64\<close>.\<close>

definition cd_block_delay_remaining ::
  "connection_delay \<Rightarrow> u64 \<Rightarrow> height \<Rightarrow> ('e, u64) result" where
  "cd_block_delay_remaining d block_delay latest = (case cd_update_height d of
       None \<Rightarrow> Panic
     | Some h \<Rightarrow>
         (let acceptable = height_add h block_delay in
          Ok (if latest \<ge> acceptable then 0 else revision_height acceptable - revision_height latest)))"

definition cd_block_delay :: "connection_delay \<Rightarrow> duration \<Rightarrow> u64" where
  "cd_block_delay d max_time = calculate_block_delay (cd_delay d) max_time"

section \<open>Operational data\<close>

datatype od_target = Source | Destination

record tracked_events =
  te_events :: "ibc_event_with_height list"
  te_tracking_id :: tracking_id

record transit_message =
  tr_event :: ibc_event_with_height
  tr_msg :: ibc_msg

record operational_data =
  proofs_height :: height
  batch :: "transit_message list"
  od_target :: od_target
  od_tracking_id :: tracking_id
  od_connection_delay :: "connection_delay option"

text \<open>A new connection delay is scheduled at the current instant.\<close>

definition operational_data_new ::
  "'w env \<Rightarrow> height \<Rightarrow> od_target \<Rightarrow> tracking_id \<Rightarrow> duration \<Rightarrow> ('w, 'e, operational_data) eff" where
  "operational_data_new env h target tid delay =
     ebind (if delay \<noteq> 0
            then ebind (read_world (instant_now env)) (\<lambda>now.
                   eret (Some \<lparr>cd_delay = delay, cd_scheduled_time = now, cd_update_height = None\<rparr>))
            else eret None) (\<lambda>cd.
       eret \<lparr>proofs_height = h, batch = [], od_target = target, od_tracking_id = tid,
         od_connection_delay = cd\<rparr>)"

definition od_push :: "operational_data \<Rightarrow> transit_message \<Rightarrow> operational_data" where
  "od_push od m = od\<lparr>batch := batch od @ [m]\<rparr>"

definition into_events :: "operational_data \<Rightarrow> tracked_events" where
  "into_events od = \<lparr>te_events = map tr_event (batch od), te_tracking_id = od_tracking_id od\<rparr>"

definition has_packet_msgs :: "operational_data \<Rightarrow> bool" where
  "has_packet_msgs od \<longleftrightarrow> list_ex (\<lambda>m. event_packet (event (tr_event m)) \<noteq> None) (batch od)"

definition get_delay_if_needed :: "operational_data \<Rightarrow> connection_delay option" where
  "get_delay_if_needed od = (if has_packet_msgs od then od_connection_delay od else None)"

definition conn_delay_needed :: "operational_data \<Rightarrow> bool" where
  "conn_delay_needed od \<longleftrightarrow> get_delay_if_needed od \<noteq> None"

definition set_scheduled_time :: "operational_data \<Rightarrow> instant \<Rightarrow> operational_data" where
  "set_scheduled_time od t =
     od\<lparr>od_connection_delay := map_option (\<lambda>d. d\<lparr>cd_scheduled_time := t\<rparr>) (od_connection_delay od)\<rparr>"

definition set_update_height :: "operational_data \<Rightarrow> height \<Rightarrow> operational_data" where
  "set_update_height od h =
     od\<lparr>od_connection_delay := map_option (\<lambda>d. d\<lparr>cd_update_height := Some h\<rparr>) (od_connection_delay od)\<rparr>"

definition conn_time_delay_remaining ::
  "operational_data \<Rightarrow> ('w, link_error, instant) eff \<Rightarrow> ('w, link_error, duration) eff" where
  "conn_time_delay_remaining od chain_time = (case get_delay_if_needed od of
       Some d \<Rightarrow> ebind chain_time (\<lambda>t. eret (cd_time_delay_remaining d t))
     | None \<Rightarrow> eret 0)"

definition conn_block_delay_remaining ::
  "operational_data \<Rightarrow> ('w, link_error, duration) eff \<Rightarrow> ('w, link_error, height) eff \<Rightarrow> ('w, link_error, u64) eff" where
  "conn_block_delay_remaining od max_time latest_height = (case get_delay_if_needed od of
       Some d \<Rightarrow>
         ebind max_time (\<lambda>m.
         ebind latest_height (\<lambda>h.
           eresult (cd_block_delay_remaining d (cd_block_delay d m) h)))
     | None \<Rightarrow> eret 0)"

definition has_conn_delay_elapsed ::
  "operational_data \<Rightarrow> ('w, link_error, instant) eff \<Rightarrow> ('w, link_error, duration) eff
    \<Rightarrow> ('w, link_error, height) eff \<Rightarrow> ('w, link_error, bool) eff" where
  "has_conn_delay_elapsed od chain_time max_time latest_height =
     ebind (conn_time_delay_remaining od chain_time) (\<lambda>t.
       if t = 0
       then ebind (conn_block_delay_remaining od max_time latest_height) (\<lambda>b. eret (b = 0))
       else eret False)"

definition conn_delay_remaining ::
  "operational_data \<Rightarrow> ('w, link_error, instant) eff \<Rightarrow> ('w, link_error, duration) eff
    \<Rightarrow> ('w, link_error, height) eff \<Rightarrow> ('w, link_error, duration \<times> u64) eff" where
  "conn_delay_remaining od chain_time max_time latest_height =
     ebind (conn_time_delay_remaining od chain_time) (\<lambda>t.
     ebind (conn_block_delay_remaining od max_time latest_height) (\<lambda>b. eret (t, b)))"

section \<open>Assembling the transaction\<close>

text \<open>The client update is the last message that the update yields, if any: \<open>client_update_opt.pop()\<close>.\<close>

definition pop_last :: "'a list \<Rightarrow> 'a option" where
  "pop_last xs = (if xs = [] then None else Some (last xs))"

definition target_client_state ::
  "'w relay_path \<Rightarrow> od_target \<Rightarrow> ('w, link_error, any_client_state) eff" where
  "target_client_state p t = (case t of
       Source \<Rightarrow> emap_err (LinkQuery (chain_id (src_chain p)))
                   (query_client_state (src_chain p) (src_client_id p) Latest)
     | Destination \<Rightarrow> emap_err (LinkQuery (chain_id (dst_chain p)))
                        (query_client_state (dst_chain p) (dst_client_id p) Latest))"

definition build_update_client_on ::
  "'w relay_path \<Rightarrow> od_target \<Rightarrow> height \<Rightarrow> ('w, link_error, ibc_msg list) eff" where
  "build_update_client_on p t h = (case t of
       Source \<Rightarrow> build_update_client_on_src p h
     | Destination \<Rightarrow> build_update_client_on_dst p h)"

definition assemble_msgs ::
  "'w relay_path \<Rightarrow> operational_data \<Rightarrow> ('w, link_error, tracked_msgs) eff" where
  "assemble_msgs p od =
     (let msgs = map tr_msg (batch od) in
      if \<not> conn_delay_needed od then
        ebind (build_update_client_on p (od_target od) (increment (proofs_height od))) (\<lambda>update.
          eret (tracked_msgs_new (case pop_last update of None \<Rightarrow> msgs | Some u \<Rightarrow> u # msgs) (od_tracking_id od)))
      else
        ebind (target_client_state p (od_target od)) (\<lambda>cs.
          eret (tracked_msgs_new (if is_frozen cs then [] else msgs) (od_tracking_id od))))"

section \<open>The rounding error of the block delay\<close>

lemma floor_log2_bounds:
  assumes "0 < x"
  shows "2 powi floor_log2 x \<le> x" and "x < 2 powi (floor_log2 x + 1)"
proof -
  obtain n d where q: "quotient_of x = (n, d)" by (cases "quotient_of x")
  then have d: "0 < d" and x: "x = of_int n / of_int d"
    by (simp_all add: quotient_of_denom_pos quotient_of_div)
  with assms have n: "0 < n" by (simp add: zero_less_divide_iff)
  have bl: "2 powi (bitlen k - 1) \<le> (of_int k :: rat)" "(of_int k :: rat) < 2 powi bitlen k" if "0 < k" for k
  proof -
    from bitlen_bounds [OF that] have b: "2 ^ nat (bitlen k - 1) \<le> k" "k < 2 ^ nat (bitlen k)" by auto
    from that have pos: "0 < bitlen k" by (simp add: bitlen_ge_iff_power [of 1, simplified] int_one_le_iff_zero_less [symmetric])
    then have "2 powi (bitlen k - 1) = (of_int (2 ^ nat (bitlen k - 1)) :: rat)"
      and "2 powi bitlen k = (of_int (2 ^ nat (bitlen k)) :: rat)"
      by (simp_all add: power_int_def)
    with b show "2 powi (bitlen k - 1) \<le> (of_int k :: rat)" "(of_int k :: rat) < 2 powi bitlen k"
      by (simp_all only: of_int_le_iff of_int_less_iff)
  qed
  define e where "e = bitlen n - bitlen d"
  have lo: "2 powi (e - 1) \<le> x"
  proof -
    have "(2 :: rat) powi (e - 1) * of_int d \<le> 2 powi (e - 1) * 2 powi bitlen d"
      using bl(2) [OF d] by simp
    also have "\<dots> = 2 powi (bitlen n - 1)"
      by (simp add: e_def flip: power_int_add)
    also have "\<dots> \<le> of_int n" by (rule bl(1) [OF n])
    finally show ?thesis using d by (simp add: x pos_le_divide_eq)
  qed
  have hi: "x < 2 powi (e + 1)"
  proof -
    have "of_int n < (2 :: rat) powi bitlen n" by (rule bl(2) [OF n])
    also have "\<dots> = 2 powi (e + 1) * 2 powi (bitlen d - 1)"
      by (simp add: e_def flip: power_int_add)
    also have "\<dots> \<le> 2 powi (e + 1) * of_int d"
      using bl(1) [OF d] by simp
    finally show ?thesis using d by (simp add: x pos_divide_less_eq)
  qed
  show "2 powi floor_log2 x \<le> x" and "x < 2 powi (floor_log2 x + 1)"
    using lo hi by (simp_all add: floor_log2_def q e_def Let_def)
qed

lemma round_half_even_error: "\<bar>of_int (round_half_even x) - x\<bar> \<le> 1 / 2"
proof -
  have "of_int \<lfloor>x\<rfloor> \<le> x" "x < of_int \<lfloor>x\<rfloor> + 1" by linarith+
  then show ?thesis by (auto simp: round_half_even_def Let_def abs_le_iff)
qed

lemma round_half_even_of_int [simp]: "round_half_even (of_int n) = n"
  by (simp add: round_half_even_def)

lemma f64_round_error:
  assumes "0 \<le> x"
  shows "\<bar>f64_round x - x\<bar> \<le> x * 2 powi (- 53)"
proof (cases "x = 0")
  case False
  with assms have pos: "0 < x" by simp
  define s where "s = 52 - floor_log2 x"
  have inv: "2 powi s * 2 powi (- s) = (1 :: rat)" by (simp flip: power_int_add)
  have "f64_round x - x = (of_int (round_half_even (x * 2 powi s)) - x * 2 powi s) * 2 powi (- s)"
    using False inv by (simp add: f64_round_def s_def Let_def algebra_simps)
  then have "\<bar>f64_round x - x\<bar> = \<bar>of_int (round_half_even (x * 2 powi s)) - x * 2 powi s\<bar> * 2 powi (- s)"
    by (simp add: abs_mult)
  also have "\<dots> \<le> 1 / 2 * 2 powi (- s)"
    using round_half_even_error [of "x * 2 powi s"] by (intro mult_right_mono) auto
  also have "\<dots> = 2 powi (- 1) * 2 powi (- s)" by (simp add: power_int_minus)
  also have "\<dots> = 2 powi (- 1 + - s)" by (rule power_int_add [symmetric]) simp
  also have "- 1 + - s = floor_log2 x + - 53" by (simp add: s_def)
  also have "(2 :: rat) powi (floor_log2 x + - 53) = 2 powi floor_log2 x * 2 powi (- 53)"
    by (rule power_int_add) simp
  also have "\<dots> \<le> x * 2 powi (- 53)"
    using floor_log2_bounds(1) [OF pos] by (intro mult_right_mono) auto
  finally show ?thesis .
qed (simp add: f64_round_def)

lemma f64_round_of_nat:
  assumes "n < 2 ^ 53"
  shows "f64_round (of_nat n) = of_nat n"
proof (cases "n = 0")
  case False
  define e where "e = floor_log2 (of_nat n)"
  have "(2 :: rat) powi e \<le> of_nat n"
    using floor_log2_bounds(1) [of "of_nat n"] False by (simp add: e_def)
  also have "(of_nat n :: rat) < 2 powi 53"
    using assms by (simp add: of_nat_less_numeral_power_cancel_iff power_int_numeral)
  finally have "e < 53" using power_int_le_imp_less_exp [of "2 :: rat" e 53] by simp
  then have y: "of_nat n * (2 :: rat) powi (52 - e) = of_int (int n * 2 ^ nat (52 - e))"
    by (simp add: power_int_def)
  have "f64_round (of_nat n)
      = of_int (round_half_even (of_nat n * 2 powi (52 - e))) * 2 powi (- (52 - e))"
    using False by (simp add: f64_round_def Let_def e_def)
  also have "\<dots> = of_nat n * 2 powi (52 - e) * 2 powi (- (52 - e))"
    by (simp only: y round_half_even_of_int)
  also have "\<dots> = of_nat n * 2 powi ((52 - e) + - (52 - e))"
    by (subst power_int_add) simp_all
  finally show ?thesis by simp
qed (simp add: f64_round_def)

lemma f64_round_zero [simp]: "f64_round 0 = 0"
  by (simp add: f64_round_def)

lemma as_secs_f64_whole: "a < 2 ^ 53 \<Longrightarrow> as_secs_f64 (a * 10 ^ 9) = of_nat a"
  by (simp add: as_secs_f64_def f64_round_of_nat)

text \<open>Rounding the quotient of two integers below \<open>2 ^ 26\<close> never crosses an integer.\<close>

lemma ceiling_f64_round_quotient:
  assumes "a < 2 ^ 26" and "0 < b" and "b < 2 ^ 26"
  shows "\<lceil>f64_round (of_nat a / of_nat b)\<rceil> = \<lceil>(of_nat a :: rat) / of_nat b\<rceil>"
proof -
  define q :: rat where "q = of_nat a / of_nat b"
  define k where "k = \<lceil>q\<rceil>"
  have q0: "0 \<le> q" by (simp add: q_def)
  have k: "of_int k - 1 < q" "q \<le> of_int k" unfolding k_def by linarith+
  have qb: "q * of_nat b = of_nat a" using assms(2) by (simp add: q_def)
  have b1: "(1 :: rat) \<le> of_nat b" using assms(2) by simp
  have qa: "q \<le> of_nat a"
    using mult_left_mono [OF b1 q0] qb by simp
  show ?thesis
  proof (cases "q = of_int k")
    case True
    then have "0 \<le> k" using q0 by simp
    then have "q = of_nat (nat k)" using True by simp
    moreover have "nat k < 2 ^ 53"
    proof -
      have "(of_nat (nat k) :: rat) \<le> of_nat a" using qa calculation by simp
      then have "nat k \<le> a" by (simp only: of_nat_le_iff)
      then show ?thesis using assms(1) by simp
    qed
    ultimately show ?thesis by (simp add: f64_round_of_nat flip: q_def)
  next
    case False
    let ?e = "q * 2 powi (- 53)"
    have err: "\<bar>f64_round q - q\<bar> \<le> ?e" by (rule f64_round_error [OF q0])
    have int_gap: "1 \<le> \<bar>q - of_int m\<bar> * of_nat b" if "q \<noteq> of_int m" for m
    proof -
      have eq: "(q - of_int m) * of_nat b = of_int (int a - m * int b)"
        using qb by (simp add: algebra_simps)
      have "(q - of_int m) * of_nat b \<noteq> 0" using that assms(2) by simp
      then have "int a - m * int b \<noteq> 0" by (metis eq of_int_0)
      then have "1 \<le> \<bar>int a - m * int b\<bar>" by linarith
      then have "(1 :: rat) \<le> of_int \<bar>int a - m * int b\<bar>" by (simp only: of_int_1_le_iff)
      then show ?thesis by (simp only: eq [symmetric] of_int_abs abs_mult abs_of_nat)
    qed
    have small: "?e * of_nat b < 1"
    proof -
      have "?e * of_nat b = of_nat a * 2 powi (- 53)" by (simp add: qb [symmetric])
      also have "\<dots> < 1"
      proof -
        have "(of_nat a :: rat) < of_nat (2 ^ 53)"
          by (subst of_nat_less_iff) (use assms(1) in simp)
        then show ?thesis by (simp add: power_int_def field_simps)
      qed
      finally show ?thesis .
    qed
    have gap: "?e < \<bar>q - of_int m\<bar>" if "q \<noteq> of_int m" for m
    proof -
      from small int_gap [OF that] have "?e * of_nat b < \<bar>q - of_int m\<bar> * of_nat b" by linarith
      then show ?thesis using assms(2) by (simp add: mult_less_cancel_right)
    qed
    have "q \<noteq> of_int (k - 1)" using k(1) by auto
    from gap [OF this] gap [OF False] err k have "of_int (k - 1) < f64_round q" "f64_round q \<le> of_int k"
      by (auto simp: abs_le_iff abs_if split: if_splits)
    then have "\<lceil>f64_round q\<rceil> = k" by (intro ceiling_unique) auto
    then show ?thesis by (simp add: q_def k_def)
  qed
qed

section \<open>Delays\<close>

lemma conn_delay_needed_iff: "conn_delay_needed od \<longleftrightarrow> has_packet_msgs od \<and> od_connection_delay od \<noteq> None"
  by (simp add: conn_delay_needed_def get_delay_if_needed_def)

lemma has_conn_delay_elapsed_True:
  assumes "has_conn_delay_elapsed od chain_time max_time latest w = (Ok True, w')"
    and "get_delay_if_needed od = Some d"
  shows "\<exists>t w1 m w2 h up. chain_time w = (Ok t, w1) \<and> max_time w1 = (Ok m, w2) \<and> latest w2 = (Ok h, w')
     \<and> cd_delay d \<le> nat (t - cd_scheduled_time d) \<and> cd_update_height d = Some up
     \<and> (height_add up (cd_block_delay d m) \<le> h
        \<or> revision_height (height_add up (cd_block_delay d m)) = revision_height h)"
proof -
  from assms obtain t w1 m w2 h r
    where 1: "chain_time w = (Ok t, w1)" "cd_time_delay_remaining d t = 0"
      and 2: "max_time w1 = (Ok m, w2)" "latest w2 = (Ok h, w')"
      and 3: "cd_block_delay_remaining d (cd_block_delay d m) h = (Ok 0 :: (link_error, u64) result)"
    by (auto simp: has_conn_delay_elapsed_def conn_time_delay_remaining_def conn_block_delay_remaining_def
        eff_defs elim!: ebind_OkE split: if_splits)
  from 3 obtain up where up: "cd_update_height d = Some up"
    and bl: "height_add up (cd_block_delay d m) \<le> h
        \<or> revision_height (height_add up (cd_block_delay d m)) = revision_height h"
    by (auto simp: cd_block_delay_remaining_def Let_def split: option.splits if_splits)
  from 1(2) have "cd_delay d \<le> nat (t - cd_scheduled_time d)"
    by (auto simp: cd_time_delay_remaining_def Let_def split: if_splits)
  with 1 2 up bl show ?thesis by blast
qed

lemma no_delay_remaining:
  assumes "get_delay_if_needed od = None"
  shows "conn_time_delay_remaining od ct = eret 0" and "conn_block_delay_remaining od mt lh = eret 0"
  using assms by (simp_all add: conn_time_delay_remaining_def conn_block_delay_remaining_def)

lemma has_conn_delay_elapsed_no_delay:
  assumes "\<not> conn_delay_needed od"
  shows "has_conn_delay_elapsed od ct mt lh = eret True"
proof -
  from assms have "get_delay_if_needed od = None" by (simp add: conn_delay_needed_def)
  then show ?thesis
    unfolding has_conn_delay_elapsed_def by (simp only: no_delay_remaining ebind_eret if_True simp_thms)
qed

text \<open>The messages of a batch are never reordered, and the client update precedes them.\<close>

lemma assemble_msgs_no_delay:
  assumes "assemble_msgs p od w = (Ok tm, w')" and "\<not> conn_delay_needed od"
  obtains update
    where "build_update_client_on p (od_target od) (increment (proofs_height od)) w = (Ok update, w')"
      and "tm = tracked_msgs_new ((if update = [] then [] else [last update]) @ map tr_msg (batch od)) (od_tracking_id od)"
proof -
  from assms obtain update where
    "build_update_client_on p (od_target od) (increment (proofs_height od)) w = (Ok update, w')"
    "tm = tracked_msgs_new (case pop_last update of None \<Rightarrow> map tr_msg (batch od) | Some u \<Rightarrow> u # map tr_msg (batch od))
       (od_tracking_id od)"
    unfolding assemble_msgs_def Let_def by (auto simp only: if_True simp_thms eret_def prod.inject result.inject elim!: ebind_OkE)
  then show thesis by (cases "update = []") (auto intro: that simp: pop_last_def)
qed

lemma assemble_msgs_delay:
  assumes "assemble_msgs p od w = (Ok tm, w')" and "conn_delay_needed od"
  obtains cs where "target_client_state p (od_target od) w = (Ok cs, w')"
    and "tm = tracked_msgs_new (if is_frozen cs then [] else map tr_msg (batch od)) (od_tracking_id od)"
  using assms
  unfolding assemble_msgs_def Let_def by (auto simp only: if_False simp_thms eret_def prod.inject result.inject elim!: ebind_OkE)

section \<open>Properties\<close>

text \<open>C29: The number of blocks of a connection delay is exact for whole seconds: although it is computed in
  double precision, for a delay and a block time below \<open>2 ^ 26\<close> seconds it is the ceiling of their
  quotient.\<close>

theorem block_delay_exact:
  assumes "a < 2 ^ 26" and "0 < b" and "b < 2 ^ 26"
  shows "calculate_block_delay (a * 10 ^ 9) (b * 10 ^ 9) = of_int \<lceil>(of_nat a :: rat) / of_nat b\<rceil>"
proof -
  have "\<lceil>(of_nat a :: rat) / of_nat b\<rceil> \<le> int a"
  proof (rule ceiling_le)
    have "(of_nat a :: rat) \<le> of_nat a * of_nat b"
      using assms(2) by (simp flip: of_nat_mult)
    then show "(of_nat a :: rat) / of_nat b \<le> of_int (int a)"
      using assms(2) by (simp add: pos_divide_le_eq)
  qed
  also have "\<dots> \<le> 2 ^ 64 - 1" using assms(1) by simp
  finally have "min \<lceil>(of_nat a :: rat) / of_nat b\<rceil> (2 ^ 64 - 1) = \<lceil>(of_nat a :: rat) / of_nat b\<rceil>"
    by (rule min_absorb1)
  moreover have "as_secs_f64 (a * 10 ^ 9) = of_nat a" "as_secs_f64 (b * 10 ^ 9) = of_nat b"
    using assms by (intro as_secs_f64_whole; simp)+
  ultimately show ?thesis
    using assms by (simp only: calculate_block_delay_def ceiling_f64_round_quotient) simp
qed

theorem block_delay_exact_witness: "calculate_block_delay (7 * 10 ^ 9) (2 * 10 ^ 9) = 4"
proof -
  have "\<lceil>(7 :: rat) / 2\<rceil> = 4" by (rule ceiling_unique) simp_all
  then show ?thesis using block_delay_exact [of 7 2] by simp
qed

text \<open>C8: Operational data under a connection delay is released only when both delays are over: the chain time
  read is at least the delay after the scheduled time, and the latest height read is at least the
  height of the client update plus the block delay (or has the same height in another revision, since
  the difference is taken of the revision heights alone).\<close>

theorem delay_elapsed_both:
  assumes "has_conn_delay_elapsed od chain_time max_time latest w = (Ok True, w')"
    and "get_delay_if_needed od = Some d"
  shows "\<exists>t w1 m w2 h up. chain_time w = (Ok t, w1) \<and> max_time w1 = (Ok m, w2) \<and> latest w2 = (Ok h, w')
     \<and> cd_delay d \<le> nat (t - cd_scheduled_time d) \<and> cd_update_height d = Some up
     \<and> (height_add up (calculate_block_delay (cd_delay d) m) \<le> h
        \<or> revision_height (height_add up (calculate_block_delay (cd_delay d) m)) = revision_height h)"
  using has_conn_delay_elapsed_True [OF assms] by (simp add: cd_block_delay_def)

definition sample_packet :: packet where
  "sample_packet = \<lparr>sequence = 1, source_port = PortId ''transfer'', source_channel = ChannelId ''channel-0'',
     destination_port = PortId ''transfer'', destination_channel = ChannelId ''channel-1'', data = ''d'',
     timeout_height = Never, timeout_timestamp = Timestamp None\<rparr>"

definition sample_transit :: transit_message where
  "sample_transit = \<lparr>tr_event = event_new (SendPacket sample_packet) (Height 0 1),
     tr_msg = MsgRecvPacket sample_packet sample_proofs ''b-signer''\<rparr>"

definition sample_delay :: connection_delay where
  "sample_delay = \<lparr>cd_delay = 3, cd_scheduled_time = 1, cd_update_height = Some (Height 0 1)\<rparr>"

definition sample_od :: "connection_delay option \<Rightarrow> operational_data" where
  "sample_od d = \<lparr>proofs_height = Height 0 1, batch = [sample_transit], od_target = Destination,
     od_tracking_id = Static ''t'', od_connection_delay = d\<rparr>"

theorem delay_elapsed_both_witness:
  "has_conn_delay_elapsed (sample_od (Some sample_delay)) (eret 4) (eret 0) (eret (Height 0 2)) sample_world
     = (Ok True, sample_world)
   \<and> cd_delay sample_delay \<le> nat (4 - cd_scheduled_time sample_delay)"
proof -
  have d: "get_delay_if_needed (sample_od (Some sample_delay)) = Some sample_delay"
    by (simp add: get_delay_if_needed_def has_packet_msgs_def sample_od_def sample_transit_def event_new_def)
  have run: "has_conn_delay_elapsed (sample_od (Some sample_delay)) (eret 4) (eret 0) (eret (Height 0 2)) sample_world
     = (Ok True, sample_world)"
    unfolding has_conn_delay_elapsed_def conn_time_delay_remaining_def conn_block_delay_remaining_def d
    by (simp add: cd_time_delay_remaining_def cd_block_delay_remaining_def cd_block_delay_def calculate_block_delay_def
        sample_delay_def height_add_def height_le_iff eff_defs ebind_def)
  from delay_elapsed_both [OF run d] run show ?thesis by (auto simp: eret_def)
qed



end
