(* ===== verification/Packet_Events.thy ===== *)
theory Packet_Events
  imports Operational_Data
begin

text \<open>
  \<open>relayer/src/link/packet_events.rs\<close>: packet events are pulled from a chain in chunks of sequence numbers.
  The iterator of the sources is lazy: each chunk is queried just before the loop body that consumes it
  runs, and the first failed query ends the iteration silently.
\<close>

definition CHUNK_LENGTH :: nat where
  "CHUNK_LENGTH = 50"

type_synonym 'w packet_query =
  "'w chain_handle \<Rightarrow> path_identifiers \<Rightarrow> sequence list \<Rightarrow> height qual \<Rightarrow> ('w, ibc_event_with_height list) chain_op"

fun qual_map :: "('a \<Rightarrow> 'b) \<Rightarrow> 'a qual \<Rightarrow> 'b qual" where
  "qual_map f (SmallerEqual t) = SmallerEqual (f t)"
| "qual_map f (QualEqual t) = QualEqual (f t)"

definition query_send_packet_events :: "'w packet_query" where
  "query_send_packet_events c path seqs h = query_packet_events c
     \<lparr>pe_event_id = BlockSendPacket, pe_source_port_id = path_counterparty_port_id path,
      pe_source_channel_id = path_counterparty_channel_id path, pe_destination_port_id = path_port_id path,
      pe_destination_channel_id = path_channel_id path, pe_sequences = seqs, pe_height = qual_map Specific h\<rparr>"

definition query_write_ack_events :: "'w packet_query" where
  "query_write_ack_events c path seqs h = query_packet_events c
     \<lparr>pe_event_id = BlockWriteAck, pe_source_port_id = path_port_id path,
      pe_source_channel_id = path_channel_id path, pe_destination_port_id = path_counterparty_port_id path,
      pe_destination_channel_id = path_counterparty_channel_id path, pe_sequences = seqs,
      pe_height = qual_map Specific h\<rparr>"

text \<open>The loop over the iterator, for a query lifted to the state of the loop body.\<close>

fun for_event_chunks ::
  "(sequence list \<Rightarrow> ('s, relayer_error, ibc_event_with_height list) eff) \<Rightarrow> height
    \<Rightarrow> (ibc_event_with_height list \<Rightarrow> ('s, 'e, unit) eff) \<Rightarrow> sequence list list \<Rightarrow> ('s, 'e, unit) eff" where
  "for_event_chunks q h body [] = eret ()"
| "for_event_chunks q h body (c # cs) =
     ebind (etry (q c)) (\<lambda>r. case r of
       Inl e \<Rightarrow> eret ()
     | Inr evs \<Rightarrow> ebind (body (map (\<lambda>ev. with_height ev h) evs)) (\<lambda>_. for_event_chunks q h body cs))"

definition query_packet_events_with ::
  "sequence list \<Rightarrow> height qual \<Rightarrow> (sequence list \<Rightarrow> ('s, relayer_error, ibc_event_with_height list) eff)
    \<Rightarrow> (ibc_event_with_height list \<Rightarrow> ('s, 'e, unit) eff) \<Rightarrow> ('s, 'e, unit) eff" where
  "query_packet_events_with seqs query_height q body =
     for_event_chunks q (qualified_get query_height) body (chunks CHUNK_LENGTH seqs)"

lemma preserves_query_packet_events_with:
  assumes "\<And>c. preserves I (q c)" and "\<And>evs. preserves I (body evs)"
  shows "preserves I (query_packet_events_with seqs h q body)"
proof -
  have "preserves I (for_event_chunks q h' body cs)" for h' cs
    by (induction cs) (auto intro!: pres assms)
  then show ?thesis by (simp add: query_packet_events_with_def)
qed

text \<open>The events that reach the loop body: those of the chunks before the first failed query, with the
  query height, when the queries are a function of the sequence numbers and the body collects.\<close>

definition collect_body :: "ibc_event_with_height list \<Rightarrow> (ibc_event_with_height list list, 'e, unit) eff" where
  "collect_body evs = emodify (\<lambda>acc. acc @ [evs])"

lemma for_event_chunks_collect:
  "for_event_chunks (\<lambda>c. eresult (f c)) h collect_body cs acc
     = (let good = takeWhile (\<lambda>c. \<exists>evs. f c = Ok evs) cs in
        ((if length good < length cs \<and> f (cs ! length good) = Panic then Panic
          else if length good < length cs \<and> f (cs ! length good) = Hang then Hang
          else Ok ()),
         acc @ map (\<lambda>c. map (\<lambda>ev. with_height ev h) (the (ok_option (f c)))) good))"
proof (induction cs arbitrary: acc)
  case (Cons c cs)
  show ?case
  proof (cases "f c")
    case (Ok evs)
    with Cons.IH [of "acc @ [map (\<lambda>ev. with_height ev h) evs]"] show ?thesis
      by (simp add: ebind_def etry_def eresult_def collect_body_def emodify_def Let_def)
  qed (simp_all add: ebind_def etry_def eresult_def eret_def)
qed (simp add: eret_def)

section \<open>Properties\<close>



end
