(* ===== verification/Relay_Messages.thy ===== *)
theory Relay_Messages
  imports Packet_Events "HOL-Library.Sublist"
begin

text \<open>
  The part of \<open>relayer/src/link/relay_path.rs\<close> that talks to the two chains without touching the queues:
  selection of the events of a path, the messages built from them, the generation of operational data
  (\<open>generate_operational_data\<close>), and the client updates ahead of a connection delay
  (\<open>do_update_client_dst\<close> and \<open>do_update_client_src\<close>).
\<close>

section \<open>The events of a path\<close>

record event_batch =
  eb_chain_id :: chain_id
  eb_tracking_id :: tracking_id
  eb_height :: height
  eb_events :: "ibc_event_with_height list"

fun is_relaying_event :: "'w relay_path \<Rightarrow> ibc_event \<Rightarrow> bool" where
  "is_relaying_event p (SendPacket pk) \<longleftrightarrow>
     src_channel_id p = source_channel pk \<and> src_port_id p = source_port pk"
| "is_relaying_event p (WriteAcknowledgement pk _) \<longleftrightarrow>
     src_channel_id p = destination_channel pk \<and> src_port_id p = destination_port pk"
| "is_relaying_event p (CloseInitChannel ci) \<longleftrightarrow>
     src_channel_id p = ci_channel_id ci \<and> src_port_id p = ci_port_id ci"
| "is_relaying_event p (TimeoutPacket pk) \<longleftrightarrow>
     src_channel_id p = source_channel pk \<and> side_port_id (chan_a_side (rp_channel p)) = source_port pk"
| "is_relaying_event p _ \<longleftrightarrow> False"

definition filter_relaying_events ::
  "'w relay_path \<Rightarrow> ibc_event_with_height list \<Rightarrow> tracking_id \<Rightarrow> tracked_events" where
  "filter_relaying_events p evs t =
     \<lparr>te_events = filter (\<lambda>e. is_relaying_event p (event e)) evs, te_tracking_id = t\<rparr>"

section \<open>Messages\<close>

definition build_chan_close_confirm_from_event ::
  "'w relay_path \<Rightarrow> ibc_event_with_height \<Rightarrow> ('w, link_error, ibc_msg option) eff" where
  "build_chan_close_confirm_from_event p ev =
     (if event_type (event ev) \<noteq> TimeoutType \<and> event_type (event ev) \<noteq> CloseInitChannelType then eret None
      else
        ebind (dst_channel p Latest) (\<lambda>ch.
        if state_matches ch Closed then eret None
        else
          ebind (emap_err (\<lambda>e. LinkChannel (ChannelProof e))
                   (build_channel_proofs (src_chain p) (src_port_id p) (src_channel_id p) (ev_height ev))) (\<lambda>proofs.
          ebind (dst_signer p) (\<lambda>signer.
            eret (Some (MsgChannelCloseConfirm (dst_port_id p) (dst_channel_id p) proofs signer))))))"

definition build_recv_packet ::
  "'w relay_path \<Rightarrow> packet \<Rightarrow> height \<Rightarrow> ('w, link_error, ibc_msg option) eff" where
  "build_recv_packet p pk h =
     ebind (emap_err (LinkPacketProofs (chain_id (src_chain p)))
              (build_packet_proofs (src_chain p) MsgRecv (source_port pk) (source_channel pk) (sequence pk) h)) (\<lambda>proofs.
     ebind (dst_signer p) (\<lambda>signer.
       eret (Some (MsgRecvPacket pk proofs signer))))"

definition build_ack_from_recv_event ::
  "'w relay_path \<Rightarrow> packet \<Rightarrow> byte list \<Rightarrow> height \<Rightarrow> ('w, link_error, ibc_msg option) eff" where
  "build_ack_from_recv_event p pk ack h =
     ebind (emap_err (LinkPacketProofs (chain_id (src_chain p)))
              (build_packet_proofs (src_chain p) MsgAck (destination_port pk) (destination_channel pk)
                 (sequence pk) h)) (\<lambda>proofs.
     ebind (dst_signer p) (\<lambda>signer.
       eret (Some (MsgAcknowledgement pk ack proofs signer))))"

text \<open>On an ordered channel a timeout is proved by the next sequence to be received, otherwise by the
  sequence of the packet.\<close>

definition timeout_sequence ::
  "'w relay_path \<Rightarrow> packet \<Rightarrow> height \<Rightarrow> ('w, link_error, sequence) eff" where
  "timeout_sequence p pk h =
     (if ordered_channel p
      then emap_err (LinkQuery (chain_id (dst_chain p)))
             (query_next_sequence_receive (dst_chain p) (dst_port_id p) (dst_channel_id p) (Specific h))
      else eret (sequence pk))"

definition build_timeout_packet ::
  "'w relay_path \<Rightarrow> packet \<Rightarrow> height \<Rightarrow> ('w, link_error, ibc_msg option) eff" where
  "build_timeout_packet p pk h =
     ebind (timeout_sequence p pk h) (\<lambda>next_sequence_received.
     ebind (emap_err (LinkPacketProofs (chain_id (dst_chain p)))
              (build_packet_proofs (dst_chain p) (if ordered_channel p then MsgTimeoutOrdered else MsgTimeoutUnordered)
                 (destination_port pk) (destination_channel pk) next_sequence_received h)) (\<lambda>proofs.
     ebind (src_signer p) (\<lambda>signer.
       eret (Some (MsgTimeout pk next_sequence_received proofs signer)))))"

text \<open>The message carries the sequence of the packet also on an ordered channel, as in the sources.\<close>

definition build_timeout_on_close_packet ::
  "'w relay_path \<Rightarrow> packet \<Rightarrow> height \<Rightarrow> ('w, link_error, ibc_msg option) eff" where
  "build_timeout_on_close_packet p pk h =
     ebind (timeout_sequence p pk h) (\<lambda>next_sequence_received.
     ebind (emap_err (LinkPacketProofs (chain_id (dst_chain p)))
              (build_packet_proofs (dst_chain p)
                 (if ordered_channel p then MsgTimeoutOnCloseOrdered else MsgTimeoutOnCloseUnordered)
                 (destination_port pk) (destination_channel pk) next_sequence_received h)) (\<lambda>proofs.
     ebind (src_signer p) (\<lambda>signer.
       eret (Some (MsgTimeoutOnClose pk (sequence pk) proofs signer)))))"

definition build_timeout_from_send_packet_event ::
  "'w relay_path \<Rightarrow> packet \<Rightarrow> chain_status \<Rightarrow> ('w, link_error, ibc_msg option) eff" where
  "build_timeout_from_send_packet_event p pk dst_info =
     ebind (dst_channel p (Specific (status_height dst_info))) (\<lambda>ch.
       if state_matches ch Closed then build_timeout_on_close_packet p pk (status_height dst_info)
       else if timed_out pk (status_timestamp dst_info) (status_height dst_info)
       then build_timeout_packet p pk (status_height dst_info)
       else eret None)"

definition build_recv_or_timeout_from_send_packet_event ::
  "'w relay_path \<Rightarrow> packet \<Rightarrow> chain_status \<Rightarrow> height \<Rightarrow> ('w, link_error, ibc_msg option \<times> ibc_msg option) eff" where
  "build_recv_or_timeout_from_send_packet_event p pk dst_info h =
     ebind (build_timeout_from_send_packet_event p pk dst_info) (\<lambda>timeout.
       if timeout \<noteq> None then eret (None, timeout)
       else ebind (build_recv_packet p pk h) (\<lambda>m. eret (m, None)))"

section \<open>Events that are already handled\<close>

definition send_packet_received_on_dst :: "'w relay_path \<Rightarrow> packet \<Rightarrow> ('w, link_error, bool) eff" where
  "send_packet_received_on_dst p pk =
     ebind (emap_err LinkRelayer
              (query_unreceived_packets (dst_chain p) (dst_port_id p) (dst_channel_id p) [sequence pk])) (\<lambda>unreceived.
       eret (unreceived = []))"

definition send_packet_commitment_cleared_on_src :: "'w relay_path \<Rightarrow> packet \<Rightarrow> ('w, link_error, bool) eff" where
  "send_packet_commitment_cleared_on_src p pk =
     ebind (emap_err LinkRelayer
              (query_packet_commitment (src_chain p) (src_port_id p) (src_channel_id p) (sequence pk) Latest)) (\<lambda>bytes.
       eret (bytes = []))"

definition send_packet_event_handled :: "'w relay_path \<Rightarrow> packet \<Rightarrow> ('w, link_error, bool) eff" where
  "send_packet_event_handled p pk =
     ebind (send_packet_received_on_dst p pk) (\<lambda>received.
       if received then eret True else send_packet_commitment_cleared_on_src p pk)"

definition recv_packet_acknowledged_on_src :: "'w relay_path \<Rightarrow> packet \<Rightarrow> ('w, link_error, bool) eff" where
  "recv_packet_acknowledged_on_src p pk =
     ebind (emap_err LinkRelayer
              (query_unreceived_acknowledgements (dst_chain p) (dst_port_id p) (dst_channel_id p) [sequence pk])) (\<lambda>unreceived.
       eret (unreceived = []))"

definition write_ack_event_handled :: "'w relay_path \<Rightarrow> packet \<Rightarrow> ('w, link_error, bool) eff" where
  "write_ack_event_handled p pk = recv_packet_acknowledged_on_src p pk"

section \<open>Generating operational data\<close>

text \<open>The message for the destination chain and the message for the source chain of one event.\<close>

definition messages_for_event ::
  "'w relay_path \<Rightarrow> chain_status \<Rightarrow> ibc_event_with_height \<Rightarrow> ('w, link_error, ibc_msg option \<times> ibc_msg option) eff" where
  "messages_for_event p dst_info ev = (case event ev of
       CloseInitChannel _ \<Rightarrow> ebind (build_chan_close_confirm_from_event p ev) (\<lambda>m. eret (m, None))
     | TimeoutPacket _ \<Rightarrow>
         if ordered_channel p then
           ebind (src_channel p (Specific (ev_height ev))) (\<lambda>ch.
             if state_matches ch Closed
             then ebind (build_chan_close_confirm_from_event p ev) (\<lambda>m. eret (m, None))
             else eret (None, None))
         else eret (None, None)
     | SendPacket pk \<Rightarrow>
         ebind (send_packet_event_handled p pk) (\<lambda>handled.
           if handled then eret (None, None)
           else build_recv_or_timeout_from_send_packet_event p pk dst_info (ev_height ev))
     | WriteAcknowledgement pk ack \<Rightarrow>
         ebind (dst_channel p Latest) (\<lambda>ch.
           if state_matches ch Closed then eret (None, None)
           else ebind (write_ack_event_handled p pk) (\<lambda>handled.
             if handled then eret (None, None)
             else ebind (build_ack_from_recv_event p pk ack (ev_height ev)) (\<lambda>m. eret (m, None))))
     | _ \<Rightarrow> eret (None, None))"

definition collect_msg ::
  "ibc_event_with_height \<Rightarrow> ibc_msg option \<Rightarrow> operational_data \<Rightarrow> operational_data" where
  "collect_msg ev m od = (case m of
       None \<Rightarrow> od
     | Some msg \<Rightarrow> od_push od \<lparr>tr_event = ev, tr_msg = msg\<rparr>)"

text \<open>On an ordered channel only the first timeout is collected: it closes the channel.\<close>

definition generate_step ::
  "'w relay_path \<Rightarrow> chain_status \<Rightarrow> ibc_event_with_height \<Rightarrow> operational_data \<times> operational_data
    \<Rightarrow> ('w, link_error, operational_data \<times> operational_data) eff" where
  "generate_step p dst_info ev = (\<lambda>(src_od, dst_od).
     ebind (messages_for_event p dst_info ev) (\<lambda>(dst_msg, src_msg).
       eret (if unordered_channel p \<or> batch src_od = [] then collect_msg ev src_msg src_od else src_od,
             collect_msg ev dst_msg dst_od)))"

definition non_empty_od :: "operational_data \<Rightarrow> operational_data option" where
  "non_empty_od od = (if batch od = [] then None else Some od)"

definition generate_operational_data ::
  "'w relay_path \<Rightarrow> tracked_events \<Rightarrow> ('w, link_error, operational_data option \<times> operational_data option) eff" where
  "generate_operational_data p evs = (case te_events evs of
       [] \<Rightarrow> eret (None, None)
     | first # _ \<Rightarrow>
         ebind (emap_err (LinkQuery (chain_id (src_chain p))) (query_application_status (dst_chain p))) (\<lambda>dst_info.
         ebind (operational_data_new (rp_env p) (status_height dst_info) Source (te_tracking_id evs)
                  (chan_connection_delay (rp_channel p))) (\<lambda>src_od.
         ebind (operational_data_new (rp_env p) (ev_height first) Destination (te_tracking_id evs)
                  (chan_connection_delay (rp_channel p))) (\<lambda>dst_od.
         ebind (efold (generate_step p dst_info) (te_events evs) (src_od, dst_od)) (\<lambda>(src_od', dst_od').
           eret (non_empty_od src_od', non_empty_od dst_od'))))))"

section \<open>Client updates ahead of a delay\<close>

definition update_height ::
  "'w chain_handle \<Rightarrow> client_id \<Rightarrow> height \<Rightarrow> ('w, link_error, height) eff" where
  "update_height c client h =
     ebind (emap_err (LinkQuery (chain_id c)) (query_txs c (TxClientEvent Latest BlockUpdateClient client h))) (\<lambda>evs.
       case evs of
         [] \<Rightarrow> ethrow UpdateClientEventNotFound
       | ev # _ \<Rightarrow>
           (case event ev of
              UpdateClient _ _ \<Rightarrow> eret (ev_height ev)
            | e \<Rightarrow> ethrow (UnexpectedEvent e)))"

text \<open>The events are popped from the back, so the first event of each kind wins.\<close>

fun event_per_type_step ::
  "ibc_event_with_height \<Rightarrow> ibc_event option \<times> height option \<times> client_attributes option
    \<Rightarrow> ibc_event option \<times> height option \<times> client_attributes option" where
  "event_per_type_step ev (err, upd, mis) = (case event ev of
       ChainError m \<Rightarrow> (Some (ChainError m), upd, mis)
     | UpdateClient _ _ \<Rightarrow> (err, Some (ev_height ev), mis)
     | ClientMisbehaviour a \<Rightarrow> (err, upd, Some a)
     | _ \<Rightarrow> (err, upd, mis))"

definition event_per_type ::
  "ibc_event_with_height list \<Rightarrow> ibc_event option \<times> height option \<times> client_attributes option" where
  "event_per_type evs = foldr event_per_type_step evs (None, None, None)"

text \<open>One attempt of an update; \<open>retry\<close> is the next attempt, if there is one.\<close>

definition update_client_attempt ::
  "'w chain_handle \<Rightarrow> client_id \<Rightarrow> ('w, link_error, ibc_msg list) eff \<Rightarrow> height \<Rightarrow> tracking_id
    \<Rightarrow> ('w, link_error, height) eff option \<Rightarrow> ('w, link_error, height) eff" where
  "update_client_attempt c client build h tid retry =
     ebind build (\<lambda>msgs.
     ebind (emap_err LinkRelayer (send_messages_and_wait_commit c (tracked_msgs_new msgs tid))) (\<lambda>evs.
       case event_per_type evs of
         (Some chain_error, _, _) \<Rightarrow>
           (case retry of
              None \<Rightarrow> ethrow (LinkClient (ChainErrorEvent (chain_id c) chain_error))
            | Some again \<Rightarrow> again)
       | (None, Some update_event_height, None) \<Rightarrow> eret update_event_height
       | (None, None, None) \<Rightarrow>
           ebind (etry (update_height c client h)) (\<lambda>r.
             case r of
               Inr u \<Rightarrow> eret u
             | Inl _ \<Rightarrow> (case retry of None \<Rightarrow> ethrow UpdateClientFailed | Some again \<Rightarrow> again))
       | (None, _, Some _) \<Rightarrow> ethrow UpdateClientFailed))"

fun do_update_client_dst ::
  "'w relay_path \<Rightarrow> height \<Rightarrow> tracking_id \<Rightarrow> nat \<Rightarrow> ('w, link_error, height) eff" where
  "do_update_client_dst p h tid 0 =
     update_client_attempt (dst_chain p) (dst_client_id p) (build_update_client_on_dst p h) h tid None"
| "do_update_client_dst p h tid (Suc retries_left) =
     update_client_attempt (dst_chain p) (dst_client_id p) (build_update_client_on_dst p h) h tid
       (Some (do_update_client_dst p h tid retries_left))"

fun do_update_client_src ::
  "'w relay_path \<Rightarrow> height \<Rightarrow> tracking_id \<Rightarrow> nat \<Rightarrow> ('w, link_error, height) eff" where
  "do_update_client_src p h tid 0 =
     update_client_attempt (src_chain p) (src_client_id p) (build_update_client_on_src p h) h tid None"
| "do_update_client_src p h tid (Suc retries_left) =
     update_client_attempt (src_chain p) (src_client_id p) (build_update_client_on_src p h) h tid
       (Some (do_update_client_src p h tid retries_left))"

definition MAX_RETRIES :: nat where
  "MAX_RETRIES = 5"

definition update_client_dst :: "'w relay_path \<Rightarrow> height \<Rightarrow> tracking_id \<Rightarrow> ('w, link_error, height) eff" where
  "update_client_dst p h tid = do_update_client_dst p h tid MAX_RETRIES"

definition update_client_src :: "'w relay_path \<Rightarrow> height \<Rightarrow> tracking_id \<Rightarrow> ('w, link_error, height) eff" where
  "update_client_src p h tid = do_update_client_src p h tid MAX_RETRIES"

section \<open>Which message answers which event\<close>

definition timeout_msg_for :: "ibc_event \<Rightarrow> ibc_msg \<Rightarrow> bool" where
  "timeout_msg_for ev m \<longleftrightarrow> (case (ev, m) of
       (SendPacket pk, MsgTimeout q _ _ _) \<Rightarrow> q = pk
     | (SendPacket pk, MsgTimeoutOnClose q _ _ _) \<Rightarrow> q = pk
     | _ \<Rightarrow> False)"

definition relay_msg_for :: "ibc_event \<Rightarrow> ibc_msg \<Rightarrow> bool" where
  "relay_msg_for ev m \<longleftrightarrow> (case (ev, m) of
       (SendPacket pk, MsgRecvPacket q _ _) \<Rightarrow> q = pk
     | (WriteAcknowledgement pk ack, MsgAcknowledgement q a _ _) \<Rightarrow> q = pk \<and> a = ack
     | (CloseInitChannel _, MsgChannelCloseConfirm _ _ _ _) \<Rightarrow> True
     | (TimeoutPacket _, MsgChannelCloseConfirm _ _ _ _) \<Rightarrow> True
     | _ \<Rightarrow> False)"

lemma msg_for_simps [simp]:
  "timeout_msg_for (SendPacket pk) (MsgTimeout q h p s) \<longleftrightarrow> q = pk"
  "timeout_msg_for (SendPacket pk) (MsgTimeoutOnClose q h p s) \<longleftrightarrow> q = pk"
  "relay_msg_for (SendPacket pk) (MsgRecvPacket q p s) \<longleftrightarrow> q = pk"
  "relay_msg_for (WriteAcknowledgement pk ack) (MsgAcknowledgement q a p s) \<longleftrightarrow> q = pk \<and> a = ack"
  "relay_msg_for (CloseInitChannel ci) (MsgChannelCloseConfirm port chan p s)"
  "relay_msg_for (TimeoutPacket pk) (MsgChannelCloseConfirm port chan p s)"
  by (simp_all add: timeout_msg_for_def relay_msg_for_def)

lemma build_timeout_Ok:
  assumes "build_timeout_from_send_packet_event p pk info w = (Ok (Some m), w')"
  shows "timeout_msg_for (SendPacket pk) m"
  using assms
  by (auto simp: build_timeout_from_send_packet_event_def build_timeout_on_close_packet_def
      build_timeout_packet_def eret_def elim!: ebind_OkE split: if_splits)

lemma build_recv_packet_Ok:
  "build_recv_packet p pk h w = (Ok r, w') \<Longrightarrow> \<exists>pr sg. r = Some (MsgRecvPacket pk pr sg)"
  by (auto simp: build_recv_packet_def eret_def elim!: ebind_OkE)

lemma build_ack_Ok:
  "build_ack_from_recv_event p pk ack h w = (Ok r, w') \<Longrightarrow> \<exists>pr sg. r = Some (MsgAcknowledgement pk ack pr sg)"
  by (auto simp: build_ack_from_recv_event_def eret_def elim!: ebind_OkE)

lemma build_close_confirm_Ok:
  "build_chan_close_confirm_from_event p ev w = (Ok (Some m), w') \<Longrightarrow>
     \<exists>pr sg. m = MsgChannelCloseConfirm (dst_port_id p) (dst_channel_id p) pr sg"
  by (auto simp: build_chan_close_confirm_from_event_def eret_def elim!: ebind_OkE split: if_splits)

lemma messages_for_event_Ok:
  assumes "messages_for_event p info ev w = (Ok (d, s), w')"
  shows "(\<forall>m. s = Some m \<longrightarrow> timeout_msg_for (event ev) m) \<and> (\<forall>m. d = Some m \<longrightarrow> relay_msg_for (event ev) m)
    \<and> (d = None \<or> s = None)"
  using assms
  by (cases "event ev")
    (auto simp: messages_for_event_def build_recv_or_timeout_from_send_packet_event_def eret_def
      elim!: ebind_OkE dest!: build_timeout_Ok build_recv_packet_Ok build_ack_Ok build_close_confirm_Ok
      split: if_splits)

lemma od_batch_id [simp]: "od\<lparr>batch := batch od\<rparr> = (od :: operational_data)"
  by (cases od) simp

definition collected :: "ibc_event_with_height \<Rightarrow> ibc_msg option \<Rightarrow> transit_message list" where
  "collected ev m = (case m of None \<Rightarrow> [] | Some msg \<Rightarrow> [\<lparr>tr_event = ev, tr_msg = msg\<rparr>])"

lemma collect_msg_eq: "collect_msg ev m od = od\<lparr>batch := batch od @ collected ev m\<rparr>"
  by (simp add: collect_msg_def od_push_def collected_def split: option.split)

lemma collected_props:
  "subseq (map tr_event (collected ev m)) [ev]"
  "(\<forall>t \<in> set (collected ev m). P (tr_event t) (tr_msg t)) \<longleftrightarrow> (\<forall>msg. m = Some msg \<longrightarrow> P ev msg)"
  by (auto simp: collected_def split: option.split)

lemma generate_step_Ok:
  assumes "generate_step p info ev (s, d) w = (Ok (s', d'), w')"
  obtains ms md where "s' = s\<lparr>batch := batch s @ ms\<rparr>" and "d' = d\<lparr>batch := batch d @ md\<rparr>"
    and "subseq (map tr_event ms) [ev]" and "subseq (map tr_event md) [ev]"
    and "\<forall>m \<in> set ms. timeout_msg_for (event (tr_event m)) (tr_msg m)"
    and "\<forall>m \<in> set md. relay_msg_for (event (tr_event m)) (tr_msg m)"
    and "\<not> unordered_channel p \<and> batch s \<noteq> [] \<longrightarrow> ms = []"
proof -
  from assms obtain dm sm where m: "messages_for_event p info ev w = (Ok (dm, sm), w')"
    and s': "s' = (if unordered_channel p \<or> batch s = [] then collect_msg ev sm s else s)"
    and d': "d' = collect_msg ev dm d"
    by (auto simp: generate_step_def eret_def elim!: ebind_OkE)
  have props: "\<forall>t \<in> set (collected ev sm). timeout_msg_for (event (tr_event t)) (tr_msg t)"
    "\<forall>t \<in> set (collected ev dm). relay_msg_for (event (tr_event t)) (tr_msg t)"
    using messages_for_event_Ok [OF m]
      collected_props(2) [of ev sm "\<lambda>e. timeout_msg_for (event e)"]
      collected_props(2) [of ev dm "\<lambda>e. relay_msg_for (event e)"] by simp_all
  show thesis
  proof (rule that [of "if unordered_channel p \<or> batch s = [] then collected ev sm else []" "collected ev dm"])
    show "s' = s\<lparr>batch := batch s @ (if unordered_channel p \<or> batch s = [] then collected ev sm else [])\<rparr>"
      by (simp add: s' collect_msg_eq)
    show "d' = d\<lparr>batch := batch d @ collected ev dm\<rparr>" by (simp add: d' collect_msg_eq)
  qed (use props in \<open>auto simp: collected_props(1)\<close>)
qed

lemma generate_fold_Ok:
  assumes "efold (generate_step p info) evs (s, d) w = (Ok (s', d'), w')"
  shows "\<exists>ms md. s' = s\<lparr>batch := batch s @ ms\<rparr> \<and> d' = d\<lparr>batch := batch d @ md\<rparr>
     \<and> subseq (map tr_event ms) evs \<and> subseq (map tr_event md) evs
     \<and> (\<forall>m \<in> set ms. timeout_msg_for (event (tr_event m)) (tr_msg m))
     \<and> (\<forall>m \<in> set md. relay_msg_for (event (tr_event m)) (tr_msg m))
     \<and> (\<not> unordered_channel p \<longrightarrow> length (batch s @ ms) \<le> max 1 (length (batch s)))"
  using assms
proof (induction evs arbitrary: s d w)
  case Nil
  then show ?case by (intro exI [of _ "[]"]) (simp add: eret_def)
next
  case (Cons ev evs)
  then obtain s1 d1 w1 where step: "generate_step p info ev (s, d) w = (Ok (s1, d1), w1)"
    and rest: "efold (generate_step p info) evs (s1, d1) w1 = (Ok (s', d'), w')"
    by (auto elim!: ebind_OkE)
  from step obtain ms1 md1 where 1: "s1 = s\<lparr>batch := batch s @ ms1\<rparr>" "d1 = d\<lparr>batch := batch d @ md1\<rparr>"
    "subseq (map tr_event ms1) [ev]" "subseq (map tr_event md1) [ev]"
    "\<forall>m \<in> set ms1. timeout_msg_for (event (tr_event m)) (tr_msg m)"
    "\<forall>m \<in> set md1. relay_msg_for (event (tr_event m)) (tr_msg m)"
    "\<not> unordered_channel p \<and> batch s \<noteq> [] \<longrightarrow> ms1 = []"
    by (rule generate_step_Ok) (rule that)
  from Cons.IH [OF rest] obtain ms2 md2 where 2: "s' = s1\<lparr>batch := batch s1 @ ms2\<rparr>" "d' = d1\<lparr>batch := batch d1 @ md2\<rparr>"
    "subseq (map tr_event ms2) evs" "subseq (map tr_event md2) evs"
    "\<forall>m \<in> set ms2. timeout_msg_for (event (tr_event m)) (tr_msg m)"
    "\<forall>m \<in> set md2. relay_msg_for (event (tr_event m)) (tr_msg m)"
    "\<not> unordered_channel p \<longrightarrow> length (batch s1 @ ms2) \<le> max 1 (length (batch s1))"
    by blast
  have len: "length ms1 \<le> 1" using list_emb_length [OF 1(3)] by simp
  have sub: "subseq (map tr_event (ms1 @ ms2)) (ev # evs)" "subseq (map tr_event (md1 @ md2)) (ev # evs)"
    using list_emb_append_mono [OF 1(3) 2(3)] list_emb_append_mono [OF 1(4) 2(4)] by simp_all
  show ?case
  proof (intro exI conjI)
    show "s' = s\<lparr>batch := batch s @ (ms1 @ ms2)\<rparr>" "d' = d\<lparr>batch := batch d @ (md1 @ md2)\<rparr>"
      using 1(1,2) 2(1,2) by simp_all
    show "\<forall>m \<in> set (ms1 @ ms2). timeout_msg_for (event (tr_event m)) (tr_msg m)"
      "\<forall>m \<in> set (md1 @ md2). relay_msg_for (event (tr_event m)) (tr_msg m)"
      using 1(5,6) 2(5,6) by auto
    show "\<not> unordered_channel p \<longrightarrow> length (batch s @ (ms1 @ ms2)) \<le> max 1 (length (batch s))"
      using 1(1,7) 2(7) len by (cases "batch s = []") auto
  qed (fact sub)+
qed

lemma operational_data_new_Ok:
  assumes "operational_data_new env h t tid delay w = (Ok od, w')"
  shows "proofs_height od = h" "batch od = []" "od_target od = t" "od_tracking_id od = tid"
    "od_connection_delay od = None \<longleftrightarrow> delay = 0"
  using assms by (auto simp: operational_data_new_def read_world_def eret_def elim!: ebind_OkE split: if_splits)

text \<open>What the operational data generated for a target looks like.\<close>

definition generated_for ::
  "'w relay_path \<Rightarrow> tracked_events \<Rightarrow> od_target \<Rightarrow> (ibc_event \<Rightarrow> ibc_msg \<Rightarrow> bool) \<Rightarrow> operational_data \<Rightarrow> bool" where
  "generated_for p evs t ok od \<longleftrightarrow> od_target od = t \<and> batch od \<noteq> [] \<and> od_tracking_id od = te_tracking_id evs
     \<and> subseq (map tr_event (batch od)) (te_events evs)
     \<and> (\<forall>m \<in> set (batch od). ok (event (tr_event m)) (tr_msg m))
     \<and> (od_connection_delay od = None \<longleftrightarrow> chan_connection_delay (rp_channel p) = 0)"

lemma generate_operational_data_Ok:
  assumes "generate_operational_data p evs w = (Ok (src_opt, dst_opt), w')"
  shows "\<forall>od. src_opt = Some od \<longrightarrow> generated_for p evs Source timeout_msg_for od
           \<and> (\<not> unordered_channel p \<longrightarrow> length (batch od) = 1)"
    and "\<forall>od. dst_opt = Some od \<longrightarrow> generated_for p evs Destination relay_msg_for od
           \<and> proofs_height od = ev_height (hd (te_events evs))"
proof -
  have "(\<forall>od. src_opt = Some od \<longrightarrow> generated_for p evs Source timeout_msg_for od
           \<and> (\<not> unordered_channel p \<longrightarrow> length (batch od) = 1))
     \<and> (\<forall>od. dst_opt = Some od \<longrightarrow> generated_for p evs Destination relay_msg_for od
           \<and> proofs_height od = ev_height (hd (te_events evs)))"
  proof (cases "te_events evs")
    case Nil
    with assms show ?thesis by (simp add: generate_operational_data_def eret_def)
  next
    case (Cons e es)
    with assms obtain info s d s' d' w1 w2 w3 w4
      where s: "operational_data_new (rp_env p) (status_height info) Source (te_tracking_id evs)
                  (chan_connection_delay (rp_channel p)) w1 = (Ok s :: (link_error, _) result, w2)"
        and d: "operational_data_new (rp_env p) (ev_height e) Destination (te_tracking_id evs)
                  (chan_connection_delay (rp_channel p)) w2 = (Ok d :: (link_error, _) result, w3)"
        and fold: "efold (generate_step p info) (te_events evs) (s, d) w3 = (Ok (s', d'), w4)"
        and out: "src_opt = non_empty_od s'" "dst_opt = non_empty_od d'"
      unfolding generate_operational_data_def Cons list.case
      by (fastforce simp: eret_def elim!: ebind_OkE)
    from generate_fold_Ok [OF fold] obtain ms md
      where f: "s' = s\<lparr>batch := batch s @ ms\<rparr>" "d' = d\<lparr>batch := batch d @ md\<rparr>"
        "subseq (map tr_event ms) (te_events evs)" "subseq (map tr_event md) (te_events evs)"
        "\<forall>m \<in> set ms. timeout_msg_for (event (tr_event m)) (tr_msg m)"
        "\<forall>m \<in> set md. relay_msg_for (event (tr_event m)) (tr_msg m)"
        "\<not> unordered_channel p \<longrightarrow> length (batch s @ ms) \<le> max 1 (length (batch s))"
      by blast
    have "\<not> unordered_channel p \<longrightarrow> length ms \<le> 1"
      using f(7) operational_data_new_Ok(2) [OF s] by simp
    then show ?thesis
      using operational_data_new_Ok [OF s] operational_data_new_Ok [OF d] f(1-6) out Cons
      by (auto simp: non_empty_od_def generated_for_def le_Suc_eq split: if_splits)
  qed
  then show "\<forall>od. src_opt = Some od \<longrightarrow> generated_for p evs Source timeout_msg_for od
           \<and> (\<not> unordered_channel p \<longrightarrow> length (batch od) = 1)"
    and "\<forall>od. dst_opt = Some od \<longrightarrow> generated_for p evs Destination relay_msg_for od
           \<and> proofs_height od = ev_height (hd (te_events evs))"
    by blast+
qed

section \<open>Events by type\<close>

fun is_update_client :: "ibc_event \<Rightarrow> bool" where
  "is_update_client (UpdateClient _ _) = True"
| "is_update_client _ = False"

fun misbehaviour_attributes :: "ibc_event \<Rightarrow> client_attributes option" where
  "misbehaviour_attributes (ClientMisbehaviour a) = Some a"
| "misbehaviour_attributes _ = None"

lemma event_per_type_find:
  "event_per_type evs =
     (map_option event (List.find (\<lambda>e. is_chain_error (event e)) evs),
      map_option ev_height (List.find (\<lambda>e. is_update_client (event e)) evs),
      Option.bind (List.find (\<lambda>e. misbehaviour_attributes (event e) \<noteq> None) evs)
        (\<lambda>e. misbehaviour_attributes (event e)))"
proof (induction evs)
  case (Cons ev evs)
  then show ?case
    by (cases "event ev") (simp_all add: event_per_type_def)
qed (simp add: event_per_type_def)

lemma event_per_type_None:
  "fst (event_per_type evs) = None \<longleftrightarrow> (\<forall>e \<in> set evs. \<not> is_chain_error (event e))"
  "snd (snd (event_per_type evs)) = None \<longleftrightarrow> (\<forall>e \<in> set evs. misbehaviour_attributes (event e) = None)"
proof -
  show "fst (event_per_type evs) = None \<longleftrightarrow> (\<forall>e \<in> set evs. \<not> is_chain_error (event e))"
    by (auto simp: event_per_type_find find_None_iff)
  show "snd (snd (event_per_type evs)) = None \<longleftrightarrow> (\<forall>e \<in> set evs. misbehaviour_attributes (event e) = None)"
  proof (induction evs)
    case (Cons ev evs)
    then show ?case
      by (cases "event_per_type evs"; cases "event ev") (simp_all add: event_per_type_def)
  qed (simp add: event_per_type_def)
qed

text \<open>What a client update that returns a height has seen: a transaction without chain errors and
  misbehaviour, whose first update event, or else the first update event of the chain for that height,
  gives the height.\<close>

definition updated_at ::
  "'w chain_handle \<Rightarrow> client_id \<Rightarrow> ('w, link_error, ibc_msg list) eff \<Rightarrow> height \<Rightarrow> tracking_id \<Rightarrow> height \<Rightarrow> 'w \<Rightarrow> bool" where
  "updated_at c client build h tid u w' \<longleftrightarrow>
     (\<exists>w1 msgs w2 evs w3. build w1 = (Ok msgs, w2)
       \<and> send_messages_and_wait_commit c (tracked_msgs_new msgs tid) w2 = (Ok evs, w3)
       \<and> (\<forall>e \<in> set evs. \<not> is_chain_error (event e) \<and> misbehaviour_attributes (event e) = None)
       \<and> (case List.find (\<lambda>e. is_update_client (event e)) evs of
            Some e \<Rightarrow> u = ev_height e \<and> w' = w3
          | None \<Rightarrow> update_height c client h w3 = (Ok u, w')))"

lemma updated_atI:
  assumes "build w1 = (Ok msgs, w2)"
    and "send_messages_and_wait_commit c (tracked_msgs_new msgs tid) w2 = (Ok evs, w3)"
    and "\<forall>e \<in> set evs. \<not> is_chain_error (event e) \<and> misbehaviour_attributes (event e) = None"
    and "case List.find (\<lambda>e. is_update_client (event e)) evs of
            Some e \<Rightarrow> u = ev_height e \<and> w' = w3
          | None \<Rightarrow> update_height c client h w3 = (Ok u, w')"
  shows "updated_at c client build h tid u w'"
  unfolding updated_at_def by (intro exI conjI) (fact assms)+

lemma update_client_attempt_Ok:
  assumes "update_client_attempt c client build h tid retry w = (Ok u, w')"
  shows "updated_at c client build h tid u w' \<or> (\<exists>again t. retry = Some again \<and> again t = (Ok u, w'))"
proof -
  from assms obtain msgs w2 evs w3
    where build: "build w = (Ok msgs, w2)"
      and send: "send_messages_and_wait_commit c (tracked_msgs_new msgs tid) w2 = (Ok evs, w3)"
      and out: "(case event_per_type evs of
         (Some chain_error, _, _) \<Rightarrow>
           (case retry of
              None \<Rightarrow> ethrow (LinkClient (ChainErrorEvent (chain_id c) chain_error))
            | Some again \<Rightarrow> again)
       | (None, Some update_event_height, None) \<Rightarrow> eret update_event_height
       | (None, None, None) \<Rightarrow>
           ebind (etry (update_height c client h)) (\<lambda>r.
             case r of
               Inr u \<Rightarrow> eret u
             | Inl _ \<Rightarrow> (case retry of None \<Rightarrow> ethrow UpdateClientFailed | Some again \<Rightarrow> again))
       | (None, _, Some _) \<Rightarrow> ethrow UpdateClientFailed) w3 = (Ok u, w')"
    unfolding update_client_attempt_def
    by (elim ebind_OkE) (auto simp: emap_err_def split: prod.splits)
  obtain err upd mis where ept: "event_per_type evs = (err, upd, mis)"
    by (cases "event_per_type evs") auto
  have upd: "upd = map_option ev_height (List.find (\<lambda>e. is_update_client (event e)) evs)"
    using ept by (simp add: event_per_type_find)
  show ?thesis
  proof (cases "err = None \<and> mis = None")
    case True
    then have clean: "\<forall>e \<in> set evs. \<not> is_chain_error (event e) \<and> misbehaviour_attributes (event e) = None"
      using event_per_type_None [of evs] ept by simp
    show ?thesis
    proof (cases "List.find (\<lambda>e. is_update_client (event e)) evs")
      case (Some e)
      with out ept True upd have "u = ev_height e" "w' = w3" by (simp_all add: eret_def)
      with Some show ?thesis
        by (intro disjI1 updated_atI [of build, OF build send clean]) simp
    next
      case None
      then have "ebind (etry (update_height c client h)) (\<lambda>r.
             case r of
               Inr u \<Rightarrow> eret u
             | Inl _ \<Rightarrow> (case retry of None \<Rightarrow> ethrow UpdateClientFailed | Some again \<Rightarrow> again)) w3 = (Ok u, w')"
        using out ept True upd by simp
      then consider "update_height c client h w3 = (Ok u, w')" | "\<exists>again t. retry = Some again \<and> again t = (Ok u, w')"
        by (elim ebind_OkE)
          (auto simp: etry_def eret_def ethrow_def split: prod.splits result.splits sum.splits option.splits)
      then show ?thesis
        by cases (use updated_atI [of build, OF build send clean] None in auto)
    qed
  next
    case False
    with out ept show ?thesis
      by (cases err; cases upd; cases mis; cases retry) (auto simp: ethrow_def eret_def)
  qed
qed

lemma do_update_client_dst_Ok:
  "do_update_client_dst p h tid n w = (Ok u, w') \<Longrightarrow>
     updated_at (dst_chain p) (dst_client_id p) (build_update_client_on_dst p h) h tid u w'"
  by (induction n arbitrary: w) (auto dest: update_client_attempt_Ok)

lemma do_update_client_src_Ok:
  "do_update_client_src p h tid n w = (Ok u, w') \<Longrightarrow>
     updated_at (src_chain p) (src_client_id p) (build_update_client_on_src p h) h tid u w'"
  by (induction n arbitrary: w) (auto dest: update_client_attempt_Ok)

lemma timeout_sequence_ordered:
  assumes "ordered_channel p" and "timeout_sequence p pk h w = (Ok n, w')"
  shows "query_next_sequence_receive (dst_chain p) (dst_port_id p) (dst_channel_id p) (Specific h) w = (Ok n, w')"
  using assms by (simp add: timeout_sequence_def emap_err_def split: prod.splits)

section \<open>Properties\<close>

text \<open>C6: Operational data generated from events never mixes the two directions. What is meant for the source
  chain is a non-empty batch of timeout messages, each for the packet of its own send event, and a
  single one unless the channel is unordered; what is meant for the destination chain is a non-empty
  batch in which send events are answered by receive messages, acknowledgement events by
  acknowledgement messages and closing events by close confirmations, proved at the height of the
  first event. In both the events keep their order and the tracking identifier, none is used twice,
  and there is a connection delay exactly when the channel has one.\<close>

theorem generated_operational_data:
  assumes "generate_operational_data p evs w = (Ok (src_opt, dst_opt), w')"
  shows "(\<forall>od. src_opt = Some od \<longrightarrow> od_target od = Source \<and> batch od \<noteq> []
        \<and> od_tracking_id od = te_tracking_id evs \<and> subseq (map tr_event (batch od)) (te_events evs)
        \<and> (\<forall>m \<in> set (batch od). timeout_msg_for (event (tr_event m)) (tr_msg m))
        \<and> (od_connection_delay od = None \<longleftrightarrow> chan_connection_delay (rp_channel p) = 0)
        \<and> (\<not> unordered_channel p \<longrightarrow> length (batch od) = 1))
     \<and> (\<forall>od. dst_opt = Some od \<longrightarrow> od_target od = Destination \<and> batch od \<noteq> []
        \<and> od_tracking_id od = te_tracking_id evs \<and> subseq (map tr_event (batch od)) (te_events evs)
        \<and> (\<forall>m \<in> set (batch od). relay_msg_for (event (tr_event m)) (tr_msg m))
        \<and> (od_connection_delay od = None \<longleftrightarrow> chan_connection_delay (rp_channel p) = 0)
        \<and> proofs_height od = ev_height (hd (te_events evs)))"
  using generate_operational_data_Ok [OF assms] by (auto simp: generated_for_def)

definition sample_events :: tracked_events where
  "sample_events = \<lparr>te_events = [event_new (SendPacket sample_packet) (Height 0 1)], te_tracking_id = Static ''t''\<rparr>"

lemmas generate_defs = generate_operational_data_def operational_data_new_def generate_step_def messages_for_event_def
  send_packet_event_handled_def send_packet_received_on_dst_def send_packet_commitment_cleared_on_src_def
  build_recv_or_timeout_from_send_packet_event_def build_timeout_from_send_packet_event_def dst_channel_def
  build_recv_packet_def dst_signer_def collect_msg_def od_push_def non_empty_od_def

theorem generated_operational_data_witness:
  "fst (generate_operational_data (sample_relay_path 0) sample_events sample_world) = Ok (None, Some (sample_od None))
   \<and> od_target (sample_od None) = Destination \<and> proofs_height (sample_od None) = Height 0 1"
proof -
  have run: "generate_operational_data (sample_relay_path 0) sample_events sample_world
      = (Ok (None, Some (sample_od None)), sample_world\<lparr>clock := 2\<rparr>)"
    by (simp add: generate_defs sample_events_def sample_world_def sample_channel_def state_matches_def sample_status_def
        timed_out_def timestamp_none_def sample_packet_def event_new_def sample_od_def sample_transit_def
        unordered_channel_def eff_defs ebind_def numeral_2_eq_2)
  from generated_operational_data [OF run] run show ?thesis
    by (simp add: sample_events_def event_new_def)
qed

text \<open>Sorting the events of a transaction by type in one backwards pass yields the first chain error, the
  height of the first client update and the first misbehaviour, as separate searches would.\<close>

theorem event_per_type_first:
  "event_per_type evs =
     (map_option event (List.find (\<lambda>e. is_chain_error (event e)) evs),
      map_option ev_height (List.find (\<lambda>e. is_update_client (event e)) evs),
      Option.bind (List.find (\<lambda>e. misbehaviour_attributes (event e) \<noteq> None) evs)
        (\<lambda>e. misbehaviour_attributes (event e)))"
  by (rule event_per_type_find)

text \<open>C23: A client update on the destination chain, with its retries, returns a height only after a transaction
  that raised neither a chain error nor misbehaviour, and the height is that of the first update event
  of this transaction or, when it has none, of the first update event the chain reports for this client
  and height.\<close>

theorem update_client_dst_sound:
  assumes "update_client_dst p h tid w = (Ok u, w')"
  shows "\<exists>w1 msgs w2 evs w3. build_update_client_on_dst p h w1 = (Ok msgs, w2)
       \<and> send_messages_and_wait_commit (dst_chain p) (tracked_msgs_new msgs tid) w2 = (Ok evs, w3)
       \<and> (\<forall>e \<in> set evs. \<not> is_chain_error (event e) \<and> misbehaviour_attributes (event e) = None)
       \<and> (case List.find (\<lambda>e. is_update_client (event e)) evs of
            Some e \<Rightarrow> u = ev_height e \<and> w' = w3
          | None \<Rightarrow> update_height (dst_chain p) (dst_client_id p) h w3 = (Ok u, w'))"
  using do_update_client_dst_Ok [OF assms [unfolded update_client_dst_def]] by (simp only: updated_at_def)

text \<open>A path to a chain that accepts every update, for the witness.\<close>

definition updating_path :: "sample_world relay_path" where
  "updating_path = (sample_relay_path 3)\<lparr>rp_channel := (rp_channel (sample_relay_path 3))\<lparr>chan_a_side :=
     (chan_a_side (rp_channel (sample_relay_path 3)))\<lparr>side_chain := (sample_chain ''a'' ''b'')\<lparr>config := eret AxonConfig\<rparr>\<rparr>,
     chan_b_side := (chan_b_side (rp_channel (sample_relay_path 3)))\<lparr>side_chain := (sample_chain ''b'' ''a'')
       \<lparr>query_txs := (\<lambda>_. eret [event_new (UpdateClient \<lparr>ca_client_id = ClientId ''07-tendermint-0'',
          ca_client_type = Tendermint, ca_consensus_height = Height 0 2\<rparr> None) (Height 0 9)])\<rparr>\<rparr>\<rparr>\<rparr>"

theorem update_client_dst_sound_witness:
  "fst (update_client_dst updating_path (Height 0 2) (Static ''t'') sample_world) = Ok (Height 0 9)
   \<and> (\<exists>w1 msgs w2. build_update_client_on_dst updating_path (Height 0 2) w1 = (Ok msgs, w2))"
proof -
  have run: "update_client_dst updating_path (Height 0 2) (Static ''t'') sample_world
      = (Ok (Height 0 9), sample_world\<lparr>sent := [(''b'', tracked_msgs_new [] (Static ''t''))]\<rparr>)"
    by (simp add: update_client_dst_def MAX_RETRIES_def numeral_eq_Suc update_client_attempt_def
        build_update_client_on_dst_def wait_and_build_update_client_def restore_dst_client_def
        wait_and_build_update_client_with_trusted_def foreign_client_restore_def update_height_def
        event_per_type_def updating_path_def src_chain_def dst_chain_def dst_client_id_def event_new_def
        sample_world_def eff_defs ebind_def)
  from update_client_dst_sound [OF run] run show ?thesis by auto
qed

text \<open>C24: The two timeout messages differ on an ordered channel. Both are proved by the next sequence that the
  destination chain expects; the plain timeout carries that sequence, the timeout on close carries the
  sequence of the packet instead.\<close>

theorem ordered_timeout_sequences:
  assumes "ordered_channel p"
  shows "(build_timeout_packet p pk h w = (Ok r, w') \<longrightarrow>
       (\<exists>n w1 proofs w2 signer.
          query_next_sequence_receive (dst_chain p) (dst_port_id p) (dst_channel_id p) (Specific h) w = (Ok n, w1)
        \<and> build_packet_proofs (dst_chain p) MsgTimeoutOrdered (destination_port pk) (destination_channel pk) n h w1
            = (Ok proofs, w2)
        \<and> r = Some (MsgTimeout pk n proofs signer)))
    \<and> (build_timeout_on_close_packet p pk h w = (Ok r, w') \<longrightarrow>
       (\<exists>n w1 proofs w2 signer.
          query_next_sequence_receive (dst_chain p) (dst_port_id p) (dst_channel_id p) (Specific h) w = (Ok n, w1)
        \<and> build_packet_proofs (dst_chain p) MsgTimeoutOnCloseOrdered (destination_port pk) (destination_channel pk) n h w1
            = (Ok proofs, w2)
        \<and> r = Some (MsgTimeoutOnClose pk (sequence pk) proofs signer)))"
  using assms
  by (auto simp: build_timeout_packet_def build_timeout_on_close_packet_def emap_err_def eret_def
      dest!: timeout_sequence_ordered [OF assms] elim!: ebind_OkE split: prod.splits)

theorem ordered_timeout_sequences_witness:
  "\<exists>p. ordered_channel p
     \<and> fst (build_timeout_on_close_packet p (sample_packet\<lparr>sequence := 7\<rparr>) (Height 0 1) sample_world)
         = Ok (Some (MsgTimeoutOnClose (sample_packet\<lparr>sequence := 7\<rparr>) 7 sample_proofs ''a-signer''))
     \<and> fst (query_next_sequence_receive (dst_chain p) (dst_port_id p) (dst_channel_id p) (Specific (Height 0 1)) sample_world)
         = Ok 1"
proof -
  define p where "p = (sample_relay_path 0)\<lparr>rp_channel := (rp_channel (sample_relay_path 0))\<lparr>chan_ordering := Ordered\<rparr>\<rparr>"
  have ch: "src_chain p = sample_chain ''a'' ''b''" "dst_chain p = sample_chain ''b'' ''a''"
    using sample_relay_path_simps(1,2) [of 0] by (simp_all add: p_def src_chain_def dst_chain_def)
  have ord: "ordered_channel p" by (simp add: p_def ordered_channel_def)
  have run: "build_timeout_on_close_packet p (sample_packet\<lparr>sequence := 7\<rparr>) (Height 0 1) sample_world
      = (Ok (Some (MsgTimeoutOnClose (sample_packet\<lparr>sequence := 7\<rparr>) 7 sample_proofs ''a-signer'')), sample_world)"
    by (simp add: build_timeout_on_close_packet_def timeout_sequence_def ord ch src_signer_def eff_defs ebind_def)
  from ordered_timeout_sequences [OF ord, of "sample_packet\<lparr>sequence := 7\<rparr>" "Height 0 1" sample_world _ sample_world] run ord
  show ?thesis by (auto simp: ch eret_def)
qed

end
