(* ===== verification/Relay_Path.thy ===== *)
theory Relay_Path
  imports Relay_Messages
begin

text \<open>
  The stateful part of \<open>relayer/src/link/relay_path.rs\<close>, with \<open>link/pending.rs\<close>: the queues of operational
  data for the two chains and of transactions waiting for confirmation, and the operations that
  schedule, refresh, relay, resubmit and clear. The queues are behind locks in the sources; one
  worker drives a path, and each operation is a computation over the state \<open>link_state\<close>.
\<close>

section \<open>State\<close>

record pending_data =
  original_od :: operational_data
  tx_hashes :: "tx_hash_value list"
  submit_time :: instant
  error_events :: "ibc_event list"

record 'w link_state =
  src_operational_data :: "operational_data queue"
  dst_operational_data :: "operational_data queue"
  pending_txs_src :: "pending_data queue"
  pending_txs_dst :: "pending_data queue"
  world :: 'w

definition link_state_new :: "'w \<Rightarrow> 'w link_state" where
  "link_state_new w = \<lparr>src_operational_data = queue_new, dst_operational_data = queue_new,
     pending_txs_src = queue_new, pending_txs_dst = queue_new, world = w\<rparr>"

type_synonym ('w, 'e, 'a) link_op = "('w link_state, 'e, 'a) eff"

text \<open>An operation on the chains alone.\<close>

definition on_world :: "('w, 'e, 'a) eff \<Rightarrow> ('w, 'e, 'a) link_op" where
  "on_world m = ezoom world (\<lambda>w s. s\<lparr>world := w\<rparr>) m"

fun od_queue :: "od_target \<Rightarrow> 'w link_state \<Rightarrow> operational_data queue" where
  "od_queue Source s = src_operational_data s"
| "od_queue Destination s = dst_operational_data s"

fun set_od_queue :: "od_target \<Rightarrow> operational_data queue \<Rightarrow> 'w link_state \<Rightarrow> 'w link_state" where
  "set_od_queue Source q s = s\<lparr>src_operational_data := q\<rparr>"
| "set_od_queue Destination q s = s\<lparr>dst_operational_data := q\<rparr>"

fun pending_queue :: "od_target \<Rightarrow> 'w link_state \<Rightarrow> pending_data queue" where
  "pending_queue Source s = pending_txs_src s"
| "pending_queue Destination s = pending_txs_dst s"

fun set_pending_queue :: "od_target \<Rightarrow> pending_data queue \<Rightarrow> 'w link_state \<Rightarrow> 'w link_state" where
  "set_pending_queue Source q s = s\<lparr>pending_txs_src := q\<rparr>"
| "set_pending_queue Destination q s = s\<lparr>pending_txs_dst := q\<rparr>"

fun target_chain :: "'w relay_path \<Rightarrow> od_target \<Rightarrow> 'w chain_handle" where
  "target_chain p Source = src_chain p"
| "target_chain p Destination = dst_chain p"

section \<open>Scheduling\<close>

fun update_client_target ::
  "'w relay_path \<Rightarrow> od_target \<Rightarrow> height \<Rightarrow> tracking_id \<Rightarrow> ('w, link_error, height) eff" where
  "update_client_target p Source h tid = update_client_src p h tid"
| "update_client_target p Destination h tid = update_client_dst p h tid"

fun time_at_height_target :: "'w relay_path \<Rightarrow> od_target \<Rightarrow> height \<Rightarrow> ('w, link_error, instant) eff" where
  "time_at_height_target p Source h = src_time_at_height p h"
| "time_at_height_target p Destination h = dst_time_at_height p h"

text \<open>Under a delay the client is updated first, and the data is scheduled at the time of that update.\<close>

definition prepare_schedule ::
  "'w relay_path \<Rightarrow> operational_data \<Rightarrow> ('w, link_error, operational_data) eff" where
  "prepare_schedule p od =
     (if conn_delay_needed od then
        ebind (update_client_target p (od_target od) (increment (proofs_height od)) (od_tracking_id od)) (\<lambda>u.
        ebind (time_at_height_target p (od_target od) u) (\<lambda>t.
          eret (set_scheduled_time (set_update_height od u) t)))
      else
        ebind (read_world (instant_now (rp_env p))) (\<lambda>t. eret (set_scheduled_time od t)))"

definition schedule_operational_data ::
  "'w relay_path \<Rightarrow> operational_data \<Rightarrow> ('w, link_error, unit) link_op" where
  "schedule_operational_data p od =
     (if batch od = [] then eret ()
      else
        ebind (on_world (prepare_schedule p od)) (\<lambda>od'.
          emodify (\<lambda>s. set_od_queue (od_target od) (push_back od' (od_queue (od_target od) s)) s)))"

definition schedule_option ::
  "'w relay_path \<Rightarrow> operational_data option \<Rightarrow> ('w, link_error, unit) link_op" where
  "schedule_option p opt = (case opt of None \<Rightarrow> eret () | Some od \<Rightarrow> schedule_operational_data p od)"

definition events_to_operational_data ::
  "'w relay_path \<Rightarrow> tracked_events \<Rightarrow> ('w, link_error, unit) link_op" where
  "events_to_operational_data p evs =
     ebind (on_world (generate_operational_data p evs)) (\<lambda>(src_opt, dst_opt).
     ebind (schedule_option p src_opt) (\<lambda>_. schedule_option p dst_opt))"

definition update_schedule :: "'w relay_path \<Rightarrow> event_batch \<Rightarrow> ('w, link_error, unit) link_op" where
  "update_schedule p b =
     events_to_operational_data p (filter_relaying_events p (eb_events b) (eb_tracking_id b))"

section \<open>Clearing\<close>

definition schedule_recv_packet_and_timeout_msgs ::
  "'w relay_path \<Rightarrow> height option \<Rightarrow> tracking_id \<Rightarrow> ('w, link_error, unit) link_op" where
  "schedule_recv_packet_and_timeout_msgs p opt_query_height tid =
     ebind (on_world (emap_err LinkSupervisor (unreceived_packets (dst_chain p) (src_chain p) (path_id p)))) (\<lambda>(seqs, h).
       let query_height = (case opt_query_height of None \<Rightarrow> h | Some q \<Rightarrow> q) in
       if seqs = [] then eret ()
       else query_packet_events_with seqs (SmallerEqual query_height)
              (\<lambda>chunk. on_world (query_send_packet_events (src_chain p) (path_id p) chunk (SmallerEqual query_height)))
              (\<lambda>evs. events_to_operational_data p \<lparr>te_events = evs, te_tracking_id = tid\<rparr>))"

definition schedule_packet_ack_msgs ::
  "'w relay_path \<Rightarrow> height option \<Rightarrow> tracking_id \<Rightarrow> ('w, link_error, unit) link_op" where
  "schedule_packet_ack_msgs p opt_query_height tid =
     ebind (on_world (emap_err LinkSupervisor (unreceived_acknowledgements (dst_chain p) (src_chain p) (path_id p)))) (\<lambda>(seqs, h).
       let query_height = (case opt_query_height of None \<Rightarrow> h | Some q \<Rightarrow> q) in
       if seqs = [] then eret ()
       else query_packet_events_with seqs (SmallerEqual query_height)
              (\<lambda>chunk. on_world (query_write_ack_events (src_chain p) (path_id p) chunk (SmallerEqual query_height)))
              (\<lambda>evs. events_to_operational_data p \<lparr>te_events = evs, te_tracking_id = tid\<rparr>))"

text \<open>The loop of \<open>relay_pending_packets\<close>: attempts until one succeeds.\<close>

fun clear_attempts :: "('s, link_error, unit) eff \<Rightarrow> nat \<Rightarrow> ('s, link_error, unit) eff" where
  "clear_attempts m 0 = ethrow OldPacketClearingFailed"
| "clear_attempts m (Suc n) = ebind (etry m) (\<lambda>r. case r of Inr _ \<Rightarrow> eret () | Inl _ \<Rightarrow> clear_attempts m n)"

definition relay_pending_packets :: "'w relay_path \<Rightarrow> height option \<Rightarrow> ('w, link_error, unit) link_op" where
  "relay_pending_packets p h =
     ebind (on_world (read_world (new_uuid (rp_env p)))) (\<lambda>uuid.
       clear_attempts
         (ebind (schedule_recv_packet_and_timeout_msgs p h (ClearedUuid uuid)) (\<lambda>_.
            schedule_packet_ack_msgs p h (ClearedUuid uuid)))
         MAX_RETRIES)"

definition schedule_packet_clearing :: "'w relay_path \<Rightarrow> height option \<Rightarrow> ('w, link_error, unit) link_op" where
  "schedule_packet_clearing p h =
     ebind (case h of
              None \<Rightarrow> eret None
            | Some h' \<Rightarrow> eresult (map_ok Some (map_err (DecrementHeight h') (decrement h')))) (\<lambda>clear_height.
       relay_pending_packets p clear_height)"

section \<open>Relaying\<close>

definition send_from_operational_data ::
  "'w relay_path \<Rightarrow> ('w, 'r) sender \<Rightarrow> operational_data \<Rightarrow> ('w, link_error, 'r) eff" where
  "send_from_operational_data p sndr od =
     (if batch od = [] then eret (reply_empty sndr)
      else ebind (assemble_msgs p od) (\<lambda>msgs. submit sndr (target_chain p (od_target od)) msgs))"

text \<open>Regeneration never fails: errors are contained as \<open>None\<close>.\<close>

definition regenerate_operational_data ::
  "'w relay_path \<Rightarrow> operational_data \<Rightarrow> ('w, 'e, operational_data option) link_op" where
  "regenerate_operational_data p od =
     ebind (etry (on_world (generate_operational_data p (into_events od)))) (\<lambda>r. case r of
       Inl _ \<Rightarrow> eret None
     | Inr (src_opt, dst_opt) \<Rightarrow>
         (let handle_dst = (case dst_opt of
                None \<Rightarrow> eret None
              | Some dst_od \<Rightarrow> eret (if od_target dst_od = od_target od then Some dst_od else None)) in
          case src_opt of
            None \<Rightarrow> handle_dst
          | Some src_od \<Rightarrow>
              if od_target src_od = od_target od then eret (Some src_od)
              else
                ebind (etry (schedule_operational_data p src_od)) (\<lambda>r2. case r2 of
                  Inl _ \<Rightarrow> eret None
                | Inr _ \<Rightarrow> handle_dst)))"

fun relay_attempts ::
  "'w relay_path \<Rightarrow> ('w, 'r) sender \<Rightarrow> nat \<Rightarrow> operational_data \<Rightarrow> ('w, link_error, 'r) link_op" where
  "relay_attempts p sndr 0 od = eret (reply_empty sndr)"
| "relay_attempts p sndr (Suc n) od =
     ebind (etry (on_world (send_from_operational_data p sndr od))) (\<lambda>r. case r of
       Inr reply \<Rightarrow> eret reply
     | Inl e \<Rightarrow>
         (case e of
            LinkSend _ \<Rightarrow>
              if n = 0 then eret (reply_empty sndr)
              else ebind (regenerate_operational_data p od) (\<lambda>opt. case opt of
                None \<Rightarrow> eret (reply_empty sndr)
              | Some new_od \<Rightarrow> relay_attempts p sndr n new_od)
          | _ \<Rightarrow> ethrow e))"

definition relay_from_operational_data ::
  "'w relay_path \<Rightarrow> ('w, 'r) sender \<Rightarrow> operational_data \<Rightarrow> ('w, link_error, 'r) link_op" where
  "relay_from_operational_data p sndr od = relay_attempts p sndr MAX_RETRIES od"

section \<open>Pending transactions\<close>

definition insert_new_pending_tx ::
  "'w relay_path \<Rightarrow> od_target \<Rightarrow> async_reply \<Rightarrow> operational_data \<Rightarrow> ('w, 'e, unit) link_op" where
  "insert_new_pending_tx p t r od =
     ebind (on_world (read_world (instant_now (rp_env p)))) (\<lambda>now.
       emodify (\<lambda>s. set_pending_queue t (push_back
         \<lparr>original_od = od, tx_hashes = map resp_hash (filter (\<lambda>x. \<not> resp_is_err x) r), submit_time = now,
          error_events = map (\<lambda>x. ChainError (fmt_tx_error (rp_env p) (chain_id (target_chain p t)) x))
            (filter resp_is_err r)\<rparr> (pending_queue t s)) s))"

definition enqueue_pending_tx ::
  "'w relay_path \<Rightarrow> async_reply \<Rightarrow> operational_data \<Rightarrow> ('w, 'e, unit) link_op" where
  "enqueue_pending_tx p reply od =
     (if \<not> confirm_txes p then eret () else insert_new_pending_tx p (od_target od) reply od)"

fun check_tx_events ::
  "'w chain_handle \<Rightarrow> tx_hash_value list \<Rightarrow> ibc_event_with_height list \<Rightarrow> ('w, ibc_event list option) chain_op" where
  "check_tx_events c [] acc = eret (Some (map event acc))"
| "check_tx_events c (h # hs) acc =
     ebind (query_txs c (TxTransaction h)) (\<lambda>evs.
       if evs = [] then eret None else check_tx_events c hs (acc @ evs))"

definition push_pending :: "od_target \<Rightarrow> pending_data \<Rightarrow> ('w, 'e, unit) link_op" where
  "push_pending t d = emodify (\<lambda>s. set_pending_queue t (push_back d (pending_queue t s)) s)"

definition pop_pending :: "od_target \<Rightarrow> ('w, 'e, pending_data option) link_op" where
  "pop_pending t = (\<lambda>s. case pop_front (pending_queue t s) of (x, q) \<Rightarrow> (Ok x, set_pending_queue t q s))"

definition resubmit_pending ::
  "'w relay_path \<Rightarrow> od_target \<Rightarrow> pending_data \<Rightarrow> ('w, link_error, unit) link_op" where
  "resubmit_pending p t d =
     ebind (regenerate_operational_data p (original_od d)) (\<lambda>new_od. case new_od of
       None \<Rightarrow> eret ()
     | Some od \<Rightarrow>
         ebind (etry (relay_from_operational_data p async_sender od)) (\<lambda>r. case r of
           Inr reply \<Rightarrow> insert_new_pending_tx p t reply (original_od d)
         | Inl e \<Rightarrow> ebind (push_pending t d) (\<lambda>_. ethrow e)))"

definition process_pending ::
  "'w relay_path \<Rightarrow> od_target \<Rightarrow> duration \<Rightarrow> bool \<Rightarrow> ('w, link_error, relay_summary option) link_op" where
  "process_pending p t timeout resubmit =
     ebind (pop_pending t) (\<lambda>front. case front of
       None \<Rightarrow> eret None
     | Some d \<Rightarrow>
         if tx_hashes d = [] then eret (Some (error_events d))
         else
           ebind (etry (on_world (check_tx_events (target_chain p t) (tx_hashes d) []))) (\<lambda>r. case r of
             Inl e \<Rightarrow> ebind (push_pending t d) (\<lambda>_. ethrow (LinkRelayer e))
           | Inr (Some evs) \<Rightarrow> eret (Some (evs @ error_events d))
           | Inr None \<Rightarrow>
               ebind (on_world (read_world (instant_now (rp_env p)))) (\<lambda>now.
                 if nat (now - submit_time d) > timeout then
                   ebind (if resubmit then resubmit_pending p t d else eret ()) (\<lambda>_. eret None)
                 else ebind (push_pending t d) (\<lambda>_. eret None))))"

definition PENDING_TIMEOUT :: duration where
  "PENDING_TIMEOUT = from_secs 300"

datatype resubmit = ResubmitYes | ResubmitNo

definition resubmit_from_clear_interval :: "u64 \<Rightarrow> resubmit" where
  "resubmit_from_clear_interval clear_interval = (if clear_interval = 0 then ResubmitYes else ResubmitNo)"

definition process_pending_txs_target ::
  "'w relay_path \<Rightarrow> od_target \<Rightarrow> resubmit \<Rightarrow> ('w, link_error, relay_summary) link_op" where
  "process_pending_txs_target p t r =
     ebind (process_pending p t PENDING_TIMEOUT (r = ResubmitYes)) (\<lambda>res.
       eret (case res of None \<Rightarrow> [] | Some summary \<Rightarrow> summary))"

definition process_pending_txs_src ::
  "'w relay_path \<Rightarrow> resubmit \<Rightarrow> ('w, link_error, relay_summary) link_op" where
  "process_pending_txs_src p r = process_pending_txs_target p Source r"

definition process_pending_txs_dst ::
  "'w relay_path \<Rightarrow> resubmit \<Rightarrow> ('w, link_error, relay_summary) link_op" where
  "process_pending_txs_dst p r = process_pending_txs_target p Destination r"

definition process_pending_txs :: "'w relay_path \<Rightarrow> resubmit \<Rightarrow> ('w, 'e, relay_summary) link_op" where
  "process_pending_txs p r =
     (if \<not> confirm_txes p then eret []
      else
        ebind (etry (process_pending_txs_src p r)) (\<lambda>src.
        ebind (etry (process_pending_txs_dst p r)) (\<lambda>dst.
          eret ((case src of Inl _ \<Rightarrow> [] | Inr s \<Rightarrow> s) @ (case dst of Inl _ \<Rightarrow> [] | Inr s \<Rightarrow> s)))))"

section \<open>Executing the schedule\<close>

fun delay_elapsed :: "'w relay_path \<Rightarrow> od_target \<Rightarrow> operational_data \<Rightarrow> ('w, link_error, bool) eff" where
  "delay_elapsed p Source od =
     has_conn_delay_elapsed od (src_time_latest p) (src_max_block_time p) (rp_src_latest_height p)"
| "delay_elapsed p Destination od =
     has_conn_delay_elapsed od (dst_time_latest p) (dst_max_block_time p) (rp_dst_latest_height p)"

text \<open>The error carries the data that was not processed.\<close>

fun execute_schedule_for_target_chain ::
  "'w relay_path \<Rightarrow> od_target \<Rightarrow> operational_data list \<Rightarrow> operational_data list
    \<Rightarrow> ('w, operational_data list \<times> link_error, operational_data list) link_op" where
  "execute_schedule_for_target_chain p t [] unprocessed = eret unprocessed"
| "execute_schedule_for_target_chain p t (od # ods) unprocessed =
     ebind (etry (on_world (delay_elapsed p t od))) (\<lambda>r. case r of
       Inl e \<Rightarrow> ethrow (unprocessed @ [od] @ ods, e)
     | Inr elapsed \<Rightarrow>
         if elapsed then
           ebind (etry (relay_from_operational_data p async_sender od)) (\<lambda>r2. case r2 of
             Inl e \<Rightarrow> ethrow (unprocessed @ ods, e)
           | Inr reply \<Rightarrow>
               ebind (enqueue_pending_tx p reply od) (\<lambda>_.
                 execute_schedule_for_target_chain p t ods unprocessed))
         else execute_schedule_for_target_chain p t ods (unprocessed @ [od]))"

definition execute_target :: "'w relay_path \<Rightarrow> od_target \<Rightarrow> ('w, link_error, unit) link_op" where
  "execute_target p t =
     ebind (eget (od_queue t)) (\<lambda>ods.
     ebind (emodify (set_od_queue t (snd (queue_take ods)))) (\<lambda>_.
     ebind (etry (execute_schedule_for_target_chain p t ods [])) (\<lambda>r. case r of
       Inr unprocessed \<Rightarrow> emodify (set_od_queue t unprocessed)
     | Inl (unprocessed, e) \<Rightarrow> ebind (emodify (set_od_queue t unprocessed)) (\<lambda>_. ethrow e))))"

definition execute_schedule :: "'w relay_path \<Rightarrow> ('w, link_error, unit) link_op" where
  "execute_schedule p = ebind (execute_target p Source) (\<lambda>_. execute_target p Destination)"

section \<open>Refreshing the schedule\<close>

text \<open>One message of a batch: dropped when already handled, turned into a timeout when its packet timed out,
  kept otherwise. The accumulator holds the kept messages and the timeout data of this batch.\<close>

definition refresh_message ::
  "'w relay_path \<Rightarrow> chain_status \<Rightarrow> tracking_id \<Rightarrow> transit_message \<Rightarrow> transit_message list \<times> operational_data option
    \<Rightarrow> ('w, link_error, transit_message list \<times> operational_data option) eff" where
  "refresh_message p status tid gm = (\<lambda>(retain, timed_out_od).
     (case event (tr_event gm) of
        SendPacket pk \<Rightarrow>
          ebind (send_packet_event_handled p pk) (\<lambda>handled.
            if handled then eret (retain, timed_out_od)
            else
              ebind (build_timeout_from_send_packet_event p pk status) (\<lambda>timeout. case timeout of
                Some new_msg \<Rightarrow>
                  ebind (case timed_out_od of
                           Some od \<Rightarrow> eret od
                         | None \<Rightarrow> operational_data_new (rp_env p) (status_height status) Source tid
                                     (chan_connection_delay (rp_channel p))) (\<lambda>od.
                    eret (retain, Some (od_push od \<lparr>tr_event = tr_event gm, tr_msg = new_msg\<rparr>)))
              | None \<Rightarrow> eret (retain @ [gm], timed_out_od)))
      | WriteAcknowledgement pk _ \<Rightarrow>
          ebind (write_ack_event_handled p pk) (\<lambda>handled.
            eret (if handled then retain else retain @ [gm], timed_out_od))
      | _ \<Rightarrow> eret (retain @ [gm], timed_out_od)))"

definition refresh_odata ::
  "'w relay_path \<Rightarrow> chain_status \<Rightarrow> operational_data \<Rightarrow> operational_data list \<times> operational_data list
    \<Rightarrow> ('w, link_error, operational_data list \<times> operational_data list) eff" where
  "refresh_odata p status od = (\<lambda>(kept, timed_out_ods).
     ebind (efold (refresh_message p status (od_tracking_id od)) (batch od) ([], None)) (\<lambda>(retain, timed_out_od).
       eret (kept @ [od\<lparr>batch := retain\<rparr>],
             timed_out_ods @ (case timed_out_od of None \<Rightarrow> [] | Some t \<Rightarrow> [t]))))"

text \<open>The map of timed-out data is ordered by position in the queue, so it is the list of its values.\<close>

definition refresh_schedule :: "'w relay_path \<Rightarrow> ('w, link_error, unit) link_op" where
  "refresh_schedule p =
     ebind (eget dst_operational_data) (\<lambda>ods.
     if queue_is_empty ods then eret ()
     else
       ebind (on_world (emap_err (LinkQuery (chain_id (src_chain p))) (query_application_status (dst_chain p)))) (\<lambda>status.
       ebind (on_world (efold (refresh_odata p status) ods ([], []))) (\<lambda>(kept, timed_out_ods).
       ebind (emodify (\<lambda>s. s\<lparr>dst_operational_data :=
                queue_replace (filter (\<lambda>d. batch d \<noteq> []) kept) (dst_operational_data s)\<rparr>)) (\<lambda>_.
         efor timed_out_ods (schedule_operational_data p)))))"

section \<open>Fetching for the command line\<close>

fun partition_elapsed ::
  "('a \<Rightarrow> ('s, 'e, bool) eff) \<Rightarrow> 'a list \<Rightarrow> ('s, 'e, 'a list \<times> 'a list) eff" where
  "partition_elapsed pred [] = eret ([], [])"
| "partition_elapsed pred (x # xs) =
     ebind (pred x) (\<lambda>b.
     ebind (partition_elapsed pred xs) (\<lambda>(ts, fs).
       eret (if b then (x # ts, fs) else (ts, x # fs))))"

text \<open>Both queues are taken before the delays are read, and are put back only at the end.\<close>

definition take_od_queue :: "od_target \<Rightarrow> ('w, 'e, operational_data list) link_op" where
  "take_od_queue t = (\<lambda>s. case queue_take (od_queue t s) of (ods, q) \<Rightarrow> (Ok ods, set_od_queue t q s))"

definition try_fetch_scheduled_operational_data ::
  "'w relay_path \<Rightarrow> ('w, link_error, operational_data list \<times> operational_data list) link_op" where
  "try_fetch_scheduled_operational_data p =
     ebind (take_od_queue Source) (\<lambda>src_ods.
     ebind (on_world (partition_elapsed (delay_elapsed p Source) src_ods)) (\<lambda>(elapsed_src, unelapsed_src).
     ebind (take_od_queue Destination) (\<lambda>dst_ods.
     ebind (on_world (partition_elapsed (delay_elapsed p Destination) dst_ods)) (\<lambda>(elapsed_dst, unelapsed_dst).
     ebind (emodify (set_od_queue Source unelapsed_src)) (\<lambda>_.
     ebind (emodify (set_od_queue Destination unelapsed_dst)) (\<lambda>_.
       eret (elapsed_src, elapsed_dst)))))))"

end
