(* ===== verification/Relay_Invariants.thy ===== *)
theory Relay_Invariants
  imports Relay_Path
begin

text \<open>
  The invariant of a relay path and what its operations do to the queues: every operation keeps the
  invariant, whatever the chains answer, so it holds in every reachable state; executing the schedule
  neither loses nor reorders data; a pending transaction is lost only when it is given up.
\<close>

section \<open>The invariant\<close>

definition od_ok :: "od_target \<Rightarrow> operational_data \<Rightarrow> bool" where
  "od_ok t od \<longleftrightarrow> od_target od = t \<and> batch od \<noteq> []
     \<and> (\<forall>d. get_delay_if_needed od = Some d \<longrightarrow> cd_update_height d \<noteq> None)"

definition pending_ok :: "od_target \<Rightarrow> pending_data \<Rightarrow> bool" where
  "pending_ok t d \<longleftrightarrow> od_target (original_od d) = t \<and> batch (original_od d) \<noteq> []"

definition link_inv :: "'w link_state \<Rightarrow> bool" where
  "link_inv s \<longleftrightarrow> (\<forall>t. list_all (od_ok t) (od_queue t s) \<and> list_all (pending_ok t) (pending_queue t s))"

lemma queue_frames [simp]:
  "od_queue t (s\<lparr>world := w\<rparr>) = od_queue t s" "pending_queue t (s\<lparr>world := w\<rparr>) = pending_queue t s"
  "od_queue t (set_pending_queue u q s) = od_queue t s" "pending_queue t (set_od_queue u q' s) = pending_queue t s"
  "od_queue t (set_od_queue u q' s) = (if t = u then q' else od_queue t s)"
  "pending_queue t (set_pending_queue u q s) = (if t = u then q else pending_queue t s)"
  "world (set_od_queue u q' s) = world s" "world (set_pending_queue u q s) = world s"
  by (cases t; cases u; simp)+

lemma link_inv_frames [simp]:
  "link_inv (s\<lparr>world := w\<rparr>) \<longleftrightarrow> link_inv s"
  by (simp add: link_inv_def)

lemma link_inv_set_od_queue: "link_inv s \<Longrightarrow> list_all (od_ok t) q \<Longrightarrow> link_inv (set_od_queue t q s)"
  by (simp add: link_inv_def)

lemma link_inv_set_pending_queue:
  "link_inv s \<Longrightarrow> list_all (pending_ok t) q \<Longrightarrow> link_inv (set_pending_queue t q s)"
  by (simp add: link_inv_def)

lemma queues_new [simp]: "od_queue t (link_state_new w) = []" "pending_queue t (link_state_new w) = []"
  by (cases t; simp add: link_state_new_def queue_new_def)+

lemma link_inv_new: "link_inv (link_state_new w)"
  by (simp add: link_inv_def)

lemma preserves_on_world [simp, pres]: "preserves link_inv (on_world m)"
  by (auto simp: preserves_def on_world_def intro!: vc)

lemma on_world_Ok: "on_world m s = (Ok a, s') \<Longrightarrow> \<exists>w. m (world s) = (Ok a, w) \<and> s' = s\<lparr>world := w\<rparr>"
  by (auto simp: on_world_def ezoom_def split: prod.splits)

lemma on_world_frame: "on_world m s = (r, s') \<Longrightarrow> \<exists>w. s' = s\<lparr>world := w\<rparr>"
  by (auto simp: on_world_def ezoom_def split: prod.splits)

lemma valid_on_world_res:
  assumes "\<And>w a w'. m w = (Ok a, w') \<Longrightarrow> P a"
  shows "valid link_inv (on_world m) (\<lambda>r s. link_inv s \<and> (\<forall>a. r = Ok a \<longrightarrow> P a))"
  using assms by (auto simp: valid_def on_world_def ezoom_def split: prod.splits)

section \<open>Every operation keeps the invariant\<close>

lemma prepare_schedule_Ok:
  assumes "prepare_schedule p od w = (Ok od', w')" and "batch od \<noteq> []"
  shows "od_ok (od_target od) od'" and "batch od' = batch od"
proof -
  have *: "od_target (set_scheduled_time o' t) = od_target o'" "batch (set_scheduled_time o' t) = batch o'"
    "od_target (set_update_height o' h) = od_target o'" "batch (set_update_height o' h) = batch o'" for o' t h
    by (simp_all add: set_scheduled_time_def set_update_height_def)
  show "batch od' = batch od"
    using assms(1) by (auto simp: prepare_schedule_def eret_def * elim!: ebind_OkE split: if_splits)
  show "od_ok (od_target od) od'"
    using assms
    by (auto simp: prepare_schedule_def od_ok_def eret_def * get_delay_if_needed_def has_packet_msgs_def
        conn_delay_needed_iff set_scheduled_time_def set_update_height_def elim!: ebind_OkE split: if_splits)
qed

lemma preserves_schedule [simp, pres]: "preserves link_inv (schedule_operational_data p od)"
proof (cases "batch od = []")
  case False
  have "preserves link_inv (ebind (on_world (prepare_schedule p od)) (\<lambda>od'.
      emodify (\<lambda>s. set_od_queue (od_target od) (push_back od' (od_queue (od_target od) s)) s)))"
  proof (rule preserves_ebind_res)
    show "valid link_inv (on_world (prepare_schedule p od))
        (\<lambda>r s. link_inv s \<and> (\<forall>a. r = Ok a \<longrightarrow> od_ok (od_target od) a))"
      by (rule valid_on_world_res) (rule prepare_schedule_Ok(1) [OF _ False])
    show "preserves link_inv
        (emodify (\<lambda>s. set_od_queue (od_target od) (push_back od' (od_queue (od_target od) s)) s))"
      if "od_ok (od_target od) od'" for od'
      by (rule preserves_emodify) (use that in \<open>auto simp: push_back_def link_inv_def\<close>)
  qed
  with False show ?thesis by (simp add: schedule_operational_data_def)
qed (simp add: schedule_operational_data_def)

lemma preserves_schedule_option [simp, pres]: "preserves link_inv (schedule_option p opt)"
  by (auto simp: schedule_option_def intro!: pres)

lemma preserves_events_to_operational_data [simp, pres]: "preserves link_inv (events_to_operational_data p evs)"
  by (auto simp: events_to_operational_data_def intro!: pres)

lemma preserves_clear_attempts: "preserves I m \<Longrightarrow> preserves I (clear_attempts m n)"
  by (induction n) (auto intro!: pres)

lemma preserves_packet_clearing: "preserves link_inv (schedule_packet_clearing p h)"
  unfolding schedule_packet_clearing_def relay_pending_packets_def schedule_recv_packet_and_timeout_msgs_def
    schedule_packet_ack_msgs_def
  by (intro pres preserves_clear_attempts preserves_query_packet_events_with)

lemma preserves_regenerate [simp, pres]: "preserves link_inv (regenerate_operational_data p od)"
  unfolding regenerate_operational_data_def by (intro pres)

lemma preserves_relay_attempts: "preserves link_inv (relay_attempts p sndr n od)"
proof (induction n arbitrary: od)
  case (Suc n)
  then show ?case by (auto intro!: pres split: link_error.split)
qed simp

lemma preserves_relay [simp, pres]: "preserves link_inv (relay_from_operational_data p sndr od)"
  by (simp add: relay_from_operational_data_def preserves_relay_attempts)

lemma preserves_insert_pending:
  assumes "od_target od = t" and "batch od \<noteq> []"
  shows "preserves link_inv (insert_new_pending_tx p t r od)"
  unfolding insert_new_pending_tx_def
  by (intro pres preserves_emodify link_inv_set_pending_queue)
    (use assms in \<open>auto simp: push_back_def link_inv_def pending_ok_def\<close>)

lemma preserves_push_pending:
  assumes "pending_ok t d"
  shows "preserves link_inv (push_pending t d)"
  unfolding push_pending_def
  by (intro preserves_emodify link_inv_set_pending_queue)
    (use assms in \<open>auto simp: push_back_def link_inv_def\<close>)

lemma valid_pop_pending:
  "valid link_inv (pop_pending t) (\<lambda>r s. link_inv s \<and> (\<forall>a. r = Ok a \<longrightarrow> (\<forall>d. a = Some d \<longrightarrow> pending_ok t d)))"
proof (rule validI)
  fix s r s'
  assume inv: "link_inv s" and run: "pop_pending t s = (r, s')"
  from inv have "list_all (pending_ok t) (pending_queue t s)" by (simp add: link_inv_def)
  with inv run show "link_inv s' \<and> (\<forall>a. r = Ok a \<longrightarrow> (\<forall>d. a = Some d \<longrightarrow> pending_ok t d))"
    by (cases "pending_queue t s") (auto simp: pop_pending_def intro!: link_inv_set_pending_queue)
qed

lemma preserves_resubmit: "pending_ok t d \<Longrightarrow> preserves link_inv (resubmit_pending p t d)"
  unfolding resubmit_pending_def
  by (intro pres preserves_insert_pending preserves_push_pending) (simp_all add: pending_ok_def)

lemma preserves_process_pending [simp, pres]: "preserves link_inv (process_pending p t timeout resubmit)"
  unfolding process_pending_def
proof (rule preserves_ebind_res [OF valid_pop_pending])
  fix front
  assume "\<forall>d. front = Some d \<longrightarrow> pending_ok t d"
  then show "preserves link_inv (case front of
       None \<Rightarrow> eret None
     | Some d \<Rightarrow>
         if tx_hashes d = [] then eret (Some (error_events d))
         else
           ebind (etry (on_world (check_tx_events (target_chain p t) (tx_hashes d) []))) (\<lambda>r. case r of
             Inl e \<Rightarrow> ebind (push_pending t d) (\<lambda>_. ethrow (LinkRelayer e))
           | Inr (Some evs) \<Rightarrow> eret (Some (evs @ error_events d))
           | Inr None \<Rightarrow>
               ebind (on_world (read_world (instant_now (rp_env p)))) (\<lambda>now.
                 if nat (now - submit_time d) > timeout then
                   ebind (if resubmit then resubmit_pending p t d else eret ()) (\<lambda>_. eret None)
                 else ebind (push_pending t d) (\<lambda>_. eret None))))"
    by (auto intro!: pres preserves_push_pending preserves_resubmit split: option.split)
qed

lemma preserves_process_pending_txs: "preserves link_inv (process_pending_txs p r)"
  unfolding process_pending_txs_def process_pending_txs_src_def process_pending_txs_dst_def
    process_pending_txs_target_def
  by (intro pres)

lemma preserves_enqueue:
  assumes "od_ok t od"
  shows "preserves link_inv (enqueue_pending_tx p reply od)"
  using assms by (auto simp: enqueue_pending_tx_def od_ok_def intro!: preserves_insert_pending)

section \<open>Executing the schedule\<close>

text \<open>The data that is left unprocessed comes from the input, on every outcome.\<close>

definition leftover :: "(operational_data list \<times> link_error, operational_data list) result \<Rightarrow> operational_data list" where
  "leftover r = (case r of Ok l \<Rightarrow> l | Err (l, e) \<Rightarrow> l | Panic \<Rightarrow> [] | Hang \<Rightarrow> [])"

lemma leftover_simps [simp]:
  "leftover (Ok l) = l" "leftover (Err (l, e)) = l" "leftover Panic = []" "leftover Hang = []"
  by (simp_all add: leftover_def)

lemma valid_try_bind:
  assumes "preserves I m" and "\<And>x. valid I (f x) Q" and "\<And>s. I s \<Longrightarrow> Q Panic s" and "\<And>s. I s \<Longrightarrow> Q Hang s"
  shows "valid I (ebind (etry m) f) Q"
proof (rule validI)
  fix s r s'
  assume I: "I s" and "ebind (etry m) f s = (r, s')"
  moreover obtain x t where m: "m s = (x, t)" by (cases "m s")
  moreover have "I t" using preservesD [OF assms(1) I m] .
  ultimately show "Q r s'"
    using assms(2-4) by (cases x) (auto simp: ebind_def etry_def dest: validD)
qed

lemma valid_total_bind:
  assumes "preserves I m" and "\<And>s. \<exists>a t. m s = (Ok a, t)" and "\<And>a. valid I (f a) Q"
  shows "valid I (ebind m f) Q"
proof (rule validI)
  fix s r s'
  assume I: "I s" and run: "ebind m f s = (r, s')"
  from assms(2) obtain a t where m: "m s = (Ok a, t)" by blast
  then show "Q r s'"
    using run validD [OF assms(3) preservesD [OF assms(1) I m]] by (auto simp: ebind_def)
qed

lemma enqueue_total: "\<exists>a t. enqueue_pending_tx p reply od s = (Ok a, t)"
  by (simp add: enqueue_pending_tx_def insert_new_pending_tx_def on_world_def ezoom_def read_world_def
      emodify_def eret_def ebind_def split: prod.split)

lemma execute_inv:
  assumes "list_all (od_ok t) ods" and "list_all (od_ok t) un"
  shows "valid link_inv (execute_schedule_for_target_chain p t ods un)
           (\<lambda>r s. link_inv s \<and> list_all (od_ok t) (leftover r))"
  using assms
proof (induction ods arbitrary: un)
  case (Cons od ods)
  then have rest: "valid link_inv (execute_schedule_for_target_chain p t ods un')
      (\<lambda>r s. link_inv s \<and> list_all (od_ok t) (leftover r))" if "list_all (od_ok t) un'" for un'
    using that by simp
  have go: "valid link_inv (ebind (etry (relay_from_operational_data p async_sender od)) (\<lambda>r2. case r2 of
             Inl e \<Rightarrow> ethrow (un @ ods, e)
           | Inr reply \<Rightarrow>
               ebind (enqueue_pending_tx p reply od) (\<lambda>_.
                 execute_schedule_for_target_chain p t ods un)))
      (\<lambda>r s. link_inv s \<and> list_all (od_ok t) (leftover r))"
    using Cons.prems
    by (intro valid_try_bind)
      (auto intro!: vc valid_total_bind preserves_enqueue enqueue_total rest  split: sum.split)
  show ?case
    unfolding execute_schedule_for_target_chain.simps
    using Cons.prems go
    by (intro valid_try_bind) (auto intro!: vc rest  split: sum.split)
qed (auto intro!: vc)

lemma preserves_execute_target [simp, pres]: "preserves link_inv (execute_target p t)"
proof (rule preservesI)
  fix s r s'
  assume inv: "link_inv s" and run: "execute_target p t s = (r, s')"
  let ?s0 = "set_od_queue t [] s"
  obtain x s1 where x: "execute_schedule_for_target_chain p t (od_queue t s) [] ?s0 = (x, s1)"
    by (cases "execute_schedule_for_target_chain p t (od_queue t s) [] ?s0")
  have "list_all (od_ok t) (od_queue t s)" using inv by (simp add: link_inv_def)
  from validD [OF execute_inv [OF this] _ x] inv have out: "link_inv s1" "list_all (od_ok t) (leftover x)"
    by (simp_all add: link_inv_set_od_queue)
  show "link_inv s'"
    using run x out
    by (cases x)
      (auto simp: execute_target_def ebind_def eget_def emodify_def etry_def ethrow_def queue_take_def
        leftover_def intro!: link_inv_set_od_queue)
qed

lemma preserves_execute_schedule: "preserves link_inv (execute_schedule p)"
  unfolding execute_schedule_def by (intro pres)

section \<open>Refreshing\<close>

text \<open>An operation may rely on the state it has read.\<close>

lemma preserves_eget_bind:
  assumes "\<And>s. I s \<Longrightarrow> preserves I (f (g s))"
  shows "preserves I (ebind (eget g) f)"
  using assms by (intro preservesI) (auto simp: ebind_def eget_def dest: preservesD)

definition timeout_batch :: "ibc_event_with_height list \<Rightarrow> operational_data \<Rightarrow> bool" where
  "timeout_batch evs od \<longleftrightarrow> od_target od = Source \<and> batch od \<noteq> []
     \<and> (\<forall>m \<in> set (batch od). timeout_msg_for (event (tr_event m)) (tr_msg m) \<and> tr_event m \<in> set evs)"

lemma timeout_batch_mono: "timeout_batch evs od \<Longrightarrow> set evs \<subseteq> set evs' \<Longrightarrow> timeout_batch evs' od"
  by (auto simp: timeout_batch_def)

lemma refresh_message_Ok:
  assumes "refresh_message p status tid gm (retain, tod) w = (Ok (retain', tod'), w')"
  shows "retain' = retain \<and> tod' = tod \<or> retain' = retain @ [gm] \<and> tod' = tod
    \<or> (\<exists>od msg. retain' = retain \<and> timeout_msg_for (event (tr_event gm)) msg
         \<and> (tod = Some od \<or> tod = None \<and> od_target od = Source \<and> batch od = [])
         \<and> tod' = Some (od_push od \<lparr>tr_event = tr_event gm, tr_msg = msg\<rparr>))"
proof (cases "event (tr_event gm)")
  case (SendPacket pk)
  with assms show ?thesis
    by (auto simp: refresh_message_def eret_def elim!: ebind_OkE split: if_splits option.splits
        dest!: build_timeout_Ok) (blast dest: operational_data_new_Ok)+
qed (use assms in \<open>auto simp: refresh_message_def eret_def elim!: ebind_OkE split: if_splits\<close>)

lemma refresh_fold_Ok:
  assumes "efold (refresh_message p status tid) gms (retain, tod) w = (Ok (retain', tod'), w')"
    and "\<And>od. tod = Some od \<Longrightarrow> timeout_batch evs od"
  shows "(\<exists>k. retain' = retain @ k \<and> subseq k gms)
     \<and> (\<forall>od. tod' = Some od \<longrightarrow> timeout_batch (evs @ map tr_event gms) od)"
  using assms
proof (induction gms arbitrary: retain tod evs w)
  case Nil
  then show ?case by (simp add: eret_def)
next
  case (Cons gm gms)
  then obtain retain1 tod1 w1 where step: "refresh_message p status tid gm (retain, tod) w = (Ok (retain1, tod1), w1)"
    and rest: "efold (refresh_message p status tid) gms (retain1, tod1) w1 = (Ok (retain', tod'), w')"
    by (auto elim!: ebind_OkE)
  note cases = refresh_message_Ok [OF step]
  have tb: "timeout_batch (evs @ [tr_event gm]) od" if "tod1 = Some od" for od
    using cases Cons.prems(2) that
    by (auto simp: timeout_batch_def od_push_def)
  from Cons.IH [OF rest tb] obtain k where k: "retain' = retain1 @ k" "subseq k gms"
    and out: "\<forall>od. tod' = Some od \<longrightarrow> timeout_batch ((evs @ [tr_event gm]) @ map tr_event gms) od"
    by blast
  from cases k have "\<exists>k. retain' = retain @ k \<and> subseq k (gm # gms)"
    by (auto intro: exI [of _ "gm # k"])
  with out show ?case by simp
qed

definition shrunk :: "operational_data \<Rightarrow> operational_data \<Rightarrow> bool" where
  "shrunk od od' \<longleftrightarrow> subseq (batch od') (batch od) \<and> od' = od\<lparr>batch := batch od'\<rparr>"

lemma shrunk_batch [simp]: "shrunk od (od\<lparr>batch := b\<rparr>) \<longleftrightarrow> subseq b (batch od)"
  by (simp add: shrunk_def)

definition od_events :: "operational_data list \<Rightarrow> ibc_event_with_height list" where
  "od_events ods = concat (map (\<lambda>od. map tr_event (batch od)) ods)"

lemma refresh_odata_fold_Ok:
  assumes "efold (refresh_odata p status) ods (kept, touts) w = (Ok (kept', touts'), w')"
  shows "\<exists>k n. kept' = kept @ k \<and> list_all2 shrunk ods k \<and> touts' = touts @ n
     \<and> list_all (timeout_batch (od_events ods)) n"
  using assms
proof (induction ods arbitrary: kept touts w)
  case Nil
  then show ?case by (simp add: eret_def)
next
  case (Cons od ods)
  from Cons.prems obtain x w1 where one: "refresh_odata p status od (kept, touts) w = (Ok x, w1)"
    and more: "efold (refresh_odata p status) ods x w1 = (Ok (kept', touts'), w')"
    by (auto elim!: ebind_OkE)
  from one more obtain retain tod
    where fold: "efold (refresh_message p status (od_tracking_id od)) (batch od) ([], None) w = (Ok (retain, tod), w1)"
      and rest: "efold (refresh_odata p status) ods (kept @ [od\<lparr>batch := retain\<rparr>],
           touts @ (case tod of None \<Rightarrow> [] | Some t \<Rightarrow> [t])) w1 = (Ok (kept', touts'), w')"
    by (auto simp: refresh_odata_def [of p status od] eret_def elim!: ebind_OkE)
  from refresh_fold_Ok [OF fold, of "[]"]
  have f: "subseq retain (batch od)" "\<forall>t. tod = Some t \<longrightarrow> timeout_batch (map tr_event (batch od)) t"
    by auto
  from Cons.IH [OF rest] obtain k n where k: "kept' = (kept @ [od\<lparr>batch := retain\<rparr>]) @ k" "list_all2 shrunk ods k"
    "touts' = (touts @ (case tod of None \<Rightarrow> [] | Some t \<Rightarrow> [t])) @ n" "list_all (timeout_batch (od_events ods)) n"
    by blast
  have "list_all (timeout_batch (od_events (od # ods))) ((case tod of None \<Rightarrow> [] | Some t \<Rightarrow> [t]) @ n)"
    using f(2) k(4)
    by (auto simp: od_events_def list_all_iff split: option.splits elim!: timeout_batch_mono)
  with k f(1) show ?case
    by (auto intro!: exI [of _ "od\<lparr>batch := retain\<rparr> # k"])
qed

lemma shrunk_od_ok:
  assumes "shrunk od od'" and ok: "od_ok t od" and ne: "batch od' \<noteq> []"
  shows "od_ok t od'"
proof -
  from assms(1) obtain b where od': "od' = od\<lparr>batch := b\<rparr>" and sub: "subseq b (batch od)"
    by (auto simp: shrunk_def)
  from sub have "set b \<subseteq> set (batch od)"
    by (auto dest: list_emb_set)
  then have "has_packet_msgs od' \<Longrightarrow> has_packet_msgs od"
    by (auto simp: od' has_packet_msgs_def list_ex_iff)
  with ok ne show ?thesis
    by (auto simp: od' od_ok_def get_delay_if_needed_def split: if_splits)
qed

lemma list_all2_shrunk_ok:
  "list_all2 shrunk ods k \<Longrightarrow> list_all (od_ok t) ods \<Longrightarrow> list_all (od_ok t) (filter (\<lambda>d. batch d \<noteq> []) k)"
  by (induction rule: list_all2_induct) (auto intro: shrunk_od_ok)

lemma preserves_refresh_schedule: "preserves link_inv (refresh_schedule p)"
  unfolding refresh_schedule_def
proof (rule preserves_eget_bind)
  fix s :: "'a link_state"
  assume inv: "link_inv s"
  let ?ods = "dst_operational_data s"
  have ods: "list_all (od_ok Destination) ?ods"
    using inv by (auto simp: link_inv_def dest: spec [of _ Destination])
  have upd: "preserves link_inv (emodify (\<lambda>s. s\<lparr>dst_operational_data :=
      queue_replace (filter (\<lambda>d. batch d \<noteq> []) kept) (dst_operational_data s)\<rparr>))"
    if "list_all2 shrunk ?ods kept" for kept
    using list_all2_shrunk_ok [OF that ods] link_inv_set_od_queue [of _ Destination]
    by (intro preserves_emodify) (simp add: queue_replace_def)
  have body: "preserves link_inv (ebind (on_world (efold (refresh_odata p status) ?ods ([], [])))
      (\<lambda>(kept, timed_out_ods).
         ebind (emodify (\<lambda>s. s\<lparr>dst_operational_data :=
           queue_replace (filter (\<lambda>d. batch d \<noteq> []) kept) (dst_operational_data s)\<rparr>)) (\<lambda>_.
         efor timed_out_ods (schedule_operational_data p))))" for status
    by (rule preserves_ebind_res [where P = "\<lambda>a. list_all2 shrunk ?ods (fst a)", OF valid_on_world_res])
      (auto dest!: refresh_odata_fold_Ok intro!: pres upd)
  show "preserves link_inv (if queue_is_empty ?ods then eret ()
     else
       ebind (on_world (emap_err (LinkQuery (chain_id (src_chain p))) (query_application_status (dst_chain p)))) (\<lambda>status.
       ebind (on_world (efold (refresh_odata p status) ?ods ([], []))) (\<lambda>(kept, timed_out_ods).
       ebind (emodify (\<lambda>s. s\<lparr>dst_operational_data :=
                queue_replace (filter (\<lambda>d. batch d \<noteq> []) kept) (dst_operational_data s)\<rparr>)) (\<lambda>_.
         efor timed_out_ods (schedule_operational_data p)))))"
    by (rule preserves_control(1), rule preserves_basic, rule preserves_ebind, rule preserves_on_world, rule body)
qed

section \<open>Fetching\<close>

lemma partition_elapsed_Ok:
  "partition_elapsed pred xs s = (Ok (ts, fs), s') \<Longrightarrow> xs \<in> shuffles ts fs"
proof (induction xs arbitrary: ts fs s)
  case Nil
  then show ?case by (simp add: eret_def)
next
  case (Cons x xs)
  then show ?case
    by (auto simp: eret_def elim!: ebind_OkE split: if_splits intro!: Cons_in_shuffles_leftI Cons_in_shuffles_rightI)
qed

lemma list_all_shuffles: "xs \<in> shuffles ts fs \<Longrightarrow> list_all P xs \<Longrightarrow> list_all P ts \<and> list_all P fs"
  by (auto simp: list_all_iff dest: set_shuffles)

lemma valid_take_od_queue:
  "valid link_inv (take_od_queue t) (\<lambda>r s. link_inv s \<and> (\<forall>a. r = Ok a \<longrightarrow> list_all (od_ok t) a))"
  by (rule validI) (auto simp: take_od_queue_def queue_take_def link_inv_def)

lemma valid_partition:
  assumes "list_all (od_ok t) ods"
  shows "valid link_inv (on_world (partition_elapsed pred ods))
    (\<lambda>r s. link_inv s \<and> (\<forall>a. r = Ok a \<longrightarrow> list_all (od_ok t) (snd a)))"
  using assms by (intro valid_on_world_res) (auto dest!: partition_elapsed_Ok simp: list_all_shuffles)

lemma preserves_set_od_queue: "list_all (od_ok t) q \<Longrightarrow> preserves link_inv (emodify (set_od_queue t q))"
  by (rule preserves_emodify) (rule link_inv_set_od_queue)

lemma preserves_try_fetch: "preserves link_inv (try_fetch_scheduled_operational_data p)"
  unfolding try_fetch_scheduled_operational_data_def
  by (rule preserves_ebind_res [OF valid_take_od_queue], rule preserves_ebind_res [OF valid_partition], assumption,
      simp only: split_beta, rule preserves_ebind_res [OF valid_take_od_queue],
      rule preserves_ebind_res [OF valid_partition], assumption)
    (auto intro!: preserves_ebind preserves_set_od_queue)

section \<open>Reachable states\<close>

text \<open>A path starts with empty queues. Each step is one of the operations that the packet worker and the
  command line call, with any outcome, or a change of the world between two calls.\<close>

inductive link_step :: "'w relay_path \<Rightarrow> 'w link_state \<Rightarrow> 'w link_state \<Rightarrow> bool" for p where
  update_schedule: "update_schedule p b s = (r, s') \<Longrightarrow> link_step p s s'"
| clearing: "schedule_packet_clearing p h s = (r, s') \<Longrightarrow> link_step p s s'"
| recv_and_timeout: "schedule_recv_packet_and_timeout_msgs p h tid s = (r, s') \<Longrightarrow> link_step p s s'"
| acks: "schedule_packet_ack_msgs p h tid s = (r, s') \<Longrightarrow> link_step p s s'"
| refresh: "refresh_schedule p s = (r, s') \<Longrightarrow> link_step p s s'"
| execute: "execute_schedule p s = (r, s') \<Longrightarrow> link_step p s s'"
| pending: "process_pending_txs p rs s = (r :: (unit, relay_summary) result, s') \<Longrightarrow> link_step p s s'"
| relay: "relay_from_operational_data p sync_sender od s = (r, s') \<Longrightarrow> link_step p s s'"
| fetch: "try_fetch_scheduled_operational_data p s = (r, s') \<Longrightarrow> link_step p s s'"
| environment: "link_step p s (s\<lparr>world := w\<rparr>)"

definition link_reachable :: "'w relay_path \<Rightarrow> 'w link_state \<Rightarrow> bool" where
  "link_reachable p s \<longleftrightarrow> (\<exists>w. rtranclp (link_step p) (link_state_new w) s)"

lemma preserves_update_schedule: "preserves link_inv (update_schedule p b)"
  unfolding update_schedule_def by (rule preserves_events_to_operational_data)

lemma preserves_scheduling:
  "preserves link_inv (schedule_recv_packet_and_timeout_msgs p h tid)"
  "preserves link_inv (schedule_packet_ack_msgs p h tid)"
  unfolding schedule_recv_packet_and_timeout_msgs_def schedule_packet_ack_msgs_def
  by (intro pres preserves_query_packet_events_with)+

lemmas preserves_operations = preserves_update_schedule preserves_packet_clearing preserves_scheduling
  preserves_refresh_schedule preserves_execute_schedule preserves_process_pending_txs preserves_relay
  preserves_try_fetch

lemma link_step_inv: "link_step p s s' \<Longrightarrow> link_inv s \<Longrightarrow> link_inv s'"
  by (induction rule: link_step.induct) (auto dest: preserves_operations [THEN preservesD])

lemma reachable_inv: "link_reachable p s \<Longrightarrow> link_inv s"
proof -
  assume "link_reachable p s"
  then obtain w where "rtranclp (link_step p) (link_state_new w) s"
    by (auto simp: link_reachable_def)
  then show ?thesis
    by (induction rule: rtranclp_induct) (auto intro: link_inv_new link_step_inv)
qed

end
