(* ===== verification/Relay_Properties.thy ===== *)
theory Relay_Properties
  imports Relay_Invariants
begin

text \<open>
  What each operation of a relay path does to its queues: scheduling appends, executing the schedule
  splits a queue into what was relayed and what stays, in order, a pending transaction leaves its queue
  only for the reasons the sources give, and refreshing turns messages into timeouts without inventing
  any. The properties are at the end.
\<close>

section \<open>Frames\<close>

text \<open>Operations that only talk to the chains, schedule or relay leave the pending transactions alone.\<close>

lemma pending_on_world [pres]: "preserves (\<lambda>s. pending_queue t s = Q) (on_world m)"
  by (auto simp: preserves_def on_world_def intro!: vc)

lemma pending_schedule [pres]: "preserves (\<lambda>s. pending_queue t s = Q) (schedule_operational_data p od)"
  unfolding schedule_operational_data_def by (intro pres preserves_emodify) simp_all

lemma pending_schedule_option [pres]: "preserves (\<lambda>s. pending_queue t s = Q) (schedule_option p opt)"
  unfolding schedule_option_def by (intro pres)

lemma pending_regenerate [pres]: "preserves (\<lambda>s. pending_queue t s = Q) (regenerate_operational_data p od)"
  unfolding regenerate_operational_data_def by (intro pres)

lemma pending_relay_attempts: "preserves (\<lambda>s. pending_queue t s = Q) (relay_attempts p sndr n od)"
proof (induction n arbitrary: od)
  case (Suc n)
  then show ?case by (auto intro!: pres split: link_error.split)
qed simp

lemma pending_relay [pres]: "preserves (\<lambda>s. pending_queue t s = Q) (relay_from_operational_data p sndr od)"
  by (simp add: relay_from_operational_data_def pending_relay_attempts)

lemma pending_update_schedule: "preserves (\<lambda>s. pending_queue t s = Q) (update_schedule p b)"
  unfolding update_schedule_def events_to_operational_data_def by (intro pres)

lemma frameD: "preserves (\<lambda>s. f s = f s0) m \<Longrightarrow> m s0 = (r, s') \<Longrightarrow> f s' = f s0"
  by (auto dest: preservesD)

section \<open>Senders\<close>

lemma build_update_no_send: "build_update_client_on p t h w = (Err e, w') \<Longrightarrow> e \<noteq> LinkSend ev"
  by (auto simp: build_update_client_on_def build_update_client_on_src_def build_update_client_on_dst_def emap_err_def
      split: od_target.splits prod.splits elim!: map_err.elims)

lemma target_client_state_no_send: "target_client_state p t w = (Err e, w') \<Longrightarrow> e \<noteq> LinkSend ev"
  by (auto simp: target_client_state_def emap_err_def split: od_target.splits prod.splits elim!: map_err.elims)

lemma assemble_msgs_no_send: "assemble_msgs p od w = (Err e, w') \<Longrightarrow> e \<noteq> LinkSend ev"
  unfolding assemble_msgs_def Let_def
  by (auto simp: eret_def dest: build_update_no_send target_client_state_no_send elim!: ebind_cases split: if_splits)

text \<open>A sender that never reports a chain error: relaying through it is a single attempt.\<close>

locale single_shot_sender =
  fixes sndr :: "('w, 'r) sender"
  assumes submit_no_send: "submit sndr c tm w = (Err e, w') \<Longrightarrow> e \<noteq> LinkSend ev"
begin

lemma send_no_send:
  assumes "send_from_operational_data p sndr od w = (Err e, w')"
  shows "e \<noteq> LinkSend ev"
  using assms
  by (auto simp: send_from_operational_data_def eret_def dest: submit_no_send assemble_msgs_no_send
      elim!: ebind_cases split: if_splits)

lemma relay_once:
  "relay_from_operational_data p sndr od = on_world (send_from_operational_data p sndr od)"
proof (rule ext)
  fix s :: "'w link_state"
  obtain r w where m: "send_from_operational_data p sndr od (world s) = (r, w)"
    by (cases "send_from_operational_data p sndr od (world s)")
  then show "relay_from_operational_data p sndr od s = on_world (send_from_operational_data p sndr od) s"
    using send_no_send
    by (cases r) (auto simp: relay_from_operational_data_def MAX_RETRIES_def numeral_eq_Suc on_world_def ezoom_def etry_def
        ebind_def eret_def ethrow_def split: link_error.split)
qed

end

interpretation async: single_shot_sender async_sender
  by unfold_locales (auto simp: async_sender_def emap_err_def split: prod.splits elim!: map_err.elims)

lemma regenerate_no_error: "regenerate_operational_data p od s \<noteq> (Err e, s')"
proof
  assume "regenerate_operational_data p od s = (Err e, s')"
  then show False
    by (auto simp: regenerate_operational_data_def Let_def eret_def elim!: ebind_cases etry_cases
        split: prod.splits option.splits if_splits)
qed

text \<open>With any sender, the chain errors that trigger a retry never leave the loop.\<close>

lemma relay_attempts_no_send:
  "relay_attempts p sndr n od s = (Err e, s') \<Longrightarrow> e \<noteq> LinkSend ev"
proof (induction n arbitrary: od s)
  case (Suc n)
  from Suc show ?case
    by (auto simp: eret_def ethrow_def regenerate_no_error elim!: ebind_cases etry_cases split: link_error.splits if_splits option.splits)
qed (simp add: eret_def)

lemma regenerate_Ok:
  assumes "regenerate_operational_data p od s = (Ok (Some od'), s')"
  shows "od_target od' = od_target od \<and> subseq (map tr_event (batch od')) (map tr_event (batch od))"
proof -
  obtain x s1 where x: "on_world (generate_operational_data p (into_events od)) s = (x, s1)"
    by (cases "on_world (generate_operational_data p (into_events od)) s")
  with assms obtain a b where ab: "x = Ok (a, b)"
    by (cases x) (auto simp: regenerate_operational_data_def ebind_def etry_def eret_def)
  from on_world_Ok [OF x [unfolded ab]] obtain w
    where "generate_operational_data p (into_events od) (world s) = (Ok (a, b), w)" by blast
  note gen = generate_operational_data_Ok [OF this]
  from assms x ab have "a = Some od' \<or> b = Some od'" and "od_target od' = od_target od"
    by (auto simp: regenerate_operational_data_def ebind_def etry_def eret_def Let_def
        split: option.splits if_splits prod.splits result.splits)
  with gen show ?thesis by (auto simp: generated_for_def into_events_def)
qed

lemma relay_attempts_Ok:
  assumes "relay_attempts p sndr n od s = (Ok reply, s')"
  shows "reply = reply_empty sndr
    \<or> (\<exists>od' w w'. send_from_operational_data p sndr od' w = (Ok reply, w') \<and> od_target od' = od_target od
         \<and> subseq (map tr_event (batch od')) (map tr_event (batch od)))"
  using assms
proof (induction n arbitrary: od s)
  case 0
  then show ?case by (simp add: eret_def)
next
  case (Suc n)
  obtain x s1 where x: "on_world (send_from_operational_data p sndr od) s = (x, s1)"
    by (cases "on_world (send_from_operational_data p sndr od) s")
  from Suc.prems x consider (reply) "x = Ok reply" | (empty) "reply = reply_empty sndr"
    | (again) od1 s2 where "regenerate_operational_data p od s1 = (Ok (Some od1) :: (link_error, _) result, s2)"
        "relay_attempts p sndr n od1 s2 = (Ok reply, s')"
    by (cases x) (auto simp: ebind_def etry_def eret_def ethrow_def split: link_error.splits if_splits prod.splits
        result.splits option.splits)
  then show ?case
  proof cases
    case reply
    from on_world_Ok [OF x [unfolded reply]] show ?thesis by auto
  next
    case again
    from Suc.IH [OF again(2)] regenerate_Ok [OF again(1)] show ?thesis
      by (auto intro: subseq_order.order_trans)
  qed simp
qed

section \<open>Executing the schedule\<close>

text \<open>How the data given to the loop relates to what it returns and to the pending transactions before and
  after: the data up to the one that stopped the loop is split, in order, into kept and sent.\<close>

definition relayed :: "'w relay_path \<Rightarrow> operational_data \<Rightarrow> bool" where
  "relayed p od \<longleftrightarrow> (\<exists>s reply s1. relay_from_operational_data p async_sender od s = (Ok reply, s1))"

definition stopped ::
  "'w relay_path \<Rightarrow> od_target \<Rightarrow> operational_data list \<Rightarrow> operational_data list
    \<Rightarrow> (operational_data list \<times> link_error, operational_data list) result \<Rightarrow> bool" where
  "stopped p t kept rest r \<longleftrightarrow> (case r of
       Ok l \<Rightarrow> rest = [] \<and> l = kept
     | Err (l, e) \<Rightarrow> (\<exists>od after. rest = od # after
         \<and> ((\<exists>w w1. delay_elapsed p t od w = (Err e, w1)) \<and> l = kept @ od # after
            \<or> (\<exists>s s1. relay_from_operational_data p async_sender od s = (Err e, s1)) \<and> l = kept @ after))
     | _ \<Rightarrow> True)"

definition accounted ::
  "'w relay_path \<Rightarrow> od_target \<Rightarrow> operational_data list \<Rightarrow> operational_data list \<Rightarrow> pending_data list
    \<Rightarrow> (operational_data list \<times> link_error, operational_data list) result \<Rightarrow> pending_data list \<Rightarrow> bool" where
  "accounted p t ods un pend r pend' \<longleftrightarrow>
     (\<exists>before rest kept out. ods = before @ rest \<and> before \<in> shuffles kept out
        \<and> map original_od pend' = map original_od pend @ (if confirm_txes p then out else [])
        \<and> list_all (relayed p) out \<and> stopped p t (un @ kept) rest r)"

lemma accountedI:
  "ods = before @ rest \<Longrightarrow> before \<in> shuffles kept out
    \<Longrightarrow> map original_od pend' = map original_od pend @ (if confirm_txes p then out else [])
    \<Longrightarrow> list_all (relayed p) out \<Longrightarrow> stopped p t (un @ kept) rest r \<Longrightarrow> accounted p t ods un pend r pend'"
  unfolding accounted_def by blast

lemma accounted_stop: "stopped p t un ods r \<Longrightarrow> accounted p t ods un pend r pend"
  by (rule accountedI [of _ "[]" ods "[]" "[]"]) simp_all

lemma accounted_keep:
  assumes "accounted p t ods (un @ [od]) pend r pend'"
  shows "accounted p t (od # ods) un pend r pend'"
proof -
  from assms obtain before rest kept out where *: "ods = before @ rest" "before \<in> shuffles kept out"
    "map original_od pend' = map original_od pend @ (if confirm_txes p then out else [])"
    "list_all (relayed p) out" "stopped p t ((un @ [od]) @ kept) rest r"
    unfolding accounted_def by blast
  show ?thesis
    by (rule accountedI [of _ "od # before" rest "od # kept" out]) (use * in \<open>simp_all add: Cons_in_shuffles_leftI\<close>)
qed

lemma accounted_sent:
  assumes "accounted p t ods un pend1 r pend'"
    and "map original_od pend1 = map original_od pend @ (if confirm_txes p then [od] else [])"
    and "relayed p od"
  shows "accounted p t (od # ods) un pend r pend'"
proof -
  from assms(1) obtain before rest kept out where *: "ods = before @ rest" "before \<in> shuffles kept out"
    "map original_od pend' = map original_od pend1 @ (if confirm_txes p then out else [])"
    "list_all (relayed p) out" "stopped p t (un @ kept) rest r"
    unfolding accounted_def by blast
  show ?thesis
    by (rule accountedI [of _ "od # before" rest kept "od # out"])
      (use * assms(2,3) in \<open>simp_all add: Cons_in_shuffles_rightI\<close>)
qed

lemma on_world_Err: "on_world m s = (Err e, s') \<Longrightarrow> \<exists>w. m (world s) = (Err e, w)"
  by (auto simp: on_world_def ezoom_def split: prod.splits)

lemma enqueue_pending_Ok:
  assumes "enqueue_pending_tx p reply od s = (r, s')"
  shows "r = Ok () \<and> map original_od (pending_queue (od_target od) s')
      = map original_od (pending_queue (od_target od) s) @ (if confirm_txes p then [od] else [])"
  using assms
  by (auto simp: enqueue_pending_tx_def insert_new_pending_tx_def on_world_def ezoom_def read_world_def emodify_def
      eret_def ebind_def push_back_def split: if_splits prod.splits)

lemma execute_accounted:
  assumes "execute_schedule_for_target_chain p t ods un s = (r, s')" and "\<forall>od \<in> set ods. od_target od = t"
  shows "accounted p t ods un (pending_queue t s) r (pending_queue t s')"
  using assms
proof (induction ods arbitrary: un s)
  case Nil
  then show ?case by (auto simp: eret_def stopped_def intro!: accounted_stop)
next
  case (Cons od ods)
  obtain b s1 where b: "on_world (delay_elapsed p t od) s = (b, s1)"
    by (cases "on_world (delay_elapsed p t od) s")
  have s1: "pending_queue t s1 = pending_queue t s"
    using on_world_frame [OF b] by auto
  obtain a s2 where a: "relay_from_operational_data p async_sender od s1 = (a, s2)"
    by (cases "relay_from_operational_data p async_sender od s1")
  have s2: "pending_queue t s2 = pending_queue t s"
    using frameD [OF pending_relay a] s1 by simp
  show ?case
  proof (cases "b = Ok True \<and> (\<exists>reply. a = Ok reply)")
    case True
    then obtain reply where "a = Ok reply" by blast
    obtain u s3 where u: "enqueue_pending_tx p reply od s2 = (Ok u :: (operational_data list \<times> link_error, _) result, s3)"
      using enqueue_total by blast
    with Cons.prems True \<open>a = Ok reply\<close> a b
    have "execute_schedule_for_target_chain p t ods un s3 = (r, s')"
      by (simp add: ebind_def etry_def)
    from Cons.IH [OF this] Cons.prems(2) have "accounted p t ods un (pending_queue t s3) r (pending_queue t s')"
      by simp
    moreover have "relayed p od"
      using a \<open>a = Ok reply\<close> by (auto simp: relayed_def)
    moreover have "map original_od (pending_queue t s3) = map original_od (pending_queue t s)
        @ (if confirm_txes p then [od] else [])"
      using enqueue_pending_Ok [OF u] s2 Cons.prems(2) by simp
    ultimately show ?thesis by (blast intro: accounted_sent)
  next
    case False
    consider (wait) "b = Ok False" | (delay) e where "b = Err e" | (fail) e where "b = Ok True" "a = Err e"
      | (stop) "r = Panic \<or> r = Hang" "pending_queue t s' = pending_queue t s"
      using False Cons.prems(1) b a s1 s2 by (cases b; cases a) (auto simp: ebind_def etry_def split: if_splits)
    then show ?thesis
    proof cases
      case wait
      with Cons.prems b have "execute_schedule_for_target_chain p t ods (un @ [od]) s1 = (r, s')"
        by (simp add: ebind_def etry_def)
      from Cons.IH [OF this] Cons.prems(2) s1 show ?thesis by (simp add: accounted_keep)
    next
      case delay
      with b have "\<exists>w w1. delay_elapsed p t od w = (Err e, w1)"
        by (blast dest: on_world_Err)
      then have "stopped p t un (od # ods) (Err (un @ od # ods, e))"
        by (simp add: stopped_def)
      with delay Cons.prems(1) b s1 show ?thesis
        by (auto simp: ebind_def etry_def ethrow_def intro!: accounted_stop)
    next
      case fail
      with a have "\<exists>s s1. relay_from_operational_data p async_sender od s = (Err e, s1)"
        by blast
      then have "stopped p t un (od # ods) (Err (un @ ods, e))"
        by (simp add: stopped_def)
      with fail Cons.prems(1) b a s2 show ?thesis
        by (auto simp: ebind_def etry_def ethrow_def intro!: accounted_stop)
    next
      case stop
      then show ?thesis by (auto simp: stopped_def intro!: accounted_stop)
    qed
  qed
qed

lemma execute_target_cases:
  assumes "execute_target p t s = (r, s')"
  obtains x s1 where "execute_schedule_for_target_chain p t (od_queue t s) [] (set_od_queue t [] s) = (x, s1)"
    and "\<And>l. x = Ok l \<Longrightarrow> r = Ok () \<and> s' = set_od_queue t l s1"
    and "\<And>l e. x = Err (l, e) \<Longrightarrow> r = Err e \<and> s' = set_od_queue t l s1"
    and "r = Ok () \<Longrightarrow> \<exists>l. x = Ok l" and "\<And>e. r = Err e \<Longrightarrow> \<exists>l. x = Err (l, e)"
proof -
  obtain x s1 where x: "execute_schedule_for_target_chain p t (od_queue t s) [] (set_od_queue t [] s) = (x, s1)"
    by (cases "execute_schedule_for_target_chain p t (od_queue t s) [] (set_od_queue t [] s)")
  show ?thesis
    by (rule that [OF x]; use assms x in \<open>cases x\<close>)
      (auto simp: execute_target_def ebind_def eget_def emodify_def etry_def ethrow_def queue_take_def)
qed

section \<open>Pending transactions\<close>

lemma push_pending_run: "push_pending t d s = (Ok (), set_pending_queue t (pending_queue t s @ [d]) s)"
  by (simp add: push_pending_def emodify_def push_back_def)

lemma insert_pending_Ok:
  "insert_new_pending_tx p t reply od s = (r, s') \<Longrightarrow>
     r = Ok () \<and> (\<exists>d. original_od d = od \<and> pending_queue t s' = pending_queue t s @ [d])"
  by (auto simp: insert_new_pending_tx_def on_world_def ezoom_def read_world_def emodify_def ebind_def push_back_def
      split: prod.splits)

lemma resubmit_pending_cases:
  assumes "resubmit_pending p t d s = (r, s')"
  shows "(r = Ok () \<longrightarrow> pending_queue t s' = pending_queue t s
       \<or> (\<exists>d'. original_od d' = original_od d \<and> pending_queue t s' = pending_queue t s @ [d']))
     \<and> (\<forall>e. r = Err e \<longrightarrow> pending_queue t s' = pending_queue t s @ [d])"
proof -
  obtain x s1 where x: "regenerate_operational_data p (original_od d) s = (x :: (link_error, _) result, s1)"
    by (cases "regenerate_operational_data p (original_od d) s :: (link_error, _) result \<times> _")
  have s1: "pending_queue t s1 = pending_queue t s" using frameD [OF pending_regenerate x] .
  show ?thesis
  proof (cases "\<exists>od. x = Ok (Some od)")
    case True
    then obtain od where od: "x = Ok (Some od)" by blast
    obtain y s2 where y: "relay_from_operational_data p async_sender od s1 = (y, s2)"
      by (cases "relay_from_operational_data p async_sender od s1")
    have s2: "pending_queue t s2 = pending_queue t s" using frameD [OF pending_relay y] s1 by simp
    from assms x od y s2 show ?thesis
      by (cases y) (auto simp: resubmit_pending_def ebind_def etry_def ethrow_def push_pending_run dest!: insert_pending_Ok)
  next
    case False
    with assms x s1 show ?thesis
      by (cases x) (auto simp: resubmit_pending_def ebind_def eret_def regenerate_no_error split: option.splits)
  qed
qed

lemma check_pending_run:
  assumes "process_pending p t timeout rs s = (r, s')" and "pending_queue t s = d # q" and "tx_hashes d \<noteq> []"
    and "on_world (check_tx_events (target_chain p t) (tx_hashes d) []) (set_pending_queue t q s) = (x, s1)"
  shows "(\<forall>e. x = Err e \<longrightarrow> r = Err (LinkRelayer e) \<and> pending_queue t s' = q @ [d])
    \<and> (\<forall>evs. x = Ok (Some evs) \<longrightarrow> r = Ok (Some (evs @ error_events d)) \<and> pending_queue t s' = q)
    \<and> (x = Ok None \<longrightarrow> (\<exists>now w. instant_now (rp_env p) (world s1) = (now, w)
         \<and> (if nat (now - submit_time d) \<le> timeout then r = Ok None \<and> pending_queue t s' = q @ [d]
            else if rs then (\<exists>y. resubmit_pending p t d (s1\<lparr>world := w\<rparr>) = (y, s') \<and> r = map_ok (\<lambda>_. None) y)
            else r = Ok None \<and> pending_queue t s' = q)))
    \<and> (x = Panic \<longrightarrow> r = Panic) \<and> (x = Hang \<longrightarrow> r = Hang)"
proof -
  have q: "pending_queue t s1 = q"
    using on_world_frame [OF assms(4)] by auto
  obtain now w where now: "instant_now (rp_env p) (world s1) = (now, w)"
    by (cases "instant_now (rp_env p) (world s1)")
  obtain y s2 where y: "resubmit_pending p t d (s1\<lparr>world := w\<rparr>) = (y, s2)"
    by (cases "resubmit_pending p t d (s1\<lparr>world := w\<rparr>)")
  have read: "on_world (read_world (instant_now (rp_env p))) s1 = (Ok now :: (link_error, _) result, s1\<lparr>world := w\<rparr>)"
    using now by (simp add: on_world_def ezoom_def read_world_def)
  have pop: "pop_pending t s = (Ok (Some d) :: (link_error, _) result, set_pending_queue t q s)"
    using assms(2) by (simp add: pop_pending_def)
  show ?thesis
    using assms(1,3,4) q now y read pop
    by (cases x; cases y) (auto simp: process_pending_def ebind_def etry_def ethrow_def eret_def push_pending_run
        split: option.splits if_splits)
qed

section \<open>Scheduling\<close>

lemma schedule_run:
  assumes "schedule_operational_data p od s = (r, s')"
  shows "(if batch od = [] \<or> (\<forall>u. r \<noteq> Ok u) then (\<forall>t. od_queue t s' = od_queue t s)
     else \<exists>od'. od_target od' = od_target od \<and> batch od' = batch od \<and> od_tracking_id od' = od_tracking_id od
       \<and> (\<forall>t. od_queue t s' = od_queue t s @ (if t = od_target od then [od'] else [])))"
proof (cases "batch od = []")
  case False
  obtain x w where x: "prepare_schedule p od (world s) = (x, w)"
    by (cases "prepare_schedule p od (world s)")
  have "od_target od' = od_target od \<and> batch od' = batch od \<and> od_tracking_id od' = od_tracking_id od" if "x = Ok od'" for od'
    using x that by (auto simp: prepare_schedule_def set_scheduled_time_def set_update_height_def eret_def
        elim!: ebind_OkE split: if_splits)
  with x False assms show ?thesis
    by (cases x) (auto simp: schedule_operational_data_def on_world_def ezoom_def ebind_def emodify_def push_back_def)
qed (use assms in \<open>simp add: schedule_operational_data_def eret_def\<close>)

text \<open>Scheduling only appends: what a queue holds stays in front, whatever the outcome.\<close>

lemma prefix_on_world [pres]: "preserves (\<lambda>s. prefix Q (od_queue t s)) (on_world m)"
  by (auto simp: preserves_def on_world_def intro!: vc)

lemma prefix_schedule [pres]: "preserves (\<lambda>s. prefix Q (od_queue t s)) (schedule_operational_data p od)"
proof (rule preservesI)
  fix s r s'
  assume "prefix Q (od_queue t s)" and "schedule_operational_data p od s = (r, s')"
  moreover from schedule_run [OF this(2)] have "\<exists>new. od_queue t s' = od_queue t s @ new"
    by (cases "t = od_target od") (auto split: if_splits)
  ultimately show "prefix Q (od_queue t s')" by auto
qed

lemma prefix_schedule_option [pres]: "preserves (\<lambda>s. prefix Q (od_queue t s)) (schedule_option p opt)"
  unfolding schedule_option_def by (intro pres)

lemma prefix_events_to_operational_data [pres]:
  "preserves (\<lambda>s. prefix Q (od_queue t s)) (events_to_operational_data p evs)"
  unfolding events_to_operational_data_def by (intro pres)

lemma prefix_clearing: "preserves (\<lambda>s. prefix Q (od_queue t s)) (schedule_packet_clearing p h)"
  unfolding schedule_packet_clearing_def relay_pending_packets_def schedule_recv_packet_and_timeout_msgs_def
    schedule_packet_ack_msgs_def
  by (intro pres preserves_clear_attempts preserves_query_packet_events_with)

lemma clear_attempts_Err: "clear_attempts m n s = (Err e, s') \<Longrightarrow> e = OldPacketClearingFailed"
  by (induction n arbitrary: s) (auto simp: ethrow_def eret_def elim!: ebind_cases etry_cases)

lemma efor_schedule_Ok:
  assumes "efor ods (schedule_operational_data p) s = (Ok (), s')"
    and "list_all (\<lambda>od. od_target od = Source \<and> batch od \<noteq> []) ods"
  shows "\<exists>new. list_all2 (\<lambda>od od'. od_target od' = Source \<and> batch od' = batch od) ods new
     \<and> od_queue Source s' = od_queue Source s @ new \<and> od_queue Destination s' = od_queue Destination s"
  using assms
proof (induction ods arbitrary: s)
  case Nil
  then show ?case by (simp add: eret_def)
next
  case (Cons od ods)
  then obtain s1 where s1: "schedule_operational_data p od s = (Ok (), s1)"
    and rest: "efor ods (schedule_operational_data p) s1 = (Ok (), s')"
    by (auto elim!: ebind_OkE)
  from schedule_run [OF s1] Cons.prems(2) obtain od' where od': "od_target od' = Source" "batch od' = batch od"
    "\<forall>t. od_queue t s1 = od_queue t s @ (if t = Source then [od'] else [])"
    by auto
  from Cons.IH [OF rest] Cons.prems(2) obtain new
    where new: "list_all2 (\<lambda>od od'. od_target od' = Source \<and> batch od' = batch od) ods new"
      "od_queue Source s' = od_queue Source s1 @ new" "od_queue Destination s' = od_queue Destination s1"
    by auto
  with od'(1,2) spec [OF od'(3), of Source] spec [OF od'(3), of Destination] show ?case
    by (intro exI [of _ "od' # new"]) auto
qed

definition scheduled_for ::
  "tracked_events \<Rightarrow> od_target \<Rightarrow> (ibc_event \<Rightarrow> ibc_msg \<Rightarrow> bool) \<Rightarrow> operational_data \<Rightarrow> bool" where
  "scheduled_for evs t ok od \<longleftrightarrow> od_target od = t \<and> batch od \<noteq> [] \<and> od_tracking_id od = te_tracking_id evs
     \<and> subseq (map tr_event (batch od)) (te_events evs) \<and> (\<forall>m \<in> set (batch od). ok (event (tr_event m)) (tr_msg m))"

lemma schedule_option_run:
  assumes "schedule_option p opt s = (r, s')" and "\<forall>od. opt = Some od \<longrightarrow> scheduled_for evs t ok od"
  shows "\<exists>new. length new \<le> 1 \<and> list_all (scheduled_for evs t ok) new
     \<and> (\<forall>u. od_queue u s' = od_queue u s @ (if u = t then new else []))"
proof (cases opt)
  case None
  with assms show ?thesis by (intro exI [of _ "[]"]) (simp add: schedule_option_def eret_def)
next
  case (Some od)
  with assms have run: "schedule_operational_data p od s = (r, s')" and od: "scheduled_for evs t ok od"
    by (simp_all add: schedule_option_def)
  show ?thesis
  proof (cases "\<exists>u. r = Ok u")
    case False
    with schedule_run [OF run] show ?thesis by (intro exI [of _ "[]"]) auto
  next
    case True
    with schedule_run [OF run] od obtain od' where od': "od_target od' = t" "batch od' = batch od"
      "od_tracking_id od' = od_tracking_id od" "\<forall>u. od_queue u s' = od_queue u s @ (if u = t then [od'] else [])"
      by (auto simp: scheduled_for_def)
    from od' od have "scheduled_for evs t ok od'" by (simp add: scheduled_for_def)
    with od'(4) show ?thesis by (intro exI [of _ "[od']"]) simp
  qed
qed

lemma events_to_operational_data_run:
  assumes "events_to_operational_data p evs s = (r, s')"
  shows "\<exists>src dst. length src \<le> 1 \<and> length dst \<le> 1 \<and> list_all (scheduled_for evs Source timeout_msg_for) src
     \<and> list_all (scheduled_for evs Destination relay_msg_for) dst
     \<and> (\<forall>t. od_queue t s' = od_queue t s @ (if t = Source then src else dst))"
proof -
  obtain x s1 where x: "on_world (generate_operational_data p evs) s = (x, s1)"
    by (cases "on_world (generate_operational_data p evs) s")
  have q: "od_queue t s1 = od_queue t s" for t
    using on_world_frame [OF x] by auto
  show ?thesis
  proof (cases "\<exists>a b. x = Ok (a, b)")
    case False
    with assms x q show ?thesis
      by (intro exI [of _ "[]"], cases x) (auto simp: events_to_operational_data_def ebind_def)
  next
    case True
    then obtain a b where ab: "x = Ok (a, b)" by blast
    then obtain w where "generate_operational_data p evs (world s) = (Ok (a, b), w)"
      using on_world_Ok [of "generate_operational_data p evs" s "(a, b)" s1] x by auto
    note gen = generate_operational_data_Ok [OF this]
    obtain y s2 where y: "schedule_option p a s1 = (y, s2)" by (cases "schedule_option p a s1")
    obtain z s3 where z: "schedule_option p b s2 = (z, s3)" by (cases "schedule_option p b s2")
    have "\<forall>od. a = Some od \<longrightarrow> scheduled_for evs Source timeout_msg_for od"
      using gen(1) by (auto simp: generated_for_def scheduled_for_def)
    from schedule_option_run [OF y this] obtain src where src: "length src \<le> 1"
      "list_all (scheduled_for evs Source timeout_msg_for) src"
      "\<forall>u. od_queue u s2 = od_queue u s1 @ (if u = Source then src else [])" by blast
    have "\<forall>od. b = Some od \<longrightarrow> scheduled_for evs Destination relay_msg_for od"
      using gen(2) by (auto simp: generated_for_def scheduled_for_def)
    from schedule_option_run [OF z this] obtain dst where dst: "length dst \<le> 1"
      "list_all (scheduled_for evs Destination relay_msg_for) dst"
      "\<forall>u. od_queue u s3 = od_queue u s2 @ (if u = Destination then dst else [])" by blast
    show ?thesis
    proof (cases "\<exists>u. y = Ok u")
      case True
      with assms x ab y z have "s' = s3" by (auto simp: events_to_operational_data_def ebind_def split: result.splits prod.splits)
      with src dst q show ?thesis
        by (intro exI [of _ src] exI [of _ dst]) (auto intro: od_target.exhaust)
    next
      case False
      with assms x ab y have "s' = s2" by (cases y) (auto simp: events_to_operational_data_def ebind_def)
      with src q show ?thesis
        by (intro exI [of _ src] exI [of _ "[]"]) auto
    qed
  qed
qed

section \<open>Refreshing\<close>

text \<open>The chains answered that an event has been taken care of already.\<close>

fun event_handled :: "'w relay_path \<Rightarrow> ibc_event \<Rightarrow> bool" where
  "event_handled p (SendPacket pk) \<longleftrightarrow> (\<exists>w w'. send_packet_event_handled p pk w = (Ok True, w'))"
| "event_handled p (WriteAcknowledgement pk _) \<longleftrightarrow> (\<exists>w w'. write_ack_event_handled p pk w = (Ok True, w'))"
| "event_handled p _ \<longleftrightarrow> False"

lemma event_handledI:
  "send_packet_event_handled p pk w = (Ok True, w') \<Longrightarrow> event_handled p (SendPacket pk)"
  "write_ack_event_handled p pk w = (Ok True, w') \<Longrightarrow> event_handled p (WriteAcknowledgement pk ack)"
  unfolding event_handled.simps by blast+

declare event_handled.simps [simp del]

definition tod_events :: "operational_data option \<Rightarrow> ibc_event_with_height set" where
  "tod_events tod = (case tod of None \<Rightarrow> {} | Some od \<Rightarrow> tr_event ` set (batch od))"

lemma tod_events_simps [simp]: "tod_events None = {}" "tod_events (Some od) = tr_event ` set (batch od)"
  by (simp_all add: tod_events_def)

lemma refresh_message_cover:
  assumes "refresh_message p status tid gm (retain, tod) w = (Ok (retain', tod'), w')"
  shows "set retain \<subseteq> set retain' \<and> tod_events tod \<subseteq> tod_events tod'
    \<and> (gm \<in> set retain' \<or> event_handled p (event (tr_event gm)) \<or> tr_event gm \<in> tod_events tod')"
proof (cases "event (tr_event gm)")
  case (SendPacket pk)
  with assms show ?thesis
    by (auto simp: refresh_message_def eret_def od_push_def elim!: ebind_OkE
        split: if_splits option.splits) (simp_all add: event_handledI)
next
  case (WriteAcknowledgement pk ack)
  with assms show ?thesis
    by (auto simp: refresh_message_def eret_def elim!: ebind_OkE split: if_splits) (simp_all add: event_handledI)
qed (use assms in \<open>auto simp: refresh_message_def eret_def\<close>)

lemma refresh_fold_cover:
  assumes "efold (refresh_message p status tid) gms (retain, tod) w = (Ok (retain', tod'), w')"
  shows "set retain \<subseteq> set retain' \<and> tod_events tod \<subseteq> tod_events tod'
    \<and> (\<forall>gm \<in> set gms. gm \<in> set retain' \<or> event_handled p (event (tr_event gm)) \<or> tr_event gm \<in> tod_events tod')"
  using assms
proof (induction gms arbitrary: retain tod w)
  case Nil
  then show ?case by (simp add: eret_def)
next
  case (Cons gm gms)
  then obtain retain1 tod1 w1 where step: "refresh_message p status tid gm (retain, tod) w = (Ok (retain1, tod1), w1)"
    and rest: "efold (refresh_message p status tid) gms (retain1, tod1) w1 = (Ok (retain', tod'), w')"
    by (auto elim!: ebind_OkE)
  from refresh_message_cover [OF step] Cons.IH [OF rest] show ?case by auto
qed

lemma refresh_odata_cover:
  assumes "efold (refresh_odata p status) ods (kept, touts) w = (Ok (kept', touts'), w')"
  shows "set kept \<subseteq> set kept' \<and> set touts \<subseteq> set touts'
    \<and> (\<forall>od \<in> set ods. \<forall>gm \<in> set (batch od). (\<exists>k \<in> set kept'. gm \<in> set (batch k))
         \<or> event_handled p (event (tr_event gm)) \<or> (\<exists>n \<in> set touts'. tr_event gm \<in> tr_event ` set (batch n)))"
  using assms
proof (induction ods arbitrary: kept touts w)
  case Nil
  then show ?case by (simp add: eret_def)
next
  case (Cons od ods)
  from Cons.prems obtain x w1 where one: "refresh_odata p status od (kept, touts) w = (Ok x, w1)"
    and more: "efold (refresh_odata p status) ods x w1 = (Ok (kept', touts'), w')"
    by (auto elim!: ebind_OkE)
  from one more obtain retain tod
    where fold: "efold (refresh_message p status (od_tracking_id od)) (batch od) ([], None) w = (Ok (retain, tod), w1)"
      and rest: "efold (refresh_odata p status) ods (kept @ [od\<lparr>batch := retain\<rparr>],
           touts @ (case tod of None \<Rightarrow> [] | Some t \<Rightarrow> [t])) w1 = (Ok (kept', touts'), w')"
    by (auto simp: refresh_odata_def [of p status od] eret_def elim!: ebind_OkE)
  from Cons.IH [OF rest] have sub: "set kept \<subseteq> set kept'" "od\<lparr>batch := retain\<rparr> \<in> set kept'" "set touts \<subseteq> set touts'"
    "set (case tod of None \<Rightarrow> [] | Some t \<Rightarrow> [t]) \<subseteq> set touts'" by simp_all
  have "(\<exists>k \<in> set kept'. gm \<in> set (batch k)) \<or> event_handled p (event (tr_event gm))
      \<or> (\<exists>n \<in> set touts'. tr_event gm \<in> tr_event ` set (batch n))" if "gm \<in> set (batch od)" for gm
    using refresh_fold_cover [OF fold] that sub(2,4)
    by (cases tod) (force intro: bexI [of _ "od\<lparr>batch := retain\<rparr>"])+
  with Cons.IH [OF rest] sub show ?case by auto
qed

lemma refresh_run:
  assumes "refresh_schedule p s = (Ok (), s')" and "dst_operational_data s \<noteq> []"
  obtains status kept touts w s1 where
    "efold (refresh_odata p status) (dst_operational_data s) ([], []) w = (Ok (kept, touts), world s1)"
    "\<And>t. od_queue t s1 = od_queue t s" "\<And>t. pending_queue t s1 = pending_queue t s"
    "efor touts (schedule_operational_data p)
       (s1\<lparr>dst_operational_data := filter (\<lambda>d. batch d \<noteq> []) kept\<rparr>) = (Ok (), s')"
proof -
  from assms obtain status s0 kept touts s1
    where s0: "on_world (emap_err (LinkQuery (chain_id (src_chain p))) (query_application_status (dst_chain p))) s = (Ok status, s0)"
      and s1: "on_world (efold (refresh_odata p status) (dst_operational_data s) ([], [])) s0 = (Ok (kept, touts), s1)"
      and rest: "efor touts (schedule_operational_data p)
        (s1\<lparr>dst_operational_data := filter (\<lambda>d. batch d \<noteq> []) kept\<rparr>) = (Ok (), s')"
    by (auto simp: refresh_schedule_def eget_def emodify_def queue_is_empty_def queue_replace_def elim!: ebind_OkE)
  from on_world_Ok [OF s1] obtain w
    where "efold (refresh_odata p status) (dst_operational_data s) ([], []) (world s0) = (Ok (kept, touts), w)"
      and "s1 = s0\<lparr>world := w\<rparr>" by blast
  with on_world_frame [OF s0] rest show ?thesis by (intro that) auto
qed

lemma timeouts_of_new:
  assumes "list_all (timeout_batch (od_events ods)) touts" and "batch ` set new = batch ` set touts"
    and "n \<in> set new" and "m \<in> set (batch n)"
  shows "timeout_msg_for (event (tr_event m)) (tr_msg m) \<and> (\<exists>od \<in> set ods. tr_event m \<in> tr_event ` set (batch od))"
proof -
  from assms(2,3) obtain n0 where "n0 \<in> set touts" and n0: "batch n = batch n0"
    by (metis imageE imageI)
  with assms(1) have "timeout_batch (od_events ods) n0" by (simp add: list_all_iff)
  with assms(4) n0 have "timeout_msg_for (event (tr_event m)) (tr_msg m)" and "tr_event m \<in> set (od_events ods)"
    by (auto simp: timeout_batch_def)
  then show ?thesis by (auto simp: od_events_def)
qed

lemma pending_efor_schedule: "efor ods (schedule_operational_data p) s = (r, s') \<Longrightarrow> pending_queue t s' = pending_queue t s"
  by (rule frameD [of "pending_queue t", OF preserves_efor [OF pending_schedule]])

section \<open>A run on the sample chains\<close>

text \<open>A path from a chain that needs no client updates, the state after one packet was scheduled on it, and
  the pending transaction of that packet.\<close>

definition quiet_path :: "sample_world relay_path" where
  "quiet_path = (sample_relay_path 0)\<lparr>rp_channel := (rp_channel (sample_relay_path 0))\<lparr>chan_a_side :=
     (chan_a_side (rp_channel (sample_relay_path 0)))\<lparr>side_chain := (sample_chain ''a'' ''b'')\<lparr>config := eret AxonConfig\<rparr>\<rparr>\<rparr>\<rparr>"

definition sample_batch :: event_batch where
  "sample_batch = \<lparr>eb_chain_id = ChainId ''a'' 0, eb_tracking_id = Static ''t'', eb_height = Height 0 1,
     eb_events = [event_new (SendPacket sample_packet) (Height 0 1)]\<rparr>"

definition sample_state :: "sample_world link_state" where
  "sample_state = \<lparr>src_operational_data = [], dst_operational_data = [sample_od None], pending_txs_src = [],
     pending_txs_dst = [], world = sample_world\<lparr>clock := 2\<rparr>\<rparr>"

definition sample_pending :: pending_data where
  "sample_pending = \<lparr>original_od = sample_od None, tx_hashes = [], submit_time = 2, error_events = []\<rparr>"

lemma quiet_path_simps [simp]:
  "src_chain quiet_path = (sample_chain ''a'' ''b'')\<lparr>config := eret AxonConfig\<rparr>"
  "dst_chain quiet_path = sample_chain ''b'' ''a''"
  "src_client_id quiet_path = ClientId ''07-tendermint-0''" "dst_client_id quiet_path = ClientId ''07-tendermint-0''"
  "rp_env quiet_path = sample_env" "confirm_txes quiet_path = True" "path_id quiet_path = sample_path"
  "chan_ordering (rp_channel quiet_path) = Unordered" "chan_connection_delay (rp_channel quiet_path) = 0"
  "src_channel_id quiet_path = ChannelId ''channel-0''" "src_port_id quiet_path = PortId ''transfer''"
  "fc_src_chain (restore_dst_client quiet_path) = (sample_chain ''a'' ''b'')\<lparr>config := eret AxonConfig\<rparr>"
  by (simp_all add: quiet_path_def src_chain_def dst_chain_def src_client_id_def dst_client_id_def src_channel_id_def
      src_port_id_def sample_path_def sample_side_def sample_relay_path_def restore_dst_client_def foreign_client_restore_def)

lemma sample_generate:
  "generate_operational_data quiet_path \<lparr>te_events = [event_new (SendPacket sample_packet) (Height 0 1)], te_tracking_id = Static ''t''\<rparr>
     (sample_world\<lparr>clock := n\<rparr>) = (Ok (None, Some (sample_od None)), sample_world\<lparr>clock := Suc n\<rparr>)"
  by (simp add: generate_defs sample_world_def sample_channel_def state_matches_def sample_status_def
      timed_out_def timestamp_none_def sample_packet_def event_new_def sample_od_def sample_transit_def
      unordered_channel_def eff_defs ebind_def)

lemma sample_od_no_delay [simp]: "get_delay_if_needed (sample_od None) = None" "conn_delay_needed (sample_od None) = False"
  by (simp_all add: get_delay_if_needed_def conn_delay_needed_def sample_od_def)

lemma sample_update:
  "update_schedule quiet_path sample_batch (link_state_new sample_world) = (Ok (), sample_state)"
proof -
  have "sample_world = sample_world\<lparr>clock := 1\<rparr>" by (simp add: sample_world_def)
  then have gen: "generate_operational_data quiet_path (filter_relaying_events quiet_path (eb_events sample_batch) (eb_tracking_id sample_batch))
      sample_world = (Ok (None, Some (sample_od None)), sample_world\<lparr>clock := 2\<rparr>)"
    using sample_generate [of 1]
    by (simp add: filter_relaying_events_def sample_batch_def event_new_def sample_packet_def numeral_2_eq_2)
  show ?thesis
    by (simp add: update_schedule_def events_to_operational_data_def on_world_def ezoom_def link_state_new_def gen ebind_def
        schedule_option_def schedule_operational_data_def prepare_schedule_def read_world_def eret_def emodify_def
        push_back_def queue_new_def sample_state_def set_scheduled_time_def) (simp add: sample_od_def)
qed

lemma sample_reachable: "link_reachable quiet_path sample_state"
  using link_step.update_schedule [OF sample_update] by (auto simp: link_reachable_def)

definition sample_submitted :: "sample_world \<Rightarrow> sample_world" where
  "sample_submitted w = w\<lparr>sent := sent w @ [(''b'', tracked_msgs_new [tr_msg sample_transit] (Static ''t''))]\<rparr>"

lemma sample_send:
  "send_from_operational_data quiet_path async_sender (sample_od None) w = (Ok [], sample_submitted w)"
  by (simp add: send_from_operational_data_def assemble_msgs_def build_update_client_on_def build_update_client_on_dst_def
      wait_and_build_update_client_def wait_and_build_update_client_with_trusted_def pop_last_def async_sender_def
      sample_submitted_def eff_defs ebind_def) (simp add: sample_od_def build_update_client_on_dst_def
      wait_and_build_update_client_def wait_and_build_update_client_with_trusted_def sample_submitted_def pop_last_def
      eff_defs ebind_def)

lemma sample_relay:
  "relay_from_operational_data quiet_path async_sender (sample_od None) s = (Ok [], s\<lparr>world := sample_submitted (world s)\<rparr>)"
  by (simp add: async.relay_once on_world_def ezoom_def sample_send)

lemma sample_elapsed: "has_conn_delay_elapsed (sample_od None) a b c w = (Ok True, w)"
  by (simp add: has_conn_delay_elapsed_def conn_time_delay_remaining_def conn_block_delay_remaining_def eret_def ebind_def)

lemma sample_submitted_clock [simp]: "clock (sample_submitted w) = clock w"
  by (simp add: sample_submitted_def)

lemma sample_od_target [simp]: "od_target (sample_od d) = Destination" "batch (sample_od d) = [sample_transit]"
  by (simp_all add: sample_od_def)

lemma sample_execute:
  "execute_target quiet_path Destination sample_state
     = (Ok (), sample_state\<lparr>dst_operational_data := [], pending_txs_dst := [sample_pending],
          world := sample_submitted (world sample_state)\<rparr>)"
  by (simp add: execute_target_def sample_state_def eget_def emodify_def ebind_def etry_def on_world_def ezoom_def
      sample_elapsed sample_relay enqueue_pending_tx_def insert_new_pending_tx_def read_world_def eret_def push_back_def
      queue_take_def sample_pending_def)

lemma sample_not_handled: "send_packet_event_handled quiet_path sample_packet w = (Ok False, w)"
  by (simp add: send_packet_event_handled_def send_packet_received_on_dst_def send_packet_commitment_cleared_on_src_def
      eff_defs ebind_def)

lemma sample_no_timeout:
  "build_timeout_from_send_packet_event quiet_path sample_packet status w = (Ok None, w)"
  by (simp add: build_timeout_from_send_packet_event_def dst_channel_def sample_channel_def state_matches_def timed_out_def
      timestamp_none_def sample_packet_def eff_defs ebind_def)

lemma sample_refresh:
  "refresh_schedule quiet_path sample_state = (Ok (), sample_state\<lparr>world := sample_world\<lparr>clock := 3\<rparr>\<rparr>)"
  by (simp add: refresh_schedule_def sample_state_def eget_def emodify_def emap_err_def ebind_def on_world_def ezoom_def
      queue_is_empty_def queue_replace_def refresh_odata_def refresh_message_def sample_transit_def event_new_def
      sample_not_handled sample_no_timeout eret_def numeral_3_eq_3 numeral_2_eq_2)

text \<open>A transaction with a hash that the chain does not know yet.\<close>

definition waiting_state :: "sample_world link_state" where
  "waiting_state = sample_state\<lparr>pending_txs_dst := [sample_pending\<lparr>tx_hashes := [''hash'']\<rparr>]\<rparr>"

lemma sample_process:
  "process_pending quiet_path Destination PENDING_TIMEOUT True waiting_state = (Ok None, waiting_state)"
  by (simp add: process_pending_def pop_pending_def push_pending_def waiting_state_def sample_pending_def sample_state_def
      push_back_def eff_defs ebind_def on_world_def read_world_def)

lemma sample_fetch:
  "try_fetch_scheduled_operational_data quiet_path sample_state
     = (Ok ([], [sample_od None]), sample_state\<lparr>dst_operational_data := []\<rparr>)"
  by (simp add: try_fetch_scheduled_operational_data_def take_od_queue_def queue_take_def sample_state_def sample_elapsed
      eff_defs ebind_def on_world_def)

section \<open>Properties\<close>

text \<open>C1: In every state that a relay path reaches from its empty queues, through any sequence of its operations with any
  outcome and any change of the chains in between, a batch waits in the queue of its own target chain, is not
  empty and, if it is subject to a connection delay, has the height of its client update, so that computing
  the remaining block delay never panics; and a pending transaction holds a non-empty batch for the chain it
  was sent to.\<close>

theorem reachable_queues:
  assumes "link_reachable p s"
  shows "(\<forall>t. \<forall>od \<in> set (od_queue t s). od_target od = t \<and> batch od \<noteq> []
        \<and> (\<forall>d blocks h. get_delay_if_needed od = Some d \<longrightarrow>
             cd_block_delay_remaining d blocks h \<noteq> (Panic :: (link_error, u64) result)))
     \<and> (\<forall>t. \<forall>d \<in> set (pending_queue t s). od_target (original_od d) = t \<and> batch (original_od d) \<noteq> [])"
  using reachable_inv [OF assms]
  by (auto simp: link_inv_def od_ok_def pending_ok_def list_all_iff cd_block_delay_remaining_def Let_def split: option.splits)

theorem reachable_queues_witness:
  "link_reachable quiet_path sample_state \<and> od_queue Destination sample_state = [sample_od None]
   \<and> od_target (sample_od None) = Destination \<and> batch (sample_od None) \<noteq> []"
proof -
  have q: "od_queue Destination sample_state = [sample_od None]" by (simp add: sample_state_def)
  with reachable_queues [OF sample_reachable] have "od_target (sample_od None) = Destination \<and> batch (sample_od None) \<noteq> []"
    by (metis list.set_intros(1))
  with q sample_reachable show ?thesis by blast
qed

text \<open>C2: Executing the schedule of a chain loses no batch silently. The queue up to the batch that stopped the execution, or
  the whole queue on success, is split in order into the batches kept and the batches relayed, and when
  transactions are confirmed the relayed ones are exactly those added to the pending transactions, in order.
  An execution fails either at a batch whose delay could not be computed, which stays in the queue, or at a batch
  that failed to relay, which is dropped; the rest of the queue stays.\<close>

theorem executed_schedule:
  assumes "link_reachable p s" and "execute_target p t s = (r, s')" and "r = Ok () \<or> r = Err e"
  shows "\<exists>before rest kept out. od_queue t s = before @ rest \<and> before \<in> shuffles kept out
     \<and> map original_od (pending_queue t s') = map original_od (pending_queue t s) @ (if confirm_txes p then out else [])
     \<and> (\<forall>od \<in> set out. \<exists>s0 reply s1. relay_from_operational_data p async_sender od s0 = (Ok reply, s1))
     \<and> (if r = Ok () then rest = [] \<and> od_queue t s' = kept
        else \<exists>od after. rest = od # after
          \<and> ((\<exists>w w1. delay_elapsed p t od w = (Err e, w1)) \<and> od_queue t s' = kept @ od # after
             \<or> (\<exists>s0 s1. relay_from_operational_data p async_sender od s0 = (Err e, s1)) \<and> od_queue t s' = kept @ after))"
proof -
  obtain x s1 where x: "execute_schedule_for_target_chain p t (od_queue t s) [] (set_od_queue t [] s) = (x, s1)"
    and ok: "\<And>l. x = Ok l \<Longrightarrow> r = Ok () \<and> s' = set_od_queue t l s1"
    and err: "\<And>l e. x = Err (l, e) \<Longrightarrow> r = Err e \<and> s' = set_od_queue t l s1"
    and is_ok: "r = Ok () \<Longrightarrow> \<exists>l. x = Ok l" and is_err: "\<And>e. r = Err e \<Longrightarrow> \<exists>l. x = Err (l, e)"
    by (rule execute_target_cases [OF assms(2)]) blast
  have "\<forall>od \<in> set (od_queue t s). od_target od = t"
    using reachable_inv [OF assms(1)] by (auto simp: link_inv_def od_ok_def list_all_iff)
  from execute_accounted [OF x this] obtain before rest kept out
    where acc: "od_queue t s = before @ rest" "before \<in> shuffles kept out"
      "map original_od (pending_queue t s1) = map original_od (pending_queue t s) @ (if confirm_txes p then out else [])"
      "list_all (relayed p) out" "stopped p t kept rest x"
    by (auto simp: accounted_def)
  have out: "\<forall>od \<in> set out. \<exists>s0 reply s1. relay_from_operational_data p async_sender od s0 = (Ok reply, s1)"
    using acc(4) by (auto simp: list_all_iff relayed_def)
  from assms(3) show ?thesis
  proof
    assume r: "r = Ok ()"
    with is_ok obtain l where l: "x = Ok l" by blast
    with ok acc(5) have "rest = []" "od_queue t s' = kept" "pending_queue t s' = pending_queue t s1"
      by (simp_all add: stopped_def)
    with acc out r show ?thesis by (intro exI [of _ before] exI [of _ rest] exI [of _ kept] exI [of _ out]) simp
  next
    assume r: "r = Err e"
    with is_err obtain l where l: "x = Err (l, e)" by blast
    with err have s': "s' = set_od_queue t l s1" by blast
    with acc out r l show ?thesis
      by (intro exI [of _ before] exI [of _ rest] exI [of _ kept] exI [of _ out]) (simp add: stopped_def)
  qed
qed

theorem executed_schedule_witness:
  "fst (execute_target quiet_path Destination sample_state) = Ok ()
   \<and> (\<exists>before rest kept out. [sample_od None] = before @ rest \<and> before \<in> shuffles kept out
        \<and> [sample_od None] = out \<and> rest = [] \<and> kept = [])"
  using executed_schedule [OF sample_reachable sample_execute, of undefined] sample_execute
  by (auto simp: sample_state_def sample_pending_def)

text \<open>C3: A successful refresh accounts for every message that waits for the destination chain. Each batch keeps
  a part of its messages in order and nothing else changes in it; batches left empty are removed. A message that
  is not kept has an event that the chains report as handled, or one for which a new batch of timeouts, appended to
  the queue of the source chain, has a timeout message; and the new batches hold nothing else.\<close>

theorem refresh_accounts:
  assumes "refresh_schedule p s = (Ok (), s')"
  shows "\<exists>kept new. list_all2 (\<lambda>od k. subseq (batch k) (batch od) \<and> k = od\<lparr>batch := batch k\<rparr>) (od_queue Destination s) kept
     \<and> od_queue Destination s' = filter (\<lambda>d. batch d \<noteq> []) kept \<and> od_queue Source s' = od_queue Source s @ new
     \<and> (\<forall>od \<in> set (od_queue Destination s). \<forall>gm \<in> set (batch od). (\<exists>k \<in> set kept. gm \<in> set (batch k))
          \<or> event_handled p (event (tr_event gm)) \<or> (\<exists>n \<in> set new. \<exists>m \<in> set (batch n). tr_event m = tr_event gm))
     \<and> (\<forall>n \<in> set new. \<forall>m \<in> set (batch n). timeout_msg_for (event (tr_event m)) (tr_msg m)
          \<and> (\<exists>od \<in> set (od_queue Destination s). tr_event m \<in> tr_event ` set (batch od)))
     \<and> (\<forall>t. pending_queue t s' = pending_queue t s)"
proof (cases "dst_operational_data s = []")
  case True
  with assms have "s' = s" by (simp add: refresh_schedule_def eget_def ebind_def eret_def queue_is_empty_def)
  with True show ?thesis by (intro exI [of _ "[]"]) simp
next
  case False
  obtain status kept touts w s1 where fold: "efold (refresh_odata p status) (od_queue Destination s) ([], []) w = (Ok (kept, touts), world s1)"
    and q: "\<And>t. od_queue t s1 = od_queue t s" "\<And>t. pending_queue t s1 = pending_queue t s"
    and sched: "efor touts (schedule_operational_data p) (s1\<lparr>dst_operational_data := filter (\<lambda>d. batch d \<noteq> []) kept\<rparr>) = (Ok (), s')"
    by (rule refresh_run [OF assms False]) simp
  from refresh_odata_fold_Ok [OF fold] have kept: "list_all2 shrunk (od_queue Destination s) kept"
    and touts: "list_all (timeout_batch (od_events (od_queue Destination s))) touts" by auto
  then have "list_all (\<lambda>od. od_target od = Source \<and> batch od \<noteq> []) touts"
    by (auto simp: list_all_iff timeout_batch_def)
  from efor_schedule_Ok [OF sched this] obtain new
    where new: "list_all2 (\<lambda>od od'. od_target od' = Source \<and> batch od' = batch od) touts new"
      and src: "od_queue Source s' = od_queue Source s @ new"
      and dst: "od_queue Destination s' = filter (\<lambda>d. batch d \<noteq> []) kept"
    using q(1) [of Source] by auto
  have batches: "batch ` set new = batch ` set touts"
    using new by (induction rule: list_all2_induct) auto
  have cover: "(\<exists>k \<in> set kept. gm \<in> set (batch k)) \<or> event_handled p (event (tr_event gm))
      \<or> (\<exists>n \<in> set new. \<exists>m \<in> set (batch n). tr_event m = tr_event gm)"
    if "od \<in> set (od_queue Destination s)" "gm \<in> set (batch od)" for od gm
  proof -
    from refresh_odata_cover [OF fold] that consider "\<exists>k \<in> set kept. gm \<in> set (batch k)"
      | "event_handled p (event (tr_event gm))" | n where "n \<in> set touts" "tr_event gm \<in> tr_event ` set (batch n)"
      by blast
    then show ?thesis
    proof cases
      case 3
      with batches obtain n' where "n' \<in> set new" "batch n' = batch n" by (metis imageE imageI)
      with 3 show ?thesis by force
    qed blast+
  qed
  have pending: "pending_queue t s' = pending_queue t s" for t
    using pending_efor_schedule [OF sched, of t] q(2) by (cases t) (auto dest: meta_spec [of _ Source] meta_spec [of _ Destination])
  show ?thesis
    using kept src dst cover timeouts_of_new [OF touts batches] pending
    by - (rule exI [of _ kept], rule exI [of _ new], simp add: shrunk_def [abs_def])
qed

theorem refresh_accounts_witness:
  "fst (refresh_schedule quiet_path sample_state) = Ok () \<and> od_queue Destination sample_state = [sample_od None]
   \<and> (\<exists>kept new. od_queue Destination (snd (refresh_schedule quiet_path sample_state)) = filter (\<lambda>d. batch d \<noteq> []) kept
        \<and> od_queue Source (snd (refresh_schedule quiet_path sample_state)) = od_queue Source sample_state @ new)"
proof -
  from refresh_accounts [OF sample_refresh] obtain kept new
    where "od_queue Destination (sample_state\<lparr>world := sample_world\<lparr>clock := 3\<rparr>\<rparr>) = filter (\<lambda>d. batch d \<noteq> []) kept"
      "od_queue Source (sample_state\<lparr>world := sample_world\<lparr>clock := 3\<rparr>\<rparr>) = od_queue Source sample_state @ new"
    by blast
  then show ?thesis unfolding sample_refresh fst_conv snd_conv by (auto simp: sample_state_def)
qed

text \<open>C4: Processing the pending transactions of a chain takes the one at the front. It ends up at the back of the queue
  when the chain could not be asked; it leaves the queue when the chain reports events for all its hashes, or
  when it has none, and those events and its errors are returned; otherwise it is put back unless its
  timeout has passed, and then it is given up or, if resubmission is on, replaced by a transaction
  for the same batch.\<close>

theorem pending_transaction_fate:
  assumes "process_pending p t timeout rs s = (r, s')" and "pending_queue t s = d # q"
  shows "(\<forall>e. r = Err e \<longrightarrow> pending_queue t s' = q @ [d])
    \<and> (\<forall>evs. r = Ok (Some evs) \<longrightarrow> pending_queue t s' = q
         \<and> (if tx_hashes d = [] then evs = error_events d
            else \<exists>w confirmed w'. check_tx_events (target_chain p t) (tx_hashes d) [] w = (Ok (Some confirmed), w')
                   \<and> evs = confirmed @ error_events d))
    \<and> (r = Ok None \<longrightarrow> pending_queue t s' = q @ [d]
         \<or> (\<exists>w now w'. instant_now (rp_env p) w = (now, w') \<and> timeout < nat (now - submit_time d))
           \<and> (pending_queue t s' = q
              \<or> rs \<and> (\<exists>d'. original_od d' = original_od d \<and> pending_queue t s' = q @ [d'])))"
proof (cases "tx_hashes d = []")
  case True
  with assms show ?thesis by (auto simp: process_pending_def pop_pending_def ebind_def eret_def)
next
  case False
  obtain x s1 where x: "on_world (check_tx_events (target_chain p t) (tx_hashes d) []) (set_pending_queue t q s) = (x, s1)"
    by (cases "on_world (check_tx_events (target_chain p t) (tx_hashes d) []) (set_pending_queue t q s)")
  note run = check_pending_run [OF assms False x]
  have q: "pending_queue t (s1\<lparr>world := w\<rparr>) = q" for w
    using on_world_frame [OF x] by auto
  show ?thesis
  proof (cases "x = Ok None")
    case False
    have "\<exists>w w'. check_tx_events (target_chain p t) (tx_hashes d) [] w = (Ok (Some evs), w')" if "x = Ok (Some evs)" for evs
      using on_world_Ok [OF x [unfolded that]] by blast
    with run False \<open>tx_hashes d \<noteq> []\<close> show ?thesis by (cases x) auto
  next
    case True
    from mp [OF conjunct1 [OF conjunct2 [OF conjunct2 [OF run]]] True] obtain now w where now: "instant_now (rp_env p) (world s1) = (now, w)"
      and rest: "if nat (now - submit_time d) \<le> timeout then r = Ok None \<and> pending_queue t s' = q @ [d]
            else if rs then (\<exists>y. resubmit_pending p t d (s1\<lparr>world := w\<rparr>) = (y, s') \<and> r = map_ok (\<lambda>_. None) y)
            else r = Ok None \<and> pending_queue t s' = q" by (elim exE conjE)
    show ?thesis
    proof (cases "nat (now - submit_time d) \<le> timeout \<or> \<not> rs")
      case True
      with now rest show ?thesis by (auto split: if_splits simp: not_le)
    next
      case False
      with rest obtain y where y: "resubmit_pending p t d (s1\<lparr>world := w\<rparr>) = (y, s')" and r: "r = map_ok (\<lambda>_. None) y"
        by auto
      from resubmit_pending_cases [OF y] q r False now show ?thesis by (cases y) (auto simp: not_le)
    qed
  qed
qed

theorem pending_transaction_fate_witness:
  "fst (process_pending quiet_path Destination PENDING_TIMEOUT True waiting_state) = Ok None
   \<and> pending_queue Destination waiting_state = [sample_pending\<lparr>tx_hashes := [''hash'']\<rparr>]"
  using pending_transaction_fate [OF sample_process, of "sample_pending\<lparr>tx_hashes := [''hash'']\<rparr>" "[]"] sample_process
  by (simp add: waiting_state_def)

text \<open>C5: Adding the events of a batch to the schedule appends at most one batch of messages to each queue and changes nothing
  else, whatever the outcome. A new batch for the source chain is of timeouts and one for the destination chain
  of receive, acknowledgement and closing messages, each for an event of the batch that concerns the channel
  of this path; the events keep their order and the batch its tracking identifier.\<close>

theorem scheduled_events:
  assumes "update_schedule p b s = (r, s')"
  shows "\<exists>src dst. od_queue Source s' = od_queue Source s @ src \<and> od_queue Destination s' = od_queue Destination s @ dst
     \<and> length src \<le> 1 \<and> length dst \<le> 1 \<and> (\<forall>t. pending_queue t s' = pending_queue t s)
     \<and> (\<forall>od \<in> set (src @ dst). batch od \<noteq> [] \<and> od_tracking_id od = eb_tracking_id b
          \<and> subseq (map tr_event (batch od)) (filter (\<lambda>e. is_relaying_event p (event e)) (eb_events b)))
     \<and> (\<forall>od \<in> set src. \<forall>m \<in> set (batch od). timeout_msg_for (event (tr_event m)) (tr_msg m))
     \<and> (\<forall>od \<in> set dst. \<forall>m \<in> set (batch od). relay_msg_for (event (tr_event m)) (tr_msg m))"
proof -
  let ?evs = "filter_relaying_events p (eb_events b) (eb_tracking_id b)"
  from events_to_operational_data_run [OF assms [unfolded update_schedule_def]] obtain src dst
    where "length src \<le> 1" "length dst \<le> 1" "list_all (scheduled_for ?evs Source timeout_msg_for) src"
      "list_all (scheduled_for ?evs Destination relay_msg_for) dst"
      "\<forall>t. od_queue t s' = od_queue t s @ (if t = Source then src else dst)" by blast
  moreover have "pending_queue t s' = pending_queue t s" for t
    by (rule frameD [of "pending_queue t", OF pending_update_schedule assms])
  ultimately show ?thesis
    by - (rule exI [of _ src], rule exI [of _ dst],
        auto simp: list_all_iff scheduled_for_def filter_relaying_events_def dest: spec [of _ Source] spec [of _ Destination])
qed

theorem scheduled_events_witness:
  "fst (update_schedule quiet_path sample_batch (link_state_new sample_world)) = Ok ()
   \<and> (\<exists>src dst. od_queue Source sample_state = src \<and> od_queue Destination sample_state = dst \<and> length src \<le> 1 \<and> length dst \<le> 1)"
  using scheduled_events [OF sample_update] sample_update by auto



text \<open>C10: Relaying through the asynchronous sender, as the execution of the schedule does, is a single submission
  of the assembled transaction: the loop that regenerates the data and retries never runs twice.\<close>

theorem async_relay_once:
  "relay_from_operational_data p async_sender od = on_world (send_from_operational_data p async_sender od)"
  by (rule async.relay_once)



text \<open>C12: Clearing pending packets never removes or reorders scheduled data, whatever its outcome. It fails only
  with the exhaustion of its attempts or, before any attempt, because the height has no predecessor, and then
  nothing has changed.\<close>

theorem clearing_outcomes:
  assumes "schedule_packet_clearing p h s = (r, s')"
  shows "(\<forall>t. prefix (od_queue t s) (od_queue t s'))
    \<and> (\<forall>e. r = Err e \<longrightarrow> e = OldPacketClearingFailed
         \<or> (\<exists>h' e'. h = Some h' \<and> decrement h' = Err e' \<and> e = DecrementHeight h' e' \<and> s' = s))"
proof
  show "\<forall>t. prefix (od_queue t s) (od_queue t s')"
    using preservesD [OF prefix_clearing _ assms] by blast
  show "\<forall>e. r = Err e \<longrightarrow> e = OldPacketClearingFailed
      \<or> (\<exists>h' e'. h = Some h' \<and> decrement h' = Err e' \<and> e = DecrementHeight h' e' \<and> s' = s)"
    using assms
    by (auto simp: schedule_packet_clearing_def relay_pending_packets_def eresult_def eret_def on_world_def ezoom_def
        read_world_def split: option.splits prod.splits elim!: ebind_cases map_ok.elims map_err.elims
        dest: clear_attempts_Err)
qed

theorem clearing_outcomes_witness:
  "schedule_packet_clearing quiet_path (Some (Height 0 1)) sample_state
     = (Err (DecrementHeight (Height 0 1) InvalidHeightResult), sample_state)
   \<and> prefix (od_queue Destination sample_state) (od_queue Destination sample_state)"
proof -
  have run: "schedule_packet_clearing quiet_path (Some (Height 0 1)) sample_state
      = (Err (DecrementHeight (Height 0 1) InvalidHeightResult), sample_state)"
    by (simp add: schedule_packet_clearing_def decrement_def height_sub_def eff_defs ebind_def)
  from clearing_outcomes [OF run] run show ?thesis by blast
qed

end
