(* ===== verification/Link_Cli.thy ===== *)
theory Link_Cli
  imports Relay_Properties
begin

text \<open>
  \<open>relayer/src/link/cli.rs\<close>: relaying from the command line. The packets or acknowledgements that are missing on the
  destination chain are scheduled chunk by chunk and relayed synchronously; what is under a delay is
  waited for at the end. The recursive wait and the final loop take their fuel from the environment.
\<close>

section \<open>Waiting for a delay\<close>

text \<open>The block count is converted to \<open>u32\<close> with \<open>expect\<close>, and the product with a duration panics on overflow.
  After sleeping for the remaining blocks the delay is not computed again.\<close>

fun wait_for_conn_delay ::
  "nat \<Rightarrow> 'w env \<Rightarrow> operational_data \<Rightarrow> ('w, link_error, instant) eff \<Rightarrow> ('w, link_error, duration) eff
    \<Rightarrow> ('w, link_error, height) eff \<Rightarrow> ('w, link_error, operational_data) eff" where
  "wait_for_conn_delay 0 env od chain_time max_time latest_height = ehang"
| "wait_for_conn_delay (Suc n) env od chain_time max_time latest_height =
     ebind (conn_delay_remaining od chain_time max_time latest_height) (\<lambda>(time_left, blocks_left).
       if time_left = 0 \<and> blocks_left = 0 then eret od
       else if time_left = 0 then
         (if unat blocks_left \<ge> 2 ^ 32 then epanic
          else ebind max_time (\<lambda>m.
            if unat blocks_left * m > DURATION_MAX then epanic
            else ebind (thread_sleep env (unat blocks_left * m)) (\<lambda>_. eret od)))
       else
         ebind (thread_sleep env time_left) (\<lambda>_.
           wait_for_conn_delay n env od chain_time max_time latest_height))"

fun wait_for_target :: "'w relay_path \<Rightarrow> od_target \<Rightarrow> operational_data \<Rightarrow> ('w, link_error, operational_data) eff" where
  "wait_for_target p Source od = wait_for_conn_delay (wait_fuel (rp_env p)) (rp_env p) od
     (src_time_latest p) (src_max_block_time p) (rp_src_latest_height p)"
| "wait_for_target p Destination od = wait_for_conn_delay (wait_fuel (rp_env p)) (rp_env p) od
     (dst_time_latest p) (dst_max_block_time p) (rp_dst_latest_height p)"

section \<open>Relaying\<close>

definition pop_od :: "od_target \<Rightarrow> ('w, 'e, operational_data option) link_op" where
  "pop_od t = (\<lambda>s. case pop_front (od_queue t s) of (x, q) \<Rightarrow> (Ok x, set_od_queue t q s))"

definition fetch_scheduled_operational_data :: "'w relay_path \<Rightarrow> ('w, link_error, operational_data option) link_op" where
  "fetch_scheduled_operational_data p =
     ebind (pop_od Source) (\<lambda>src. case src of
       Some od \<Rightarrow> ebind (on_world (wait_for_target p Source od)) (\<lambda>od'. eret (Some od'))
     | None \<Rightarrow>
         ebind (pop_od Destination) (\<lambda>dst. case dst of
           Some od \<Rightarrow> ebind (on_world (wait_for_target p Destination od)) (\<lambda>od'. eret (Some od'))
         | None \<Rightarrow> eret None))"

fun relay_and_accumulate_results ::
  "'w relay_path \<Rightarrow> operational_data list \<Rightarrow> ibc_event list \<Rightarrow> ('w, link_error, ibc_event list) link_op" where
  "relay_and_accumulate_results p [] results = eret results"
| "relay_and_accumulate_results p (od # ods) results =
     ebind (relay_from_operational_data p sync_sender od) (\<lambda>evs.
       relay_and_accumulate_results p ods (results @ evs))"

text \<open>The body of the loop over the chunks, with the results so far as a part of its state.\<close>

definition relay_chunk ::
  "'w relay_path \<Rightarrow> tracking_id \<Rightarrow> ibc_event_with_height list
    \<Rightarrow> ('w link_state \<times> ibc_event list, link_error, unit) eff" where
  "relay_chunk p tid evs = (\<lambda>(s, results).
     case (ebind (events_to_operational_data p \<lparr>te_events = evs, te_tracking_id = tid\<rparr>) (\<lambda>_.
           ebind (try_fetch_scheduled_operational_data p) (\<lambda>(src_ods, dst_ods).
           ebind (relay_and_accumulate_results p src_ods results) (\<lambda>results'.
             relay_and_accumulate_results p dst_ods results')))) s of
       (Ok results', s') \<Rightarrow> (Ok (), (s', results'))
     | (Err e, s') \<Rightarrow> (Err e, (s', results))
     | (Panic, s') \<Rightarrow> (Panic, (s', results))
     | (Hang, s') \<Rightarrow> (Hang, (s', results)))"

fun drain_scheduled ::
  "nat \<Rightarrow> 'w relay_path \<Rightarrow> ibc_event list \<Rightarrow> ('w, link_error, ibc_event list) link_op" where
  "drain_scheduled 0 p results = ehang"
| "drain_scheduled (Suc n) p results =
     ebind (fetch_scheduled_operational_data p) (\<lambda>opt. case opt of
       None \<Rightarrow> eret results
     | Some od \<Rightarrow> ebind (relay_and_accumulate_results p [od] results) (drain_scheduled n p))"

definition relay_packet_messages ::
  "'w relay_path \<Rightarrow> sequence list \<Rightarrow> height qual \<Rightarrow> 'w packet_query \<Rightarrow> tracking_id
    \<Rightarrow> ('w, link_error, ibc_event list) link_op" where
  "relay_packet_messages p seqs query_height query_fn tid =
     ebind (\<lambda>s. case query_packet_events_with seqs query_height
                   (\<lambda>chunk. ezoom fst (\<lambda>s x. (s, snd x))
                      (on_world (query_fn (src_chain p) (path_id p) chunk query_height)))
                   (relay_chunk p tid) (s, []) of
               (r, (s', results)) \<Rightarrow> (map_ok (\<lambda>_. results) r, s')) (\<lambda>results.
       drain_scheduled (wait_fuel (rp_env p)) p results)"

fun data_query_height :: "height option \<Rightarrow> height \<Rightarrow> height qual" where
  "data_query_height (Some h) _ = QualEqual h"
| "data_query_height None h = SmallerEqual h"

definition relay_recv_packet_and_timeout_messages ::
  "'w relay_path \<Rightarrow> height option \<Rightarrow> ('w, link_error, ibc_event list) link_op" where
  "relay_recv_packet_and_timeout_messages p packet_data_query_height =
     ebind (on_world (emap_err LinkSupervisor (unreceived_packets (dst_chain p) (src_chain p) (path_id p)))) (\<lambda>(seqs, h).
       if seqs = [] then eret []
       else relay_packet_messages p seqs (data_query_height packet_data_query_height h)
              query_send_packet_events (Static ''packet-recv''))"

definition relay_ack_packet_messages ::
  "'w relay_path \<Rightarrow> height option \<Rightarrow> ('w, link_error, ibc_event list) link_op" where
  "relay_ack_packet_messages p packet_data_query_height =
     ebind (on_world (emap_err LinkSupervisor (unreceived_acknowledgements (dst_chain p) (src_chain p) (path_id p)))) (\<lambda>(seqs, h).
       if seqs = [] then eret []
       else relay_packet_messages p seqs (data_query_height packet_data_query_height h)
              query_write_ack_events (Static ''packet-ack''))"

section \<open>What relaying adds to the queues\<close>

lemma wait_for_conn_delay_Ok: "wait_for_conn_delay n env od ct mt lh w = (Ok od', w') \<Longrightarrow> od' = od"
  by (induction n arbitrary: w) (auto simp: ehang_def epanic_def eret_def elim!: ebind_OkE split: if_splits)

lemma wait_for_target_Ok: "wait_for_target p t od w = (Ok od', w') \<Longrightarrow> od' = od"
  by (cases t) (auto dest: wait_for_conn_delay_Ok)

lemma regenerate_queues:
  assumes "regenerate_operational_data p od s = (r, s')"
  shows "od_queue Destination s' = od_queue Destination s
     \<and> length (od_queue Source s') \<le> length (od_queue Source s) + (if od_target od = Source then 0 else 1)"
proof -
  obtain x s1 where x: "on_world (generate_operational_data p (into_events od)) s = (x, s1)"
    by (cases "on_world (generate_operational_data p (into_events od)) s")
  have q: "od_queue t s1 = od_queue t s" for t using on_world_frame [OF x] by auto
  show ?thesis
  proof (cases "\<exists>src_od b. x = Ok (Some src_od, b) \<and> od_target src_od \<noteq> od_target od")
    case False
    with assms x have "s' = s1"
      by (cases x) (auto simp: regenerate_operational_data_def ebind_def etry_def eret_def Let_def
          split: option.splits if_splits)
    with q show ?thesis by simp
  next
    case True
    then obtain src_od b where sb: "x = Ok (Some src_od, b)" and ne: "od_target src_od \<noteq> od_target od" by blast
    from on_world_Ok [OF x [unfolded sb]] obtain w
      where "generate_operational_data p (into_events od) (world s) = (Ok (Some src_od, b), w)" by blast
    from generate_operational_data_Ok(1) [OF this] have src: "od_target src_od = Source"
      by (simp add: generated_for_def)
    obtain y s2 where y: "schedule_operational_data p src_od s1 = (y, s2)"
      by (cases "schedule_operational_data p src_od s1")
    from assms x sb ne y have "s' = s2"
      by (cases y) (auto simp: regenerate_operational_data_def ebind_def etry_def eret_def Let_def
          split: option.splits)
    moreover have "od_queue Destination s2 = od_queue Destination s1
        \<and> length (od_queue Source s2) \<le> length (od_queue Source s1) + 1"
    proof (cases "batch src_od = [] \<or> (\<forall>u. y \<noteq> Ok u)")
      case True
      with schedule_run [OF y] have "\<forall>t. od_queue t s2 = od_queue t s1" by simp
      from spec [OF this, of Source] spec [OF this, of Destination] show ?thesis by simp
    next
      case False
      with schedule_run [OF y] src obtain od' where
        "\<forall>t. od_queue t s2 = od_queue t s1 @ (if t = Source then [od'] else [])" by auto
      from spec [OF this, of Source] spec [OF this, of Destination] show ?thesis by simp
    qed
    ultimately show ?thesis
      using q [of Source] q [of Destination] ne src by (cases "od_target od") auto
  qed
qed

lemma relay_attempts_queues:
  assumes "relay_attempts p sndr n od s = (r, s')"
  shows "od_queue Destination s' = od_queue Destination s
     \<and> length (od_queue Source s') \<le> length (od_queue Source s) + (if od_target od = Source then 0 else n - 1)"
  using assms
proof (induction n arbitrary: od s)
  case 0
  then show ?case by (simp add: eret_def)
next
  case (Suc n)
  obtain x s1 where x: "on_world (send_from_operational_data p sndr od) s = (x, s1)"
    by (cases "on_world (send_from_operational_data p sndr od) s")
  have q: "od_queue t s1 = od_queue t s" for t using on_world_frame [OF x] by auto
  obtain y s2 where y: "regenerate_operational_data p od s1 = (y :: (link_error, _) result, s2)"
    by (cases "regenerate_operational_data p od s1 :: (link_error, _) result \<times> _")
  from Suc.prems x y consider (stop) "s' = s1" | (none) "s' = s2" "n \<noteq> 0"
    | (again) od1 where "y = Ok (Some od1)" "n \<noteq> 0" "relay_attempts p sndr n od1 s2 = (r, s')"
    by (cases x; cases y) (auto simp: ebind_def etry_def eret_def ethrow_def split: link_error.splits if_splits option.splits)
  then show ?case
  proof cases
    case stop
    with q [of Source] q [of Destination] show ?thesis by simp
  next
    case none
    with q [of Source] q [of Destination] regenerate_queues [OF y] show ?thesis by (auto split: if_splits)
  next
    case again
    with q [of Source] q [of Destination] regenerate_queues [OF y] regenerate_Ok [OF y [unfolded again(1)]]
      Suc.IH [OF again(3)] show ?thesis by (auto split: if_splits)
  qed
qed

section \<open>The final loop\<close>

definition work :: "'w link_state \<Rightarrow> nat" where
  "work s = length (od_queue Source s) + MAX_RETRIES * length (od_queue Destination s)"

lemma work_world [simp]: "work (s\<lparr>world := w\<rparr>) = work s"
  by (simp add: work_def)

lemma pop_od_eq:
  "od_queue t s = [] \<Longrightarrow> pop_od t s = (Ok None, s)"
  "od_queue t s = od # q \<Longrightarrow> pop_od t s = (Ok (Some od), set_od_queue t q s)"
  by (cases t; cases s; simp add: pop_od_def)+

lemma fetch_target_cases:
  assumes "ebind (on_world (wait_for_target p t od)) (\<lambda>od'. eret (Some od')) (set_od_queue t q s) = (r, s')"
    and "od_queue t s = od # q"
  shows "(\<forall>x. r = Ok x \<longrightarrow> x = Some od) \<and> (\<exists>w. s' = (set_od_queue t q s)\<lparr>world := w\<rparr>)"
proof -
  obtain x s1 where x: "on_world (wait_for_target p t od) (set_od_queue t q s) = (x, s1)"
    by (cases "on_world (wait_for_target p t od) (set_od_queue t q s)")
  from assms(1) x have "r = map_ok Some x" "s' = s1"
    by (cases x; simp add: ebind_def eret_def)+
  moreover have "x = Ok od' \<longrightarrow> od' = od" for od'
  proof
    assume eq: "x = Ok od'"
    from on_world_Ok [OF x [unfolded eq]] show "od' = od" by (blast dest: wait_for_target_Ok)
  qed
  ultimately show ?thesis using on_world_frame [OF x] by (cases x) auto
qed

lemma fetch_cases:
  assumes "fetch_scheduled_operational_data p s = (r, s')"
  shows "(r = Ok None \<and> s' = s \<and> (\<forall>t. od_queue t s = []))
    \<or> (\<exists>t od q w. od_queue t s = od # q \<and> s' = (set_od_queue t q s)\<lparr>world := w\<rparr> \<and> (\<forall>x. r = Ok x \<longrightarrow> x = Some od))"
proof (cases "od_queue Source s")
  case (Cons od q)
  with assms have "ebind (on_world (wait_for_target p Source od)) (\<lambda>od'. eret (Some od')) (set_od_queue Source q s) = (r, s')"
    by (simp add: fetch_scheduled_operational_data_def ebind_def [of "pop_od Source"] pop_od_eq(2) [OF Cons]
        del: od_queue.simps set_od_queue.simps wait_for_target.simps)
  from fetch_target_cases [OF this Cons] Cons show ?thesis by blast
next
  case src: Nil
  show ?thesis
  proof (cases "od_queue Destination s")
    case (Cons od q)
    with assms have "ebind (on_world (wait_for_target p Destination od)) (\<lambda>od'. eret (Some od')) (set_od_queue Destination q s) = (r, s')"
      by (simp add: fetch_scheduled_operational_data_def ebind_def [of "pop_od _"] pop_od_eq(1) [OF src] pop_od_eq(2) [OF Cons]
          del: od_queue.simps set_od_queue.simps wait_for_target.simps)
    from fetch_target_cases [OF this Cons] Cons show ?thesis by blast
  next
    case Nil
    with src have "\<forall>t. od_queue t s = []" by (metis od_target.exhaust)
    with assms show ?thesis
      by (simp add: fetch_scheduled_operational_data_def ebind_def pop_od_eq(1) eret_def del: od_queue.simps)
  qed
qed

lemma preserves_accumulate [pres]: "preserves link_inv (relay_and_accumulate_results p ods results)"
  by (induction ods arbitrary: results) (auto intro: pres)

lemma accumulate_one_queues:
  assumes "relay_and_accumulate_results p [od] results s = (r, s')"
  shows "od_queue Destination s' = od_queue Destination s
     \<and> length (od_queue Source s') \<le> length (od_queue Source s) + (if od_target od = Source then 0 else MAX_RETRIES - 1)"
proof -
  obtain x s1 where x: "relay_attempts p sync_sender MAX_RETRIES od s = (x, s1)"
    by (cases "relay_attempts p sync_sender MAX_RETRIES od s")
  with assms have "s' = s1" by (cases x) (auto simp: relay_from_operational_data_def ebind_def eret_def)
  with relay_attempts_queues [OF x] show ?thesis by simp
qed

text \<open>One round of the loop takes a batch for its own chain from a queue; only a batch for the destination chain can
  put timeout messages back into the source queue, at most one batch for each failed submission but the last.\<close>

lemma drain_round:
  assumes "link_inv s" "fetch_scheduled_operational_data p s = (Ok (Some od), s1)"
    and "relay_and_accumulate_results p [od] results s1 = (r, s2)"
  shows "link_inv s2 \<and> work s2 < work s"
proof -
  from fetch_cases [OF assms(2)] obtain t q w
    where q: "od_queue t s = od # q" and s1: "s1 = (set_od_queue t q s)\<lparr>world := w\<rparr>" by auto
  from assms(1) have "list_all (od_ok t) (od_queue t s)" by (simp add: link_inv_def)
  with q have ok: "od_ok t od" "list_all (od_ok t) q" by simp_all
  with assms(1) s1 have "link_inv s1" by (simp add: link_inv_set_od_queue)
  with assms(3) preserves_accumulate have "link_inv s2" by (metis preservesD)
  moreover have "work s2 < work s"
    using accumulate_one_queues [OF assms(3)] q s1 ok(1)
    by (cases t) (auto simp: work_def od_ok_def MAX_RETRIES_def)
  ultimately show ?thesis by simp
qed

lemma drain_fuel:
  assumes "link_inv s" "work s < n" "n \<le> m"
  shows "drain_scheduled m p results s = drain_scheduled n p results s"
  using assms
proof (induction n arbitrary: m s results)
  case (Suc n)
  then obtain m' where m: "m = Suc m'" "n \<le> m'" by (cases m) auto
  obtain x s1 where x: "fetch_scheduled_operational_data p s = (x, s1)"
    by (cases "fetch_scheduled_operational_data p s")
  show ?case
  proof (cases "\<exists>od. x = Ok (Some od)")
    case True
    then obtain od where od: "x = Ok (Some od)" by blast
    obtain y s2 where y: "relay_and_accumulate_results p [od] results s1 = (y, s2)"
      by (cases "relay_and_accumulate_results p [od] results s1")
    from drain_round [OF Suc.prems(1) x [unfolded od] y] Suc.prems(2)
    have "drain_scheduled m' p r s2 = drain_scheduled n p r s2" for r
      by (intro Suc.IH [OF _ _ m(2)]) auto
    with x od y m(1) show ?thesis
      by (cases y) (simp_all add: ebind_def del: relay_and_accumulate_results.simps)
  next
    case False
    with x m(1) show ?thesis by (cases x) (auto simp: ebind_def split: option.splits)
  qed
qed simp

lemma drain_Ok:
  "drain_scheduled n p results s = (Ok results', s') \<Longrightarrow> \<forall>t. od_queue t s' = []"
proof (induction n arbitrary: results s)
  case (Suc n)
  from Suc.prems show ?case
    by (auto simp: eret_def simp del: relay_and_accumulate_results.simps od_queue.simps elim!: ebind_OkE
        split: option.splits dest!: fetch_cases dest: Suc.IH [THEN spec])
qed (simp add: ehang_def)

section \<open>A sample run\<close>

lemma sample_sync_relay:
  "relay_from_operational_data quiet_path sync_sender (sample_od None) s = (Ok [], s\<lparr>world := sample_submitted (world s)\<rparr>)"
proof -
  have "send_from_operational_data quiet_path sync_sender (sample_od None) w = (Ok [], sample_submitted w)" for w
    by (simp add: send_from_operational_data_def assemble_msgs_def build_update_client_on_def build_update_client_on_dst_def
        wait_and_build_update_client_def wait_and_build_update_client_with_trusted_def pop_last_def sync_sender_def
        sample_submitted_def eff_defs ebind_def) (simp add: sample_od_def build_update_client_on_dst_def
        wait_and_build_update_client_def wait_and_build_update_client_with_trusted_def sample_submitted_def pop_last_def
        eff_defs ebind_def)
  then show ?thesis
    by (simp add: relay_from_operational_data_def MAX_RETRIES_def numeral_eq_Suc on_world_def ezoom_def etry_def
        ebind_def eret_def)
qed

lemma sample_wait: "wait_for_conn_delay (Suc n) sample_env (sample_od None) a b c w = (Ok (sample_od None), w)"
  by (simp add: conn_delay_remaining_def conn_time_delay_remaining_def conn_block_delay_remaining_def eret_def ebind_def)

lemma sample_drain:
  "drain_scheduled (Suc (Suc n)) quiet_path [] sample_state
     = (Ok [], sample_state\<lparr>dst_operational_data := [], world := sample_submitted (world sample_state)\<rparr>)"
  using sample_wait [of 9]
  by (simp add: fetch_scheduled_operational_data_def pop_od_def sample_state_def ebind_def eret_def on_world_def ezoom_def
      sample_sync_relay numeral_eq_Suc del: wait_for_conn_delay.simps)

section \<open>Properties\<close>

text \<open>
  C20: the final loop of the command line relaying ends. From every reachable state it runs at most
  \<open>work s + 1\<close> rounds, where \<open>work\<close> counts each batch for the source chain once and each batch for the destination
  chain \<open>MAX_RETRIES\<close> times: more fuel than that does not change the outcome.
\<close>
theorem drain_terminates:
  assumes "link_reachable p s" "work s < n" "n \<le> m"
  shows "drain_scheduled m p results s = drain_scheduled n p results s"
  using drain_fuel [OF reachable_inv [OF assms(1)] assms(2,3)] .

theorem drain_terminates_witness:
  "link_reachable quiet_path sample_state \<and> work sample_state < 6
   \<and> drain_scheduled 100 quiet_path [] sample_state
     = (Ok [], sample_state\<lparr>dst_operational_data := [], world := sample_submitted (world sample_state)\<rparr>)"
proof -
  have w: "work sample_state < 6" by (simp add: work_def sample_state_def MAX_RETRIES_def)
  have "(6 :: nat) = Suc (Suc 4)" by simp
  from drain_terminates [OF sample_reachable w, of 100 "[]"] sample_drain [of 4, folded this] w sample_reachable
  show ?thesis by simp
qed



end
