(* ===== verification/Background_Task.thy ===== *)
theory Background_Task
  imports Relayer_Util
begin

text \<open>
  \<open>relayer/src/util/task.rs\<close>: a background task calls its step function until it is told to shut down, the
  step asks to abort, or the step fails with a fatal error; an ignorable error is logged and the task goes on.
  A panic of the step ends the thread without setting the flag that reports the task as stopped.

  The step function is a computation over the state that its closure captured. The loop is modelled by one
  iteration, in which the poll of the shutdown channel is an input, and by the states that iterations reach.
  The outcome type of the retry library is here too, for the steps that are driven by it.
\<close>

datatype 'e task_error = Ignore 'e | Fatal 'e

datatype task_next = Continue | Abort

datatype task_status = Running | Stopped | Died

text \<open>\<open>retry::OperationResult\<close> and \<open>retry::Error\<close>.\<close>

datatype ('a, 'e) retry_result = RetryOk 'a | RetryAgain 'e | RetryErr 'e

record 'e retry_error =
  re_error :: 'e
  re_total_delay :: duration
  re_tries :: nat

definition task_iteration ::
  "('s, 'e task_error, task_next) eff \<Rightarrow> ('s \<Rightarrow> 's) \<Rightarrow> bool \<Rightarrow> 's \<Rightarrow> task_status \<times> 's" where
  "task_iteration step pause shutdown s =
     (if shutdown then (Stopped, s)
      else case step s of
        (Ok Continue, s') \<Rightarrow> (Running, pause s')
      | (Ok Abort, s') \<Rightarrow> (Stopped, s')
      | (Err (Ignore e), s') \<Rightarrow> (Running, pause s')
      | (Err (Fatal e), s') \<Rightarrow> (Stopped, s')
      | (Panic, s') \<Rightarrow> (Died, s')
      | (Hang, s') \<Rightarrow> (Running, s'))"

text \<open>A step that has not returned leaves the task running; it has no next iteration.\<close>

inductive task_reaches ::
  "('s, 'e task_error, task_next) eff \<Rightarrow> ('s \<Rightarrow> 's) \<Rightarrow> 's \<Rightarrow> task_status \<Rightarrow> 's \<Rightarrow> bool"
  for step :: "('s, 'e task_error, task_next) eff" and pause :: "'s \<Rightarrow> 's" and s0 :: 's where
  start: "task_reaches step pause s0 Running s0"
| iterate: "task_reaches step pause s0 Running s \<Longrightarrow> (\<And>s'. step s \<noteq> (Hang, s')) \<Longrightarrow>
    task_iteration step pause shutdown s = (st, s') \<Longrightarrow> task_reaches step pause s0 st s'"

text \<open>An invariant of the step function and of the pause holds in every state that the task reaches.\<close>

lemma task_invariant:
  assumes "preserves I step" "\<And>s. I s \<Longrightarrow> I (pause s)" "I s0" "task_reaches step pause s0 st s"
  shows "I s"
  using assms(4)
proof (induction rule: task_reaches.induct)
  case start
  show ?case by (rule assms(3))
next
  case (iterate s shutdown st s')
  obtain r t where r: "step s = (r, t)" by (cases "step s")
  from preservesD [OF assms(1) iterate.IH r] have "I t" .
  with iterate.hyps iterate.IH r assms(2) show ?case
    by (auto simp: task_iteration_def split: if_splits result.splits task_error.splits task_next.splits)
qed

text \<open>A task that has stopped was shut down, asked to abort, or met a fatal error.\<close>

lemma task_stopped:
  assumes "task_reaches step pause s0 Stopped s"
  shows "\<exists>t. task_reaches step pause s0 Running t
     \<and> (t = s \<or> step t = (Ok Abort, s) \<or> (\<exists>e. step t = (Err (Fatal e), s)))"
  using assms
proof (cases rule: task_reaches.cases)
  case (iterate t shutdown)
  then show ?thesis
    by (intro exI [of _ t])
      (auto simp: task_iteration_def split: if_splits prod.splits result.splits task_error.splits task_next.splits)
qed

text \<open>A task dies only by a panic of its step.\<close>

lemma task_died:
  assumes "task_reaches step pause s0 Died s"
  shows "\<exists>t. task_reaches step pause s0 Running t \<and> step t = (Panic, s)"
  using assms
proof (cases rule: task_reaches.cases)
  case (iterate t shutdown)
  then show ?thesis
    by (intro exI [of _ t])
      (auto simp: task_iteration_def split: if_splits prod.splits result.splits task_error.splits task_next.splits)
qed

end
