(* ===== verification/Connection_Handshake.thy ===== *)
theory Connection_Handshake
  imports Link_Base Background_Task
begin

text \<open>
  \<open>relayer/src/connection.rs\<close>: opening a connection between two chains. The structure is that of the channel
  handshake; in addition the client on the source chain is updated before the proofs for a try or an acknowledgement
  are taken, and the driver then waits until the destination chain is past the height that was used.
\<close>

section \<open>Errors and connection objects\<close>

datatype conn_op_error =
    ConnRelayer relayer_error
  | MissingLocalConnectionId
  | MissingCounterpartyConnectionIdField conn_counterparty
  | MissingCounterpartyConnectionId
  | ConnChainQuery chain_id relayer_error
  | ConnectionQuery connection_id relayer_error
  | ConnClientOperation client_id chain_id foreign_client_error
  | ConnSubmit chain_id relayer_error
  | ConnHandshakeFinalize
  | MaxDelayPeriod duration duration
  | ConnInvalidEvent ibc_event
  | ConnTxResponse string
  | ConnectionClientIdMismatch client_id client_id
  | ConnChainIdMismatch chain_id chain_id
  | ConnNotOpen connection_state
  | ConnSupervisor supervisor_error
  | MissingConnectionId chain_id
  | ConnSigner chain_id relayer_error
  | MissingConnectionIdFromEvent
  | MissingConnectionInitEvent
  | MissingConnectionTryEvent
  | MissingConnectionAckEvent
  | MissingConnectionConfirmEvent
  | ConnectionProof relayer_error
  | ConnectionAlreadyExists connection_id
  | ConnMaxRetry nat duration conn_op_error

fun conn_is_expired_or_frozen_error :: "conn_op_error \<Rightarrow> bool" where
  "conn_is_expired_or_frozen_error (ConnClientOperation _ _ e) = is_expired_or_frozen_error e"
| "conn_is_expired_or_frozen_error _ = False"

record 'w connection_side =
  cside_chain :: "'w chain_handle"
  cside_client_id :: client_id
  cside_connection_id :: "connection_id option"

record 'w connection =
  conn_delay :: duration
  conn_a_side :: "'w connection_side"
  conn_b_side :: "'w connection_side"

abbreviation conn_a_chain :: "'w connection \<Rightarrow> 'w chain_handle" where
  "conn_a_chain c \<equiv> cside_chain (conn_a_side c)"

abbreviation conn_b_chain :: "'w connection \<Rightarrow> 'w chain_handle" where
  "conn_b_chain c \<equiv> cside_chain (conn_b_side c)"

definition conn_flipped :: "'w connection \<Rightarrow> 'w connection" where
  "conn_flipped c = \<lparr>conn_delay = conn_delay c, conn_a_side = conn_b_side c, conn_b_side = conn_a_side c\<rparr>"

definition set_a_connection_id :: "connection_id option \<Rightarrow> 'w connection \<Rightarrow> 'w connection" where
  "set_a_connection_id i c = c\<lparr>conn_a_side := (conn_a_side c)\<lparr>cside_connection_id := i\<rparr>\<rparr>"

definition set_b_connection_id :: "connection_id option \<Rightarrow> 'w connection \<Rightarrow> 'w connection" where
  "set_b_connection_id i c = c\<lparr>conn_b_side := (conn_b_side c)\<lparr>cside_connection_id := i\<rparr>\<rparr>"

definition MAX_PACKET_DELAY :: duration where
  "MAX_PACKET_DELAY = from_secs 120"

definition connection_from_event ::
  "'w chain_handle \<Rightarrow> 'w chain_handle \<Rightarrow> ibc_event \<Rightarrow> (conn_op_error, 'w connection) result" where
  "connection_from_event chain counterparty ev =
     rbind (ok_or (ConnInvalidEvent ev) (event_connection_attributes ev)) (\<lambda>attrs.
       Ok \<lparr>conn_delay = 0,
         conn_a_side = \<lparr>cside_chain = chain, cside_client_id = na_client_id attrs,
           cside_connection_id = na_connection_id attrs\<rparr>,
         conn_b_side = \<lparr>cside_chain = counterparty, cside_client_id = na_counterparty_client_id attrs,
           cside_connection_id = na_counterparty_connection_id attrs\<rparr>\<rparr>)"

text \<open>The first connection of the counterparty for the same client whose remote connection is the given one.\<close>

definition connection_with_remote :: "client_id \<Rightarrow> connection_id \<Rightarrow> identified_connection_end list \<Rightarrow> connection_id option" where
  "connection_with_remote client i conns = map_option ice_connection_id
     (List.find (\<lambda>co. conn_client_id (ice_connection_end co) = client
        \<and> cc_connection_id (conn_counterparty (ice_connection_end co)) = Some i) conns)"

definition connection_from_state ::
  "'w chain_handle \<Rightarrow> 'w chain_handle \<Rightarrow> connection_id \<Rightarrow> height
    \<Rightarrow> ('w, conn_op_error, 'w connection \<times> connection_state) eff" where
  "connection_from_state chain counterparty i h =
     ebind (emap_err ConnRelayer (query_connection chain i (Specific h))) (\<lambda>a_conn.
       let cp = conn_counterparty a_conn;
           c = \<lparr>conn_delay = conn_delay_period a_conn,
             conn_a_side = \<lparr>cside_chain = chain, cside_client_id = conn_client_id a_conn, cside_connection_id = Some i\<rparr>,
             conn_b_side = \<lparr>cside_chain = counterparty, cside_client_id = cc_client_id cp,
               cside_connection_id = cc_connection_id cp\<rparr>\<rparr> in
       if connection_state_matches a_conn ConnInit \<and> cc_connection_id cp = None then
         ebind (emap_err ConnRelayer (query_connections counterparty)) (\<lambda>conns.
           eret (case connection_with_remote (cc_client_id cp) i conns of
                   Some j \<Rightarrow> set_b_connection_id (Some j) c
                 | None \<Rightarrow> c, conn_state a_conn))
       else eret (c, conn_state a_conn))"

definition validate_clients :: "'w foreign_client \<Rightarrow> 'w foreign_client \<Rightarrow> (conn_op_error, unit) result" where
  "validate_clients a b =
     (if chain_id (fc_src_chain a) \<noteq> chain_id (fc_dst_chain b)
      then Err (ConnChainIdMismatch (chain_id (fc_src_chain a)) (chain_id (fc_dst_chain b)))
      else if chain_id (fc_dst_chain a) \<noteq> chain_id (fc_src_chain b)
      then Err (ConnChainIdMismatch (chain_id (fc_dst_chain a)) (chain_id (fc_src_chain b)))
      else Ok ())"

definition connection_find ::
  "'w foreign_client \<Rightarrow> 'w foreign_client \<Rightarrow> identified_connection_end \<Rightarrow> (conn_op_error, 'w connection) result" where
  "connection_find a b conn_end =
     rbind (validate_clients a b) (\<lambda>_.
       let e = ice_connection_end conn_end in
       if conn_client_id e \<noteq> fc_id a then Err (ConnectionClientIdMismatch (conn_client_id e) (fc_id a))
       else if cc_client_id (conn_counterparty e) \<noteq> fc_id b
       then Err (ConnectionClientIdMismatch (cc_client_id (conn_counterparty e)) (fc_id b))
       else if \<not> connection_state_matches e ConnOpen then Err (ConnNotOpen (conn_state e))
       else rbind (ok_or (MissingCounterpartyConnectionIdField (conn_counterparty e))
                     (cc_connection_id (conn_counterparty e))) (\<lambda>b_id.
         Ok \<lparr>conn_delay = conn_delay_period e,
           conn_a_side = \<lparr>cside_chain = fc_dst_chain a, cside_client_id = fc_id a,
             cside_connection_id = Some (ice_connection_id conn_end)\<rparr>,
           conn_b_side = \<lparr>cside_chain = fc_dst_chain b, cside_client_id = fc_id b, cside_connection_id = Some b_id\<rparr>\<rparr>))"

definition query_side_connection ::
  "'w connection_side \<Rightarrow> connection_id option \<Rightarrow> ('w, conn_op_error, connection_end) eff" where
  "query_side_connection side i = (case i of
       Some i \<Rightarrow> emap_err (ConnChainQuery (chain_id (cside_chain side))) (query_connection (cside_chain side) i Latest)
     | None \<Rightarrow> eret connection_end_default)"

definition conn_max_block_times :: "'w connection \<Rightarrow> ('w, conn_op_error, duration) eff" where
  "conn_max_block_times c =
     ebind (emap_err ConnRelayer (config (conn_a_chain c))) (\<lambda>a.
     ebind (emap_err ConnRelayer (config (conn_b_chain c))) (\<lambda>b.
       eret (max (max_block_time a) (max_block_time b))))"

section \<open>Messages\<close>

definition conn_query_latest :: "'w chain_handle \<Rightarrow> ('w, conn_op_error, height) eff" where
  "conn_query_latest chain = emap_err (ConnChainQuery (chain_id chain)) (query_latest_height chain)"

definition conn_update_client_on_src :: "'w env \<Rightarrow> 'w connection \<Rightarrow> height \<Rightarrow> ('w, conn_op_error, ibc_msg list) eff" where
  "conn_update_client_on_src env c h =
     emap_err (ConnClientOperation (cside_client_id (conn_a_side c)) (chain_id (conn_a_chain c)))
       (wait_and_build_update_client env
          (foreign_client_restore (cside_client_id (conn_a_side c)) (conn_a_chain c) (conn_b_chain c)) h)"

definition conn_update_client_on_dst :: "'w env \<Rightarrow> 'w connection \<Rightarrow> height \<Rightarrow> ('w, conn_op_error, ibc_msg list) eff" where
  "conn_update_client_on_dst env c h =
     emap_err (ConnClientOperation (cside_client_id (conn_b_side c)) (chain_id (conn_b_chain c)))
       (wait_and_build_update_client env
          (foreign_client_restore (cside_client_id (conn_b_side c)) (conn_b_chain c) (conn_a_chain c)) h)"

definition conn_dst_signer :: "'w connection \<Rightarrow> ('w, conn_op_error, signer) eff" where
  "conn_dst_signer c = emap_err (ConnSigner (chain_id (conn_b_chain c))) (get_signer (conn_b_chain c))"

definition conn_src_prefix :: "'w connection \<Rightarrow> ('w, conn_op_error, commitment_prefix) eff" where
  "conn_src_prefix c = emap_err (ConnChainQuery (chain_id (conn_a_chain c))) (query_commitment_prefix (conn_a_chain c))"

definition conn_versions_of :: "'w chain_handle \<Rightarrow> ('w, conn_op_error, conn_version list) eff" where
  "conn_versions_of chain = emap_err (ConnChainQuery (chain_id chain)) (query_compatible_versions chain)"

definition check_destination_connection_state ::
  "connection_id \<Rightarrow> connection_end \<Rightarrow> connection_end \<Rightarrow> (conn_op_error, unit) result" where
  "check_destination_connection_state i existing expected =
     (let good_client_ids = (conn_client_id existing = conn_client_id expected
            \<and> cc_client_id (conn_counterparty existing) = cc_client_id (conn_counterparty expected));
          good_state = connection_state_as_i32 (conn_state existing) \<le> connection_state_as_i32 (conn_state expected);
          good_connection_ids = (cc_connection_id (conn_counterparty existing) = None
            \<or> cc_connection_id (conn_counterparty existing) = cc_connection_id (conn_counterparty expected));
          good_version = conn_versions existing = conn_versions expected;
          good_counterparty_prefix = cc_prefix (conn_counterparty existing) = cc_prefix (conn_counterparty expected) in
      if good_state \<and> good_client_ids \<and> good_connection_ids \<and> good_version \<and> good_counterparty_prefix then Ok ()
      else Err (ConnectionAlreadyExists i))"

fun conn_highest_state :: "connection_msg_type \<Rightarrow> connection_state" where
  "conn_highest_state ConnMsgOpenAck = ConnTryOpen"
| "conn_highest_state ConnMsgOpenConfirm = ConnTryOpen"
| "conn_highest_state ConnMsgOpenTry = ConnUninitialized"

definition validated_expected_connection ::
  "'w connection \<Rightarrow> connection_msg_type \<Rightarrow> ('w, conn_op_error, connection_end) eff" where
  "validated_expected_connection c msg_type =
     ebind (eresult (ok_or MissingCounterpartyConnectionId (cside_connection_id (conn_b_side c)))) (\<lambda>dst_id.
     ebind (conn_src_prefix c) (\<lambda>prefix.
     ebind (conn_versions_of (conn_a_chain c)) (\<lambda>versions.
       let expected = \<lparr>conn_state = conn_highest_state msg_type, conn_client_id = cside_client_id (conn_b_side c),
         conn_counterparty = \<lparr>cc_client_id = cside_client_id (conn_a_side c),
           cc_connection_id = cside_connection_id (conn_a_side c), cc_prefix = prefix\<rparr>,
         conn_versions = versions, conn_delay_period = 0\<rparr> in
       ebind (emap_err (ConnChainQuery (chain_id (conn_b_chain c))) (query_connection (conn_b_chain c) dst_id Latest)) (\<lambda>dst_conn.
         if connection_state_matches dst_conn ConnUninitialized then ethrow (MissingConnectionId (chain_id (conn_b_chain c)))
         else ebind (eresult (check_destination_connection_state dst_id dst_conn expected)) (\<lambda>_. eret expected)))))"

text \<open>The first compatible version is taken by index: an empty list panics.\<close>

definition build_conn_init :: "'w connection \<Rightarrow> ('w, conn_op_error, ibc_msg list) eff" where
  "build_conn_init c =
     ebind (conn_dst_signer c) (\<lambda>signer.
     ebind (conn_src_prefix c) (\<lambda>prefix.
     ebind (conn_versions_of (conn_b_chain c)) (\<lambda>versions. case versions of
       [] \<Rightarrow> epanic
     | v # _ \<Rightarrow> eret [MsgConnectionOpenInit (cside_client_id (conn_b_side c))
         \<lparr>cc_client_id = cside_client_id (conn_a_side c), cc_connection_id = None, cc_prefix = prefix\<rparr>
         (Some v) (conn_delay c) signer])))"

text \<open>The client on the source chain is updated to the latest height of the destination chain and the update is
  committed before the proofs are built.\<close>

definition conn_proofs_after_update ::
  "'w env \<Rightarrow> 'w connection \<Rightarrow> connection_msg_type \<Rightarrow> connection_id
    \<Rightarrow> ('w, conn_op_error, height \<times> any_client_state option \<times> proofs \<times> ibc_msg list) eff" where
  "conn_proofs_after_update env c msg_type src_id =
     ebind (conn_query_latest (conn_b_chain c)) (\<lambda>target.
     ebind (conn_update_client_on_src env c target) (\<lambda>client_msgs.
     ebind (emap_err (ConnSubmit (chain_id (conn_a_chain c)))
              (send_messages_and_wait_commit (conn_a_chain c) (tracked_msgs_new client_msgs
                 (Static (if msg_type = ConnMsgOpenTry then ''update client on source for ConnectionOpenTry''
                          else ''update client on source for ConnectionOpenAck''))))) (\<lambda>_.
     ebind (conn_query_latest (conn_a_chain c)) (\<lambda>h.
     ebind (emap_err ConnectionProof (build_connection_proofs_and_client_state (conn_a_chain c) msg_type src_id
              (cside_client_id (conn_a_side c)) h)) (\<lambda>(client_state, proofs).
     ebind (conn_update_client_on_dst env c (proof_height proofs)) (\<lambda>msgs.
       eret (target, client_state, proofs, msgs)))))))"

definition build_conn_try :: "'w env \<Rightarrow> 'w connection \<Rightarrow> ('w, conn_op_error, ibc_msg list \<times> height) eff" where
  "build_conn_try env c =
     ebind (eresult (ok_or MissingLocalConnectionId (cside_connection_id (conn_a_side c)))) (\<lambda>src_id.
     ebind (emap_err (ConnChainQuery (chain_id (conn_a_chain c))) (query_connection (conn_a_chain c) src_id Latest)) (\<lambda>src_conn.
     ebind (conn_proofs_after_update env c ConnMsgOpenTry src_id) (\<lambda>(target, client_state, proofs, msgs).
     ebind (if conn_versions src_conn = [] then conn_versions_of (conn_a_chain c) else eret (conn_versions src_conn)) (\<lambda>versions.
     ebind (conn_dst_signer c) (\<lambda>signer.
     ebind (conn_src_prefix c) (\<lambda>prefix.
       eret (msgs @ [MsgConnectionOpenTry (cside_client_id (conn_b_side c)) client_state
         (case cc_connection_id (conn_counterparty src_conn) of
            None \<Rightarrow> cside_connection_id (conn_b_side c) | Some i \<Rightarrow> Some i)
         \<lparr>cc_client_id = cside_client_id (conn_a_side c), cc_connection_id = cside_connection_id (conn_a_side c), cc_prefix = prefix\<rparr>
         versions proofs
         (if conn_delay_period src_conn \<noteq> conn_delay c then conn_delay_period src_conn else conn_delay c)
         signer], target)))))))"

text \<open>The version of the acknowledgement is the first one of the source end, taken by index.\<close>

definition build_conn_ack :: "'w env \<Rightarrow> 'w connection \<Rightarrow> ('w, conn_op_error, ibc_msg list \<times> height) eff" where
  "build_conn_ack env c =
     ebind (eresult (ok_or MissingLocalConnectionId (cside_connection_id (conn_a_side c)))) (\<lambda>src_id.
     ebind (eresult (ok_or MissingCounterpartyConnectionId (cside_connection_id (conn_b_side c)))) (\<lambda>dst_id.
     ebind (validated_expected_connection c ConnMsgOpenAck) (\<lambda>_.
     ebind (emap_err (ConnChainQuery (chain_id (conn_a_chain c))) (query_connection (conn_a_chain c) src_id Latest)) (\<lambda>src_conn.
     ebind (conn_proofs_after_update env c ConnMsgOpenAck src_id) (\<lambda>(target, client_state, proofs, msgs).
     ebind (conn_dst_signer c) (\<lambda>signer.
       case conn_versions src_conn of
         [] \<Rightarrow> epanic
       | v # _ \<Rightarrow> eret (msgs @ [MsgConnectionOpenAck dst_id src_id client_state proofs v signer], target)))))))"

text \<open>The destination is validated with the message type of an acknowledgement here too.\<close>

definition build_conn_confirm :: "'w env \<Rightarrow> 'w connection \<Rightarrow> ('w, conn_op_error, ibc_msg list) eff" where
  "build_conn_confirm env c =
     ebind (eresult (ok_or MissingLocalConnectionId (cside_connection_id (conn_a_side c)))) (\<lambda>src_id.
     ebind (eresult (ok_or MissingCounterpartyConnectionId (cside_connection_id (conn_b_side c)))) (\<lambda>dst_id.
     ebind (validated_expected_connection c ConnMsgOpenAck) (\<lambda>_.
     ebind (conn_query_latest (conn_a_chain c)) (\<lambda>h.
     ebind (emap_err (ConnectionQuery src_id) (query_connection (conn_a_chain c) src_id (Specific h))) (\<lambda>_.
     ebind (emap_err ConnectionProof (build_connection_proofs_and_client_state (conn_a_chain c) ConnMsgOpenConfirm src_id
              (cside_client_id (conn_a_side c)) h)) (\<lambda>(_, proofs).
     ebind (conn_update_client_on_dst env c (proof_height proofs)) (\<lambda>msgs.
     ebind (conn_dst_signer c) (\<lambda>signer.
       eret (msgs @ [MsgConnectionOpenConfirm dst_id proofs signer])))))))))"

section \<open>Submission\<close>

text \<open>The loop that waits for the destination chain polls it with the fuel of the environment. Its query errors are
  reported with the identifier of the source chain.\<close>

fun wait_dest_height :: "nat \<Rightarrow> 'w env \<Rightarrow> 'w connection \<Rightarrow> height \<Rightarrow> ('w, conn_op_error, unit) eff" where
  "wait_dest_height 0 env c h = ehang"
| "wait_dest_height (Suc n) env c h =
     ebind (emap_err (ConnChainQuery (chain_id (conn_a_chain c))) (query_latest_height (conn_b_chain c))) (\<lambda>latest.
       if latest \<le> h then ebind (thread_sleep env (from_millis 500)) (\<lambda>_. wait_dest_height n env c h)
       else eret ())"

definition wait_for_dest_app_height :: "'w env \<Rightarrow> 'w connection \<Rightarrow> height \<Rightarrow> ('w, conn_op_error, unit) eff" where
  "wait_for_dest_app_height env c h =
     ebind (etry (config (conn_a_chain c))) (\<lambda>cfg. case cfg of
       Inr AxonConfig \<Rightarrow> eret ()
     | Inr Ckb4IbcConfig \<Rightarrow> eret ()
     | _ \<Rightarrow> wait_dest_height (wait_fuel env) env c h)"

text \<open>In both handshakes the first event of the expected kind or chain error decides about a submission.\<close>

definition pick_event ::
  "(ibc_event \<Rightarrow> bool) \<Rightarrow> 'e \<Rightarrow> (string \<Rightarrow> 'e) \<Rightarrow> (ibc_event \<Rightarrow> 'e) \<Rightarrow> ibc_event_with_height list \<Rightarrow> ('e, ibc_event) result" where
  "pick_event expected missing tx_response invalid events =
     (case List.find (\<lambda>e. expected (event e) \<or> is_chain_error (event e)) events of
        None \<Rightarrow> Err missing
      | Some e \<Rightarrow>
          if expected (event e) then Ok (event e)
          else (case event e of ChainError reason \<Rightarrow> Err (tx_response reason) | ev \<Rightarrow> Err (invalid ev)))"

lemma pick_event_Ok:
  assumes "pick_event expected missing tx_response invalid events = Ok ev"
  shows "expected ev \<and> ev \<in> event ` set events"
proof -
  from assms obtain e where e: "List.find (\<lambda>e. expected (event e) \<or> is_chain_error (event e)) events = Some e"
    by (auto simp: pick_event_def split: option.splits)
  with assms have "expected ev" "ev = event e"
    by (cases "expected (event e)"; cases "event e"; simp add: pick_event_def)+
  moreover from e have "e \<in> set events" by (auto simp: find_Some_iff)
  ultimately show ?thesis by blast
qed

definition conn_send ::
  "'w connection \<Rightarrow> string \<Rightarrow> (ibc_event \<Rightarrow> bool) \<Rightarrow> conn_op_error \<Rightarrow> ibc_msg list \<Rightarrow> ('w, conn_op_error, ibc_event) eff" where
  "conn_send c tag expected missing msgs =
     ebind (emap_err (ConnSubmit (chain_id (conn_b_chain c)))
              (send_messages_and_wait_commit (conn_b_chain c) (tracked_msgs_new msgs (Static tag)))) (\<lambda>events.
       eresult (pick_event expected missing ConnTxResponse ConnInvalidEvent events))"

definition build_conn_init_and_send :: "'w connection \<Rightarrow> ('w, conn_op_error, ibc_event) eff" where
  "build_conn_init_and_send c =
     ebind (build_conn_init c) (conn_send c ''ConnectionOpenInit'' (\<lambda>e. case e of OpenInitConnection _ \<Rightarrow> True | _ \<Rightarrow> False)
       MissingConnectionInitEvent)"

definition build_conn_try_and_send :: "'w env \<Rightarrow> 'w connection \<Rightarrow> ('w, conn_op_error, ibc_event) eff" where
  "build_conn_try_and_send env c =
     ebind (build_conn_try env c) (\<lambda>(msgs, target).
     ebind (wait_for_dest_app_height env c target) (\<lambda>_.
       conn_send c ''ConnectionOpenTry'' (\<lambda>e. case e of OpenTryConnection _ \<Rightarrow> True | _ \<Rightarrow> False) MissingConnectionTryEvent msgs))"

definition build_conn_ack_and_send :: "'w env \<Rightarrow> 'w connection \<Rightarrow> ('w, conn_op_error, ibc_event) eff" where
  "build_conn_ack_and_send env c =
     ebind (build_conn_ack env c) (\<lambda>(msgs, target).
     ebind (wait_for_dest_app_height env c target) (\<lambda>_.
       conn_send c ''ConnectionOpenAck'' (\<lambda>e. case e of OpenAckConnection _ \<Rightarrow> True | _ \<Rightarrow> False) MissingConnectionAckEvent msgs))"

definition build_conn_confirm_and_send :: "'w env \<Rightarrow> 'w connection \<Rightarrow> ('w, conn_op_error, ibc_event) eff" where
  "build_conn_confirm_and_send env c =
     ebind (build_conn_confirm env c)
       (conn_send c ''ConnectionOpenConfirm'' (\<lambda>e. case e of OpenConfirmConnection _ \<Rightarrow> True | _ \<Rightarrow> False)
          MissingConnectionConfirmEvent)"

definition extract_connection_id :: "ibc_event \<Rightarrow> (conn_op_error, connection_id) result" where
  "extract_connection_id ev = ok_or MissingConnectionIdFromEvent
     (case event_connection_attributes ev of Some attrs \<Rightarrow> na_connection_id attrs | None \<Rightarrow> None)"

section \<open>The driver\<close>

type_synonym ('w, 'a) conn_op = "('w connection \<times> 'w, conn_op_error, 'a) eff"

definition on_conn_world :: "('w connection \<Rightarrow> ('w, conn_op_error, 'a) eff) \<Rightarrow> ('w, 'a) conn_op" where
  "on_conn_world f = (\<lambda>(c, w). case f c w of (r, w') \<Rightarrow> (r, (c, w')))"

definition modify_conn :: "('w connection \<Rightarrow> 'w connection) \<Rightarrow> ('w, unit) conn_op" where
  "modify_conn f = (\<lambda>(c, w). (Ok (), (f c, w)))"

definition correct_b_conn_id :: "connection_id option \<Rightarrow> connection_id option \<Rightarrow> ('w, unit) conn_op" where
  "correct_b_conn_id a_counterparty_id relayer_b_id =
     (if a_counterparty_id \<noteq> None \<and> a_counterparty_id \<noteq> relayer_b_id
      then modify_conn (set_b_connection_id a_counterparty_id) else eret ())"

definition correct_a_conn_id ::
  "connection_id option \<Rightarrow> connection_id option \<Rightarrow> connection_id option \<Rightarrow> connection_id option \<Rightarrow> ('w, unit) conn_op" where
  "correct_a_conn_id b_counterparty_id relayer_a_id relayer_b_id updated_b_id =
     (if b_counterparty_id \<noteq> None \<and> b_counterparty_id \<noteq> relayer_a_id then
        (if updated_b_id = relayer_b_id then modify_conn (set_a_connection_id b_counterparty_id) else epanic)
      else eret ())"

definition update_connection_and_query_states :: "('w, connection_state \<times> connection_state) conn_op" where
  "update_connection_and_query_states =
     ebind (eget (\<lambda>s. cside_connection_id (conn_a_side (fst s)))) (\<lambda>relayer_a_id.
     ebind (eget (\<lambda>s. cside_connection_id (conn_b_side (fst s)))) (\<lambda>relayer_b_id.
     ebind (on_conn_world (\<lambda>c. query_side_connection (conn_a_side c) relayer_a_id)) (\<lambda>a_conn.
     ebind (correct_b_conn_id (cc_connection_id (conn_counterparty a_conn)) relayer_b_id) (\<lambda>_.
     ebind (eget (\<lambda>s. cside_connection_id (conn_b_side (fst s)))) (\<lambda>updated_b_id.
     ebind (on_conn_world (\<lambda>c. query_side_connection (conn_b_side c) updated_b_id)) (\<lambda>b_conn.
     ebind (correct_a_conn_id (cc_connection_id (conn_counterparty b_conn)) relayer_a_id relayer_b_id updated_b_id) (\<lambda>_.
       eret (conn_state a_conn, conn_state b_conn))))))))"

definition do_conn_open_handshake :: "'w env \<Rightarrow> ('w, unit) conn_op" where
  "do_conn_open_handshake env =
     ebind update_connection_and_query_states (\<lambda>states. case states of
       (ConnUninitialized, ConnUninitialized) \<Rightarrow>
         ebind (on_conn_world (\<lambda>c. build_conn_init_and_send (conn_flipped c))) (\<lambda>ev.
         ebind (eresult (extract_connection_id ev)) (\<lambda>i.
         ebind (modify_conn (set_a_connection_id (Some i))) (\<lambda>_. ethrow ConnHandshakeFinalize)))
     | (ConnUninitialized, ConnInit) \<Rightarrow>
         ebind (on_conn_world (\<lambda>c. build_conn_try_and_send env (conn_flipped c))) (\<lambda>ev.
         ebind (eresult (extract_connection_id ev)) (\<lambda>i.
         ebind (modify_conn (set_a_connection_id (Some i))) (\<lambda>_. ethrow ConnHandshakeFinalize)))
     | (ConnInit, ConnInit) \<Rightarrow>
         ebind (on_conn_world (\<lambda>c. build_conn_try_and_send env (conn_flipped c))) (\<lambda>ev.
         ebind (eresult (extract_connection_id ev)) (\<lambda>i.
         ebind (modify_conn (set_a_connection_id (Some i))) (\<lambda>_. ethrow ConnHandshakeFinalize)))
     | (ConnInit, ConnUninitialized) \<Rightarrow>
         ebind (on_conn_world (build_conn_try_and_send env)) (\<lambda>ev.
         ebind (eresult (extract_connection_id ev)) (\<lambda>i.
         ebind (modify_conn (set_b_connection_id (Some i))) (\<lambda>_. ethrow ConnHandshakeFinalize)))
     | (ConnInit, ConnTryOpen) \<Rightarrow>
         ebind (on_conn_world (\<lambda>c. build_conn_ack_and_send env (conn_flipped c))) (\<lambda>_. ethrow ConnHandshakeFinalize)
     | (ConnTryOpen, ConnTryOpen) \<Rightarrow>
         ebind (on_conn_world (\<lambda>c. build_conn_ack_and_send env (conn_flipped c))) (\<lambda>_. ethrow ConnHandshakeFinalize)
     | (ConnTryOpen, ConnInit) \<Rightarrow>
         ebind (on_conn_world (build_conn_ack_and_send env)) (\<lambda>_. ethrow ConnHandshakeFinalize)
     | (ConnOpen, ConnTryOpen) \<Rightarrow>
         ebind (on_conn_world (build_conn_confirm_and_send env)) (\<lambda>_. ethrow ConnHandshakeFinalize)
     | (ConnTryOpen, ConnOpen) \<Rightarrow>
         ebind (on_conn_world (\<lambda>c. build_conn_confirm_and_send env (conn_flipped c))) (\<lambda>_. ethrow ConnHandshakeFinalize)
     | (ConnOpen, ConnOpen) \<Rightarrow> eret ()
     | _ \<Rightarrow> ethrow ConnHandshakeFinalize)"

text \<open>\<open>handshake_retry::default_strategy\<close>, the same for connections and channels. The fuel is more than the total delay, so
  it is enough for every positive delay between two attempts; a delay of zero makes the iterator endless.\<close>

definition handshake_strategy :: "duration \<Rightarrow> (unit, duration list) result" where
  "handshake_strategy max_block_times =
     (let retry_delay = max_block_times div 10 in
      if max_block_times * 10 > DURATION_MAX then Panic
      else clamp_total (max_block_times * 10 + 1) \<lparr>cg_delay = retry_delay, cg_incr = 0\<rparr> retry_delay (max_block_times * 10))"

text \<open>\<open>retry_with_index\<close> of the retry library: given the delays and an operation on the captured state, it returns the
  value of an attempt that succeeded or the error of the last attempt.\<close>

type_synonym ('s, 'a, 'e) retrier =
  "duration list \<Rightarrow> (nat \<Rightarrow> ('s, 'e retry_error, ('a, 'e) retry_result) eff) \<Rightarrow> ('s, 'e retry_error, 'a) eff"

definition conn_from_retry_error :: "conn_op_error retry_error \<Rightarrow> conn_op_error" where
  "conn_from_retry_error e = ConnMaxRetry (re_tries e) (re_total_delay e) (re_error e)"

definition conn_handshake_attempt ::
  "'w env \<Rightarrow> nat \<Rightarrow> ('w connection \<times> 'w, conn_op_error retry_error, (unit, conn_op_error) retry_result) eff" where
  "conn_handshake_attempt env index =
     ebind (etry (do_conn_open_handshake env)) (\<lambda>r. eret (case r of
       Inl e \<Rightarrow> if conn_is_expired_or_frozen_error e then RetryErr e else RetryAgain e
     | Inr _ \<Rightarrow> RetryOk ()))"

definition conn_handshake :: "('w connection \<times> 'w, unit, conn_op_error) retrier \<Rightarrow> 'w env \<Rightarrow> ('w, unit) conn_op" where
  "conn_handshake retry env =
     ebind (on_conn_world conn_max_block_times) (\<lambda>m.
     ebind (eresult (map_err (\<lambda>_. ConnHandshakeFinalize) (handshake_strategy m))) (\<lambda>delays.
       emap_err conn_from_retry_error (retry delays (conn_handshake_attempt env))))"

definition connection_new ::
  "('w connection \<times> 'w, unit, conn_op_error) retrier \<Rightarrow> 'w env \<Rightarrow> 'w foreign_client \<Rightarrow> 'w foreign_client \<Rightarrow> duration
    \<Rightarrow> ('w, conn_op_error, 'w connection) eff" where
  "connection_new retry env b_to_a a_to_b delay_period =
     ebind (eresult (validate_clients b_to_a a_to_b)) (\<lambda>_.
       if delay_period > MAX_PACKET_DELAY then ethrow (MaxDelayPeriod delay_period MAX_PACKET_DELAY)
       else (\<lambda>w. case conn_handshake retry env
         (\<lparr>conn_delay = delay_period,
           conn_a_side = \<lparr>cside_chain = fc_dst_chain b_to_a, cside_client_id = fc_id b_to_a, cside_connection_id = None\<rparr>,
           conn_b_side = \<lparr>cside_chain = fc_dst_chain a_to_b, cside_client_id = fc_id a_to_b, cside_connection_id = None\<rparr>\<rparr>, w) of
         (r, (c, w')) \<Rightarrow> (map_ok (\<lambda>_. c) r, w')))"

section \<open>Single steps\<close>

definition conn_counterparty_state :: "'w connection \<Rightarrow> ('w, conn_op_error, connection_state) eff" where
  "conn_counterparty_state c =
     ebind (eresult (ok_or MissingLocalConnectionId (cside_connection_id (conn_a_side c)))) (\<lambda>i.
     ebind (emap_err (ConnectionQuery i) (query_connection (conn_a_chain c) i Latest)) (\<lambda>e.
       emap_err ConnSupervisor (connection_state_on_destination \<lparr>ice_connection_id = i, ice_connection_end = e\<rparr> (conn_b_chain c))))"

definition conn_step_message ::
  "'w env \<Rightarrow> 'w connection \<Rightarrow> connection_state \<Rightarrow> connection_state \<Rightarrow> ('w, conn_op_error, ibc_event option \<times> bool) eff" where
  "conn_step_message env c state counterparty =
     (let send = (\<lambda>m. ebind m (\<lambda>ev. eret (Some ev, False))) in
      case (state, counterparty) of
        (ConnInit, ConnUninitialized) \<Rightarrow> send (build_conn_try_and_send env c)
      | (ConnInit, ConnInit) \<Rightarrow> send (build_conn_try_and_send env c)
      | (ConnTryOpen, ConnInit) \<Rightarrow> send (build_conn_ack_and_send env c)
      | (ConnTryOpen, ConnTryOpen) \<Rightarrow> send (build_conn_ack_and_send env c)
      | (ConnOpen, ConnTryOpen) \<Rightarrow> send (build_conn_confirm_and_send env c)
      | (ConnOpen, ConnOpen) \<Rightarrow> eret (None, True)
      | (ConnTryOpen, ConnOpen) \<Rightarrow> eret (None, True)
      | _ \<Rightarrow> eret (None, False))"

definition conn_handshake_step ::
  "'w env \<Rightarrow> 'w connection \<Rightarrow> connection_state \<Rightarrow> ('w, conn_op_error, ibc_event option \<times> task_next) eff" where
  "conn_handshake_step env c state =
     ebind (conn_counterparty_state c) (\<lambda>counterparty.
     ebind (conn_step_message env c state counterparty) (\<lambda>(ev, finished).
       eret (ev, if finished then Abort else case ev of
           Some (OpenConfirmConnection _) \<Rightarrow> Abort
         | Some (OpenAckConnection _) \<Rightarrow> Abort
         | _ \<Rightarrow> Continue)))"

definition conn_step_state ::
  "'w env \<Rightarrow> 'w connection \<Rightarrow> connection_state \<Rightarrow> nat \<Rightarrow> ('w, 'e, (task_next, nat) retry_result) eff" where
  "conn_step_state env c state index =
     ebind (etry (conn_handshake_step env c state)) (\<lambda>r. eret (case r of
       Inl e \<Rightarrow> if conn_is_expired_or_frozen_error e then RetryErr index else RetryAgain index
     | Inr (_, nxt) \<Rightarrow> RetryOk nxt))"

fun event_connection_state :: "ibc_event \<Rightarrow> connection_state" where
  "event_connection_state (OpenInitConnection _) = ConnInit"
| "event_connection_state (OpenTryConnection _) = ConnTryOpen"
| "event_connection_state (OpenAckConnection _) = ConnOpen"
| "event_connection_state (OpenConfirmConnection _) = ConnOpen"
| "event_connection_state _ = ConnUninitialized"

definition conn_step_event ::
  "'w env \<Rightarrow> 'w connection \<Rightarrow> ibc_event \<Rightarrow> nat \<Rightarrow> ('w, 'e, (task_next, nat) retry_result) eff" where
  "conn_step_event env c ev index = conn_step_state env c (event_connection_state ev) index"

end
