(* ===== verification/Channel_Handshake.thy ===== *)
theory Channel_Handshake
  imports Connection_Handshake
begin

text \<open>
  \<open>relayer/src/channel.rs\<close>: opening and closing a channel between two chains. The driver asks both chains for the
  states of the channel ends, corrects its own identifiers from what it sees, and sends the message
  that the two states call for, until both ends are open; the worker performs single steps in reply to events.
  A channel object is mutated only by its driver, so the state of the driver is the channel with the world.
  The library that repeats a failing operation is a parameter.
\<close>

section \<open>Channel objects\<close>

abbreviation a_chain :: "'w channel \<Rightarrow> 'w chain_handle" where
  "a_chain c \<equiv> side_chain (chan_a_side c)"

abbreviation b_chain :: "'w channel \<Rightarrow> 'w chain_handle" where
  "b_chain c \<equiv> side_chain (chan_b_side c)"

definition channel_side_new ::
  "'w chain_handle \<Rightarrow> client_id \<Rightarrow> connection_id \<Rightarrow> port_id \<Rightarrow> channel_id option \<Rightarrow> version option \<Rightarrow> 'w channel_side" where
  "channel_side_new chain client conn port chan v = \<lparr>side_chain = chain, side_client_id = client, side_connection_id = conn,
     side_port_id = port, side_channel_id = chan, side_version = v\<rparr>"

definition flipped :: "'w channel \<Rightarrow> 'w channel" where
  "flipped c = \<lparr>chan_ordering = chan_ordering c, chan_a_side = chan_b_side c, chan_b_side = chan_a_side c,
     chan_connection_delay = chan_connection_delay c\<rparr>"

definition set_a_channel_id :: "channel_id option \<Rightarrow> 'w channel \<Rightarrow> 'w channel" where
  "set_a_channel_id i c = c\<lparr>chan_a_side := (chan_a_side c)\<lparr>side_channel_id := i\<rparr>\<rparr>"

definition set_b_channel_id :: "channel_id option \<Rightarrow> 'w channel \<Rightarrow> 'w channel" where
  "set_b_channel_id i c = c\<lparr>chan_b_side := (chan_b_side c)\<lparr>side_channel_id := i\<rparr>\<rparr>"

definition channel_from_event ::
  "'w chain_handle \<Rightarrow> 'w chain_handle \<Rightarrow> ibc_event \<Rightarrow> ('w, channel_op_error, 'w channel) eff" where
  "channel_from_event chain counterparty ev =
     ebind (eresult (ok_or (ChanInvalidEvent ev) (event_channel_attributes ev))) (\<lambda>attrs.
     ebind (emap_err ChanRelayer (query_connection chain (ha_connection_id attrs) Latest)) (\<lambda>conn.
     ebind (eresult (ok_or MissingCounterpartyConnection (cc_connection_id (conn_counterparty conn)))) (\<lambda>cp_conn.
       eret \<lparr>chan_ordering = Unordered,
         chan_a_side = channel_side_new chain (conn_client_id conn) (ha_connection_id attrs) (ha_port_id attrs)
           (ha_channel_id attrs) None,
         chan_b_side = channel_side_new counterparty (cc_client_id (conn_counterparty conn)) cp_conn
           (ha_counterparty_port_id attrs) (ha_counterparty_channel_id attrs) None,
         chan_connection_delay = conn_delay_period conn\<rparr>)))"

text \<open>The first channel of the counterparty whose remote channel is the given one.\<close>

definition channel_with_remote :: "channel_id \<Rightarrow> identified_channel_end list \<Rightarrow> channel_id option" where
  "channel_with_remote i chans = map_option ic_channel_id
     (List.find (\<lambda>ch. cp_channel_id (ch_remote (ic_channel_end ch)) = Some i) chans)"

definition channel_from_state ::
  "'w chain_handle \<Rightarrow> 'w chain_handle \<Rightarrow> port_id \<Rightarrow> channel_id \<Rightarrow> height
    \<Rightarrow> ('w, channel_op_error, 'w channel \<times> channel_state) eff" where
  "channel_from_state chain counterparty port chan h =
     ebind (emap_err ChanRelayer (query_channel chain port chan (Specific h))) (\<lambda>a_channel.
     ebind (case ch_connection_hops a_channel of
              [] \<Rightarrow> ethrow (ChanSupervisor (MissingConnectionHops chan (chain_id chain)))
            | hop # _ \<Rightarrow> eret hop) (\<lambda>a_conn_id.
     ebind (emap_err ChanRelayer (query_connection chain a_conn_id Latest)) (\<lambda>a_conn.
     ebind (eresult (ok_or (ChanSupervisor (ChannelConnectionUninitialized chan (chain_id chain) (conn_counterparty a_conn)))
              (cc_connection_id (conn_counterparty a_conn)))) (\<lambda>b_conn_id.
       let c = \<lparr>chan_ordering = ch_ordering a_channel,
         chan_a_side = channel_side_new chain (conn_client_id a_conn) a_conn_id port (Some chan) None,
         chan_b_side = channel_side_new counterparty (cc_client_id (conn_counterparty a_conn)) b_conn_id
           (cp_port_id (ch_remote a_channel)) (cp_channel_id (ch_remote a_channel)) None,
         chan_connection_delay = conn_delay_period a_conn\<rparr> in
       if state_matches a_channel Init \<and> cp_channel_id (ch_remote a_channel) = None then
         ebind (emap_err ChanRelayer (query_connection_channels counterparty b_conn_id)) (\<lambda>chans.
           eret (case channel_with_remote chan chans of
                   Some i \<Rightarrow> set_b_channel_id (Some i) c
                 | None \<Rightarrow> c, ch_state a_channel))
       else eret (c, ch_state a_channel)))))"

definition query_side_channel :: "'w channel_side \<Rightarrow> channel_id option \<Rightarrow> ('w, channel_op_error, channel_end) eff" where
  "query_side_channel side i = (case i of
       Some i \<Rightarrow> emap_err (ChanChainQuery (chain_id (side_chain side)))
                  (query_channel (side_chain side) (side_port_id side) i Latest)
     | None \<Rightarrow> eret channel_end_default)"

definition chan_max_block_times :: "'w channel \<Rightarrow> ('w, channel_op_error, duration) eff" where
  "chan_max_block_times c =
     ebind (emap_err ChanRelayer (config (a_chain c))) (\<lambda>a.
     ebind (emap_err ChanRelayer (config (b_chain c))) (\<lambda>b.
       eret (max (max_block_time a) (max_block_time b))))"

section \<open>Messages\<close>

definition chan_update_client_on_dst :: "'w env \<Rightarrow> 'w channel \<Rightarrow> height \<Rightarrow> ('w, channel_op_error, ibc_msg list) eff" where
  "chan_update_client_on_dst env c h =
     emap_err (ChanClientOperation (side_client_id (chan_b_side c)) (chain_id (b_chain c)))
       (wait_and_build_update_client env
          (foreign_client_restore (side_client_id (chan_b_side c)) (b_chain c) (a_chain c)) h)"

definition default_by_port :: "port_id \<Rightarrow> version option" where
  "default_by_port p = (if port_id_str p = ''transfer'' then Some ''ics20-1'' else None)"

definition build_chan_open_init :: "'w channel \<Rightarrow> ('w, channel_op_error, ibc_msg list) eff" where
  "build_chan_open_init c =
     ebind (emap_err (ChannelQuery (chain_id (b_chain c))) (get_signer (b_chain c))) (\<lambda>signer.
       let v = (case side_version (chan_b_side c) of
                  Some v \<Rightarrow> v
                | None \<Rightarrow> (case default_by_port (side_port_id (chan_b_side c)) of Some v \<Rightarrow> v | None \<Rightarrow> [])) in
       eret [MsgChannelOpenInit (side_port_id (chan_b_side c))
         \<lparr>ch_state = Init, ch_ordering = chan_ordering c,
          ch_remote = \<lparr>cp_port_id = side_port_id (chan_a_side c), cp_channel_id = None\<rparr>,
          ch_connection_hops = [side_connection_id (chan_b_side c)], ch_version = v\<rparr> signer])"

text \<open>The part that the four messages with proofs share: the connection must exist on the destination, the
  proofs are taken at the latest height of the source, and the client is updated to their height.\<close>

definition proofs_and_update ::
  "'w env \<Rightarrow> 'w channel \<Rightarrow> channel_id \<Rightarrow> ('w, channel_op_error, proofs \<times> ibc_msg list \<times> signer) eff" where
  "proofs_and_update env c src_id =
     ebind (emap_err (ChannelQuery (chain_id (b_chain c)))
              (query_connection (b_chain c) (side_connection_id (chan_b_side c)) Latest)) (\<lambda>_.
     ebind (emap_err (ChannelQuery (chain_id (a_chain c))) (query_latest_height (a_chain c))) (\<lambda>h.
     ebind (emap_err ChannelProof (build_channel_proofs (a_chain c) (side_port_id (chan_a_side c)) src_id h)) (\<lambda>proofs.
     ebind (chan_update_client_on_dst env c (proof_height proofs)) (\<lambda>msgs.
     ebind (emap_err (ChanFetchSigner (chain_id (b_chain c))) (get_signer (b_chain c))) (\<lambda>signer.
       eret (proofs, msgs, signer))))))"

definition query_src_end :: "'w channel \<Rightarrow> channel_id \<Rightarrow> ('w, channel_op_error, channel_end) eff" where
  "query_src_end c src_id = emap_err (ChannelQuery (chain_id (a_chain c)))
     (query_channel (a_chain c) (side_port_id (chan_a_side c)) src_id Latest)"

definition build_chan_open_try :: "'w env \<Rightarrow> 'w channel \<Rightarrow> ('w, channel_op_error, ibc_msg list) eff" where
  "build_chan_open_try env c =
     ebind (eresult (ok_or MissingLocalChannelId (side_channel_id (chan_a_side c)))) (\<lambda>src_id.
     ebind (query_src_end c src_id) (\<lambda>src_channel.
       if cp_port_id (ch_remote src_channel) \<noteq> side_port_id (chan_b_side c) then
         ethrow (MismatchPort (chain_id (b_chain c)) (side_port_id (chan_b_side c)) (chain_id (a_chain c))
           (cp_port_id (ch_remote src_channel)) src_id)
       else
         ebind (proofs_and_update env c src_id) (\<lambda>(proofs, msgs, signer).
           eret (msgs @ [MsgChannelOpenTry (side_port_id (chan_b_side c))
             (case cp_channel_id (ch_remote src_channel) of None \<Rightarrow> side_channel_id (chan_b_side c) | Some i \<Rightarrow> Some i)
             \<lparr>ch_state = TryOpen, ch_ordering = ch_ordering src_channel,
              ch_remote = \<lparr>cp_port_id = side_port_id (chan_a_side c), cp_channel_id = side_channel_id (chan_a_side c)\<rparr>,
              ch_connection_hops = [side_connection_id (chan_b_side c)], ch_version = ch_version src_channel\<rparr>
             (ch_version src_channel) proofs signer]))))"

datatype channel_msg_type = ChanMsgOpenTry | ChanMsgOpenAck | ChanMsgOpenConfirm | ChanMsgCloseConfirm

definition check_destination_channel_state ::
  "channel_id \<Rightarrow> channel_end \<Rightarrow> channel_end \<Rightarrow> (channel_op_error, unit) result" where
  "check_destination_channel_state i existing expected =
     (let good_connection_hops = ch_connection_hops existing = ch_connection_hops expected;
          good_state = state_as_i32 (ch_state existing) \<le> state_as_i32 (ch_state expected);
          good_channel_port_ids = (cp_channel_id (ch_remote existing) = None
            \<or> cp_channel_id (ch_remote existing) = cp_channel_id (ch_remote expected)
              \<and> cp_port_id (ch_remote existing) = cp_port_id (ch_remote expected)) in
      if good_state \<and> good_connection_hops \<and> good_channel_port_ids then Ok ()
      else Err (ChannelAlreadyExist i))"

fun highest_state :: "channel_msg_type \<Rightarrow> channel_state" where
  "highest_state ChanMsgOpenAck = TryOpen"
| "highest_state ChanMsgOpenConfirm = TryOpen"
| "highest_state ChanMsgCloseConfirm = Open"
| "highest_state _ = Uninitialized"

definition validated_expected_channel ::
  "'w channel \<Rightarrow> channel_msg_type \<Rightarrow> ('w, channel_op_error, channel_end) eff" where
  "validated_expected_channel c msg_type =
     ebind (eresult (ok_or ChanMissingCounterpartyChannelId (side_channel_id (chan_b_side c)))) (\<lambda>dst_id.
       let expected = \<lparr>ch_state = highest_state msg_type, ch_ordering = chan_ordering c,
         ch_remote = \<lparr>cp_port_id = side_port_id (chan_a_side c), cp_channel_id = side_channel_id (chan_a_side c)\<rparr>,
         ch_connection_hops = [side_connection_id (chan_b_side c)], ch_version = []\<rparr> in
       ebind (emap_err (ChannelQuery (chain_id (b_chain c)))
                (query_channel (b_chain c) (side_port_id (chan_b_side c)) dst_id Latest)) (\<lambda>dst_channel.
         if state_matches dst_channel Uninitialized then ethrow MissingChannelOnDestination
         else ebind (eresult (check_destination_channel_state dst_id dst_channel expected)) (\<lambda>_. eret expected)))"

text \<open>The identifiers that an acknowledgement or a confirmation needs, and the check of the destination.\<close>

definition validated_ids ::
  "'w channel \<Rightarrow> channel_msg_type \<Rightarrow> ('w, channel_op_error, channel_id \<times> channel_id) eff" where
  "validated_ids c msg_type =
     ebind (eresult (ok_or MissingLocalChannelId (side_channel_id (chan_a_side c)))) (\<lambda>src_id.
     ebind (eresult (ok_or ChanMissingCounterpartyChannelId (side_channel_id (chan_b_side c)))) (\<lambda>dst_id.
     ebind (validated_expected_channel c msg_type) (\<lambda>_. eret (src_id, dst_id))))"

definition build_chan_open_ack :: "'w env \<Rightarrow> 'w channel \<Rightarrow> ('w, channel_op_error, ibc_msg list) eff" where
  "build_chan_open_ack env c =
     ebind (validated_ids c ChanMsgOpenAck) (\<lambda>(src_id, dst_id).
     ebind (query_src_end c src_id) (\<lambda>src_channel.
     ebind (proofs_and_update env c src_id) (\<lambda>(proofs, msgs, signer).
       eret (msgs @ [MsgChannelOpenAck (side_port_id (chan_b_side c)) dst_id src_id (ch_version src_channel) proofs signer]))))"

definition build_chan_open_confirm :: "'w env \<Rightarrow> 'w channel \<Rightarrow> ('w, channel_op_error, ibc_msg list) eff" where
  "build_chan_open_confirm env c =
     ebind (validated_ids c ChanMsgOpenConfirm) (\<lambda>(src_id, dst_id).
     ebind (query_src_end c src_id) (\<lambda>_.
     ebind (proofs_and_update env c src_id) (\<lambda>(proofs, msgs, signer).
       eret (msgs @ [MsgChannelOpenConfirm (side_port_id (chan_b_side c)) dst_id proofs signer]))))"

definition build_chan_close_init :: "'w channel \<Rightarrow> ('w, channel_op_error, ibc_msg list) eff" where
  "build_chan_close_init c =
     ebind (eresult (ok_or ChanMissingCounterpartyChannelId (side_channel_id (chan_b_side c)))) (\<lambda>dst_id.
     ebind (emap_err (ChannelQuery (chain_id (b_chain c)))
              (query_channel (b_chain c) (side_port_id (chan_b_side c)) dst_id Latest)) (\<lambda>_.
     ebind (emap_err (ChanFetchSigner (chain_id (b_chain c))) (get_signer (b_chain c))) (\<lambda>signer.
       eret [MsgChannelCloseInit (side_port_id (chan_b_side c)) dst_id signer])))"

definition build_chan_close_confirm :: "'w env \<Rightarrow> 'w channel \<Rightarrow> ('w, channel_op_error, ibc_msg list) eff" where
  "build_chan_close_confirm env c =
     ebind (validated_ids c ChanMsgCloseConfirm) (\<lambda>(src_id, dst_id).
     ebind (query_src_end c src_id) (\<lambda>_.
     ebind (proofs_and_update env c src_id) (\<lambda>(proofs, msgs, signer).
       eret (msgs @ [MsgChannelCloseConfirm (side_port_id (chan_b_side c)) dst_id proofs signer]))))"

section \<open>Submission\<close>

text \<open>Every message is submitted in the same way: the first event of the expected kind or chain error decides.\<close>

definition chan_send ::
  "'w channel \<Rightarrow> string \<Rightarrow> (ibc_event \<Rightarrow> bool) \<Rightarrow> string \<Rightarrow> ibc_msg list \<Rightarrow> ('w, channel_op_error, ibc_event) eff" where
  "chan_send c tag expected missing msgs =
     ebind (emap_err (ChanSubmit (chain_id (b_chain c)))
              (send_messages_and_wait_commit (b_chain c) (tracked_msgs_new msgs (Static tag)))) (\<lambda>events.
       eresult (pick_event expected (ChanMissingEvent missing) ChanTxResponse ChanInvalidEvent events))"

definition build_chan_open_init_and_send :: "'w channel \<Rightarrow> ('w, channel_op_error, ibc_event) eff" where
  "build_chan_open_init_and_send c =
     ebind (build_chan_open_init c) (chan_send c ''ChannelOpenInit'' (\<lambda>e. case e of OpenInitChannel _ \<Rightarrow> True | _ \<Rightarrow> False)
       ''no chan init event was in the response'')"

definition build_chan_open_try_and_send :: "'w env \<Rightarrow> 'w channel \<Rightarrow> ('w, channel_op_error, ibc_event) eff" where
  "build_chan_open_try_and_send env c =
     ebind (build_chan_open_try env c) (chan_send c ''ChannelOpenTry'' (\<lambda>e. case e of OpenTryChannel _ \<Rightarrow> True | _ \<Rightarrow> False)
       ''no chan try event was in the response'')"

definition build_chan_open_ack_and_send :: "'w env \<Rightarrow> 'w channel \<Rightarrow> ('w, channel_op_error, ibc_event) eff" where
  "build_chan_open_ack_and_send env c =
     ebind (build_chan_open_ack env c) (chan_send c ''ChannelOpenAck'' (\<lambda>e. case e of OpenAckChannel _ \<Rightarrow> True | _ \<Rightarrow> False)
       ''no chan ack event was in the response'')"

definition build_chan_open_confirm_and_send :: "'w env \<Rightarrow> 'w channel \<Rightarrow> ('w, channel_op_error, ibc_event) eff" where
  "build_chan_open_confirm_and_send env c =
     ebind (build_chan_open_confirm env c)
       (chan_send c ''ChannelOpenConfirm'' (\<lambda>e. case e of OpenConfirmChannel _ \<Rightarrow> True | _ \<Rightarrow> False)
          ''no chan confirm event was in the response'')"

definition build_chan_close_init_and_send :: "'w channel \<Rightarrow> ('w, channel_op_error, ibc_event) eff" where
  "build_chan_close_init_and_send c =
     ebind (build_chan_close_init c) (chan_send c ''ChannelCloseInit'' (\<lambda>e. case e of CloseInitChannel _ \<Rightarrow> True | _ \<Rightarrow> False)
       ''no chan init event was in the response'')"

definition build_chan_close_confirm_and_send :: "'w env \<Rightarrow> 'w channel \<Rightarrow> ('w, channel_op_error, ibc_event) eff" where
  "build_chan_close_confirm_and_send env c =
     ebind (build_chan_close_confirm env c)
       (chan_send c ''ChannelCloseConfirm'' (\<lambda>e. case e of CloseConfirmChannel _ \<Rightarrow> True | _ \<Rightarrow> False)
          ''no chan confirm event was in the response'')"

fun extract_channel_id :: "ibc_event \<Rightarrow> (channel_op_error, channel_id) result" where
  "extract_channel_id ev = ok_or (ChanMissingEvent ''cannot extract channel_id from result'')
     (case event_channel_attributes ev of Some attrs \<Rightarrow> ha_channel_id attrs | None \<Rightarrow> None)"

section \<open>The driver\<close>

type_synonym ('w, 'a) chan_op = "('w channel \<times> 'w, channel_op_error, 'a) eff"

definition on_chan_world :: "('w channel \<Rightarrow> ('w, channel_op_error, 'a) eff) \<Rightarrow> ('w, 'a) chan_op" where
  "on_chan_world f = (\<lambda>(c, w). case f c w of (r, w') \<Rightarrow> (r, (c, w')))"

definition modify_chan :: "('w channel \<Rightarrow> 'w channel) \<Rightarrow> ('w, unit) chan_op" where
  "modify_chan f = (\<lambda>(c, w). (Ok (), (f c, w)))"

lemma on_chan_world_Ok: "on_chan_world f s = (Ok a, t) \<longleftrightarrow> (\<exists>w. f (fst s) (snd s) = (Ok a, w) \<and> t = (fst s, w))"
  by (auto simp: on_chan_world_def split: prod.splits)

text \<open>The identifiers of the two sides are corrected by what the two chains report; when both disagree the driver
  panics.\<close>

definition correct_b_id :: "channel_id option \<Rightarrow> channel_id option \<Rightarrow> ('w, unit) chan_op" where
  "correct_b_id a_counterparty_id relayer_b_id =
     (if a_counterparty_id \<noteq> None \<and> a_counterparty_id \<noteq> relayer_b_id
      then modify_chan (set_b_channel_id a_counterparty_id) else eret ())"

definition correct_a_id ::
  "channel_id option \<Rightarrow> channel_id option \<Rightarrow> channel_id option \<Rightarrow> channel_id option \<Rightarrow> ('w, unit) chan_op" where
  "correct_a_id b_counterparty_id relayer_a_id relayer_b_id updated_b_id =
     (if b_counterparty_id \<noteq> None \<and> b_counterparty_id \<noteq> relayer_a_id then
        (if updated_b_id = relayer_b_id then modify_chan (set_a_channel_id b_counterparty_id) else epanic)
      else eret ())"

definition update_channel_and_query_states :: "('w, channel_state \<times> channel_state) chan_op" where
  "update_channel_and_query_states =
     ebind (eget (\<lambda>s. side_channel_id (chan_a_side (fst s)))) (\<lambda>relayer_a_id.
     ebind (eget (\<lambda>s. side_channel_id (chan_b_side (fst s)))) (\<lambda>relayer_b_id.
     ebind (on_chan_world (\<lambda>c. query_side_channel (chan_a_side c) relayer_a_id)) (\<lambda>a_channel.
     ebind (correct_b_id (cp_channel_id (ch_remote a_channel)) relayer_b_id) (\<lambda>_.
     ebind (eget (\<lambda>s. side_channel_id (chan_b_side (fst s)))) (\<lambda>updated_b_id.
     ebind (on_chan_world (\<lambda>c. query_side_channel (chan_b_side c) updated_b_id)) (\<lambda>b_channel.
     ebind (correct_a_id (cp_channel_id (ch_remote b_channel)) relayer_a_id relayer_b_id updated_b_id) (\<lambda>_.
       eret (ch_state a_channel, ch_state b_channel))))))))"

definition do_chan_open_handshake :: "'w env \<Rightarrow> ('w, unit) chan_op" where
  "do_chan_open_handshake env =
     ebind update_channel_and_query_states (\<lambda>states. case states of
       (Uninitialized, Uninitialized) \<Rightarrow>
         ebind (on_chan_world (\<lambda>c. build_chan_open_init_and_send (flipped c))) (\<lambda>ev.
         ebind (eresult (extract_channel_id ev)) (\<lambda>i.
         ebind (modify_chan (set_a_channel_id (Some i))) (\<lambda>_. ethrow ChanHandshakeFinalize)))
     | (Uninitialized, Init) \<Rightarrow>
         ebind (on_chan_world (\<lambda>c. build_chan_open_try_and_send env (flipped c))) (\<lambda>ev.
         ebind (eresult (extract_channel_id ev)) (\<lambda>i.
         ebind (modify_chan (set_a_channel_id (Some i))) (\<lambda>_. ethrow ChanHandshakeFinalize)))
     | (Init, Init) \<Rightarrow>
         ebind (on_chan_world (\<lambda>c. build_chan_open_try_and_send env (flipped c))) (\<lambda>ev.
         ebind (eresult (extract_channel_id ev)) (\<lambda>i.
         ebind (modify_chan (set_a_channel_id (Some i))) (\<lambda>_. ethrow ChanHandshakeFinalize)))
     | (Init, Uninitialized) \<Rightarrow>
         ebind (on_chan_world (build_chan_open_try_and_send env)) (\<lambda>ev.
         ebind (eresult (extract_channel_id ev)) (\<lambda>i.
         ebind (modify_chan (set_b_channel_id (Some i))) (\<lambda>_. ethrow ChanHandshakeFinalize)))
     | (Init, TryOpen) \<Rightarrow>
         ebind (on_chan_world (\<lambda>c. build_chan_open_ack_and_send env (flipped c))) (\<lambda>_. ethrow ChanHandshakeFinalize)
     | (TryOpen, TryOpen) \<Rightarrow>
         ebind (on_chan_world (\<lambda>c. build_chan_open_ack_and_send env (flipped c))) (\<lambda>_. ethrow ChanHandshakeFinalize)
     | (TryOpen, Init) \<Rightarrow>
         ebind (on_chan_world (build_chan_open_ack_and_send env)) (\<lambda>_. ethrow ChanHandshakeFinalize)
     | (Open, TryOpen) \<Rightarrow>
         ebind (on_chan_world (build_chan_open_confirm_and_send env)) (\<lambda>_. ethrow ChanHandshakeFinalize)
     | (TryOpen, Open) \<Rightarrow>
         ebind (on_chan_world (\<lambda>c. build_chan_open_confirm_and_send env (flipped c))) (\<lambda>_. ethrow ChanHandshakeFinalize)
     | (Open, Open) \<Rightarrow> eret ()
     | _ \<Rightarrow> ethrow ChanHandshakeFinalize)"

definition from_retry_error :: "channel_op_error retry_error \<Rightarrow> channel_op_error" where
  "from_retry_error e = ChanMaxRetry (re_tries e) (re_total_delay e) (re_error e)"

definition handshake_attempt :: "'w env \<Rightarrow> nat \<Rightarrow> ('w channel \<times> 'w, channel_op_error retry_error, (unit, channel_op_error) retry_result) eff" where
  "handshake_attempt env index =
     ebind (etry (do_chan_open_handshake env)) (\<lambda>r. eret (case r of
       Inl e \<Rightarrow> if chan_is_expired_or_frozen_error e then RetryErr e else RetryAgain e
     | Inr _ \<Rightarrow> RetryOk ()))"

definition chan_handshake :: "('w channel \<times> 'w, unit, channel_op_error) retrier \<Rightarrow> 'w env \<Rightarrow> ('w, unit) chan_op" where
  "chan_handshake retry env =
     ebind (on_chan_world chan_max_block_times) (\<lambda>m.
     ebind (eresult (map_err (\<lambda>_. ChanHandshakeFinalize) (handshake_strategy m))) (\<lambda>delays.
       emap_err from_retry_error (retry delays (handshake_attempt env))))"

definition channel_new ::
  "('w channel \<times> 'w, unit, channel_op_error) retrier \<Rightarrow> 'w env \<Rightarrow> 'w connection \<Rightarrow> order \<Rightarrow> port_id \<Rightarrow> port_id
    \<Rightarrow> version option \<Rightarrow> ('w, channel_op_error, 'w channel) eff" where
  "channel_new retry env conn chan_order a_port b_port v =
     ebind (eresult (ok_or (MissingLocalConnection (chain_id (conn_a_chain conn))) (cside_connection_id (conn_a_side conn)))) (\<lambda>src_id.
     ebind (eresult (ok_or (MissingLocalConnection (chain_id (conn_b_chain conn))) (cside_connection_id (conn_b_side conn)))) (\<lambda>dst_id.
     (\<lambda>w. case chan_handshake retry env
         (\<lparr>chan_ordering = chan_order,
           chan_a_side = channel_side_new (conn_a_chain conn) (cside_client_id (conn_a_side conn)) src_id a_port None v,
           chan_b_side = channel_side_new (conn_b_chain conn) (cside_client_id (conn_b_side conn)) dst_id b_port None v,
           chan_connection_delay = conn_delay conn\<rparr>, w) of
       (r, (c, w')) \<Rightarrow> (map_ok (\<lambda>_. c) r, w'))))"

section \<open>Single steps\<close>

definition chan_counterparty_state :: "'w channel \<Rightarrow> ('w, channel_op_error, channel_state) eff" where
  "chan_counterparty_state c =
     ebind (eresult (ok_or MissingLocalChannelId (side_channel_id (chan_a_side c)))) (\<lambda>i.
     ebind (emap_err (QueryChannel i) (channel_connection_client (a_chain c) (side_port_id (chan_a_side c)) i)) (\<lambda>deps.
       emap_err (QueryChannel i) (channel_state_on_destination (ccc_channel deps) (ccc_connection deps) (b_chain c))))"

definition step_message :: "'w env \<Rightarrow> 'w channel \<Rightarrow> channel_state \<Rightarrow> channel_state \<Rightarrow> ('w, channel_op_error, ibc_event option \<times> bool) eff" where
  "step_message env c state counterparty =
     (let send = (\<lambda>m. ebind m (\<lambda>ev. eret (Some ev, False))) in
      case (state, counterparty) of
        (Init, Uninitialized) \<Rightarrow> send (build_chan_open_try_and_send env c)
      | (Init, Init) \<Rightarrow> send (build_chan_open_try_and_send env c)
      | (TryOpen, Init) \<Rightarrow> send (build_chan_open_ack_and_send env c)
      | (TryOpen, TryOpen) \<Rightarrow> send (build_chan_open_ack_and_send env c)
      | (Open, TryOpen) \<Rightarrow> send (build_chan_open_confirm_and_send env c)
      | (Open, Open) \<Rightarrow> eret (None, True)
      | (TryOpen, Open) \<Rightarrow> eret (None, True)
      | (Closed, Closed) \<Rightarrow> eret (None, True)
      | (Closed, _) \<Rightarrow> send (build_chan_close_confirm_and_send env c)
      | _ \<Rightarrow> eret (None, False))"

definition chan_handshake_step ::
  "'w env \<Rightarrow> 'w channel \<Rightarrow> channel_state \<Rightarrow> ('w, channel_op_error, ibc_event option \<times> task_next) eff" where
  "chan_handshake_step env c state =
     ebind (chan_counterparty_state c) (\<lambda>counterparty.
     ebind (step_message env c state counterparty) (\<lambda>(ev, finished).
       eret (ev, if finished then Abort else case ev of
           Some (OpenConfirmChannel _) \<Rightarrow> Abort
         | Some (OpenAckChannel _) \<Rightarrow> Abort
         | Some (CloseConfirmChannel _) \<Rightarrow> Abort
         | _ \<Rightarrow> Continue)))"

definition chan_step_state ::
  "'w env \<Rightarrow> 'w channel \<Rightarrow> channel_state \<Rightarrow> nat \<Rightarrow> ('w, 'e, (task_next, nat) retry_result) eff" where
  "chan_step_state env c state index =
     ebind (etry (chan_handshake_step env c state)) (\<lambda>r. eret (case r of
       Inl e \<Rightarrow> if chan_is_expired_or_frozen_error e then RetryErr index else RetryAgain index
     | Inr (_, nxt) \<Rightarrow> RetryOk nxt))"

fun event_channel_state :: "ibc_event \<Rightarrow> channel_state" where
  "event_channel_state (OpenInitChannel _) = Init"
| "event_channel_state (OpenTryChannel _) = TryOpen"
| "event_channel_state (OpenAckChannel _) = Open"
| "event_channel_state (OpenConfirmChannel _) = Open"
| "event_channel_state (CloseInitChannel _) = Closed"
| "event_channel_state _ = Uninitialized"

definition chan_step_event ::
  "'w env \<Rightarrow> 'w channel \<Rightarrow> ibc_event \<Rightarrow> nat \<Rightarrow> ('w, 'e, (task_next, nat) retry_result) eff" where
  "chan_step_event env c ev index = chan_step_state env c (event_channel_state ev) index"

end
