(* ===== verification/Handshake_Protocol.thy ===== *)
theory Handshake_Protocol
  imports Ics04_Channel Ics03_Connection
begin

text \<open>
  The abstract specification of an opening handshake between two ends. The handshakes of connections (ICS-03) and of
  channels (ICS-04) have the same four messages and conditions: an end reacts to a message when its own state and
  the state of its counterparty allow it, and moves on. The states are those of channel ends; those of connection ends are
  mapped to them.

  \<open>ics_enabled act self counterparty\<close> are the conditions of the standards; \<open>ics_step\<close> is a step of one of
  the two ends, and \<open>open_distance\<close> a measure which every step decreases. \<open>round_action\<close> is the choice of a driver
  that looks at both ends.
\<close>

fun conn_phase :: "connection_state \<Rightarrow> channel_state" where
  "conn_phase ConnUninitialized = Uninitialized"
| "conn_phase ConnInit = Init"
| "conn_phase ConnTryOpen = TryOpen"
| "conn_phase ConnOpen = Open"

datatype handshake_action = ActInit | ActTry | ActAck | ActConfirm

fun ics_enabled :: "handshake_action \<Rightarrow> channel_state \<Rightarrow> channel_state \<Rightarrow> bool" where
  "ics_enabled ActInit self cp = (self = Uninitialized)"
| "ics_enabled ActTry self cp = ((self = Uninitialized \<or> self = Init) \<and> cp = Init)"
| "ics_enabled ActAck self cp = ((self = Init \<or> self = TryOpen) \<and> cp = TryOpen)"
| "ics_enabled ActConfirm self cp = (self = TryOpen \<and> cp = Open)"

fun ics_result :: "handshake_action \<Rightarrow> channel_state" where
  "ics_result ActInit = Init"
| "ics_result ActTry = TryOpen"
| "ics_result ActAck = Open"
| "ics_result ActConfirm = Open"

inductive ics_step :: "channel_state \<times> channel_state \<Rightarrow> channel_state \<times> channel_state \<Rightarrow> bool" where
  on_a: "ics_enabled act a b \<Longrightarrow> ics_step (a, b) (ics_result act, b)"
| on_b: "ics_enabled act b a \<Longrightarrow> ics_step (a, b) (a, ics_result act)"

definition open_distance :: "channel_state \<times> channel_state \<Rightarrow> nat" where
  "open_distance st = nat (6 - state_as_i32 (fst st) - state_as_i32 (snd st))"

lemma ics_step_distance:
  assumes "ics_step st st'"
  shows "open_distance st' < open_distance st"
  using assms
proof cases
  case (on_a act a b)
  then show ?thesis by (cases act; cases a; cases b) (auto simp: open_distance_def)
next
  case (on_b act b a)
  then show ?thesis by (cases act; cases a; cases b) (auto simp: open_distance_def)
qed

text \<open>The action of a round and the side that receives it: on side a when the first component is true.\<close>

definition round_action :: "channel_state \<Rightarrow> channel_state \<Rightarrow> (bool \<times> handshake_action) option" where
  "round_action a b =
     (if a = Uninitialized \<and> b = Uninitialized then Some (True, ActInit)
      else if ics_enabled ActTry a b then Some (True, ActTry)
      else if ics_enabled ActTry b a then Some (False, ActTry)
      else if ics_enabled ActAck a b then Some (True, ActAck)
      else if ics_enabled ActAck b a then Some (False, ActAck)
      else if ics_enabled ActConfirm b a then Some (False, ActConfirm)
      else if ics_enabled ActConfirm a b then Some (True, ActConfirm)
      else None)"

fun after_action :: "bool \<times> handshake_action \<Rightarrow> channel_state \<times> channel_state \<Rightarrow> channel_state \<times> channel_state" where
  "after_action (True, act) (a, b) = (ics_result act, b)"
| "after_action (False, act) (a, b) = (a, ics_result act)"

lemma round_action_enabled:
  "round_action a b = Some (True, act) \<Longrightarrow> ics_enabled act a b"
  "round_action a b = Some (False, act) \<Longrightarrow> ics_enabled act b a"
  by (auto simp: round_action_def split: if_splits)

lemma round_action_step: "round_action a b = Some act \<Longrightarrow> ics_step (a, b) (after_action act (a, b))"
  by (cases act; cases "fst act") (auto dest: round_action_enabled intro: ics_step.intros)

lemma round_action_None:
  "round_action a b = None \<Longrightarrow> act \<noteq> ActInit \<Longrightarrow> \<not> ics_enabled act a b \<and> \<not> ics_enabled act b a"
  by (cases act) (auto simp: round_action_def split: if_splits)

end
