(* ===== verification/Handshake_Driver.thy ===== *)
theory Handshake_Driver
  imports Handshake_Protocol Connection_Handshake
begin

text \<open>
  What the drivers of the connection and of the channel handshake share: a round queries the states of the two ends,
  submits the message that \<open>round_action\<close> chooses, records the identifier of a created end and asks for another round;
  rounds are repeated by the retry library. The locale \<open>handshake_driver\<close> states that contract; it is interpreted on
  \<open>do_conn_open_handshake\<close> and on \<open>do_chan_open_handshake\<close>.
\<close>

section \<open>Repetition\<close>

text \<open>What is relied on of the retry library: it changes the captured state only by attempts, and a success is the
  success of its last attempt.\<close>

inductive attempted :: "(nat \<Rightarrow> ('s, 'e retry_error, ('a, 'e) retry_result) eff) \<Rightarrow> 's \<Rightarrow> 's \<Rightarrow> bool" for op where
  no_attempt: "attempted op s s"
| attempt: "op n s = (r, t) \<Longrightarrow> attempted op t u \<Longrightarrow> attempted op s u"

definition retry_law :: "('s, 'a, 'e) retrier \<Rightarrow> bool" where
  "retry_law retry \<longleftrightarrow> (\<forall>delays op s a s'. retry delays op s = (Ok a, s')
     \<longrightarrow> (\<exists>n t. attempted op s t \<and> op n t = (Ok (RetryOk a), s')))"

lemma attempted_invariant:
  assumes "attempted op s t" "\<And>n. preserves I (op n)" "I s"
  shows "I t"
  using assms(1,3) by (induction) (auto dest: preservesD [OF assms(2)])

text \<open>A retrier that follows the documentation of the library.\<close>

fun sample_retry_from :: "nat \<Rightarrow> duration list \<Rightarrow> (nat \<Rightarrow> ('s, 'e retry_error, ('a, 'e) retry_result) eff)
    \<Rightarrow> ('s, 'e retry_error, 'a) eff" where
  "sample_retry_from n ds op s = (case op n s of
       (Ok (RetryOk a), s') \<Rightarrow> (Ok a, s')
     | (Ok (RetryErr e), s') \<Rightarrow> (Err \<lparr>re_error = e, re_total_delay = 0, re_tries = n\<rparr>, s')
     | (Ok (RetryAgain e), s') \<Rightarrow> (case ds of
          [] \<Rightarrow> (Err \<lparr>re_error = e, re_total_delay = 0, re_tries = n\<rparr>, s')
        | d # ds' \<Rightarrow> sample_retry_from (Suc n) ds' op s')
     | (Err e, s') \<Rightarrow> (Err e, s') | (Panic, s') \<Rightarrow> (Panic, s') | (Hang, s') \<Rightarrow> (Hang, s'))"

definition sample_retry :: "('s, 'a, 'e) retrier" where
  "sample_retry ds op = sample_retry_from 1 ds op"

lemma sample_retry_from_Ok:
  "sample_retry_from n ds op s = (Ok a, s') \<Longrightarrow> \<exists>n t. attempted op s t \<and> op n t = (Ok (RetryOk a), s')"
proof (induction ds arbitrary: n s)
  case Nil
  then show ?case by (auto split: prod.splits result.splits retry_result.splits intro: no_attempt)
next
  case (Cons d ds)
  then show ?case by (fastforce split: prod.splits result.splits retry_result.splits simp del: sample_retry_from.simps
      simp: sample_retry_from.simps [of n "d # ds"] intro: attempted.intros)
qed

lemma sample_retry_law: "retry_law sample_retry"
  unfolding retry_law_def sample_retry_def by (blast dest: sample_retry_from_Ok)

text \<open>The delays between the attempts add up to ten blocks, unless a tenth of a block is less than a nanosecond.\<close>

lemma handshake_strategy_Ok:
  assumes "10 \<le> m" "12 * m \<le> DURATION_MAX"
  shows "\<exists>ds. handshake_strategy m = Ok ds \<and> sum_list ds = 10 * m \<and> list_all (\<lambda>d. d \<le> m div 10) ds"
proof -
  have "0 < m div 10" "m * 10 + 2 * (m div 10) \<le> DURATION_MAX" "\<not> m * 10 > DURATION_MAX" using assms by auto
  with clamp_total_from_done [of "\<lparr>cg_delay = m div 10, cg_incr = 0\<rparr>" "m div 10" "m * 10" 0 "m * 10 + 1"]
  show ?thesis by (simp add: handshake_strategy_def clamp_total_def Let_def mult.commute)
qed

section \<open>Rounds\<close>

lemma ok_or_eq_Err: "ok_or e x = Err e' \<longleftrightarrow> x = None \<and> e' = e"
  by (cases x) auto

lemma pick_event_Err:
  assumes "pick_event expected missing tx_response invalid events = Err e"
  shows "e = missing \<or> e \<in> range tx_response \<or> e \<in> range invalid"
proof (cases "List.find (\<lambda>e. expected (event e) \<or> is_chain_error (event e)) events")
  case (Some x)
  with assms show ?thesis by (cases "event x") (auto simp: pick_event_def split: if_splits)
qed (use assms in \<open>simp add: pick_event_def\<close>)

locale handshake_driver =
  fixes do_round :: "('s, 'e, unit) eff"
    and query_states :: "('s, 'e, 'st \<times> 'st) eff"
    and send_on :: "bool \<Rightarrow> handshake_action \<Rightarrow> ('s, 'e, ibc_event) eff"
    and keep_id :: "bool \<Rightarrow> handshake_action \<Rightarrow> ibc_event \<Rightarrow> ('s, 'e, unit) eff"
    and phase :: "'st \<Rightarrow> channel_state"
    and finalize :: 'e
    and ends :: "'s \<Rightarrow> 'o"
  assumes round_def: "do_round = ebind query_states (\<lambda>(a, b). case round_action (phase a) (phase b) of
       None \<Rightarrow> if phase a = Open \<and> phase b = Open then eret () else ethrow finalize
     | Some (onA, act) \<Rightarrow> ebind (send_on onA act) (\<lambda>ev. ebind (keep_id onA act ev) (\<lambda>_. ethrow finalize)))"
    and query_raises: "raises (\<lambda>e. e \<noteq> finalize) query_states"
    and send_raises: "raises (\<lambda>e. e \<noteq> finalize) (send_on onA act)"
    and keep_raises: "raises (\<lambda>e. e \<noteq> finalize) (keep_id onA act ev)"
    and query_ends: "preserves (\<lambda>s. ends s = x) query_states"
    and send_ends: "preserves (\<lambda>s. ends s = x) (send_on onA act)"
    and keep_ends: "preserves (\<lambda>s. ends s = x) (keep_id onA act ev)"
begin

lemma round_ends: "preserves (\<lambda>s. ends s = x) do_round"
  unfolding round_def by (intro pres query_ends send_ends keep_ends)


lemma round_Ok: "do_round s = (Ok (), s') \<Longrightarrow> \<exists>a b. query_states s = (Ok (a, b), s') \<and> phase a = Open \<and> phase b = Open"
  by (auto simp: round_def eff_ok split: option.splits if_splits)

text \<open>A round that returns normally has queried the states; then it sent the message of an enabled step, or nothing
  because no end can move.\<close>

lemma round_cases:
  assumes run: "do_round s = (r, s')" and r: "r = Ok () \<or> r = Err finalize"
  obtains a b onA act ev s1 s2 where "query_states s = (Ok (a, b), s1)" "r = Err finalize"
      "round_action (phase a) (phase b) = Some (onA, act)"
      "send_on onA act s1 = (Ok ev, s2)" "keep_id onA act ev s2 = (Ok (), s')"
  | a b where "query_states s = (Ok (a, b), s')" "round_action (phase a) (phase b) = None"
      "r = Ok () \<longleftrightarrow> phase a = Open \<and> phase b = Open"
proof -
  from run r obtain a b s1 where q: "query_states s = (Ok (a, b), s1)"
    by (auto simp: round_def elim!: ebind_cases dest: raisesD [OF query_raises])
  show thesis
  proof (cases "round_action (phase a) (phase b)")
    case None
    with run q that(2) show thesis
      by (auto simp: round_def ebind_def eret_def ethrow_def split: if_splits)
  next
    case (Some p)
    obtain onA act where p: "p = (onA, act)" by fastforce
    from run q Some p have "ebind (send_on onA act) (\<lambda>ev. ebind (keep_id onA act ev) (\<lambda>_. ethrow finalize)) s1 = (r, s')"
      by (simp add: round_def ebind_def)
    with r obtain ev s2 where "send_on onA act s1 = (Ok ev, s2)" "keep_id onA act ev s2 = (Ok (), s')" "r = Err finalize"
      by (fastforce simp: ethrow_def elim!: ebind_cases dest: raisesD [OF send_raises] raisesD [OF keep_raises])
    with q Some p that(1) show thesis by blast
  qed
qed

lemma repeated_Ok:
  assumes "retry_law retry" "retry delays op s = (Ok (), s')"
    and "\<And>n t t'. op n t = (Ok (RetryOk ()), t') \<Longrightarrow> do_round t = (Ok (), t')"
    and op: "\<And>n x. preserves (\<lambda>s. ends s = x) (op n)"
  shows "\<exists>t a b. query_states t = (Ok (a, b), s') \<and> phase a = Open \<and> phase b = Open \<and> ends t = ends s \<and> ends s' = ends s"
proof -
  from assms(1,2) obtain n t where t: "attempted op s t" "op n t = (Ok (RetryOk ()), s')" unfolding retry_law_def by metis
  from attempted_invariant [OF t(1) op [of "ends s"] refl] have "ends t = ends s" .
  moreover from this preservesD [OF op [of "ends s" n] _ t(2)] have "ends s' = ends s" by simp
  ultimately show ?thesis using round_Ok [OF assms(3) [OF t(2)]] by blast
qed

end

end
