(* ===== verification/Channel_Refinement.thy ===== *)
theory Channel_Refinement
  imports Channel_Handshake Handshake_Driver
begin

text \<open>
  The channel handshake refines its protocol: what each round of the driver and each step of the worker submits, and
  what the whole handshake guarantees when it succeeds.
\<close>

section \<open>Rounds as protocol actions\<close>

fun send_action :: "'w env \<Rightarrow> handshake_action \<Rightarrow> 'w channel \<Rightarrow> ('w, channel_op_error, ibc_event) eff" where
  "send_action env ActInit c = build_chan_open_init_and_send c"
| "send_action env ActTry c = build_chan_open_try_and_send env c"
| "send_action env ActAck c = build_chan_open_ack_and_send env c"
| "send_action env ActConfirm c = build_chan_open_confirm_and_send env c"

text \<open>The identifier that an end gets when it is created is kept for its side.\<close>

definition record_id :: "bool \<times> handshake_action \<Rightarrow> ibc_event \<Rightarrow> ('w, unit) chan_op" where
  "record_id act ev = (if snd act = ActInit \<or> snd act = ActTry then
     ebind (eresult (extract_channel_id ev)) (\<lambda>i.
       modify_chan (if fst act then set_a_channel_id (Some i) else set_b_channel_id (Some i)))
     else eret ())"

text \<open>One round of the driver: the decision table of the source is the table of enabled protocol steps.\<close>

lemma do_chan_open_handshake_alt:
  "do_chan_open_handshake env = ebind update_channel_and_query_states (\<lambda>(a, b).
     case round_action a b of
       None \<Rightarrow> if a = Open \<and> b = Open then eret () else ethrow ChanHandshakeFinalize
     | Some act \<Rightarrow>
         ebind (on_chan_world (\<lambda>c. send_action env (snd act) (if fst act then flipped c else c))) (\<lambda>ev.
         ebind (record_id act ev) (\<lambda>_. ethrow ChanHandshakeFinalize)))"
  unfolding do_chan_open_handshake_def
  by (intro arg_cong2 [where f = ebind] refl ext)
    (auto simp: round_action_def record_id_def ebind_assoc split: prod.split channel_state.split)

section \<open>What is submitted\<close>

text \<open>The message of an action for the chain on side b: it names the ports, identifiers and connection of the channel.\<close>

definition msg_for :: "handshake_action \<Rightarrow> 'w channel \<Rightarrow> ibc_msg \<Rightarrow> bool" where
  "msg_for act c m \<longleftrightarrow> (case (act, m) of
       (ActInit, MsgChannelOpenInit port ch _) \<Rightarrow> port = side_port_id (chan_b_side c) \<and> ch_state ch = Init
         \<and> ch_ordering ch = chan_ordering c \<and> ch_connection_hops ch = [side_connection_id (chan_b_side c)]
         \<and> ch_remote ch = \<lparr>cp_port_id = side_port_id (chan_a_side c), cp_channel_id = None\<rparr>
     | (ActTry, MsgChannelOpenTry port _ ch v _ _) \<Rightarrow> port = side_port_id (chan_b_side c) \<and> ch_state ch = TryOpen
         \<and> ch_connection_hops ch = [side_connection_id (chan_b_side c)] \<and> ch_version ch = v
         \<and> ch_remote ch = \<lparr>cp_port_id = side_port_id (chan_a_side c), cp_channel_id = side_channel_id (chan_a_side c)\<rparr>
         \<and> side_channel_id (chan_a_side c) \<noteq> None
     | (ActAck, MsgChannelOpenAck port dst src _ _ _) \<Rightarrow> port = side_port_id (chan_b_side c)
         \<and> side_channel_id (chan_b_side c) = Some dst \<and> side_channel_id (chan_a_side c) = Some src
     | (ActConfirm, MsgChannelOpenConfirm port dst _ _) \<Rightarrow> port = side_port_id (chan_b_side c)
         \<and> side_channel_id (chan_b_side c) = Some dst
     | _ \<Rightarrow> False)"

definition event_for :: "handshake_action \<Rightarrow> ibc_event \<Rightarrow> bool" where
  "event_for act ev \<longleftrightarrow> (case ev of
       OpenInitChannel _ \<Rightarrow> act = ActInit
     | OpenTryChannel _ \<Rightarrow> act = ActTry
     | OpenAckChannel _ \<Rightarrow> act = ActAck
     | OpenConfirmChannel _ \<Rightarrow> act = ActConfirm
     | _ \<Rightarrow> False)"

definition submitted_as :: "handshake_action \<Rightarrow> 'w channel \<Rightarrow> ibc_event \<Rightarrow> 'w \<Rightarrow> bool" where
  "submitted_as act c ev w' \<longleftrightarrow> event_for act ev \<and> (\<exists>updates m tag w1 evs.
     send_messages_and_wait_commit (b_chain c) (tracked_msgs_new (updates @ [m]) tag) w1 = (Ok evs, w')
     \<and> msg_for act c m \<and> ev \<in> event ` set evs)"

lemma chan_send_Ok:
  assumes "chan_send c tag expected missing msgs w = (Ok ev, w')"
  shows "expected ev \<and> (\<exists>evs. send_messages_and_wait_commit (b_chain c) (tracked_msgs_new msgs (Static tag)) w = (Ok evs, w')
     \<and> ev \<in> event ` set evs)"
  using assms by (auto simp: chan_send_def eff_ok dest!: pick_event_Ok)

lemma validated_ids_Ok:
  "validated_ids c t w = (Ok (src, dst), w') \<Longrightarrow>
     side_channel_id (chan_a_side c) = Some src \<and> side_channel_id (chan_b_side c) = Some dst"
  by (auto simp: validated_ids_def eff_ok)

lemma submitted_asI:
  assumes "chan_send c tag expected missing (msgs @ [m]) w = (Ok ev, w')" "msg_for act c m"
    and "expected ev \<Longrightarrow> event_for act ev"
  shows "submitted_as act c ev w'"
  using chan_send_Ok [OF assms(1)] assms(2,3) unfolding submitted_as_def by blast

lemma send_action_submitted:
  assumes "send_action env act c w = (Ok ev, w')"
  shows "submitted_as act c ev w'"
proof (cases act)
  case ActInit
  with assms show ?thesis
    by (auto simp: build_chan_open_init_and_send_def build_chan_open_init_def eff_ok msg_for_def event_for_def Let_def split: ibc_event.splits
        intro!: submitted_asI [where msgs = "[]", simplified])
next
  case ActTry
  with assms show ?thesis
    by (auto simp: build_chan_open_try_and_send_def build_chan_open_try_def eff_ok msg_for_def event_for_def split: if_splits ibc_event.splits
        intro!: submitted_asI)
next
  case ActAck
  with assms show ?thesis
    by (auto simp: build_chan_open_ack_and_send_def build_chan_open_ack_def eff_ok msg_for_def event_for_def split: ibc_event.splits
        dest!: validated_ids_Ok intro!: submitted_asI)
next
  case ActConfirm
  with assms show ?thesis
    by (auto simp: build_chan_open_confirm_and_send_def build_chan_open_confirm_def eff_ok msg_for_def event_for_def split: ibc_event.splits
        dest!: validated_ids_Ok intro!: submitted_asI)
qed

section \<open>Errors of a round\<close>

lemma raises_on_chan_world [errs]: "(\<And>c. raises P (f c)) \<Longrightarrow> raises P (on_chan_world f)"
  by (auto simp: raises_def on_chan_world_def split: prod.splits)

lemma raises_modify_chan [errs]: "raises P (modify_chan f)"
  by (auto simp: raises_def modify_chan_def)

lemma raises_query_side [errs]: "(\<And>x e. P (ChanChainQuery x e)) \<Longrightarrow> raises P (query_side_channel side i)"
  by (auto simp: query_side_channel_def intro!: errs split: option.split)

abbreviation not_finalize :: "channel_op_error \<Rightarrow> bool" where
  "not_finalize e \<equiv> e \<noteq> ChanHandshakeFinalize"

lemma raises_update: "raises not_finalize update_channel_and_query_states"
  unfolding update_channel_and_query_states_def correct_b_id_def correct_a_id_def by (intro errs) simp_all

lemma raises_chan_send: "raises not_finalize (chan_send c tag expected missing msgs)"
  unfolding chan_send_def by (intro errs) (auto dest!: pick_event_Err)

lemma raises_proofs_and_update: "raises not_finalize (proofs_and_update env c i)"
  unfolding proofs_and_update_def chan_update_client_on_dst_def by (intro errs) simp_all

lemma raises_validated_ids: "raises not_finalize (validated_ids c t)"
  unfolding validated_ids_def validated_expected_channel_def
  by (intro errs) (auto simp: ok_or_eq_Err check_destination_channel_state_def Let_def split: if_splits)

lemma raises_query_src_end: "raises not_finalize (query_src_end c i)"
  unfolding query_src_end_def by (intro errs) simp

lemmas raises_parts = raises_chan_send raises_proofs_and_update raises_validated_ids raises_query_src_end

lemma raises_send_action: "raises not_finalize (send_action env act c)"
proof (cases act)
  case ActInit
  then show ?thesis
    by (auto simp: build_chan_open_init_and_send_def build_chan_open_init_def intro!: errs raises_parts)
next
  case ActTry
  then show ?thesis
    by (auto simp: build_chan_open_try_and_send_def build_chan_open_try_def ok_or_eq_Err intro!: errs raises_parts)
next
  case ActAck
  then show ?thesis
    by (auto simp: build_chan_open_ack_and_send_def build_chan_open_ack_def intro!: errs raises_parts)
next
  case ActConfirm
  then show ?thesis
    by (auto simp: build_chan_open_confirm_and_send_def build_chan_open_confirm_def intro!: errs raises_parts)
qed

lemma raises_record_id: "raises not_finalize (record_id act ev)"
  unfolding record_id_def by (intro errs) (auto simp: ok_or_eq_Err)

section \<open>Rounds of the driver\<close>

text \<open>A channel object without the identifiers of its ends: the chains, clients, connections, ports and the order.\<close>

definition chan_ends :: "'w channel \<times> 'w \<Rightarrow> 'w channel" where
  "chan_ends s = set_a_channel_id None (set_b_channel_id None (fst s))"

lemma chan_ends_on_world [pres]: "preserves (\<lambda>s. chan_ends s = x) (on_chan_world f)"
  by (auto simp: chan_ends_def on_chan_world_def intro!: preservesI split: prod.splits)

lemma chan_ends_modify [pres]:
  "preserves (\<lambda>s. chan_ends s = x) (modify_chan (set_a_channel_id i))"
  "preserves (\<lambda>s. chan_ends s = x) (modify_chan (set_b_channel_id i))"
  by (auto simp: chan_ends_def modify_chan_def set_a_channel_id_def set_b_channel_id_def intro!: preservesI)

lemma chan_ends_query: "preserves (\<lambda>s. chan_ends s = x) update_channel_and_query_states"
  unfolding update_channel_and_query_states_def correct_a_id_def correct_b_id_def by (intro pres)

lemma chan_ends_record: "preserves (\<lambda>s. chan_ends s = x) (record_id act ev)"
  by (cases "fst act") (auto simp: record_id_def intro!: pres)

interpretation chan_driver: handshake_driver "do_chan_open_handshake env" update_channel_and_query_states
    "\<lambda>onA act. on_chan_world (\<lambda>c. send_action env act (if onA then flipped c else c))"
    "\<lambda>onA act. record_id (onA, act)" "\<lambda>st. st" ChanHandshakeFinalize chan_ends for env
proof unfold_locales
  show "do_chan_open_handshake env = ebind update_channel_and_query_states (\<lambda>(a, b). case round_action a b of
       None \<Rightarrow> if a = Open \<and> b = Open then eret () else ethrow ChanHandshakeFinalize
     | Some (onA, act) \<Rightarrow> ebind (on_chan_world (\<lambda>c. send_action env act (if onA then flipped c else c))) (\<lambda>ev.
         ebind (record_id (onA, act) ev) (\<lambda>_. ethrow ChanHandshakeFinalize)))"
    unfolding do_chan_open_handshake_alt
    by (intro arg_cong2 [where f = ebind] refl ext) (auto split: prod.split option.split)
qed (auto intro!: errs pres raises_update raises_record_id raises_send_action chan_ends_query chan_ends_record)

text \<open>After the query of the states, each side of the channel object has the identifier that the other chain reports
  for it, when it reports one; at most one of the two was corrected.\<close>

lemma correct_b_id_Ok:
  "correct_b_id i j (c, w) = (Ok (), (c', w')) \<Longrightarrow> w' = w \<and> chan_a_side c' = chan_a_side c
     \<and> side_channel_id (chan_b_side c') = (if i \<noteq> None \<and> i \<noteq> j then i else side_channel_id (chan_b_side c))"
  by (auto simp: correct_b_id_def modify_chan_def set_b_channel_id_def eff_ok split: if_splits)

lemma correct_a_id_Ok:
  "correct_a_id i j k l (c, w) = (Ok (), (c', w')) \<Longrightarrow> w' = w \<and> chan_b_side c' = chan_b_side c
     \<and> side_channel_id (chan_a_side c') = (if i \<noteq> None \<and> i \<noteq> j then i else side_channel_id (chan_a_side c))
     \<and> (i \<noteq> None \<and> i \<noteq> j \<longrightarrow> l = k)"
  by (auto simp: correct_a_id_def modify_chan_def set_a_channel_id_def eff_ok split: if_splits)

lemma update_states_Ok:
  assumes "update_channel_and_query_states (c, w) = (Ok (a, b), (c', w'))"
  shows "\<exists>ea eb w1. query_side_channel (chan_a_side c) (side_channel_id (chan_a_side c)) w = (Ok ea, w1)
     \<and> query_side_channel (chan_b_side c') (side_channel_id (chan_b_side c')) w1 = (Ok eb, w')
     \<and> ch_state ea = a \<and> ch_state eb = b
     \<and> (cp_channel_id (ch_remote ea) \<noteq> None \<longrightarrow> side_channel_id (chan_b_side c') = cp_channel_id (ch_remote ea))
     \<and> (cp_channel_id (ch_remote eb) \<noteq> None \<longrightarrow> side_channel_id (chan_a_side c') = cp_channel_id (ch_remote eb))
     \<and> (side_channel_id (chan_a_side c') = side_channel_id (chan_a_side c)
        \<or> side_channel_id (chan_b_side c') = side_channel_id (chan_b_side c))"
proof -
  let ?a = "side_channel_id (chan_a_side c)" and ?b = "side_channel_id (chan_b_side c)"
  from assms obtain ea w1 c1 w2 eb w3 where ea: "query_side_channel (chan_a_side c) ?a w = (Ok ea, w1)"
    and c1: "correct_b_id (cp_channel_id (ch_remote ea)) ?b (c, w1) = (Ok (), (c1, w2))"
    and eb: "query_side_channel (chan_b_side c1) (side_channel_id (chan_b_side c1)) w2 = (Ok eb, w3)"
    and c': "correct_a_id (cp_channel_id (ch_remote eb)) ?a ?b (side_channel_id (chan_b_side c1)) (c1, w3) = (Ok (), (c', w'))"
    and "a = ch_state ea" "b = ch_state eb"
    unfolding update_channel_and_query_states_def by (auto simp: eff_ok on_chan_world_Ok)
  then show ?thesis
    using correct_b_id_Ok [OF c1] correct_a_id_Ok [OF c'] by (auto split: if_splits)
qed

definition recorded :: "bool \<Rightarrow> handshake_action \<Rightarrow> ibc_event \<Rightarrow> 'w channel \<Rightarrow> 'w channel \<Rightarrow> bool" where
  "recorded onA act ev c c' \<longleftrightarrow> (if act = ActInit \<or> act = ActTry
     then \<exists>i. extract_channel_id ev = Ok i \<and> c' = (if onA then set_a_channel_id (Some i) c else set_b_channel_id (Some i) c)
     else c' = c)"

text \<open>
  C16: every round of the channel handshake refines the protocol of ICS-04. Given the states of the two ends, a round that
  ends normally either submits one message which that protocol allows there, to the chain whose end it moves and with the
  identifiers of the channel, gets the event for it and records the identifier of a created end; or it submits nothing,
  which happens only when no end can move by a try, an acknowledgement or a confirmation, and it
  reports success exactly when both ends are open.
\<close>
theorem handshake_round_refines:
  assumes "do_chan_open_handshake env (c, w) = (r, (c', w'))" "r = Ok () \<or> r = Err ChanHandshakeFinalize"
  shows "\<exists>a b c1 w1. update_channel_and_query_states (c, w) = (Ok (a, b), (c1, w1))
     \<and> ((\<exists>onA act ev st. r = Err ChanHandshakeFinalize \<and> ics_step (a, b) st
          \<and> ics_enabled act (if onA then a else b) (if onA then b else a)
          \<and> st = (if onA then (ics_result act, b) else (a, ics_result act))
          \<and> submitted_as act (if onA then flipped c1 else c1) ev w' \<and> recorded onA act ev c1 c')
      \<or> (c' = c1 \<and> w' = w1 \<and> (r = Ok () \<longleftrightarrow> a = Open \<and> b = Open)
          \<and> (\<forall>act. act \<noteq> ActInit \<longrightarrow> \<not> ics_enabled act a b \<and> \<not> ics_enabled act b a)))"
  using assms
proof (cases rule: chan_driver.round_cases)
  case (1 a b onA act ev s1 s2)
  obtain c1 w1 c2 w2 where s: "s1 = (c1, w1)" "s2 = (c2, w2)" by fastforce
  with 1 have "c2 = c1" "send_action env act (if onA then flipped c1 else c1) w1 = (Ok ev, w2)"
    by (auto simp: on_chan_world_Ok)
  moreover from this 1 s have "recorded onA act ev c1 c' \<and> w2 = w'"
    by (auto simp: record_id_def recorded_def eff_ok modify_chan_def split: if_splits)
  moreover from calculation have "submitted_as act (if onA then flipped c1 else c1) ev w'"
    by (auto dest: send_action_submitted)
  moreover have "ics_enabled act (if onA then a else b) (if onA then b else a)"
    using round_action_enabled 1(3) by (cases onA) auto
  moreover have "ics_step (a, b) (if onA then (ics_result act, b) else (a, ics_result act))"
    using round_action_step [OF 1(3)] by (cases onA) auto
  ultimately show ?thesis using 1(1,2) s(1) by blast
next
  case (2 a b)
  then show ?thesis using round_action_None by auto
qed

text \<open>A channel that is to be opened: no end exists, and chain a answers a submission with the event of an init.\<close>

definition opening_event :: ibc_event where
  "opening_event = OpenInitChannel \<lparr>ha_port_id = PortId ''transfer'', ha_channel_id = Some (ChannelId ''channel-0''),
     ha_connection_id = ConnectionId ''connection-0'', ha_counterparty_port_id = PortId ''transfer'',
     ha_counterparty_channel_id = None\<rparr>"

definition opening_chain :: "sample_world chain_handle" where
  "opening_chain = (sample_chain ''a'' ''b'')\<lparr>send_messages_and_wait_commit :=
     (\<lambda>tm w. (Ok [event_new opening_event (Height 0 1)], w\<lparr>sent := sent w @ [(''a'', tm)]\<rparr>))\<rparr>"

definition opening_channel :: "sample_world channel" where
  "opening_channel = \<lparr>chan_ordering = Unordered,
     chan_a_side = channel_side_new opening_chain (ClientId ''07-tendermint-0'') (ConnectionId ''connection-0'')
       (PortId ''transfer'') None None,
     chan_b_side = channel_side_new (sample_chain ''b'' ''a'') (ClientId ''07-tendermint-0'') (ConnectionId ''connection-0'')
       (PortId ''transfer'') None None,
     chan_connection_delay = 0\<rparr>"

lemma opening_round:
  "\<exists>w'. do_chan_open_handshake env (opening_channel, sample_world)
     = (Err ChanHandshakeFinalize, (set_a_channel_id (Some (ChannelId ''channel-0'')) opening_channel, w'))"
  by (simp add: do_chan_open_handshake_def update_channel_and_query_states_def query_side_channel_def opening_channel_def
      channel_side_new_def on_chan_world_def modify_chan_def correct_a_id_def correct_b_id_def channel_end_default_def
      channel_counterparty_default_def build_chan_open_init_and_send_def build_chan_open_init_def chan_send_def pick_event_def
      flipped_def opening_chain_def opening_event_def event_new_def default_by_port_def eff_defs ebind_def)

theorem handshake_round_refines_witness:
  "\<exists>c' w' ev. do_chan_open_handshake sample_env (opening_channel, sample_world) = (Err ChanHandshakeFinalize, (c', w'))
     \<and> submitted_as ActInit (flipped opening_channel) ev w' \<and> side_channel_id (chan_a_side c') = Some (ChannelId ''channel-0'')"
proof -
  from opening_round obtain c' w' where run: "do_chan_open_handshake sample_env (opening_channel, sample_world)
      = (Err ChanHandshakeFinalize, (c', w'))" and c': "c' = set_a_channel_id (Some (ChannelId ''channel-0'')) opening_channel" by blast
  have u: "update_channel_and_query_states (opening_channel, sample_world) =
      (Ok (Uninitialized, Uninitialized), (opening_channel, sample_world))"
    by (simp add: update_channel_and_query_states_def query_side_channel_def opening_channel_def channel_side_new_def
        on_chan_world_def correct_a_id_def correct_b_id_def channel_end_default_def channel_counterparty_default_def
        eff_defs ebind_def)
  have ne: "c' \<noteq> opening_channel" by (simp add: c' set_a_channel_id_def opening_channel_def channel_side_new_def)
  from handshake_round_refines [OF run] u ne obtain onA act ev
    where act: "ics_enabled act (if onA then Uninitialized else Uninitialized) (if onA then Uninitialized else Uninitialized)"
    and sub: "submitted_as act (if onA then flipped opening_channel else opening_channel) ev w'"
    and rec: "recorded onA act ev opening_channel c'"
    by fastforce
  from act have "act = ActInit" by (cases act) auto
  with rec c' sub have "submitted_as ActInit (flipped opening_channel) ev w'"
    by (cases onA) (auto simp: recorded_def set_a_channel_id_def set_b_channel_id_def opening_channel_def channel_side_new_def)
  with run c' show ?thesis by (auto simp: set_a_channel_id_def opening_channel_def channel_side_new_def)
qed

section \<open>The whole handshake\<close>


definition opened_channel :: "sample_world channel" where
  "opened_channel = \<lparr>chan_ordering = Unordered,
     chan_a_side = channel_side_new ((sample_chain ''a'' ''b'')\<lparr>config := eret AxonConfig\<rparr>) (ClientId ''07-tendermint-0'')
       (ConnectionId ''connection-0'') (PortId ''transfer'') (Some (ChannelId ''channel-1'')) None,
     chan_b_side = channel_side_new (sample_chain ''b'' ''a'') (ClientId ''07-tendermint-0'') (ConnectionId ''connection-0'')
       (PortId ''transfer'') None None,
     chan_connection_delay = 0\<rparr>"

lemma opened_handshake:
  "chan_handshake sample_retry sample_env (opened_channel, sample_world)
     = (Ok (), (set_b_channel_id (Some (ChannelId ''channel-1'')) opened_channel, sample_world))"
proof -
  have "\<exists>ds. handshake_strategy (from_secs 90) = Ok ds"
    using handshake_strategy_Ok [of "from_secs 90"] by (auto simp: from_secs_def DURATION_MAX_def)
  then obtain ds where ds: "handshake_strategy (from_secs 90) = Ok ds" by blast
  have round: "do_chan_open_handshake sample_env (opened_channel, sample_world)
      = (Ok (), (set_b_channel_id (Some (ChannelId ''channel-1'')) opened_channel, sample_world))"
    by (simp add: do_chan_open_handshake_def update_channel_and_query_states_def query_side_channel_def opened_channel_def
        channel_side_new_def on_chan_world_def modify_chan_def correct_a_id_def correct_b_id_def sample_channel_def
        set_b_channel_id_def eff_defs ebind_def)
  have "chan_max_block_times opened_channel sample_world = (Ok (from_secs 90), sample_world)"
    by (simp add: chan_max_block_times_def opened_channel_def channel_side_new_def from_secs_def eff_defs ebind_def)
  with ds round show ?thesis
    by (simp add: chan_handshake_def on_chan_world_def handshake_attempt_def sample_retry_def ebind_def etry_def eret_def
        eresult_def emap_err_def sample_retry_from.simps [of 1])
qed


section \<open>Steps of the channel worker\<close>

text \<open>The close handshake: the message of a confirmation for the chain on side b.\<close>

definition close_confirm_submitted :: "'w channel \<Rightarrow> ibc_event \<Rightarrow> 'w \<Rightarrow> bool" where
  "close_confirm_submitted c ev w' \<longleftrightarrow> (\<exists>attrs. ev = CloseConfirmChannel attrs) \<and> (\<exists>updates dst p s tag w1 evs.
     send_messages_and_wait_commit (b_chain c)
       (tracked_msgs_new (updates @ [MsgChannelCloseConfirm (side_port_id (chan_b_side c)) dst p s]) tag) w1 = (Ok evs, w')
     \<and> side_channel_id (chan_b_side c) = Some dst \<and> ev \<in> event ` set evs)"

lemma close_confirm_Ok:
  assumes "build_chan_close_confirm_and_send env c w = (Ok ev, w')"
  shows "close_confirm_submitted c ev w'"
  using assms
  by (fastforce simp: build_chan_close_confirm_and_send_def build_chan_close_confirm_def eff_ok close_confirm_submitted_def
      split: ibc_event.splits dest!: validated_ids_Ok chan_send_Ok)

lemma event_for_Abort:
  "event_for act ev \<Longrightarrow> act \<noteq> ActInit \<Longrightarrow> (case Some ev of
      Some (OpenConfirmChannel _) \<Rightarrow> Abort | Some (OpenAckChannel _) \<Rightarrow> Abort | Some (CloseConfirmChannel _) \<Rightarrow> Abort
    | _ \<Rightarrow> Continue) = (if act = ActTry then Continue else Abort)"
  by (cases act; cases ev) (auto simp: event_for_def)

lemma step_message_Ok:
  assumes "step_message env c st cp w = (Ok (ev, finished), w')"
  shows "(\<exists>act e. ev = Some e \<and> \<not> finished \<and> act \<noteq> ActInit \<and> ics_enabled act cp st \<and> send_action env act c w = (Ok e, w'))
    \<or> (st = Closed \<and> cp \<noteq> Closed \<and> \<not> finished \<and> (\<exists>e. ev = Some e \<and> build_chan_close_confirm_and_send env c w = (Ok e, w')))
    \<or> (ev = None \<and> w' = w \<and> finished = ((st, cp) \<in> {(Open, Open), (TryOpen, Open), (Closed, Closed)})
        \<and> (\<forall>act. act \<noteq> ActInit \<longrightarrow> \<not> ics_enabled act cp st) \<and> (st = Closed \<longrightarrow> cp = Closed))"
proof -
  have none: "(\<forall>act. act \<noteq> ActInit \<longrightarrow> \<not> ics_enabled act cp st) \<longleftrightarrow>
      \<not> ics_enabled ActTry cp st \<and> \<not> ics_enabled ActAck cp st \<and> \<not> ics_enabled ActConfirm cp st"
    by (metis handshake_action.exhaust handshake_action.distinct(1,3,5))
  from assms show ?thesis
    unfolding none step_message_def Let_def
    by (cases st; cases cp) (auto simp: eff_ok intro: exI [of _ ActTry] exI [of _ ActAck] exI [of _ ActConfirm])
qed

text \<open>
  C18: a step of the channel worker, in reply to an event or to a state it was restored from, also refines ICS-04. When the
  source end has a state and the destination chain reports the state of its end, the step submits a try, an acknowledgement or
  a confirmation to the destination exactly when the protocol allows it there, or the confirmation of a closed channel;
  otherwise it submits nothing. The worker is told to stop after an acknowledgement, a confirmation or a close, and
  without a message exactly when the channel is open or closed on both ends or the other direction has the last step.
\<close>
theorem worker_step_refines:
  assumes "chan_handshake_step env c st w = (Ok (ev, nxt), w')"
  shows "\<exists>cp w1. chan_counterparty_state c w = (Ok cp, w1) \<and>
     (case ev of
        Some e \<Rightarrow> (\<exists>act. act \<noteq> ActInit \<and> ics_enabled act cp st \<and> submitted_as act c e w' \<and> (nxt = Continue \<longleftrightarrow> act = ActTry))
          \<or> (st = Closed \<and> cp \<noteq> Closed \<and> close_confirm_submitted c e w' \<and> nxt = Abort)
      | None \<Rightarrow> w' = w1 \<and> (\<forall>act. act \<noteq> ActInit \<longrightarrow> \<not> ics_enabled act cp st) \<and> (st = Closed \<longrightarrow> cp = Closed)
          \<and> (nxt = Abort \<longleftrightarrow> (st, cp) \<in> {(Open, Open), (TryOpen, Open), (Closed, Closed)}))"
proof -
  from assms obtain cp w1 finished where cp: "chan_counterparty_state c w = (Ok cp, w1)"
    and msg: "step_message env c st cp w1 = (Ok (ev, finished), w')"
    and nxt: "nxt = (if finished then Abort else case ev of
        Some (OpenConfirmChannel _) \<Rightarrow> Abort | Some (OpenAckChannel _) \<Rightarrow> Abort | Some (CloseConfirmChannel _) \<Rightarrow> Abort
      | _ \<Rightarrow> Continue)"
    by (auto simp: chan_handshake_step_def eff_ok)
  from step_message_Ok [OF msg] show ?thesis
  proof (elim disjE exE conjE)
    fix act e
    assume "ev = Some e" "\<not> finished" "act \<noteq> ActInit" "ics_enabled act cp st" "send_action env act c w1 = (Ok e, w')"
    moreover from this have "submitted_as act c e w'" by (blast intro: send_action_submitted)
    moreover from this have "event_for act e" by (simp add: submitted_as_def)
    ultimately show ?thesis using cp nxt event_for_Abort [of act e] by (intro exI [of _ cp] exI [of _ w1]) auto
  next
    fix e
    assume "st = Closed" "cp \<noteq> Closed" "\<not> finished" "ev = Some e" "build_chan_close_confirm_and_send env c w1 = (Ok e, w')"
    moreover from this have "close_confirm_submitted c e w'" by (blast intro: close_confirm_Ok)
    moreover from this obtain attrs where "e = CloseConfirmChannel attrs" by (auto simp: close_confirm_submitted_def)
    ultimately show ?thesis using cp nxt by (intro exI [of _ cp] exI [of _ w1]) auto
  qed (use cp nxt in auto)
qed

theorem worker_step_refines_witness:
  "\<exists>w1. chan_counterparty_state opened_channel sample_world = (Ok Open, w1)
     \<and> chan_handshake_step sample_env opened_channel Open sample_world = (Ok (None, Abort), w1)"
proof -
  have run: "chan_handshake_step sample_env opened_channel Open sample_world = (Ok (None, Abort), sample_world)"
    by (simp add: chan_handshake_step_def chan_counterparty_state_def channel_connection_client_def
        channel_connection_client_no_checks_def sup_query_def channel_state_on_destination_def channel_on_destination_def
        step_message_def opened_channel_def channel_side_new_def sample_channel_def sample_connection_def state_matches_def
        connection_is_open_def connection_state_matches_def eff_defs ebind_def)
  from worker_step_refines [OF run] run show ?thesis by auto
qed

end
