(* ===== verification/Connection_Refinement.thy ===== *)
theory Connection_Refinement
  imports Handshake_Driver
begin

text \<open>
  The connection handshake refines its protocol: what each round of the driver and each step of the worker submits,
  in which order the two chains see client updates and handshake messages, and what a handshake that succeeds guarantees.
\<close>

section \<open>Rounds as protocol actions\<close>

fun conn_send_action :: "'w env \<Rightarrow> handshake_action \<Rightarrow> 'w connection \<Rightarrow> ('w, conn_op_error, ibc_event) eff" where
  "conn_send_action env ActInit c = build_conn_init_and_send c"
| "conn_send_action env ActTry c = build_conn_try_and_send env c"
| "conn_send_action env ActAck c = build_conn_ack_and_send env c"
| "conn_send_action env ActConfirm c = build_conn_confirm_and_send env c"

lemma conn_send_action_eta:
  "conn_send_action env ActTry = build_conn_try_and_send env"
  "conn_send_action env ActAck = build_conn_ack_and_send env"
  "conn_send_action env ActConfirm = build_conn_confirm_and_send env"
  by auto

definition conn_record_id :: "bool \<Rightarrow> handshake_action \<Rightarrow> ibc_event \<Rightarrow> ('w, unit) conn_op" where
  "conn_record_id onA act ev = (if act = ActInit \<or> act = ActTry then
     ebind (eresult (extract_connection_id ev)) (\<lambda>i.
       modify_conn (if onA then set_a_connection_id (Some i) else set_b_connection_id (Some i)))
     else eret ())"

lemma do_conn_open_handshake_alt:
  "do_conn_open_handshake env = ebind update_connection_and_query_states (\<lambda>(a, b).
     case round_action (conn_phase a) (conn_phase b) of
       None \<Rightarrow> if conn_phase a = Open \<and> conn_phase b = Open then eret () else ethrow ConnHandshakeFinalize
     | Some (onA, act) \<Rightarrow>
         ebind (on_conn_world (\<lambda>c. conn_send_action env act (if onA then conn_flipped c else c))) (\<lambda>ev.
         ebind (conn_record_id onA act ev) (\<lambda>_. ethrow ConnHandshakeFinalize)))"
  unfolding do_conn_open_handshake_def
  by (intro arg_cong2 [where f = ebind] refl ext)
    (auto simp: round_action_def conn_record_id_def ebind_assoc conn_send_action_eta split: prod.split connection_state.split)

text \<open>The message of an action for the chain on side b.\<close>

definition conn_msg_for :: "handshake_action \<Rightarrow> 'w connection \<Rightarrow> ibc_msg \<Rightarrow> bool" where
  "conn_msg_for act c m \<longleftrightarrow> (case (act, m) of
       (ActInit, MsgConnectionOpenInit client cp _ delay _) \<Rightarrow> client = cside_client_id (conn_b_side c)
         \<and> cc_client_id cp = cside_client_id (conn_a_side c) \<and> cc_connection_id cp = None \<and> delay = conn_delay c
     | (ActTry, MsgConnectionOpenTry client _ _ cp _ _ _ _) \<Rightarrow> client = cside_client_id (conn_b_side c)
         \<and> cc_client_id cp = cside_client_id (conn_a_side c) \<and> cc_connection_id cp = cside_connection_id (conn_a_side c)
         \<and> cside_connection_id (conn_a_side c) \<noteq> None
     | (ActAck, MsgConnectionOpenAck dst src _ _ _ _) \<Rightarrow>
         cside_connection_id (conn_b_side c) = Some dst \<and> cside_connection_id (conn_a_side c) = Some src
     | (ActConfirm, MsgConnectionOpenConfirm dst _ _) \<Rightarrow> cside_connection_id (conn_b_side c) = Some dst
     | _ \<Rightarrow> False)"

definition conn_event_for :: "handshake_action \<Rightarrow> ibc_event \<Rightarrow> bool" where
  "conn_event_for act ev \<longleftrightarrow> (case ev of
       OpenInitConnection _ \<Rightarrow> act = ActInit
     | OpenTryConnection _ \<Rightarrow> act = ActTry
     | OpenAckConnection _ \<Rightarrow> act = ActAck
     | OpenConfirmConnection _ \<Rightarrow> act = ActConfirm
     | _ \<Rightarrow> False)"

definition conn_submitted_as :: "handshake_action \<Rightarrow> 'w connection \<Rightarrow> ibc_event \<Rightarrow> 'w \<Rightarrow> bool" where
  "conn_submitted_as act c ev w' \<longleftrightarrow> conn_event_for act ev \<and> (\<exists>updates m tag w1 evs.
     send_messages_and_wait_commit (conn_b_chain c) (tracked_msgs_new (updates @ [m]) tag) w1 = (Ok evs, w')
     \<and> conn_msg_for act c m \<and> ev \<in> event ` set evs)"

lemma conn_send_Ok:
  assumes "conn_send c tag expected missing msgs w = (Ok ev, w')"
  shows "expected ev \<and> (\<exists>evs. send_messages_and_wait_commit (conn_b_chain c) (tracked_msgs_new msgs (Static tag)) w = (Ok evs, w')
     \<and> ev \<in> event ` set evs)"
  using assms by (auto simp: conn_send_def eff_ok dest!: pick_event_Ok)

lemma conn_submitted_asI:
  assumes "conn_send c tag expected missing (msgs @ [m]) w = (Ok ev, w')" "conn_msg_for act c m"
    and "expected ev \<Longrightarrow> conn_event_for act ev"
  shows "conn_submitted_as act c ev w'"
  using conn_send_Ok [OF assms(1)] assms(2,3) unfolding conn_submitted_as_def by blast

lemma build_conn_try_Ok:
  assumes "build_conn_try env c w = (Ok (msgs, target), w')"
  shows "\<exists>updates m. msgs = updates @ [m] \<and> conn_msg_for ActTry c m"
  using assms unfolding build_conn_try_def by (auto simp: eff_ok conn_msg_for_def)

lemma build_conn_ack_Ok:
  assumes "build_conn_ack env c w = (Ok (msgs, target), w')"
  shows "\<exists>updates m. msgs = updates @ [m] \<and> conn_msg_for ActAck c m"
  using assms unfolding build_conn_ack_def by (auto simp: eff_ok conn_msg_for_def neq_Nil_conv split: list.splits)

lemma build_conn_confirm_Ok:
  assumes "build_conn_confirm env c w = (Ok msgs, w')"
  shows "\<exists>updates m. msgs = updates @ [m] \<and> conn_msg_for ActConfirm c m"
  using assms unfolding build_conn_confirm_def by (auto simp: eff_ok conn_msg_for_def)

lemma conn_send_action_submitted:
  assumes "conn_send_action env act c w = (Ok ev, w')"
  shows "conn_submitted_as act c ev w'"
proof (cases act)
  case ActInit
  with assms show ?thesis
    by (auto simp: build_conn_init_and_send_def build_conn_init_def conn_msg_for_def conn_event_for_def eff_ok neq_Nil_conv split: list.splits ibc_event.splits
        intro!: conn_submitted_asI [where msgs = "[]", simplified])
next
  case ActTry
  with assms show ?thesis
    by (auto simp: build_conn_try_and_send_def conn_event_for_def eff_ok split: ibc_event.splits
        dest!: build_conn_try_Ok intro: conn_submitted_asI)
next
  case ActAck
  with assms show ?thesis
    by (auto simp: build_conn_ack_and_send_def conn_event_for_def eff_ok split: ibc_event.splits
        dest!: build_conn_ack_Ok intro: conn_submitted_asI)
next
  case ActConfirm
  with assms show ?thesis
    by (auto simp: build_conn_confirm_and_send_def conn_event_for_def eff_ok split: ibc_event.splits
        dest!: build_conn_confirm_Ok intro: conn_submitted_asI)
qed

section \<open>Errors of a round\<close>

abbreviation conn_not_finalize :: "conn_op_error \<Rightarrow> bool" where
  "conn_not_finalize e \<equiv> e \<noteq> ConnHandshakeFinalize"

lemma raises_on_conn_world [errs]: "(\<And>c. raises P (f c)) \<Longrightarrow> raises P (on_conn_world f)"
  by (auto simp: raises_def on_conn_world_def split: prod.splits)

lemma raises_modify_conn [errs]: "raises P (modify_conn f)"
  by (auto simp: raises_def modify_conn_def)

lemma raises_query_side_conn [errs]: "(\<And>x e. P (ConnChainQuery x e)) \<Longrightarrow> raises P (query_side_connection side i)"
  by (auto simp: query_side_connection_def intro!: errs split: option.split)

lemma raises_conn_update: "raises conn_not_finalize update_connection_and_query_states"
  unfolding update_connection_and_query_states_def correct_b_conn_id_def correct_a_conn_id_def by (intro errs) simp_all

lemma raises_conn_send: "raises conn_not_finalize (conn_send c tag expected missing msgs)"
  if "conn_not_finalize missing"
  using that unfolding conn_send_def by (intro errs) (auto dest!: pick_event_Err)

lemmas conn_query_defs = conn_query_latest_def conn_update_client_on_src_def conn_update_client_on_dst_def
  conn_dst_signer_def conn_src_prefix_def conn_versions_of_def

lemma raises_conn_queries [errs]:
  "raises conn_not_finalize (conn_query_latest chain)"
  "raises conn_not_finalize (conn_update_client_on_src env c h)"
  "raises conn_not_finalize (conn_update_client_on_dst env c h)"
  "raises conn_not_finalize (conn_dst_signer c)"
  "raises conn_not_finalize (conn_src_prefix c)"
  "raises conn_not_finalize (conn_versions_of chain)"
  unfolding conn_query_defs by (intro errs; simp)+

lemma raises_wait_dest_height: "raises conn_not_finalize (wait_dest_height n env c h)"
  by (induction n) (auto simp: thread_sleep_def intro!: errs)

lemma raises_wait_for_dest: "raises conn_not_finalize (wait_for_dest_app_height env c h)"
  unfolding wait_for_dest_app_height_def
  by (intro errs) (auto intro!: errs raises_wait_dest_height split: sum.split chain_config.split)

lemma raises_conn_proofs: "raises conn_not_finalize (conn_proofs_after_update env c t i)"
  unfolding conn_proofs_after_update_def by (intro errs) auto

lemma raises_validated_connection: "raises conn_not_finalize (validated_expected_connection c t)"
  unfolding validated_expected_connection_def Let_def
  by (intro errs) (auto simp: ok_or_eq_Err check_destination_connection_state_def Let_def split: if_splits)

lemmas conn_raises_parts = raises_conn_send raises_wait_for_dest raises_conn_proofs raises_validated_connection

lemma raises_conn_send_action: "raises conn_not_finalize (conn_send_action env act c)"
proof (cases act)
  case ActInit
  then show ?thesis
    by (auto simp: build_conn_init_and_send_def build_conn_init_def intro!: errs conn_raises_parts split: list.split)
next
  case ActTry
  then show ?thesis
    by (auto simp: build_conn_try_and_send_def build_conn_try_def ok_or_eq_Err intro!: errs conn_raises_parts)
next
  case ActAck
  then show ?thesis
    by (auto simp: build_conn_ack_and_send_def build_conn_ack_def ok_or_eq_Err intro!: errs conn_raises_parts
        split: list.split)
next
  case ActConfirm
  then show ?thesis
    by (auto simp: build_conn_confirm_and_send_def build_conn_confirm_def ok_or_eq_Err intro!: errs conn_raises_parts)
qed

lemma raises_conn_record_id: "raises conn_not_finalize (conn_record_id onA act ev)"
  unfolding conn_record_id_def by (intro errs) (auto simp: extract_connection_id_def ok_or_eq_Err split: ibc_event.splits)

text \<open>A connection object without the identifiers of its ends: the chains, the clients and the delay.\<close>

definition conn_ends :: "'w connection \<times> 'w \<Rightarrow> 'w connection" where
  "conn_ends s = set_a_connection_id None (set_b_connection_id None (fst s))"

lemma conn_ends_eq:
  assumes "conn_ends (c, w) = conn_ends (d, v)"
  shows "conn_delay c = conn_delay d \<and> conn_a_chain c = conn_a_chain d \<and> conn_b_chain c = conn_b_chain d
     \<and> cside_client_id (conn_a_side c) = cside_client_id (conn_a_side d)
     \<and> cside_client_id (conn_b_side c) = cside_client_id (conn_b_side d)"
proof -
  have side: "a\<lparr>cside_connection_id := i\<rparr> = b\<lparr>cside_connection_id := i\<rparr> \<Longrightarrow>
      cside_chain a = cside_chain b \<and> cside_client_id a = cside_client_id b" for a b :: "'a connection_side" and i
    by (cases a; cases b) simp
  from assms show ?thesis
    by (cases c; cases d) (auto simp: conn_ends_def set_a_connection_id_def set_b_connection_id_def dest!: side)
qed

lemma conn_ends_on_world [pres]: "preserves (\<lambda>s. conn_ends s = x) (on_conn_world f)"
  by (auto simp: conn_ends_def on_conn_world_def intro!: preservesI split: prod.splits)

lemma conn_ends_modify [pres]:
  "preserves (\<lambda>s. conn_ends s = x) (modify_conn (set_a_connection_id i))"
  "preserves (\<lambda>s. conn_ends s = x) (modify_conn (set_b_connection_id i))"
  by (auto simp: conn_ends_def modify_conn_def set_a_connection_id_def set_b_connection_id_def intro!: preservesI)

lemma conn_ends_query: "preserves (\<lambda>s. conn_ends s = x) update_connection_and_query_states"
  unfolding update_connection_and_query_states_def correct_a_conn_id_def correct_b_conn_id_def by (intro pres)

lemma conn_ends_record: "preserves (\<lambda>s. conn_ends s = x) (conn_record_id onA act ev)"
  by (cases onA) (auto simp: conn_record_id_def intro!: pres)

interpretation conn_driver: handshake_driver "do_conn_open_handshake env" update_connection_and_query_states
    "\<lambda>onA act. on_conn_world (\<lambda>c. conn_send_action env act (if onA then conn_flipped c else c))"
    conn_record_id conn_phase ConnHandshakeFinalize conn_ends for env
  by unfold_locales
    (auto simp: do_conn_open_handshake_alt intro!: errs pres raises_conn_update raises_conn_record_id
      raises_conn_send_action conn_ends_query conn_ends_record)

section \<open>Rounds of the driver\<close>

lemma on_conn_world_Ok: "on_conn_world f s = (Ok a, t) \<longleftrightarrow> (\<exists>w. f (fst s) (snd s) = (Ok a, w) \<and> t = (fst s, w))"
  by (auto simp: on_conn_world_def split: prod.splits)

lemma correct_b_conn_id_Ok:
  "correct_b_conn_id i j (c, w) = (Ok (), (c', w')) \<Longrightarrow> w' = w \<and> conn_a_side c' = conn_a_side c
     \<and> cside_connection_id (conn_b_side c') = (if i \<noteq> None \<and> i \<noteq> j then i else cside_connection_id (conn_b_side c))"
  by (auto simp: correct_b_conn_id_def modify_conn_def set_b_connection_id_def eff_ok split: if_splits)

lemma correct_a_conn_id_Ok:
  "correct_a_conn_id i j k l (c, w) = (Ok (), (c', w')) \<Longrightarrow> w' = w \<and> conn_b_side c' = conn_b_side c
     \<and> cside_connection_id (conn_a_side c') = (if i \<noteq> None \<and> i \<noteq> j then i else cside_connection_id (conn_a_side c))
     \<and> (i \<noteq> None \<and> i \<noteq> j \<longrightarrow> l = k)"
  by (auto simp: correct_a_conn_id_def modify_conn_def set_a_connection_id_def eff_ok split: if_splits)

definition conn_states_seen :: "'w connection \<Rightarrow> 'w \<Rightarrow> connection_state \<Rightarrow> connection_state \<Rightarrow> 'w connection \<Rightarrow> 'w \<Rightarrow> bool" where
  "conn_states_seen c w a b c' w' \<longleftrightarrow>
     (\<exists>ea eb w1. query_side_connection (conn_a_side c) (cside_connection_id (conn_a_side c)) w = (Ok ea, w1)
     \<and> query_side_connection (conn_b_side c') (cside_connection_id (conn_b_side c')) w1 = (Ok eb, w')
     \<and> conn_state ea = a \<and> conn_state eb = b
     \<and> (cc_connection_id (conn_counterparty ea) \<noteq> None
          \<longrightarrow> cside_connection_id (conn_b_side c') = cc_connection_id (conn_counterparty ea))
     \<and> (cc_connection_id (conn_counterparty eb) \<noteq> None
          \<longrightarrow> cside_connection_id (conn_a_side c') = cc_connection_id (conn_counterparty eb))
     \<and> (cside_connection_id (conn_a_side c') = cside_connection_id (conn_a_side c)
        \<or> cside_connection_id (conn_b_side c') = cside_connection_id (conn_b_side c)))"

lemma update_conn_states_Ok:
  assumes "update_connection_and_query_states (c, w) = (Ok (a, b), (c', w'))"
  shows "conn_states_seen c w a b c' w'"
proof -
  let ?a = "cside_connection_id (conn_a_side c)" and ?b = "cside_connection_id (conn_b_side c)"
  from assms obtain ea w1 c1 w2 eb w3 where ea: "query_side_connection (conn_a_side c) ?a w = (Ok ea, w1)"
    and c1: "correct_b_conn_id (cc_connection_id (conn_counterparty ea)) ?b (c, w1) = (Ok (), (c1, w2))"
    and eb: "query_side_connection (conn_b_side c1) (cside_connection_id (conn_b_side c1)) w2 = (Ok eb, w3)"
    and c': "correct_a_conn_id (cc_connection_id (conn_counterparty eb)) ?a ?b (cside_connection_id (conn_b_side c1)) (c1, w3)
      = (Ok (), (c', w'))"
    and "a = conn_state ea" "b = conn_state eb"
    unfolding update_connection_and_query_states_def by (auto simp: eff_ok on_conn_world_Ok)
  then show ?thesis
    using correct_b_conn_id_Ok [OF c1] correct_a_conn_id_Ok [OF c'] unfolding conn_states_seen_def
    by (auto split: if_splits)
qed

definition conn_recorded :: "bool \<Rightarrow> handshake_action \<Rightarrow> ibc_event \<Rightarrow> 'w connection \<Rightarrow> 'w connection \<Rightarrow> bool" where
  "conn_recorded onA act ev c c' \<longleftrightarrow> (if act = ActInit \<or> act = ActTry
     then \<exists>i. extract_connection_id ev = Ok i
       \<and> c' = (if onA then set_a_connection_id (Some i) c else set_b_connection_id (Some i) c)
     else c' = c)"

text \<open>
  C13: every round of the connection handshake refines the protocol of ICS-03. Given the states of the two ends, a round
  that ends normally either submits one message which that protocol allows there, to the chain whose end it moves and with
  the clients and identifiers of the connection, gets the event for it and records the identifier of a created end; or it
  submits nothing, which happens only when no end can move by a try, an acknowledgement or a confirmation, and it reports
  success exactly when both ends are open.
\<close>
theorem conn_round_refines:
  fixes env :: "'w env"
  assumes "do_conn_open_handshake env (c, w) = (r, (c', w'))" "r = Ok () \<or> r = Err ConnHandshakeFinalize"
  shows "\<exists>a b (c1 :: 'w connection) w1. update_connection_and_query_states (c, w) = (Ok (a, b), (c1, w1))
     \<and> ((\<exists>onA act ev st. r = Err ConnHandshakeFinalize \<and> ics_step (conn_phase a, conn_phase b) st
          \<and> ics_enabled act (conn_phase (if onA then a else b)) (conn_phase (if onA then b else a))
          \<and> st = (if onA then (ics_result act, conn_phase b) else (conn_phase a, ics_result act))
          \<and> conn_submitted_as act (if onA then conn_flipped c1 else c1) ev w' \<and> conn_recorded onA act ev c1 c')
      \<or> (c' = c1 \<and> w' = w1 \<and> (r = Ok () \<longleftrightarrow> a = ConnOpen \<and> b = ConnOpen)
          \<and> (\<forall>act. act \<noteq> ActInit \<longrightarrow> \<not> ics_enabled act (conn_phase a) (conn_phase b)
               \<and> \<not> ics_enabled act (conn_phase b) (conn_phase a))))"
  using assms
proof (cases rule: conn_driver.round_cases)
  case (1 a b onA act ev s1 s2)
  obtain c1 w1 c2 w2 where s: "s1 = (c1, w1)" "s2 = (c2, w2)" by fastforce
  with 1 have "c2 = c1" "conn_send_action env act (if onA then conn_flipped c1 else c1) w1 = (Ok ev, w2)"
    by (auto simp: on_conn_world_Ok)
  moreover from this 1 s have "conn_recorded onA act ev c1 c' \<and> w2 = w'"
    by (auto simp: conn_record_id_def conn_recorded_def eff_ok modify_conn_def split: if_splits)
  moreover from calculation have "conn_submitted_as act (if onA then conn_flipped c1 else c1) ev w'"
    by (auto dest: conn_send_action_submitted)
  moreover have "ics_enabled act (conn_phase (if onA then a else b)) (conn_phase (if onA then b else a))"
    using round_action_enabled 1(3) by (cases onA) auto
  moreover have "ics_step (conn_phase a, conn_phase b)
      (if onA then (ics_result act, conn_phase b) else (conn_phase a, ics_result act))"
    using round_action_step [OF 1(3)] by (cases onA) auto
  ultimately show ?thesis using 1(1,2) s(1) by blast
next
  case (2 a b)
  have "conn_phase x = Open \<longleftrightarrow> x = ConnOpen" for x by (cases x) auto
  with 2 show ?thesis using round_action_None by auto
qed

section \<open>The whole handshake\<close>

lemma conn_phase_Open [simp]: "conn_phase x = Open \<longleftrightarrow> x = ConnOpen"
  by (cases x) auto

lemma conn_handshake_Ok:
  fixes c c' :: "'w connection"
  assumes "retry_law retry" "conn_handshake retry env (c, w) = (Ok (), (c', w'))"
  shows "\<exists>(c0 :: 'w connection) w0. conn_states_seen c0 w0 ConnOpen ConnOpen c' w'
     \<and> conn_ends (c0, w0) = conn_ends (c, w) \<and> conn_ends (c', w') = conn_ends (c, w)"
proof -
  have "preserves (\<lambda>s. conn_ends s = x) (conn_handshake_attempt env n)" for n x
    unfolding conn_handshake_attempt_def by (intro pres conn_driver.round_ends)
  moreover have "conn_handshake_attempt env n t = (Ok (RetryOk ()), t') \<Longrightarrow> do_conn_open_handshake env t = (Ok (), t')" for n t t'
    by (auto simp: conn_handshake_attempt_def eff_ok split: if_splits)
  moreover from assms(2) obtain delays w2 where "retry delays (conn_handshake_attempt env) (c, w2) = (Ok (), (c', w'))"
    by (auto simp: conn_handshake_def eff_ok on_conn_world_Ok)
  ultimately obtain c0 w0 where "update_connection_and_query_states (c0, w0) = (Ok (ConnOpen, ConnOpen), (c', w'))"
      "conn_ends (c0, w0) = conn_ends (c, w2)" "conn_ends (c', w') = conn_ends (c, w2)"
    using conn_driver.repeated_Ok [OF assms(1), of delays "conn_handshake_attempt env" "(c, w2)" "(c', w')" env] by auto
  with update_conn_states_Ok [OF this(1)] show ?thesis
    by (intro exI [of _ c0] exI [of _ w0]) (simp add: conn_ends_def)
qed


section \<open>Client updates before the proofs\<close>

lemma wait_dest_height_Ok:
  "wait_dest_height n env c h w = (Ok (), w') \<Longrightarrow>
     \<exists>w0 latest. query_latest_height (conn_b_chain c) w0 = (Ok latest, w') \<and> h < latest"
  by (induction n arbitrary: w) (auto simp: eff_ok not_le split: if_splits)

lemma wait_for_dest_Ok:
  assumes "wait_for_dest_app_height env c h w = (Ok (), w')"
  shows "(\<exists>cfg w0. config (conn_a_chain c) w0 = (Ok cfg, w') \<and> (cfg = AxonConfig \<or> cfg = Ckb4IbcConfig))
     \<or> (\<exists>w0 latest. query_latest_height (conn_b_chain c) w0 = (Ok latest, w') \<and> h < latest)"
proof -
  obtain q t where q: "config (conn_a_chain c) w = (q, t)" by fastforce
  show ?thesis
  proof (cases "q = Ok AxonConfig \<or> q = Ok Ckb4IbcConfig")
    case True
    with q assms have "t = w'" by (auto simp: wait_for_dest_app_height_def ebind_def etry_def eret_def)
    with q True show ?thesis by blast
  next
    case False
    with q assms have "wait_dest_height (wait_fuel env) env c h t = (Ok (), w')"
      by (cases q) (auto simp: wait_for_dest_app_height_def ebind_def etry_def split: chain_config.splits)
    then show ?thesis by (blast dest: wait_dest_height_Ok)
  qed
qed

text \<open>The client on the source chain follows the destination chain at a height it had reached, and that update was committed.\<close>

definition src_client_updated :: "'w env \<Rightarrow> 'w connection \<Rightarrow> height \<Rightarrow> bool" where
  "src_client_updated env c target \<longleftrightarrow> (\<exists>w0 w1 msgs w2 tag evs w3.
     query_latest_height (conn_b_chain c) w0 = (Ok target, w1)
     \<and> wait_and_build_update_client env
         (foreign_client_restore (cside_client_id (conn_a_side c)) (conn_a_chain c) (conn_b_chain c)) target w1 = (Ok msgs, w2)
     \<and> send_messages_and_wait_commit (conn_a_chain c) (tracked_msgs_new msgs tag) w2 = (Ok evs, w3))"

lemma conn_proofs_Ok:
  assumes "conn_proofs_after_update env c t i w = (Ok (target, cs, proofs, msgs), w')"
  shows "src_client_updated env c target"
  using assms by (auto simp: conn_proofs_after_update_def src_client_updated_def conn_query_latest_def
      conn_update_client_on_src_def eff_ok) blast

lemma try_ack_target:
  "build_conn_try env c w = (Ok (msgs, target), w') \<Longrightarrow> src_client_updated env c target"
  "build_conn_ack env c w = (Ok (msgs, target), w') \<Longrightarrow> src_client_updated env c target"
  by (auto simp: build_conn_try_def build_conn_ack_def eff_ok neq_Nil_conv dest!: conn_proofs_Ok split: list.splits)


section \<open>Steps of the connection worker\<close>

lemma conn_event_for_Abort:
  "conn_event_for act ev \<Longrightarrow> act \<noteq> ActInit \<Longrightarrow> (case Some ev of
      Some (OpenConfirmConnection _) \<Rightarrow> Abort | Some (OpenAckConnection _) \<Rightarrow> Abort
    | _ \<Rightarrow> Continue) = (if act = ActTry then Continue else Abort)"
  by (cases act; cases ev) (auto simp: conn_event_for_def)

lemma conn_step_message_Ok:
  assumes "conn_step_message env c st cp w = (Ok (ev, finished), w')"
  shows "(\<exists>act e. ev = Some e \<and> \<not> finished \<and> act \<noteq> ActInit \<and> conn_send_action env act c w = (Ok e, w')
        \<and> (act, st, cp) \<in> {(ActTry, ConnInit, ConnUninitialized), (ActTry, ConnInit, ConnInit), (ActAck, ConnTryOpen, ConnInit),
             (ActAck, ConnTryOpen, ConnTryOpen), (ActConfirm, ConnOpen, ConnTryOpen)})
    \<or> (ev = None \<and> w' = w \<and> finished = ((st, cp) \<in> {(ConnOpen, ConnOpen), (ConnTryOpen, ConnOpen)})
        \<and> (\<forall>act. act \<noteq> ActInit \<longrightarrow> \<not> ics_enabled act (conn_phase cp) (conn_phase st)))"
proof -
  have none: "(\<forall>act. act \<noteq> ActInit \<longrightarrow> \<not> ics_enabled act (conn_phase cp) (conn_phase st)) \<longleftrightarrow>
      \<not> ics_enabled ActTry (conn_phase cp) (conn_phase st) \<and> \<not> ics_enabled ActAck (conn_phase cp) (conn_phase st)
      \<and> \<not> ics_enabled ActConfirm (conn_phase cp) (conn_phase st)"
    by (metis handshake_action.exhaust handshake_action.distinct(1,3,5))
  from assms show ?thesis
    unfolding none conn_step_message_def Let_def by (cases st; cases cp) (auto simp: eff_ok)
qed

text \<open>
  C19: a step of the connection worker, in reply to an event or to a state it was restored from, refines ICS-03. With the
  state of the source end and the state which the destination chain reports for its end, the step submits a try, an
  acknowledgement or a confirmation to the destination exactly when the protocol allows it there; otherwise it submits
  nothing. The worker is told to stop after an acknowledgement or a confirmation, and without a message exactly when both
  ends are open or the other direction has the last step.
\<close>
theorem conn_worker_step_refines:
  assumes "conn_handshake_step env c st w = (Ok (ev, nxt), w')"
  shows "\<exists>cp w1. conn_counterparty_state c w = (Ok cp, w1) \<and>
     (case ev of
        Some e \<Rightarrow> \<exists>act. act \<noteq> ActInit \<and> ics_enabled act (conn_phase cp) (conn_phase st)
          \<and> conn_submitted_as act c e w' \<and> (nxt = Continue \<longleftrightarrow> act = ActTry)
      | None \<Rightarrow> w' = w1 \<and> (\<forall>act. act \<noteq> ActInit \<longrightarrow> \<not> ics_enabled act (conn_phase cp) (conn_phase st))
          \<and> (nxt = Abort \<longleftrightarrow> (st, cp) \<in> {(ConnOpen, ConnOpen), (ConnTryOpen, ConnOpen)}))"
proof -
  from assms obtain cp w1 finished where cp: "conn_counterparty_state c w = (Ok cp, w1)"
    and msg: "conn_step_message env c st cp w1 = (Ok (ev, finished), w')"
    and nxt: "nxt = (if finished then Abort else case ev of
        Some (OpenConfirmConnection _) \<Rightarrow> Abort | Some (OpenAckConnection _) \<Rightarrow> Abort | _ \<Rightarrow> Continue)"
    by (auto simp: conn_handshake_step_def eff_ok)
  from conn_step_message_Ok [OF msg] show ?thesis
  proof (elim disjE exE conjE)
    fix act e
    assume "ev = Some e" "\<not> finished" "act \<noteq> ActInit" "conn_send_action env act c w1 = (Ok e, w')"
      "(act, st, cp) \<in> {(ActTry, ConnInit, ConnUninitialized), (ActTry, ConnInit, ConnInit), (ActAck, ConnTryOpen, ConnInit),
         (ActAck, ConnTryOpen, ConnTryOpen), (ActConfirm, ConnOpen, ConnTryOpen)}"
    moreover from this have "conn_submitted_as act c e w'" by (blast intro: conn_send_action_submitted)
    moreover from this have "conn_event_for act e" by (simp add: conn_submitted_as_def)
    ultimately show ?thesis
      using cp nxt conn_event_for_Abort [of act e] by (intro exI [of _ cp] exI [of _ w1]) auto
  qed (use cp nxt in auto)
qed

section \<open>Sample runs\<close>

text \<open>Chain a answers with the event of an init, chain b with that of a try; the proofs of chain a are for height 2.\<close>

definition conn_sample_attributes :: connection_attributes where
  "conn_sample_attributes = \<lparr>na_connection_id = Some (ConnectionId ''connection-0''), na_client_id = ClientId ''07-tendermint-0'',
     na_counterparty_connection_id = None, na_counterparty_client_id = ClientId ''07-tendermint-0''\<rparr>"

definition conn_chain_a :: "sample_world chain_handle" where
  "conn_chain_a = (sample_chain ''a'' ''b'')\<lparr>
     build_connection_proofs_and_client_state := (\<lambda>_ _ _ _. eret (Some (sample_client_state ''b''),
       \<lparr>proof_bytes = ''proof'', proof_height = Height 0 2\<rparr>)),
     send_messages_and_wait_commit := (\<lambda>tm w. (Ok [event_new (OpenInitConnection conn_sample_attributes) (Height 0 1)],
       w\<lparr>sent := sent w @ [(''a'', tm)]\<rparr>))\<rparr>"

definition conn_chain_b :: "sample_world chain_handle" where
  "conn_chain_b = (sample_chain ''b'' ''a'')\<lparr>config := eret AxonConfig,
     send_messages_and_wait_commit := (\<lambda>tm w. (Ok [event_new (OpenTryConnection conn_sample_attributes) (Height 0 1)],
       w\<lparr>sent := sent w @ [(''b'', tm)]\<rparr>))\<rparr>"

definition sample_conn :: "connection_id option \<Rightarrow> sample_world connection" where
  "sample_conn i = \<lparr>conn_delay = 0,
     conn_a_side = \<lparr>cside_chain = conn_chain_a, cside_client_id = ClientId ''07-tendermint-0'', cside_connection_id = i\<rparr>,
     conn_b_side = \<lparr>cside_chain = conn_chain_b, cside_client_id = ClientId ''07-tendermint-0'', cside_connection_id = i\<rparr>\<rparr>"

lemmas sample_conn_simps = sample_conn_def conn_chain_a_def conn_chain_b_def conn_sample_attributes_def event_new_def
  sample_connection_def connection_end_default_def

lemmas conn_query_states_simps = update_connection_and_query_states_def query_side_connection_def on_conn_world_def
  modify_conn_def correct_a_conn_id_def correct_b_conn_id_def set_a_connection_id_def set_b_connection_id_def

lemma sample_conn_round:
  "\<exists>w'. do_conn_open_handshake env (sample_conn None, sample_world)
     = (Err ConnHandshakeFinalize, (set_a_connection_id (Some (ConnectionId ''connection-0'')) (sample_conn None), w'))"
  by (simp add: do_conn_open_handshake_def conn_query_states_simps sample_conn_simps build_conn_init_and_send_def
      build_conn_init_def conn_query_defs get_compatible_versions_def conn_send_def pick_event_def conn_flipped_def
      extract_connection_id_def eff_defs ebind_def)

theorem conn_round_refines_witness:
  "\<exists>c' w' ev. do_conn_open_handshake sample_env (sample_conn None, sample_world) = (Err ConnHandshakeFinalize, (c', w'))
     \<and> conn_submitted_as ActInit (conn_flipped (sample_conn None)) ev w'
     \<and> cside_connection_id (conn_a_side c') = Some (ConnectionId ''connection-0'')"
proof -
  let ?c = "sample_conn None"
  from sample_conn_round obtain c' w' where run: "do_conn_open_handshake sample_env (?c, sample_world)
      = (Err ConnHandshakeFinalize, (c', w'))" and c': "c' = set_a_connection_id (Some (ConnectionId ''connection-0'')) ?c" by blast
  have u: "update_connection_and_query_states (?c, sample_world) =
      (Ok (ConnUninitialized, ConnUninitialized), (?c, sample_world))"
    by (simp add: conn_query_states_simps sample_conn_simps eff_defs ebind_def)
  have ne: "c' \<noteq> ?c" by (simp add: c' set_a_connection_id_def sample_conn_def)
  from conn_round_refines [OF run] u ne obtain onA act ev
    where act: "ics_enabled act Uninitialized Uninitialized"
    and sub: "conn_submitted_as act (if onA then conn_flipped ?c else ?c) ev w'"
    and rec: "conn_recorded onA act ev ?c c'"
    by fastforce
  from act have "act = ActInit" by (cases act) auto
  with rec c' sub have "conn_submitted_as ActInit (conn_flipped ?c) ev w'"
    by (cases onA) (auto simp: conn_recorded_def set_a_connection_id_def set_b_connection_id_def sample_conn_def)
  with run c' show ?thesis by (auto simp: set_a_connection_id_def sample_conn_def)
qed

text \<open>Chains which answer with the event of an init, and which report an open end once it has an identifier: the handshake
  takes two rounds.\<close>

definition open_chain :: "string \<Rightarrow> string \<Rightarrow> sample_world chain_handle" where
  "open_chain a b = (sample_chain a b)\<lparr>config := eret AxonConfig,
     send_messages_and_wait_commit := (\<lambda>tm w. (Ok [event_new (OpenInitConnection conn_sample_attributes) (Height 0 1)],
       w\<lparr>sent := sent w @ [(a, tm)]\<rparr>))\<rparr>"

definition opening_client :: "string \<Rightarrow> string \<Rightarrow> sample_world foreign_client" where
  "opening_client a b = foreign_client_restore (ClientId ''07-tendermint-0'') (open_chain a b) (open_chain b a)"

definition opening_conn :: "connection_id option \<Rightarrow> connection_id option \<Rightarrow> sample_world connection" where
  "opening_conn i j = \<lparr>conn_delay = 0,
     conn_a_side = \<lparr>cside_chain = open_chain ''a'' ''b'', cside_client_id = ClientId ''07-tendermint-0'', cside_connection_id = i\<rparr>,
     conn_b_side = \<lparr>cside_chain = open_chain ''b'' ''a'', cside_client_id = ClientId ''07-tendermint-0'', cside_connection_id = j\<rparr>\<rparr>"

lemmas opening_conn_simps = opening_conn_def open_chain_def conn_sample_attributes_def event_new_def sample_connection_def
  connection_end_default_def

lemma opening_first_round:
  "\<exists>w'. do_conn_open_handshake sample_env (opening_conn None None, sample_world)
     = (Err ConnHandshakeFinalize, (opening_conn (Some (ConnectionId ''connection-0'')) None, w'))"
  by (simp add: do_conn_open_handshake_def conn_query_states_simps opening_conn_simps build_conn_init_and_send_def
      build_conn_init_def conn_query_defs get_compatible_versions_def conn_send_def pick_event_def conn_flipped_def
      extract_connection_id_def eff_defs ebind_def)

lemma opening_second_round:
  "do_conn_open_handshake sample_env (opening_conn (Some (ConnectionId ''connection-0'')) None, w)
     = (Ok (), (opening_conn (Some (ConnectionId ''connection-0'')) (Some (ConnectionId ''connection-0'')), w))"
  by (simp add: do_conn_open_handshake_def conn_query_states_simps opening_conn_simps eff_defs ebind_def)

lemma opening_handshake:
  "\<exists>w'. conn_handshake sample_retry sample_env (opening_conn None None, sample_world)
     = (Ok (), (opening_conn (Some (ConnectionId ''connection-0'')) (Some (ConnectionId ''connection-0'')), w'))"
proof -
  have "\<exists>ds. handshake_strategy (from_secs 90) = Ok ds \<and> sum_list ds = 10 * from_secs 90"
    using handshake_strategy_Ok [of "from_secs 90"] by (auto simp: from_secs_def DURATION_MAX_def)
  then obtain xs where xs: "handshake_strategy (from_secs 90) = Ok xs" "sum_list xs = 10 * from_secs 90" by blast
  then obtain d ds where ds: "handshake_strategy (from_secs 90) = Ok (d # ds)"
    by (cases xs) (auto simp: from_secs_def)
  have m: "conn_max_block_times (opening_conn None None) sample_world = (Ok (from_secs 90), sample_world)"
    by (simp add: conn_max_block_times_def opening_conn_def open_chain_def from_secs_def eff_defs ebind_def)
  from opening_first_round obtain w1 where r1: "do_conn_open_handshake sample_env (opening_conn None None, sample_world)
     = (Err ConnHandshakeFinalize, (opening_conn (Some (ConnectionId ''connection-0'')) None, w1))" by blast
  show ?thesis
    by (simp add: conn_handshake_def on_conn_world_def m ds r1 opening_second_round conn_handshake_attempt_def sample_retry_def
        ebind_def etry_def eret_def eresult_def emap_err_def sample_retry_from.simps [of 1] sample_retry_from.simps [of "Suc 1"]
        sample_retry_from.simps [of 2])
qed


theorem conn_worker_step_refines_witness:
  "\<exists>w1. conn_counterparty_state (sample_conn (Some (ConnectionId ''connection-0''))) sample_world = (Ok ConnOpen, w1)
     \<and> conn_handshake_step sample_env (sample_conn (Some (ConnectionId ''connection-0''))) ConnOpen sample_world
         = (Ok (None, Abort), w1)"
proof -
  let ?c = "sample_conn (Some (ConnectionId ''connection-0''))"
  have run: "conn_handshake_step sample_env ?c ConnOpen sample_world = (Ok (None, Abort), sample_world)"
    by (simp add: conn_handshake_step_def conn_counterparty_state_def connection_state_on_destination_def sup_query_def
        conn_step_message_def sample_conn_simps eff_defs ebind_def)
  from conn_worker_step_refines [OF run] run show ?thesis by auto
qed

lemma poll_ten:
  "poll_until 10 pause q stop = ebind q (\<lambda>a. if stop a then eret a else ebind (emodify pause) (\<lambda>_. poll_until 9 pause q stop))"
  using poll_until.simps(2) [of 9] by simp

lemma conn_sample_update:
  "conn_update_client_on_dst sample_env (sample_conn (Some (ConnectionId ''connection-0''))) (Height 0 2) \<lparr>clock = 3, sent = sends\<rparr>
     = (Ok [MsgUpdateClient (sample_header (Height 0 2)) (ClientId ''07-tendermint-0'') ''b-signer''], \<lparr>clock = 6, sent = sends\<rparr>)"
  by (simp add: conn_update_client_on_dst_def wait_and_build_update_client_def wait_and_build_update_client_with_trusted_def
      src_latest_height_def query_latest_height_def poll_ten
      build_update_client_with_trusted_def validated_client_state_def check_consensus_state_trusting_period_def
      fetch_consensus_state_def choose_trusted_height_def solve_trusted_height_def check_trusted_height_def
      build_update_msgs_def mk_update_def wait_for_header_validation_delay_def adjust_drift_def dst_status_def timestamp_add_def
      sample_conn_simps sample_simps is_frozen_def height_less_iff height_le_iff after_def duration_since_def eff_defs ebind_def)

lemma conn_sample_proofs:
  "\<exists>msgs sends. conn_proofs_after_update sample_env (sample_conn (Some (ConnectionId ''connection-0''))) ConnMsgOpenTry i sample_world
     = (Ok (Height 0 2, Some (sample_client_state ''b''), \<lparr>proof_bytes = ''proof'', proof_height = Height 0 2\<rparr>, msgs),
        \<lparr>clock = 6, sent = sends\<rparr>)"
proof -
  let ?c = "sample_conn (Some (ConnectionId ''connection-0''))"
  have b: "conn_query_latest (conn_b_chain ?c) sample_world = (Ok (Height 0 2), \<lparr>clock = 2, sent = []\<rparr>)"
    by (simp add: conn_query_latest_def query_latest_height_def sample_conn_simps sample_simps eff_defs ebind_def)
  have src: "conn_update_client_on_src sample_env ?c h w = (Ok [], w)" for h w
    by (simp add: conn_update_client_on_src_def wait_and_build_update_client_def wait_and_build_update_client_with_trusted_def
        sample_conn_simps foreign_client_restore_def eff_defs ebind_def)
  have a: "\<exists>h. conn_query_latest (conn_a_chain ?c) \<lparr>clock = 2, sent = sends\<rparr> = (Ok h, \<lparr>clock = 3, sent = sends\<rparr>)" for sends
    by (simp add: conn_query_latest_def query_latest_height_def sample_conn_simps sample_simps eff_defs ebind_def)
  have snd_a: "send_messages_and_wait_commit (conn_a_chain ?c) = (\<lambda>tm w.
      (Ok [event_new (OpenInitConnection conn_sample_attributes) (Height 0 1)], w\<lparr>sent := sent w @ [(''a'', tm)]\<rparr>))"
    and proofs_a: "build_connection_proofs_and_client_state (conn_a_chain ?c) = (\<lambda>_ _ _ _. eret (Some (sample_client_state ''b''),
       \<lparr>proof_bytes = ''proof'', proof_height = Height 0 2\<rparr>))"
    by (simp_all add: sample_conn_def conn_chain_a_def)
  obtain h where "conn_query_latest (conn_a_chain ?c) \<lparr>clock = 2, sent = [(''a'', tracked_msgs_new []
      (Static ''update client on source for ConnectionOpenTry''))]\<rparr> = (Ok h, \<lparr>clock = 3, sent = [(''a'', tracked_msgs_new []
      (Static ''update client on source for ConnectionOpenTry''))]\<rparr>)" using a by blast
  then show ?thesis
    by (simp add: conn_proofs_after_update_def b src snd_a proofs_a conn_sample_update ebind_def emap_err_def eret_def)
qed

lemma sample_conn_fields:
  "cside_connection_id (conn_a_side (sample_conn i)) = i" "cside_connection_id (conn_b_side (sample_conn i)) = i"
  "query_connection (conn_a_chain (sample_conn i)) = (\<lambda>_ _. eret sample_connection)"
  "query_compatible_versions (conn_a_chain (sample_conn i)) = eret get_compatible_versions"
  "query_commitment_prefix (conn_a_chain (sample_conn i)) = eret ''ibc''"
  "get_signer (conn_b_chain (sample_conn i)) = eret ''b-signer''"
  "config (conn_a_chain (sample_conn i)) = eret sample_config"
  "query_application_status (conn_b_chain (sample_conn i)) = (\<lambda>w. (Ok (sample_status (Suc (clock w))), w\<lparr>clock := Suc (clock w)\<rparr>))"
  by (simp_all add: sample_conn_def conn_chain_a_def conn_chain_b_def)

lemma sample_conn_try:
  "\<exists>w'. build_conn_try_and_send sample_env (sample_conn (Some (ConnectionId ''connection-0''))) sample_world
     = (Ok (OpenTryConnection conn_sample_attributes), w')"
proof -
  let ?c = "sample_conn (Some (ConnectionId ''connection-0''))"
  obtain msgs sends where p: "conn_proofs_after_update sample_env ?c ConnMsgOpenTry (ConnectionId ''connection-0'') sample_world
     = (Ok (Height 0 2, Some (sample_client_state ''b''), \<lparr>proof_bytes = ''proof'', proof_height = Height 0 2\<rparr>, msgs),
        \<lparr>clock = 6, sent = sends\<rparr>)" using conn_sample_proofs by blast
  have "\<exists>msgs. build_conn_try sample_env ?c sample_world = (Ok (msgs, Height 0 2), \<lparr>clock = 6, sent = sends\<rparr>)"
    using p by (simp add: build_conn_try_def conn_versions_of_def conn_dst_signer_def conn_src_prefix_def sample_conn_fields
        sample_connection_def emap_err_def eresult_def eret_def ebind_def)
  moreover have "wait_for_dest_app_height sample_env ?c (Height 0 2) \<lparr>clock = 6, sent = sends\<rparr> = (Ok (), \<lparr>clock = 7, sent = sends\<rparr>)"
    using wait_dest_height.simps(2) [of 9 sample_env ?c "Height 0 2"]
    by (simp add: wait_for_dest_app_height_def query_latest_height_def sample_conn_fields sample_status_def height_le_iff
        ebind_def etry_def emap_err_def eret_def)
  moreover have "\<exists>w'. conn_send ?c ''ConnectionOpenTry'' (\<lambda>e. case e of OpenTryConnection _ \<Rightarrow> True | _ \<Rightarrow> False)
      MissingConnectionTryEvent msgs w = (Ok (OpenTryConnection conn_sample_attributes), w')" for msgs w
    by (simp add: conn_send_def pick_event_def sample_conn_simps eff_defs ebind_def)
  ultimately show ?thesis by (auto simp: build_conn_try_and_send_def ebind_def)
qed


end
