(* ===== verification/Spec2Isabelle.thy ===== *)
theory Spec2Isabelle
  imports Abci_Events Packet_Filter Link_Setup Link_Cli Channel_Refinement Connection_Refinement
begin

text \<open>
  A verification of the packet relaying and handshake core of Forcerelay, an IBC relayer derived from Hermes. Paths
  below are relative to \<open>crates/\<close>.

  \<^bold>\<open>The program.\<close> A relayer watches two chains. Events of one chain (a packet was sent, an acknowledgement was
  written, a channel was closed) become messages for the other, with proofs and with an update of the
  light client there. For one channel in one direction this is a \<^emph>\<open>relay path\<close>
  (\<open>relayer/src/link/relay_path.rs\<close>): events are filtered and turned into batches of messages
  (\<open>operational_data.rs\<close>), batches wait in a queue per target chain until the connection delay is over, are
  submitted, and their transactions wait for confirmation (\<open>pending.rs\<close>). Everything a path knows of a chain it
  asks through the trait \<open>ChainHandle\<close>. The values exchanged are the types of \<open>relayer-types\<close>.

  \<^bold>\<open>The model.\<close> Rust calls are modelled by the outcome type \<open>result\<close> (a value, an error, a panic, or a wait that has not
  ended) and stateful code by the effect monad \<open>eff\<close>, both in \<open>Prelude\<close>; a computation also returns its state
  when it fails. The chains and the clock are an abstract world of type \<open>'w\<close>, and a chain is a record of
  computations over it, so that the theorems hold for whatever the chains answer and however they
  change. Machine integers are words that wrap around; strings are byte sequences.

  \<^item> \<open>Prelude\<close>: outcomes, the monad with its verification conditions (\<open>valid\<close>, \<open>preserves\<close>), decimal text, splitting, and the
    contract \<open>round_trip\<close> of every encoder with its decoder.
  \<^item> \<open>Ics02_Height\<close>, \<open>Ics24_Host\<close>, \<open>Ics24_Path\<close>, \<open>Ics_Timestamp\<close>, \<open>Ics04_Packet\<close>, \<open>Ics04_Channel\<close>, \<open>Ics03_Connection\<close>: the types of
    \<open>relayer-types/src/core\<close> and \<open>timestamp.rs\<close> with their parsers, printers, protobuf conversions and
    predicates. The lemmas are round trips, exact validity conditions and exact panic conditions.
  \<^item> \<open>Ics20_Denom\<close>, \<open>App_Events\<close>: \<open>relayer-types/src/applications\<close>, the denominations of tokens with their text and the source of a token, and
    the coins and attributes of the fee and query events. Amounts of 256 bits and the regular expressions of other crates are
    the parameter \<open>app_ops\<close> with the laws \<open>app_laws\<close>.
  \<^item> \<open>Ibc_Events\<close>, \<open>Abci_Events\<close>: \<open>relayer-types/src/events.rs\<close> and \<open>relayer/src/event.rs\<close>, the events and their encoding as
    ABCI attributes in both directions, with the events that cannot be read back.
  \<^item> \<open>Packet_Filter\<close>: \<open>relayer/src/config/filter.rs\<close> and its use in \<open>config.rs\<close>: which channels are relayed, and which fees are enough. The
    regular expression of a wildcard is the parameter \<open>wildcard_ops\<close>; its law says that it matches what \<open>glob\<close> describes.
  \<^item> \<open>Relayer_Util\<close>: \<open>relayer/src/util\<close>: queues, collation of sequence numbers, dictionary differences, stream grouping
    and back-off strategies, each against a reference definition.
  \<^item> \<open>Chain_Handle\<close>, \<open>Sample_Chain\<close>: the interface of a chain with the request and response types, and a concrete pair of
    chains on which the witnesses run.
  \<^item> \<open>Counterparty\<close>: \<open>relayer/src/chain/counterparty.rs\<close>, from a channel to its counterparty and to the packets and
    acknowledgements not yet received.
  \<^item> \<open>Foreign_Client\<close>: \<open>relayer/src/foreign_client.rs\<close>, the updates of a light client: trusted heights, the trusting
    period, the waits for headers, the messages.
  \<^item> \<open>Link_Base\<close>, \<open>Operational_Data\<close>, \<open>Packet_Events\<close>, \<open>Relay_Messages\<close>: the path and its queries, batches with their delays, the
    chunked event queries, and the messages for each event with the client updates and their retries.
  \<^item> \<open>Relay_Path\<close>: the state \<open>link_state\<close> (four queues and the world) and every operation on it.
    \<open>Relay_Invariants\<close> proves that each operation keeps the invariant of the queues, hence that it
    holds in every reachable state (\<open>link_step\<close>, \<open>link_reachable\<close>). \<open>Relay_Properties\<close> proves what each operation does to
    the queues: nothing is lost, duplicated or reordered except where stated.
  \<^item> \<open>Link_Setup\<close>, \<open>Link_Cli\<close>: \<open>relayer/src/link.rs\<close> and \<open>link/cli.rs\<close>, the checks under which a path is built and the relaying of
    one command, with the termination of its final loop.
  \<^item> \<open>Background_Task\<close>: \<open>relayer/src/util/task.rs\<close>, the loop of a background task and the states it reaches.
  \<^item> \<open>Connection_Handshake\<close>, \<open>Channel_Handshake\<close>: \<open>relayer/src/connection.rs\<close> and \<open>channel.rs\<close>, the opening (and closing) of connections
    and channels: messages, submission, the driver with its retries and the steps of the workers. \<open>Handshake_Protocol\<close> is the
    abstract protocol of ICS-03 and ICS-04 over pairs of states; \<open>Handshake_Driver\<close> states in a locale what the two
    drivers have in common; \<open>Connection_Refinement\<close> and \<open>Channel_Refinement\<close> prove that every round and every worker step
    is a step of the protocol, and that a handshake that succeeds has opened both ends. The retry library is a parameter;
    its law \<open>retry_law\<close> says that it changes the state only by attempts and that a success is that of its last attempt.

  \<^bold>\<open>Bounds.\<close> Loops over data are structural recursions. The loops that wait for a chain take their number of polls from
  \<open>wait_fuel\<close>; running out is the outcome \<open>Hang\<close>, and the theorem on waiting gives the fuel that suffices for a chain
  that reaches the height. The retry loops have the constants of the sources. The double-precision
  arithmetic of the block delay is modelled by exact rounding to 53 bits.

  \<^bold>\<open>Not modelled.\<close> The chain endpoints (Cosmos, Ethereum, CKB, Axon) and their network clients, which are the parameter behind
  the chain handle; client creation, upgrade and misbehaviour;
  the supervisor and worker threads; the rest of the configuration, command line, telemetry, REST, keys and storage.
  Logging and metrics have no effect in the model. Queues sit behind locks in the sources; a path is
  driven by one worker, and the model runs one operation at a time.
\<close>

end
